(* ===== verification/Prelude.thy ===== *)
theory Prelude
  imports Main "HOL-Library.Word" "HOL-Library.Char_ord" "HOL-Library.List_Lexorder"
begin

text \<open>
  What the components share: the machine types of the C++ code, the session description
  types that several files use (the enumeration \<open>SdpType\<close> of the JSEP header, the
  enumeration \<open>ContentSource\<close> of csession_description.h), the error value \<open>RTCError\<close>
  that the fallible operations return, the model of \<open>std::map\<close> as a list of bindings in
  key order, and the lemmas and collections of facts the component proofs use.
\<close>

section \<open>Machine types\<close>

type_synonym byte = "8 word"
type_synonym ssrc = "32 word"

text \<open>A C++ \<open>int\<close> holds lengths and payload types that never reach its limits in the code
  that uses it here: it is an \<open>int\<close> of the model. Where the code relies on wrap-around
  (sequence numbers, SSRCs), the model uses a word of the same width.\<close>

section \<open>Collections of facts\<close>

named_theorems unfolds "definitions of the operations of a component"
named_theorems frame "what an operation leaves unchanged"
named_theorems inv_intros "preservation of a component's invariant"

section \<open>Shared enumerations\<close>

datatype SdpType = kOffer | kPrAnswer | kAnswer | kRollback

datatype ContentSource = CS_LOCAL | CS_REMOTE

fun flip_source :: "ContentSource \<Rightarrow> ContentSource" where
  "flip_source CS_LOCAL = CS_REMOTE"
| "flip_source CS_REMOTE = CS_LOCAL"

lemma flip_source_flip [simp]: "flip_source (flip_source s) = s"
  by (cases s) simp_all

lemma flip_source_eq_iff [simp]:
  "flip_source s = CS_LOCAL \<longleftrightarrow> s = CS_REMOTE"
  "flip_source s = CS_REMOTE \<longleftrightarrow> s = CS_LOCAL"
  by (cases s; simp)+

lemma neq_source_iff:
  "s \<noteq> CS_LOCAL \<longleftrightarrow> s = CS_REMOTE" "s \<noteq> CS_REMOTE \<longleftrightarrow> s = CS_LOCAL"
  by (cases s; simp)+

section \<open>Error results\<close>

datatype RTCErrorType =
    UNSUPPORTED_OPERATION | INVALID_PARAMETER | INVALID_STATE | INVALID_RANGE
  | INVALID_MODIFICATION | INTERNAL_ERROR

datatype RTCError = OK | RTCErr RTCErrorType string

fun ok :: "RTCError \<Rightarrow> bool" where
  "ok OK = True"
| "ok (RTCErr _ _) = False"

lemma ok_iff [simp]: "ok e \<longleftrightarrow> e = OK"
  by (cases e) simp_all

section \<open>The ordered map\<close>

text \<open>
  \<open>std::map\<close> iterates in the order of its keys. The model is the list of bindings in that
  order; \<open>smap_put\<close> is \<open>operator[]\<close> with an assignment, \<open>smap_del\<close> is \<open>erase\<close> of a
  key, \<open>map_of\<close> is \<open>find\<close>.
\<close>

type_synonym ('k, 'v) smap = "('k \<times> 'v) list"

fun smap_put :: "'k::linorder \<Rightarrow> 'v \<Rightarrow> ('k, 'v) smap \<Rightarrow> ('k, 'v) smap" where
  "smap_put k v [] = [(k, v)]"
| "smap_put k v (b # bs) =
     (if k = fst b then (k, v) # bs
      else if k < fst b then (k, v) # b # bs
      else b # smap_put k v bs)"

definition smap_del :: "'k \<Rightarrow> ('k, 'v) smap \<Rightarrow> ('k, 'v) smap" where
  "smap_del k m = filter (\<lambda>b. fst b \<noteq> k) m"

definition smap_ok :: "('k::linorder, 'v) smap \<Rightarrow> bool" where
  "smap_ok m \<longleftrightarrow> sorted (map fst m) \<and> distinct (map fst m)"

lemma map_of_smap_put [simp]: "map_of (smap_put k v m) = (map_of m)(k \<mapsto> v)"
  by (induction m) (auto simp: fun_eq_iff)

lemma map_of_smap_del [simp]: "map_of (smap_del k m) = (map_of m)(k := None)"
  by (induction m) (auto simp: smap_del_def fun_eq_iff)

lemma set_keys_smap_put [simp]: "fst ` set (smap_put k v m) = insert k (fst ` set m)"
  by (induction m) auto

lemma smap_ok_empty [simp]: "smap_ok []"
  by (simp add: smap_ok_def)

lemma smap_ok_Cons:
  "smap_ok (b # bs) \<longleftrightarrow> smap_ok bs \<and> (\<forall>x \<in> fst ` set bs. fst b < x)"
  by (auto simp: smap_ok_def less_le)

lemma smap_ok_put [simp]: "smap_ok m \<Longrightarrow> smap_ok (smap_put k v m)"
  by (induction m) (auto simp: smap_ok_Cons)

lemma smap_ok_filter [simp]: "smap_ok m \<Longrightarrow> smap_ok (filter P m)"
  by (induction m) (auto simp: smap_ok_Cons)

lemma smap_ok_del [simp]: "smap_ok m \<Longrightarrow> smap_ok (smap_del k m)"
  by (simp add: smap_del_def)

lemma smap_ok_distinct: "smap_ok m \<Longrightarrow> distinct (map fst m)"
  by (simp add: smap_ok_def)

lemma smap_in_set_iff: "smap_ok m \<Longrightarrow> (k, v) \<in> set m \<longleftrightarrow> map_of m k = Some v"
  by (auto simp: smap_ok_def)

lemma smap_values: "smap_ok m \<Longrightarrow> snd ` set m = ran (map_of m)"
  by (simp add: smap_ok_def ran_distinct)

subsection \<open>The interface the clients use\<close>

locale ordered_map =
  fixes get :: "'m \<Rightarrow> 'k \<Rightarrow> 'v option"
    and put :: "'k \<Rightarrow> 'v \<Rightarrow> 'm \<Rightarrow> 'm"
    and del :: "'k \<Rightarrow> 'm \<Rightarrow> 'm"
    and empty :: "'m"
    and wf :: "'m \<Rightarrow> bool"
  assumes get_empty: "get empty k = None"
    and get_put: "wf m \<Longrightarrow> get (put k v m) = (get m)(k \<mapsto> v)"
    and get_del: "wf m \<Longrightarrow> get (del k m) = (get m)(k := None)"
    and wf_empty: "wf empty"
    and wf_put: "wf m \<Longrightarrow> wf (put k v m)"
    and wf_del: "wf m \<Longrightarrow> wf (del k m)"
begin

definition put_all :: "('k \<times> 'v) list \<Rightarrow> 'm \<Rightarrow> 'm" where
  "put_all bs m = foldl (\<lambda>acc b. put (fst b) (snd b) acc) m bs"

definition del_all :: "'k list \<Rightarrow> 'm \<Rightarrow> 'm" where
  "del_all ks m = foldl (\<lambda>acc k. del k acc) m ks"

lemma wf_put_all: "wf m \<Longrightarrow> wf (put_all bs m)"
  by (induction bs arbitrary: m) (auto simp: put_all_def wf_put)

lemma get_put_all: "wf m \<Longrightarrow> get (put_all bs m) = get m ++ map_of (rev bs)"
proof (induction bs arbitrary: m)
  case Nil
  then show ?case by (simp add: put_all_def)
next
  case (Cons b bs)
  have "get (put_all (b # bs) m) = get (put_all bs (put (fst b) (snd b) m))"
    by (simp add: put_all_def)
  also have "\<dots> = get (put (fst b) (snd b) m) ++ map_of (rev bs)"
    using Cons by (simp add: wf_put)
  also have "\<dots> = (get m)(fst b \<mapsto> snd b) ++ map_of (rev bs)"
    using Cons.prems by (simp only: get_put)
  also have "\<dots> = get m ++ map_of (rev (b # bs))"
    by (simp add: map_add_def fun_eq_iff split: option.splits)
  finally show ?case .
qed

lemma wf_del_all: "wf m \<Longrightarrow> wf (del_all ks m)"
  by (induction ks arbitrary: m) (auto simp: del_all_def wf_del)

lemma get_del_all: "wf m \<Longrightarrow> get (del_all ks m) k = (if k \<in> set ks then None else get m k)"
  by (induction ks arbitrary: m) (auto simp: del_all_def wf_del get_del)

end

interpretation sm: ordered_map map_of smap_put smap_del "[]" smap_ok
  by unfold_locales simp_all

section \<open>Pairs and lists\<close>

lemma snd_eqD: "snd x = y \<Longrightarrow> x = (fst x, y)"
  by (cases x) simp

lemma snd_snd_eqD: "snd (snd x) = y \<Longrightarrow> x = (fst x, fst (snd x), y)"
  by (cases x) auto

lemma find_index_split:
  "x \<in> set xs \<Longrightarrow> \<exists>i < length xs. xs ! i = x"
  by (simp add: in_set_conv_nth)

lemma filter_neq_id [simp]: "x \<notin> set xs \<Longrightarrow> filter (\<lambda>y. y \<noteq> x) xs = xs"
  by (induction xs) auto

section \<open>Values whose changes are announced\<close>

text \<open>
  Several components hold a value and announce it to their observers only when it changes.
  The contract: an update stores the value and, while somebody listens, appends it to what was
  told exactly when it differs from the old one. Then the told values never repeat, and the last
  one is current.
\<close>

fun no_stutter :: "'v list \<Rightarrow> bool" where
  "no_stutter (x # y # zs) = (x \<noteq> y \<and> no_stutter (y # zs))"
| "no_stutter _ = True"

lemma no_stutter_snoc:
  "no_stutter (xs @ [x]) \<Longrightarrow> no_stutter (xs @ [x, y]) = (x \<noteq> y)"
  by (induction xs rule: no_stutter.induct) auto

locale change_signal =
  fixes val :: "'s \<Rightarrow> 'v"
    and told :: "'s \<Rightarrow> 'v list"
    and listening :: "'s \<Rightarrow> bool"
    and upd :: "'v \<Rightarrow> 's \<Rightarrow> 's"
  assumes val_upd: "val (upd v s) = v"
    and told_upd: "listening s \<Longrightarrow> told (upd v s) = told s @ (if v = val s then [] else [v])"
    and listening_upd: "listening (upd v s) = listening s"
begin

definition in_step :: "'v \<Rightarrow> 's \<Rightarrow> bool" where
  "in_step v0 s \<longleftrightarrow> listening s \<and> no_stutter (v0 # told s) \<and> last (v0 # told s) = val s"

lemma in_step_start: "listening s \<Longrightarrow> told s = [] \<Longrightarrow> val s = v0 \<Longrightarrow> in_step v0 s"
  by (simp add: in_step_def)

lemma in_step_upd:
  assumes "in_step v0 s"
  shows "in_step v0 (upd v s)"
proof (cases "v = val s")
  case True
  have "listening s" using assms by (simp add: in_step_def)
  then have "told (upd v s) = told s" "val (upd v s) = val s" "listening (upd v s) = listening s"
    using True by (simp_all add: val_upd told_upd listening_upd)
  with assms show ?thesis by (simp only: in_step_def)
next
  case False
  obtain xs x where x: "v0 # told s = xs @ [x]" by (metis rev_exhaust list.distinct(1))
  have l: "listening s" and "no_stutter (xs @ [x])" "last (xs @ [x]) = val s"
    using assms unfolding in_step_def x by blast+
  then have "no_stutter (xs @ [x])" "x = val s" by simp_all
  then have "no_stutter (xs @ [x, v])" using False no_stutter_snoc [of xs x v] by simp
  moreover have "v0 # told (upd v s) = xs @ [x, v]" using x False l by (simp add: told_upd)
  ultimately show ?thesis using l by (simp add: in_step_def val_upd listening_upd)
qed

lemma in_step_frame:
  "told s' = told s \<Longrightarrow> val s' = val s \<Longrightarrow> listening s' = listening s \<Longrightarrow> in_step v0 s
     \<Longrightarrow> in_step v0 s'"
  by (simp add: in_step_def)

end


section \<open>Sequences of calls\<close>

text \<open>
  The components that can fail are driven by lists of calls: a run makes the calls in order and is
  \<open>None\<close> as soon as one of them is. What every call keeps, a run keeps. Where callers must respect
  a protocol, \<open>allowed\<close> says so of one call and \<open>allowed_all\<close> of a list: when every allowed call
  returns, a run of allowed calls does.
\<close>

locale call_run =
  fixes call :: "'c \<Rightarrow> 's \<Rightarrow> 's option"
    and run :: "'c list \<Rightarrow> 's \<Rightarrow> 's option"
  assumes run_Nil: "run [] s = Some s"
    and run_Cons: "run (c # cs) s = Option.bind (call c s) (run cs)"
begin

lemma run_keeps:
  assumes "run cs s = Some s'" "P s"
    and "\<And>c s s'. P s \<Longrightarrow> call c s = Some s' \<Longrightarrow> P s'"
  shows "P s'"
  using assms(1,2)
  by (induction cs arbitrary: s) (auto simp: run_Nil run_Cons bind_eq_Some_conv intro: assms(3))

lemma run_append: "run (cs @ ds) s = Option.bind (run cs s) (run ds)"
  by (induction cs arbitrary: s) (auto simp: run_Nil run_Cons split: bind_split)

end

locale guarded_run = call_run call run
  for call :: "'c \<Rightarrow> 's \<Rightarrow> 's option" and run :: "'c list \<Rightarrow> 's \<Rightarrow> 's option" +
  fixes allowed :: "'c \<Rightarrow> 's \<Rightarrow> bool"
    and allowed_all :: "'c list \<Rightarrow> 's \<Rightarrow> bool"
  assumes allowed_all_Cons: "allowed_all (c # cs) s
      \<longleftrightarrow> allowed c s \<and> (case call c s of None \<Rightarrow> True | Some s' \<Rightarrow> allowed_all cs s')"
begin

lemma run_returns:
  assumes "allowed_all cs s" "P s"
    and "\<And>c s. P s \<Longrightarrow> c \<in> set cs \<Longrightarrow> allowed c s \<Longrightarrow> \<exists>s'. call c s = Some s' \<and> P s'"
  shows "\<exists>s'. run cs s = Some s' \<and> P s'"
  using assms
proof (induction cs arbitrary: s)
  case Nil
  then show ?case by (simp add: run_Nil)
next
  case (Cons c cs)
  have "allowed c s" using Cons.prems(1) by (simp add: allowed_all_Cons)
  then obtain s1 where s1: "call c s = Some s1" "P s1" using Cons.prems(3) [OF Cons.prems(2)] by auto
  with Cons.prems(1) have "allowed_all cs s1" by (simp add: allowed_all_Cons)
  from Cons.IH [OF this s1(2)] Cons.prems(3) s1(1) show ?case by (simp add: run_Cons)
qed

end

end
