(* ===== verification/RtcpMuxFilter.thy ===== *)
theory RtcpMuxFilter
  imports Prelude
begin

text \<open>
  The RTCP multiplexing negotiator (rtcp_mux_filter.cpp and rtcp_mux_filter.h): an
  offer/answer state machine. Every public method is one definition; those that return
  \<open>bool\<close> and change the object return the pair of both.
\<close>

section \<open>State\<close>

datatype MuxState =
    ST_INIT | ST_RECEIVEDOFFER | ST_SENTOFFER | ST_SENTPRANSWER | ST_RECEIVEDPRANSWER
  | ST_ACTIVE

record RtcpMuxFilter =
  mux_state :: MuxState
  mux_offer_enable :: bool

definition mux_init :: RtcpMuxFilter where
  "mux_init = \<lparr>mux_state = ST_INIT, mux_offer_enable = False\<rparr>"

section \<open>Operations\<close>

definition IsFullyActive :: "RtcpMuxFilter \<Rightarrow> bool" where
  "IsFullyActive m \<longleftrightarrow> mux_state m = ST_ACTIVE"

definition IsProvisionallyActive :: "RtcpMuxFilter \<Rightarrow> bool" where
  "IsProvisionallyActive m \<longleftrightarrow>
     mux_state m = ST_SENTPRANSWER \<or> mux_state m = ST_RECEIVEDPRANSWER"

definition IsActive :: "RtcpMuxFilter \<Rightarrow> bool" where
  "IsActive m \<longleftrightarrow> IsFullyActive m \<or> IsProvisionallyActive m"

definition SetActive :: "RtcpMuxFilter \<Rightarrow> RtcpMuxFilter" where
  "SetActive m = m\<lparr>mux_state := ST_ACTIVE\<rparr>"

definition ExpectOffer :: "bool \<Rightarrow> ContentSource \<Rightarrow> RtcpMuxFilter \<Rightarrow> bool" where
  "ExpectOffer offer_enable source m \<longleftrightarrow>
     mux_state m = ST_INIT
     \<or> (mux_state m = ST_ACTIVE \<and> offer_enable = mux_offer_enable m)
     \<or> (mux_state m = ST_SENTOFFER \<and> source = CS_LOCAL)
     \<or> (mux_state m = ST_RECEIVEDOFFER \<and> source = CS_REMOTE)"

definition ExpectAnswer :: "ContentSource \<Rightarrow> RtcpMuxFilter \<Rightarrow> bool" where
  "ExpectAnswer source m \<longleftrightarrow>
     (mux_state m = ST_SENTOFFER \<and> source = CS_REMOTE)
     \<or> (mux_state m = ST_RECEIVEDOFFER \<and> source = CS_LOCAL)
     \<or> (mux_state m = ST_SENTPRANSWER \<and> source = CS_LOCAL)
     \<or> (mux_state m = ST_RECEIVEDPRANSWER \<and> source = CS_REMOTE)"

definition SetOffer :: "bool \<Rightarrow> ContentSource \<Rightarrow> RtcpMuxFilter \<Rightarrow> bool \<times> RtcpMuxFilter" where
  "SetOffer offer_enable src m =
     (if mux_state m = ST_ACTIVE then (offer_enable, m)
      else if \<not> ExpectOffer offer_enable src m then (False, m)
      else (True, m\<lparr>mux_offer_enable := offer_enable,
                    mux_state := if src = CS_LOCAL then ST_SENTOFFER else ST_RECEIVEDOFFER\<rparr>))"

definition SetProvisionalAnswer ::
    "bool \<Rightarrow> ContentSource \<Rightarrow> RtcpMuxFilter \<Rightarrow> bool \<times> RtcpMuxFilter" where
  "SetProvisionalAnswer answer_enable src m =
     (if mux_state m = ST_ACTIVE then (answer_enable, m)
      else if \<not> ExpectAnswer src m then (False, m)
      else if mux_offer_enable m then
        (if answer_enable then
           (True, m\<lparr>mux_state := if src = CS_REMOTE then ST_RECEIVEDPRANSWER
                                                 else ST_SENTPRANSWER\<rparr>)
         else
           (True, m\<lparr>mux_state := if src = CS_REMOTE then ST_SENTOFFER
                                                 else ST_RECEIVEDOFFER\<rparr>))
      else if answer_enable then (False, m)
      else (True, m))"

definition SetAnswer :: "bool \<Rightarrow> ContentSource \<Rightarrow> RtcpMuxFilter \<Rightarrow> bool \<times> RtcpMuxFilter" where
  "SetAnswer answer_enable src m =
     (if mux_state m = ST_ACTIVE then (answer_enable, m)
      else if \<not> ExpectAnswer src m then (False, m)
      else if mux_offer_enable m \<and> answer_enable then (True, m\<lparr>mux_state := ST_ACTIVE\<rparr>)
      else if answer_enable then (False, m)
      else (True, m\<lparr>mux_state := ST_INIT\<rparr>))"

lemmas mux_query_defs = IsFullyActive_def IsProvisionallyActive_def IsActive_def
lemmas mux_defs = SetActive_def ExpectOffer_def ExpectAnswer_def SetOffer_def
  SetProvisionalAnswer_def SetAnswer_def mux_query_defs

section \<open>Histories of calls\<close>

text \<open>The calls a session negotiation makes, and the filter after a history of them.\<close>

datatype MuxCall =
    CallOffer bool ContentSource
  | CallPrAnswer bool ContentSource
  | CallAnswer bool ContentSource

fun mux_call :: "MuxCall \<Rightarrow> RtcpMuxFilter \<Rightarrow> bool \<times> RtcpMuxFilter" where
  "mux_call (CallOffer e s) m = SetOffer e s m"
| "mux_call (CallPrAnswer e s) m = SetProvisionalAnswer e s m"
| "mux_call (CallAnswer e s) m = SetAnswer e s m"

inductive mux_reachable :: "RtcpMuxFilter \<Rightarrow> bool" where
  mux_start: "mux_reachable mux_init"
| mux_next: "mux_reachable m \<Longrightarrow> mux_reachable (snd (mux_call c m))"

fun mux_run :: "MuxCall list \<Rightarrow> RtcpMuxFilter \<Rightarrow> RtcpMuxFilter" where
  "mux_run [] m = m"
| "mux_run (c # cs) m = mux_run cs (snd (mux_call c m))"

fun flip_call :: "MuxCall \<Rightarrow> MuxCall" where
  "flip_call (CallOffer e s) = CallOffer e (flip_source s)"
| "flip_call (CallPrAnswer e s) = CallPrAnswer e (flip_source s)"
| "flip_call (CallAnswer e s) = CallAnswer e (flip_source s)"

text \<open>The filter of the other endpoint: what one side sent the other received.\<close>

fun mirror_state :: "MuxState \<Rightarrow> MuxState" where
  "mirror_state ST_RECEIVEDOFFER = ST_SENTOFFER"
| "mirror_state ST_SENTOFFER = ST_RECEIVEDOFFER"
| "mirror_state ST_SENTPRANSWER = ST_RECEIVEDPRANSWER"
| "mirror_state ST_RECEIVEDPRANSWER = ST_SENTPRANSWER"
| "mirror_state s = s"

definition mirror :: "RtcpMuxFilter \<Rightarrow> RtcpMuxFilter" where
  "mirror m = m\<lparr>mux_state := mirror_state (mux_state m)\<rparr>"

lemma mirror_init [simp]: "mirror mux_init = mux_init"
  by (simp add: mirror_def mux_init_def)

lemma mirror_state_eq_iff [simp]:
  "mirror_state s = ST_ACTIVE \<longleftrightarrow> s = ST_ACTIVE"
  "mirror_state s = ST_INIT \<longleftrightarrow> s = ST_INIT"
  "mirror_state s = ST_SENTOFFER \<longleftrightarrow> s = ST_RECEIVEDOFFER"
  "mirror_state s = ST_RECEIVEDOFFER \<longleftrightarrow> s = ST_SENTOFFER"
  "mirror_state s = ST_SENTPRANSWER \<longleftrightarrow> s = ST_RECEIVEDPRANSWER"
  "mirror_state s = ST_RECEIVEDPRANSWER \<longleftrightarrow> s = ST_SENTPRANSWER"
  by (cases s; simp)+

lemma mirror_IsActive [simp]: "IsActive (mirror m) = IsActive m"
  by (auto simp: mux_query_defs mirror_def)

lemma mux_call_mirror:
  "mux_call (flip_call c) (mirror m) = map_prod id mirror (mux_call c m)"
  by (cases c; cases "mux_state m") (auto simp: mux_defs mirror_def neq_source_iff)

section \<open>Invariant\<close>

text \<open>The invariant the negotiation keeps: a provisional answer is held only for an offer that
  enabled multiplexing, and so is the final activation.\<close>

definition mux_inv :: "RtcpMuxFilter \<Rightarrow> bool" where
  "mux_inv m \<longleftrightarrow> (IsActive m \<longrightarrow> mux_offer_enable m)"

lemma mux_inv_init [simp]: "mux_inv mux_init"
  by (simp add: mux_inv_def mux_query_defs mux_init_def)

lemma mux_call_inv [inv_intros]: "mux_inv m \<Longrightarrow> mux_inv (snd (mux_call c m))"
  by (cases c) (auto simp: mux_inv_def mux_defs)

lemma mux_reachable_inv: "mux_reachable m \<Longrightarrow> mux_inv m"
  by (induction rule: mux_reachable.induct) (simp_all add: mux_call_inv)

lemma mux_run_reachable: "mux_reachable m \<Longrightarrow> mux_reachable (mux_run cs m)"
  by (induction cs arbitrary: m) (simp_all add: mux_next)

lemma mux_call_active:
  "IsFullyActive m \<Longrightarrow> mux_call c m = (case c of CallOffer e _ \<Rightarrow> e | CallPrAnswer e _ \<Rightarrow> e
     | CallAnswer e _ \<Rightarrow> e, m)"
  by (cases c) (simp_all add: mux_defs)

lemma mux_run_active: "IsFullyActive m \<Longrightarrow> mux_run cs m = m"
  by (induction cs) (simp_all add: mux_call_active)

lemma mux_run_mirror: "mux_run (map flip_call cs) (mirror m) = mirror (mux_run cs m)"
  by (induction cs arbitrary: m) (simp_all add: mux_call_mirror)

section \<open>Properties\<close>

text \<open>Once multiplexing is fully active it can never be switched off: every later offer,
  provisional answer or answer, from either side, leaves the filter exactly as it is, and is
  accepted precisely when it asks for multiplexing again.\<close>

theorem mux_full_activation_is_final:
  assumes "IsFullyActive m"
  shows "mux_run cs m = m
     \<and> fst (SetOffer e src m) = e \<and> fst (SetProvisionalAnswer e src m) = e
     \<and> fst (SetAnswer e src m) = e"
  using mux_run_active [OF assms] assms by (simp add: mux_defs)

lemma mux_full_activation_is_final_witness:
  "mux_run [CallOffer False CS_REMOTE, CallAnswer False CS_LOCAL] (SetActive mux_init)
     = SetActive mux_init"
  using mux_full_activation_is_final
    [of "SetActive mux_init" "[CallOffer False CS_REMOTE, CallAnswer False CS_LOCAL]"]
  by (simp add: mux_defs)

text \<open>In every state a negotiation can reach, multiplexing is active (fully or provisionally)
  only if the offer enabled it; and the only call that makes it fully active is an expected
  final answer that accepts such an offer.\<close>

theorem mux_active_only_by_agreement:
  assumes "mux_reachable m"
  shows "(IsActive m \<longrightarrow> mux_offer_enable m)
     \<and> (\<not> IsFullyActive m \<longrightarrow>
          (IsFullyActive (snd (mux_call c m)) \<longleftrightarrow>
             (\<exists>src. c = CallAnswer True src \<and> ExpectAnswer src m \<and> mux_offer_enable m)))"
  using mux_reachable_inv [OF assms] by (cases c) (auto simp: mux_inv_def mux_defs)

lemma mux_active_only_by_agreement_witness:
  "let m = mux_run [CallOffer True CS_LOCAL, CallPrAnswer True CS_REMOTE] mux_init
   in IsActive m \<and> mux_offer_enable m \<and> IsFullyActive (snd (SetAnswer True CS_REMOTE m))"
proof -
  let ?m = "mux_run [CallOffer True CS_LOCAL, CallPrAnswer True CS_REMOTE] mux_init"
  have r: "mux_reachable ?m" by (rule mux_run_reachable [OF mux_start])
  have e: "\<not> IsFullyActive ?m" "ExpectAnswer CS_REMOTE ?m" "IsActive ?m"
    by (simp_all add: mux_defs mux_init_def)
  show ?thesis
    using mux_active_only_by_agreement [OF r, of "CallAnswer True CS_REMOTE"] e
    by (simp add: Let_def)
qed

text \<open>C13: the two endpoints of a negotiation agree. When one endpoint applies a history of
  descriptions and the other applies the same history with local and remote exchanged, the
  next description gets the same verdict at both, and both filters are active, and fully
  active, at the same time.\<close>

theorem mux_endpoints_agree:
  fixes cs :: "MuxCall list" and c :: MuxCall
  defines "a \<equiv> mux_run cs mux_init" and "b \<equiv> mux_run (map flip_call cs) mux_init"
  shows "fst (mux_call (flip_call c) b) = fst (mux_call c a)
     \<and> IsActive b = IsActive a \<and> IsFullyActive b = IsFullyActive a"
proof -
  have b: "b = mirror a"
    using mux_run_mirror [of cs mux_init] by (simp add: a_def b_def)
  then show ?thesis
    by (simp add: mux_call_mirror) (simp add: IsFullyActive_def mirror_def)
qed

end
