(* ===== verification/SrtpSession.thy ===== *)
theory SrtpSession
  imports Prelude
begin

text \<open>
  One SRTP session (srtp_session.cpp and srtp_session.h): the wrapper around a libsrtp
  context with its keying, its protection calls and the process-wide count of libsrtp users.

  libsrtp, the external HMAC module and the RTP header parser are not under src/. They are
  the fields of the record \<open>srtp_lib\<close>, an argument of every operation; they act on a state
  of their own type \<open>'w\<close> that the operations thread through. A status is an \<open>int\<close> and 0 is
  \<open>srtp_err_status_ok\<close>.
\<close>

section \<open>The library the session calls\<close>

type_synonym handle = nat

datatype ssrc_type = ssrc_any_inbound | ssrc_any_outbound

record crypto_policy =
  cipher_key_len :: int
  auth_type :: int
  auth_tag_len :: int

record srtp_policy =
  pol_rtp :: crypto_policy
  pol_rtcp :: crypto_policy
  pol_ssrc_type :: ssrc_type
  pol_ssrc_value :: nat
  pol_key :: "byte list"
  pol_window_size :: nat
  pol_allow_repeat_tx :: bool
  pol_enc_xtn_hdr :: "int list"

record 'w srtp_lib =
  lib_init :: "'w \<Rightarrow> int \<times> 'w"
  lib_install_event_handler :: "'w \<Rightarrow> int \<times> 'w"
  lib_external_crypto_init :: "'w \<Rightarrow> int \<times> 'w"
  lib_shutdown :: "'w \<Rightarrow> int \<times> 'w"
  lib_policy_for_rtp :: "int \<Rightarrow> crypto_policy option"
  lib_policy_for_rtcp :: "int \<Rightarrow> crypto_policy option"
  lib_is_gcm :: "int \<Rightarrow> bool"
  lib_external_hmac :: int
  lib_create :: "srtp_policy \<Rightarrow> 'w \<Rightarrow> int \<times> handle \<times> 'w"
  lib_update :: "handle \<Rightarrow> srtp_policy \<Rightarrow> 'w \<Rightarrow> int \<times> 'w"
  lib_set_user_data :: "handle \<Rightarrow> bool \<Rightarrow> 'w \<Rightarrow> 'w"
  lib_dealloc :: "handle \<Rightarrow> 'w \<Rightarrow> 'w"
  lib_protect :: "handle \<Rightarrow> byte list \<Rightarrow> 'w \<Rightarrow> int \<times> byte list \<times> 'w"
  lib_protect_rtcp :: "handle \<Rightarrow> byte list \<Rightarrow> 'w \<Rightarrow> int \<times> byte list \<times> 'w"
  lib_unprotect :: "handle \<Rightarrow> byte list \<Rightarrow> 'w \<Rightarrow> int \<times> byte list \<times> 'w"
  lib_unprotect_rtcp :: "handle \<Rightarrow> byte list \<Rightarrow> 'w \<Rightarrow> int \<times> byte list \<times> 'w"
  lib_stream_index :: "handle \<Rightarrow> byte list \<Rightarrow> 'w \<Rightarrow> (64 word) option"
  lib_template_hmac :: "handle \<Rightarrow> 'w \<Rightarrow> byte list option"
  lib_network_to_host64 :: "64 word \<Rightarrow> 64 word"
  lib_parse_seq :: "byte list \<Rightarrow> int"

text \<open>
  \<open>lib_create\<close> returns the new context, \<open>lib_protect\<close> and its kin the bytes of the buffer up
  to the new length. \<open>lib_stream_index\<close> is \<open>srtp_get_stream\<close> on the SSRC field of the
  header followed by \<open>srtp_rdbx_get_packet_index\<close>; \<open>lib_template_hmac\<close> the key of the
  external HMAC context of the session's stream template, \<open>None\<close> where one of the pointers
  on the way is null.
\<close>

section \<open>State\<close>

text \<open>The process-wide state: the count \<open>g_libsrtp_usage_count\<close> and the library's own state.\<close>

record 'w srtp_global =
  usage_count :: int
  lib_state :: 'w

record SrtpSession =
  sess_handle :: "handle option"
  rtp_auth_tag_len :: int
  rtcp_auth_tag_len :: int
  sess_inited :: bool
  last_send_seq_num :: int
  ext_auth_active :: bool
  ext_auth_enabled :: bool
  sess_decrypt_failures :: int

definition new_SrtpSession :: SrtpSession where
  "new_SrtpSession =
     \<lparr>sess_handle = None, rtp_auth_tag_len = 0, rtcp_auth_tag_len = 0, sess_inited = False,
      last_send_seq_num = -1, ext_auth_active = False, ext_auth_enabled = False,
      sess_decrypt_failures = 0\<rparr>"

section \<open>The count of library users\<close>

definition ProhibitLibsrtpInitialization :: "'w srtp_global \<Rightarrow> 'w srtp_global" where
  "ProhibitLibsrtpInitialization g = g\<lparr>usage_count := usage_count g + 1\<rparr>"

definition IncrementLibsrtpUsageCountAndMaybeInit ::
    "'w srtp_lib \<Rightarrow> 'w srtp_global \<Rightarrow> bool \<times> 'w srtp_global" where
  "IncrementLibsrtpUsageCountAndMaybeInit L g =
     (if usage_count g = 0 then
        (case lib_init L (lib_state g) of (err, w) \<Rightarrow>
           if err \<noteq> 0 then (False, g\<lparr>lib_state := w\<rparr>)
           else (case lib_install_event_handler L w of (err, w) \<Rightarrow>
             if err \<noteq> 0 then (False, g\<lparr>lib_state := w\<rparr>)
             else (case lib_external_crypto_init L w of (err, w) \<Rightarrow>
               if err \<noteq> 0 then (False, g\<lparr>lib_state := w\<rparr>)
               else (True, g\<lparr>lib_state := w, usage_count := usage_count g + 1\<rparr>))))
      else (True, g\<lparr>usage_count := usage_count g + 1\<rparr>))"

definition DecrementLibsrtpUsageCountAndMaybeDeinit ::
    "'w srtp_lib \<Rightarrow> 'w srtp_global \<Rightarrow> 'w srtp_global" where
  "DecrementLibsrtpUsageCountAndMaybeDeinit L g =
     (let g' = g\<lparr>usage_count := usage_count g - 1\<rparr>
      in if usage_count g' = 0 then g'\<lparr>lib_state := snd (lib_shutdown L (lib_state g'))\<rparr>
         else g')"

text \<open>The destructor.\<close>

definition destroy_SrtpSession ::
    "'w srtp_lib \<Rightarrow> SrtpSession \<Rightarrow> 'w srtp_global \<Rightarrow> 'w srtp_global" where
  "destroy_SrtpSession L s g =
     (let g1 = (case sess_handle s of
                  None \<Rightarrow> g
                | Some h \<Rightarrow>
                    g\<lparr>lib_state := lib_dealloc L h (lib_set_user_data L h False (lib_state g))\<rparr>)
      in if sess_inited s then DecrementLibsrtpUsageCountAndMaybeDeinit L g1 else g1)"

section \<open>Keys\<close>

text \<open>
  \<open>key\<close> is the key buffer, \<open>None\<close> a null pointer; the callers pass the buffer's own size as
  \<open>len\<close>, so the length of the list stands for it.
\<close>

definition set_tag_lens ::
    "'w srtp_lib \<Rightarrow> crypto_policy \<Rightarrow> crypto_policy \<Rightarrow> SrtpSession \<Rightarrow> SrtpSession" where
  "set_tag_lens L rtp rtcp s =
     s\<lparr>rtp_auth_tag_len := auth_tag_len rtp, rtcp_auth_tag_len := auth_tag_len rtcp,
       ext_auth_active := (auth_type rtp = lib_external_hmac L)\<rparr>"

definition build_policy ::
    "'w srtp_lib \<Rightarrow> ssrc_type \<Rightarrow> int \<Rightarrow> crypto_policy \<Rightarrow> crypto_policy \<Rightarrow> byte list \<Rightarrow> int list
     \<Rightarrow> SrtpSession \<Rightarrow> srtp_policy" where
  "build_policy L type cs rtp rtcp k extension_ids s =
     \<lparr>pol_rtp = (if type = ssrc_any_outbound \<and> ext_auth_enabled s \<and> \<not> lib_is_gcm L cs
                then rtp\<lparr>auth_type := lib_external_hmac L\<rparr> else rtp),
      pol_rtcp = rtcp, pol_ssrc_type = type, pol_ssrc_value = 0, pol_key = k,
      pol_window_size = 1024, pol_allow_repeat_tx = True, pol_enc_xtn_hdr = extension_ids\<rparr>"

definition DoSetKey ::
    "'w srtp_lib \<Rightarrow> ssrc_type \<Rightarrow> int \<Rightarrow> byte list option \<Rightarrow> int list
     \<Rightarrow> SrtpSession \<Rightarrow> 'w srtp_global \<Rightarrow> bool \<times> SrtpSession \<times> 'w srtp_global" where
  "DoSetKey L type cs key extension_ids s g =
     (case (lib_policy_for_rtp L cs, lib_policy_for_rtcp L cs) of
        (Some rtp, Some rtcp) \<Rightarrow>
          (case key of
             None \<Rightarrow> (False, s, g)
           | Some k \<Rightarrow>
               if int (length k) \<noteq> cipher_key_len rtp then (False, s, g)
               else
                 (let pol = build_policy L type cs rtp rtcp k extension_ids s
                  in case sess_handle s of
                       None \<Rightarrow>
                         (case lib_create L pol (lib_state g) of (err, h, w) \<Rightarrow>
                            if err \<noteq> 0 then (False, s\<lparr>sess_handle := None\<rparr>, g\<lparr>lib_state := w\<rparr>)
                            else (True, set_tag_lens L (pol_rtp pol) rtcp (s\<lparr>sess_handle := Some h\<rparr>),
                                  g\<lparr>lib_state := lib_set_user_data L h True w\<rparr>))
                     | Some h \<Rightarrow>
                         (case lib_update L h pol (lib_state g) of (err, w) \<Rightarrow>
                            if err \<noteq> 0 then (False, s, g\<lparr>lib_state := w\<rparr>)
                            else (True, set_tag_lens L (pol_rtp pol) rtcp s, g\<lparr>lib_state := w\<rparr>))))
      | _ \<Rightarrow> (False, s, g))"

definition SetKey ::
    "'w srtp_lib \<Rightarrow> ssrc_type \<Rightarrow> int \<Rightarrow> byte list option \<Rightarrow> int list
     \<Rightarrow> SrtpSession \<Rightarrow> 'w srtp_global \<Rightarrow> bool \<times> SrtpSession \<times> 'w srtp_global" where
  "SetKey L type cs key extension_ids s g =
     (if sess_handle s \<noteq> None then (False, s, g)
      else case IncrementLibsrtpUsageCountAndMaybeInit L g of
             (True, g1) \<Rightarrow> DoSetKey L type cs key extension_ids (s\<lparr>sess_inited := True\<rparr>) g1
           | (False, g1) \<Rightarrow> (False, s, g1))"

definition UpdateKey ::
    "'w srtp_lib \<Rightarrow> ssrc_type \<Rightarrow> int \<Rightarrow> byte list option \<Rightarrow> int list
     \<Rightarrow> SrtpSession \<Rightarrow> 'w srtp_global \<Rightarrow> bool \<times> SrtpSession \<times> 'w srtp_global" where
  "UpdateKey L type cs key extension_ids s g =
     (if sess_handle s = None then (False, s, g)
      else DoSetKey L type cs key extension_ids s g)"

definition SetSend ::
    "'w srtp_lib \<Rightarrow> int \<Rightarrow> byte list option \<Rightarrow> int list
     \<Rightarrow> SrtpSession \<Rightarrow> 'w srtp_global \<Rightarrow> bool \<times> SrtpSession \<times> 'w srtp_global" where
  "SetSend L cs key ext s g = SetKey L ssrc_any_outbound cs key ext s g"

definition UpdateSend ::
    "'w srtp_lib \<Rightarrow> int \<Rightarrow> byte list option \<Rightarrow> int list
     \<Rightarrow> SrtpSession \<Rightarrow> 'w srtp_global \<Rightarrow> bool \<times> SrtpSession \<times> 'w srtp_global" where
  "UpdateSend L cs key ext s g = UpdateKey L ssrc_any_outbound cs key ext s g"

definition SetRecv ::
    "'w srtp_lib \<Rightarrow> int \<Rightarrow> byte list option \<Rightarrow> int list
     \<Rightarrow> SrtpSession \<Rightarrow> 'w srtp_global \<Rightarrow> bool \<times> SrtpSession \<times> 'w srtp_global" where
  "SetRecv L cs key ext s g = SetKey L ssrc_any_inbound cs key ext s g"

definition UpdateRecv ::
    "'w srtp_lib \<Rightarrow> int \<Rightarrow> byte list option \<Rightarrow> int list
     \<Rightarrow> SrtpSession \<Rightarrow> 'w srtp_global \<Rightarrow> bool \<times> SrtpSession \<times> 'w srtp_global" where
  "UpdateRecv L cs key ext s g = UpdateKey L ssrc_any_inbound cs key ext s g"

section \<open>Protection\<close>

text \<open>
  A buffer is its bytes; \<open>max_len\<close> is its capacity. The operations return the verdict, the
  bytes up to the new length and the changed session and library.
\<close>

definition sess_ProtectRtp ::
    "'w srtp_lib \<Rightarrow> byte list \<Rightarrow> int \<Rightarrow> SrtpSession \<Rightarrow> 'w srtp_global
     \<Rightarrow> bool \<times> byte list \<times> SrtpSession \<times> 'w srtp_global" where
  "sess_ProtectRtp L p max_len s g =
     (case sess_handle s of
        None \<Rightarrow> (False, p, s, g)
      | Some h \<Rightarrow>
          (let need_len = int (length p) + rtp_auth_tag_len s
           in if max_len < need_len then (False, p, s, g)
              else case lib_protect L h p (lib_state g) of (err, p', w) \<Rightarrow>
                (let seq_num = lib_parse_seq L (take (length p) p')
                 in if err \<noteq> 0 then (False, p', s, g\<lparr>lib_state := w\<rparr>)
                    else (True, p', s\<lparr>last_send_seq_num := seq_num\<rparr>, g\<lparr>lib_state := w\<rparr>))))"

definition GetSendStreamPacketIndex ::
    "'w srtp_lib \<Rightarrow> byte list \<Rightarrow> SrtpSession \<Rightarrow> 'w srtp_global \<Rightarrow> (64 word) option" where
  "GetSendStreamPacketIndex L p s g =
     (case sess_handle s of
        None \<Rightarrow> None
      | Some h \<Rightarrow>
          (case lib_stream_index L h (take 4 (drop 8 p)) (lib_state g) of
             None \<Rightarrow> None
           | Some i \<Rightarrow> Some (lib_network_to_host64 L (push_bit 16 i))))"

definition sess_ProtectRtp_index ::
    "'w srtp_lib \<Rightarrow> byte list \<Rightarrow> int \<Rightarrow> SrtpSession \<Rightarrow> 'w srtp_global
     \<Rightarrow> (bool \<times> (64 word) option) \<times> byte list \<times> SrtpSession \<times> 'w srtp_global" where
  "sess_ProtectRtp_index L p max_len s g =
     (case sess_ProtectRtp L p max_len s g of
        (False, p', s', g') \<Rightarrow> ((False, None), p', s', g')
      | (True, p', s', g') \<Rightarrow>
          (case GetSendStreamPacketIndex L p' s' g' of
             None \<Rightarrow> ((False, None), p', s', g')
           | Some i \<Rightarrow> ((True, Some i), p', s', g')))"

definition sess_ProtectRtcp ::
    "'w srtp_lib \<Rightarrow> byte list \<Rightarrow> int \<Rightarrow> SrtpSession \<Rightarrow> 'w srtp_global
     \<Rightarrow> bool \<times> byte list \<times> SrtpSession \<times> 'w srtp_global" where
  "sess_ProtectRtcp L p max_len s g =
     (case sess_handle s of
        None \<Rightarrow> (False, p, s, g)
      | Some h \<Rightarrow>
          (let need_len = int (length p) + 4 + rtcp_auth_tag_len s
           in if max_len < need_len then (False, p, s, g)
              else case lib_protect_rtcp L h p (lib_state g) of (err, p', w) \<Rightarrow>
                (err = 0, p', s, g\<lparr>lib_state := w\<rparr>)))"

definition sess_UnprotectRtp ::
    "'w srtp_lib \<Rightarrow> byte list \<Rightarrow> SrtpSession \<Rightarrow> 'w srtp_global
     \<Rightarrow> bool \<times> byte list \<times> SrtpSession \<times> 'w srtp_global" where
  "sess_UnprotectRtp L p s g =
     (case sess_handle s of
        None \<Rightarrow> (False, p, s, g)
      | Some h \<Rightarrow>
          (case lib_unprotect L h p (lib_state g) of (err, p', w) \<Rightarrow>
             if err \<noteq> 0 then
               (False, p', s\<lparr>sess_decrypt_failures := sess_decrypt_failures s + 1\<rparr>,
                g\<lparr>lib_state := w\<rparr>)
             else (True, p', s, g\<lparr>lib_state := w\<rparr>)))"

definition sess_UnprotectRtcp ::
    "'w srtp_lib \<Rightarrow> byte list \<Rightarrow> SrtpSession \<Rightarrow> 'w srtp_global
     \<Rightarrow> bool \<times> byte list \<times> SrtpSession \<times> 'w srtp_global" where
  "sess_UnprotectRtcp L p s g =
     (case sess_handle s of
        None \<Rightarrow> (False, p, s, g)
      | Some h \<Rightarrow>
          (case lib_unprotect_rtcp L h p (lib_state g) of (err, p', w) \<Rightarrow>
             (err = 0, p', s, g\<lparr>lib_state := w\<rparr>)))"

section \<open>External authentication and overhead\<close>

definition sess_EnableExternalAuth :: "SrtpSession \<Rightarrow> SrtpSession" where
  "sess_EnableExternalAuth s = s\<lparr>ext_auth_enabled := True\<rparr>"

definition sess_IsExternalAuthEnabled :: "SrtpSession \<Rightarrow> bool" where
  "sess_IsExternalAuthEnabled s = ext_auth_enabled s"

definition sess_IsExternalAuthActive :: "SrtpSession \<Rightarrow> bool" where
  "sess_IsExternalAuthActive s = ext_auth_active s"

definition sess_GetSrtpOverhead :: "SrtpSession \<Rightarrow> int" where
  "sess_GetSrtpOverhead s = rtp_auth_tag_len s"

text \<open>The key and the tag length, \<open>None\<close> where the code returns false.\<close>

definition sess_GetRtpAuthParams ::
    "'w srtp_lib \<Rightarrow> SrtpSession \<Rightarrow> 'w srtp_global \<Rightarrow> (byte list \<times> int) option" where
  "sess_GetRtpAuthParams L s g =
     (if \<not> sess_IsExternalAuthActive s then None
      else case sess_handle s of
             None \<Rightarrow> None
           | Some h \<Rightarrow>
               (case lib_template_hmac L h (lib_state g) of
                  None \<Rightarrow> None
                | Some k \<Rightarrow> Some (k, rtp_auth_tag_len s)))"

section \<open>Resources that are counted\<close>

text \<open>
  The contract between the session and its owners: a resource has a weight in a count that
  dropping it gives back. The owner's lemmas (for an optional resource and for a list of
  them) are proved here once.
\<close>

locale counted_resource =
  fixes weight :: "'r \<Rightarrow> int"
    and counter :: "'g \<Rightarrow> int"
    and drop_one :: "'r \<Rightarrow> 'g \<Rightarrow> 'g"
  assumes drop_counter: "counter (drop_one r g) = counter g - weight r"
begin

definition weight_opt :: "'r option \<Rightarrow> int" where
  "weight_opt ro = (case ro of None \<Rightarrow> 0 | Some r \<Rightarrow> weight r)"

definition drop_opt :: "'r option \<Rightarrow> 'g \<Rightarrow> 'g" where
  "drop_opt ro g = (case ro of None \<Rightarrow> g | Some r \<Rightarrow> drop_one r g)"

lemma drop_opt_counter: "counter (drop_opt ro g) = counter g - weight_opt ro"
  by (simp add: drop_opt_def weight_opt_def drop_counter split: option.split)

lemma drop_all_counter:
  "counter (fold drop_opt ros g) = counter g - sum_list (map weight_opt ros)"
  by (induction ros arbitrary: g) (simp_all add: drop_opt_counter)

end

definition sess_weight :: "SrtpSession \<Rightarrow> int" where
  "sess_weight s = (if sess_inited s then 1 else 0)"

lemma usage_count_Decrement [simp]:
  "usage_count (DecrementLibsrtpUsageCountAndMaybeDeinit L g) = usage_count g - 1"
  by (simp add: DecrementLibsrtpUsageCountAndMaybeDeinit_def Let_def)

lemma usage_count_destroy:
  "usage_count (destroy_SrtpSession L s g) = usage_count g - sess_weight s"
  by (simp add: destroy_SrtpSession_def sess_weight_def Let_def split: option.split)

interpretation sess_res: counted_resource sess_weight usage_count "destroy_SrtpSession L" for L
  by unfold_locales (rule usage_count_destroy)

lemma usage_count_Increment:
  "IncrementLibsrtpUsageCountAndMaybeInit L g = (b, g') \<Longrightarrow>
     usage_count g' = usage_count g + (if b then 1 else 0)"
  by (auto simp: IncrementLibsrtpUsageCountAndMaybeInit_def split: if_splits prod.splits)

section \<open>Facts about the key operations\<close>

lemma DoSetKey_frame:
  "DoSetKey L type cs key ext s g = (b, s', g') \<Longrightarrow>
     usage_count g' = usage_count g \<and> sess_inited s' = sess_inited s
     \<and> ext_auth_enabled s' = ext_auth_enabled s
     \<and> last_send_seq_num s' = last_send_seq_num s"
  by (auto simp: DoSetKey_def set_tag_lens_def Let_def
      split: option.splits if_splits prod.splits)

lemma DoSetKey_handle:
  "DoSetKey L type cs key ext s g = (b, s', g') \<Longrightarrow>
     (b \<longrightarrow> sess_handle s' \<noteq> None) \<and> (\<not> b \<longrightarrow> s' = s)"
  by (auto simp: DoSetKey_def set_tag_lens_def Let_def
      split: option.splits if_splits prod.splits)

lemma DoSetKey_result:
  assumes "DoSetKey L type cs key ext s g = (b, s', g')"
  shows "usage_count g' = usage_count g \<and> sess_inited s' = sess_inited s
     \<and> (b \<longrightarrow> sess_handle s' \<noteq> None) \<and> (\<not> b \<longrightarrow> s' = s)"
  using DoSetKey_frame [OF assms] DoSetKey_handle [OF assms] by blast

lemma DoSetKey_keyed:
  "DoSetKey L type cs key ext s g = (b, s', g') \<Longrightarrow> sess_handle s = Some h \<Longrightarrow>
     sess_handle s' = Some h"
  by (auto simp: DoSetKey_def set_tag_lens_def Let_def
      split: option.splits if_splits prod.splits)

lemma DoSetKey_full:
  assumes "DoSetKey L type cs key ext s g = (b, s', g')"
  shows "(b \<longrightarrow> (\<exists>h. sess_handle s' = Some h)
            \<and> Some (rtp_auth_tag_len s') = map_option auth_tag_len (lib_policy_for_rtp L cs)
            \<and> Some (rtcp_auth_tag_len s') = map_option auth_tag_len (lib_policy_for_rtcp L cs))
       \<and> (\<not> b \<longrightarrow> s' = s) \<and> (sess_handle s = None \<or> sess_handle s' = sess_handle s)"
  using assms
  by (auto simp: DoSetKey_def set_tag_lens_def build_policy_def Let_def
      split: option.splits if_splits prod.splits)

lemma SetKey_keyed_fails:
  "sess_handle s \<noteq> None \<Longrightarrow> SetKey L type cs key ext s g = (False, s, g)"
  by (simp add: SetKey_def)

lemma SetKey_balance:
  assumes "SetKey L type cs key ext s g = (b, s', g')" "\<not> sess_inited s"
  shows "usage_count g' - sess_weight s' = usage_count g"
  using assms
  by (auto simp: SetKey_def sess_weight_def split: if_splits prod.splits bool.splits
      dest!: usage_count_Increment DoSetKey_frame)

lemma SetKey_handle:
  assumes "SetKey L type cs key ext s g = (b, s', g')"
  shows "(b \<longrightarrow> sess_handle s' \<noteq> None \<and> sess_inited s' \<and> sess_handle s = None)
       \<and> (\<not> b \<longrightarrow> sess_handle s' = sess_handle s)"
  using assms
  by (auto simp: SetKey_def split: if_splits prod.splits bool.splits
      dest!: DoSetKey_result)

lemma UpdateKey_balance:
  "UpdateKey L type cs key ext s g = (b, s', g') \<Longrightarrow>
     usage_count g' = usage_count g \<and> sess_inited s' = sess_inited s
     \<and> sess_handle s' = sess_handle s"
  by (auto simp: UpdateKey_def split: if_splits dest: DoSetKey_frame DoSetKey_keyed)

lemma protection_frame [frame]:
  "sess_ProtectRtp L p n s g = (b, p', s', g') \<Longrightarrow>
     usage_count g' = usage_count g \<and> sess_inited s' = sess_inited s
     \<and> sess_handle s' = sess_handle s"
  "sess_ProtectRtcp L p n s g = (b, p', s', g') \<Longrightarrow> usage_count g' = usage_count g \<and> s' = s"
  "sess_UnprotectRtp L p s g = (b, p', s', g') \<Longrightarrow>
     usage_count g' = usage_count g \<and> sess_inited s' = sess_inited s
     \<and> sess_handle s' = sess_handle s"
  "sess_UnprotectRtcp L p s g = (b, p', s', g') \<Longrightarrow> usage_count g' = usage_count g \<and> s' = s"
  by (auto simp: sess_ProtectRtp_def sess_ProtectRtcp_def sess_UnprotectRtp_def
      sess_UnprotectRtcp_def Let_def split: option.splits if_splits prod.splits)

section \<open>The life of a session\<close>

datatype SessCall =
    CSet ssrc_type int "byte list option" "int list"
  | CUpdate ssrc_type int "byte list option" "int list"
  | CProtectRtp "byte list" int
  | CProtectRtcp "byte list" int
  | CUnprotectRtp "byte list"
  | CUnprotectRtcp "byte list"
  | CEnableExternalAuth

fun is_CSet :: "SessCall \<Rightarrow> bool" where
  "is_CSet (CSet _ _ _ _) = True"
| "is_CSet _ = False"

fun sess_call ::
    "'w srtp_lib \<Rightarrow> SessCall \<Rightarrow> SrtpSession \<times> 'w srtp_global \<Rightarrow> SrtpSession \<times> 'w srtp_global" where
  "sess_call L (CSet ty cs k e) (s, g) = snd (SetKey L ty cs k e s g)"
| "sess_call L (CUpdate ty cs k e) (s, g) = snd (UpdateKey L ty cs k e s g)"
| "sess_call L (CProtectRtp p n) (s, g) = snd (snd (sess_ProtectRtp L p n s g))"
| "sess_call L (CProtectRtcp p n) (s, g) = snd (snd (sess_ProtectRtcp L p n s g))"
| "sess_call L (CUnprotectRtp p) (s, g) = snd (snd (sess_UnprotectRtp L p s g))"
| "sess_call L (CUnprotectRtcp p) (s, g) = snd (snd (sess_UnprotectRtcp L p s g))"
| "sess_call L CEnableExternalAuth (s, g) = (sess_EnableExternalAuth s, g)"

definition sess_life ::
    "'w srtp_lib \<Rightarrow> SessCall list \<Rightarrow> SrtpSession \<Rightarrow> 'w srtp_global \<Rightarrow> 'w srtp_global" where
  "sess_life L cs s g =
     (case fold (sess_call L) cs (s, g) of (s', g') \<Rightarrow> destroy_SrtpSession L s' g')"

lemma sess_call_balance_noset:
  "\<not> is_CSet c \<Longrightarrow> sess_call L c (s, g) = (s', g') \<Longrightarrow>
     usage_count g' = usage_count g \<and> sess_inited s' = sess_inited s"
  by (cases c) (auto simp: sess_EnableExternalAuth_def dest!: snd_eqD snd_snd_eqD
      dest: UpdateKey_balance protection_frame)

lemma sess_calls_balance_noset:
  "\<forall>c \<in> set cs. \<not> is_CSet c \<Longrightarrow> fold (sess_call L) cs (s, g) = (s', g') \<Longrightarrow>
     usage_count g' = usage_count g \<and> sess_inited s' = sess_inited s"
proof (induction cs arbitrary: s g)
  case Nil
  then show ?case by simp
next
  case (Cons c cs)
  obtain s1 g1 where c: "sess_call L c (s, g) = (s1, g1)" by fastforce
  with Cons show ?case by (auto dest!: sess_call_balance_noset [rotated])
qed

lemma usage_count_fold_noset:
  assumes "\<forall>c \<in> set cs. \<not> is_CSet c"
  shows "usage_count (sess_life L cs s g) = usage_count g - sess_weight s"
proof -
  obtain s' g' where f: "fold (sess_call L) cs (s, g) = (s', g')" by fastforce
  from sess_calls_balance_noset [OF assms f] f show ?thesis
    by (simp add: sess_life_def sess_weight_def usage_count_destroy)
qed

lemma sess_life_balanced:
  "length (filter is_CSet cs) \<le> 1 \<Longrightarrow> \<not> sess_inited s \<Longrightarrow>
     usage_count (sess_life L cs s g) = usage_count g"
proof (induction cs arbitrary: s g)
  case Nil
  then show ?case by (simp add: sess_life_def usage_count_destroy sess_weight_def)
next
  case (Cons c cs)
  obtain s1 g1 where c: "sess_call L c (s, g) = (s1, g1)" by fastforce
  have life: "sess_life L (c # cs) s g = sess_life L cs s1 g1"
    by (simp add: sess_life_def c)
  show ?case
  proof (cases "is_CSet c")
    case True
    then obtain ty k e n where "c = CSet ty n k e" by (cases c) auto
    with c obtain b where "SetKey L ty n k e s g = (b, s1, g1)"
      by (metis sess_call.simps(1) surjective_pairing)
    then have "usage_count g1 - sess_weight s1 = usage_count g"
      using Cons.prems(2) by (rule SetKey_balance)
    moreover have "\<forall>c \<in> set cs. \<not> is_CSet c"
      using Cons.prems(1) True by (auto simp: filter_empty_conv)
    ultimately show ?thesis by (simp add: life usage_count_fold_noset)
  next
    case False
    with c have "usage_count g1 = usage_count g" "\<not> sess_inited s1"
      using Cons.prems(2) by (auto dest: sess_call_balance_noset)
    with Cons False show ?thesis by (simp add: life)
  qed
qed

section \<open>A library to run the model with\<close>

text \<open>
  A concrete \<open>srtp_lib\<close> for the witnesses: one supported suite (number 1, a 30 byte key,
  10 byte tags), every context is handle 7, protection appends a tag of zeros.
\<close>

definition demo_policy :: crypto_policy where
  "demo_policy = \<lparr>cipher_key_len = 30, auth_type = 3, auth_tag_len = 10\<rparr>"

definition demo_lib :: "unit srtp_lib" where
  "demo_lib =
     \<lparr>lib_init = (\<lambda>w. (0, w)), lib_install_event_handler = (\<lambda>w. (0, w)),
      lib_external_crypto_init = (\<lambda>w. (0, w)), lib_shutdown = (\<lambda>w. (0, w)),
      lib_policy_for_rtp = (\<lambda>cs. if cs = 1 then Some demo_policy else None),
      lib_policy_for_rtcp = (\<lambda>cs. if cs = 1 then Some demo_policy else None),
      lib_is_gcm = (\<lambda>cs. False), lib_external_hmac = 9,
      lib_create = (\<lambda>pol w. (0, 7, w)), lib_update = (\<lambda>h pol w. (0, w)),
      lib_set_user_data = (\<lambda>h b w. w), lib_dealloc = (\<lambda>h w. w),
      lib_protect = (\<lambda>h p w. (0, p @ replicate 10 0, w)),
      lib_protect_rtcp = (\<lambda>h p w. (0, p @ replicate 14 0, w)),
      lib_unprotect = (\<lambda>h p w. if length p < 10 then (1, p, w) else (0, take (length p - 10) p, w)),
      lib_unprotect_rtcp =
        (\<lambda>h p w. if length p < 14 then (1, p, w) else (0, take (length p - 14) p, w)),
      lib_stream_index = (\<lambda>h b w. Some 5), lib_template_hmac = (\<lambda>h w. None),
      lib_network_to_host64 = (\<lambda>x. x), lib_parse_seq = (\<lambda>p. int (length p))\<rparr>"

definition demo_global :: "unit srtp_global" where
  "demo_global = \<lparr>usage_count = 0, lib_state = ()\<rparr>"

definition demo_key :: "byte list" where
  "demo_key = replicate 30 1"

lemmas demo_defs = demo_lib_def demo_policy_def demo_global_def demo_key_def

section \<open>Properties\<close>

text \<open>C36: libsrtp users are counted exactly. Whatever a session is asked to do (keying with any
  suite, key and header extensions, rekeying, protecting, unprotecting, failing or not), if it
  is keyed with \<open>SetSend\<close>/\<open>SetRecv\<close> at most once then after its destruction the process-wide
  count is what it was before the session was used.\<close>

theorem srtp_usage_count_balanced:
  assumes "length (filter is_CSet cs) \<le> 1"
  shows "usage_count (sess_life L cs new_SrtpSession g) = usage_count g"
  using assms by (intro sess_life_balanced) (simp_all add: new_SrtpSession_def)

lemma srtp_usage_count_balanced_witness:
  "usage_count (sess_life demo_lib
      [CSet ssrc_any_outbound 1 (Some demo_key) [], CProtectRtp [1, 2, 3] 100] new_SrtpSession
      demo_global) = 0"
proof -
  let ?cs = "[CSet ssrc_any_outbound 1 (Some demo_key) [], CProtectRtp [1, 2, 3] 100]"
  have "length (filter is_CSet ?cs) \<le> 1" by simp
  from srtp_usage_count_balanced [OF this, of demo_lib demo_global]
  show ?thesis by (simp add: demo_global_def)
qed

text \<open>The restriction to one keying call is needed. When keying failed inside \<open>DoSetKey\<close>
  (here: no key) and \<open>SetSend\<close> is called again, the count is raised a second time, while the
  destructor lowers it once: one library user is never released.\<close>

theorem srtp_second_set_leaks_a_user:
  assumes "0 < usage_count g"
  shows "usage_count (sess_life L [CSet ty cs None ext, CSet ty cs None ext] new_SrtpSession g)
       = usage_count g + 1"
proof -
  have noop: "DoSetKey L ty cs None ext s g' = (False, s, g')" for s g'
    by (simp add: DoSetKey_def split: option.split)
  have inc: "IncrementLibsrtpUsageCountAndMaybeInit L g' =
      (True, g'\<lparr>usage_count := usage_count g' + 1\<rparr>)" if "0 < usage_count g'" for g'
    using that by (simp add: IncrementLibsrtpUsageCountAndMaybeInit_def)
  show ?thesis
    using assms
    by (simp add: sess_life_def SetKey_def new_SrtpSession_def noop inc usage_count_destroy
        sess_weight_def)
qed

lemma srtp_second_set_leaks_a_user_witness:
  "usage_count (sess_life demo_lib
      [CSet ssrc_any_inbound 1 None [], CSet ssrc_any_inbound 1 None []] new_SrtpSession
      (ProhibitLibsrtpInitialization demo_global)) = 2"
proof -
  have "0 < usage_count (ProhibitLibsrtpInitialization demo_global)"
    by (simp add: ProhibitLibsrtpInitialization_def demo_global_def)
  from srtp_second_set_leaks_a_user [OF this, of demo_lib ssrc_any_inbound 1 "[]"]
  show ?thesis by (simp add: ProhibitLibsrtpInitialization_def demo_global_def)
qed

text \<open>C35: keys are installed once and then only replaced. \<open>SetSend\<close>/\<open>SetRecv\<close> never succeed on
  a session that has a libsrtp context, \<open>UpdateSend\<close>/\<open>UpdateRecv\<close> never on one that has none;
  a success leaves a context and the tag lengths of the cipher suite's policies, and a failure
  leaves the context and the tag lengths as they were.\<close>

theorem srtp_key_installation:
  "(case SetKey L ty cs key ext s g of (b, s', g') \<Rightarrow>
      (b \<longrightarrow> sess_handle s = None \<and> sess_handle s' \<noteq> None)
      \<and> (\<not> b \<longrightarrow> sess_handle s' = sess_handle s \<and> rtp_auth_tag_len s' = rtp_auth_tag_len s
                \<and> rtcp_auth_tag_len s' = rtcp_auth_tag_len s)
      \<and> (b \<longrightarrow> Some (rtp_auth_tag_len s') = map_option auth_tag_len (lib_policy_for_rtp L cs)
             \<and> Some (rtcp_auth_tag_len s') = map_option auth_tag_len (lib_policy_for_rtcp L cs)))
   \<and> (case UpdateKey L ty cs key ext s g of (b, s', g') \<Rightarrow>
      sess_handle s' = sess_handle s \<and> (b \<longrightarrow> sess_handle s \<noteq> None)
      \<and> (\<not> b \<longrightarrow> s' = s)
      \<and> (b \<longrightarrow> Some (rtp_auth_tag_len s') = map_option auth_tag_len (lib_policy_for_rtp L cs)
             \<and> Some (rtcp_auth_tag_len s') = map_option auth_tag_len (lib_policy_for_rtcp L cs)))"
  by (auto simp: SetKey_def UpdateKey_def split: prod.splits bool.splits if_splits
      dest!: DoSetKey_full)

theorem srtp_key_installation_witness:
  "case SetKey demo_lib ssrc_any_outbound 1 (Some demo_key) [] new_SrtpSession demo_global of
     (b, s, g) \<Rightarrow> b \<and> sess_handle s \<noteq> None
       \<and> \<not> fst (SetKey demo_lib ssrc_any_outbound 1 (Some demo_key) [] s g)"
proof -
  obtain b s g where 1: "SetKey demo_lib ssrc_any_outbound 1 (Some demo_key) [] new_SrtpSession
      demo_global = (b, s, g)" by (metis prod_cases3)
  obtain b2 s2 g2 where 2: "SetKey demo_lib ssrc_any_outbound 1 (Some demo_key) [] s g = (b2, s2, g2)"
    by (metis prod_cases3)
  have "fst (SetKey demo_lib ssrc_any_outbound 1 (Some demo_key) [] new_SrtpSession demo_global)"
    by (simp add: demo_defs new_SrtpSession_def SetKey_def DoSetKey_def build_policy_def set_tag_lens_def
        IncrementLibsrtpUsageCountAndMaybeInit_def Let_def)
  then have "b" using 1 by simp
  then have "sess_handle s \<noteq> None"
    using srtp_key_installation [where L = demo_lib and s = new_SrtpSession
        and ty = ssrc_any_outbound and cs = 1 and key = "Some demo_key" and ext = "[]"
        and g = demo_global] 1 by simp
  moreover have "\<not> b2"
    using srtp_key_installation [where L = demo_lib and s = s and g = g
        and ty = ssrc_any_outbound and cs = 1 and key = "Some demo_key" and ext = "[]"] 2
      \<open>sess_handle s \<noteq> None\<close> by auto
  ultimately show ?thesis using 1 2 \<open>b\<close> by simp
qed



end
