(* ===== verification/RtpTransport.thy ===== *)
theory RtpTransport
  imports Prelude
begin

text \<open>
  The base RTP transport (rtp_transport.cc, rtp_transport.h and the signals of
  rtp_transport_internal.h): two packet transports, the ready-to-send bookkeeping, sending,
  and the classification of what is received.

  The packet transports below are libice objects: the model refers to them by their address
  (\<open>tid\<close>) and reads them through the record \<open>packet_net\<close>, an argument of the operations;
  the RTP header classification of libmedia_transfer_protocol is the record \<open>rtp_util\<close>, the
  RTP demuxer the record \<open>demuxer_lib\<close> over an opaque state. What the object signals to its
  observers or hands to the layer below is appended to its list \<open>signals\<close>. The subclasses
  extend the record, as the C++ classes extend each other, so each operation is defined on
  every extension.
\<close>

section \<open>The layers below\<close>

type_synonym tid = nat

record route =
  packet_overhead :: int
  route_id :: nat

record packet_net =
  net_writable :: "tid \<Rightarrow> bool"
  net_send :: "tid \<Rightarrow> byte list \<Rightarrow> int"
  net_error :: "tid \<Rightarrow> int"
  net_ENOTCONN :: int
  net_route :: "tid \<Rightarrow> route option"
  net_set_option :: "tid \<Rightarrow> int \<Rightarrow> int \<Rightarrow> int"
  net_name :: "tid \<Rightarrow> string"

datatype RtpPacketType = kRtp | kRtcp | kUnknown

record rtp_util =
  InferRtpPacketType :: "byte list \<Rightarrow> RtpPacketType"
  IsValidRtpPacketSize :: "RtpPacketType \<Rightarrow> nat \<Rightarrow> bool"

record demuxer_lib =
  dm_AddSink :: "nat \<Rightarrow> nat \<Rightarrow> nat \<Rightarrow> bool \<times> nat"
  dm_RemoveSink :: "nat \<Rightarrow> nat \<Rightarrow> bool \<times> nat"

section \<open>State\<close>

datatype Signal =
    SigReadyToSend bool
  | SigRtcpPacketReceived "byte list" int
  | SigNetworkRouteChanged "route option"
  | SigWritableState bool
  | SigSentPacket int
  | ConnectSlots tid
  | DisconnectSlots tid
  | PacketOut tid "byte list" int

record RtpTransport =
  rtcp_mux_enabled :: bool
  rtp_packet_transport :: "tid option"
  rtcp_packet_transport :: "tid option"
  ready_to_send :: bool
  rtp_ready_to_send :: bool
  rtcp_ready_to_send :: bool
  demuxer_state :: nat
  header_extension_map :: "(string \<times> int) list"
  signals :: "Signal list"

definition emit :: "Signal \<Rightarrow> 'a RtpTransport_scheme \<Rightarrow> 'a RtpTransport_scheme" where
  "emit x t = t\<lparr>signals := signals t @ [x]\<rparr>"

section \<open>Ready to send\<close>

definition MaybeSignalReadyToSend :: "'a RtpTransport_scheme \<Rightarrow> 'a RtpTransport_scheme" where
  "MaybeSignalReadyToSend t =
     (let ready = rtp_ready_to_send t \<and> (rtcp_ready_to_send t \<or> rtcp_mux_enabled t)
      in if ready \<noteq> ready_to_send t
         then emit (SigReadyToSend ready) (t\<lparr>ready_to_send := ready\<rparr>)
         else t)"

definition SetReadyToSend ::
    "bool \<Rightarrow> bool \<Rightarrow> 'a RtpTransport_scheme \<Rightarrow> 'a RtpTransport_scheme" where
  "SetReadyToSend rtcp ready t =
     MaybeSignalReadyToSend
       (if rtcp then t\<lparr>rtcp_ready_to_send := ready\<rparr> else t\<lparr>rtp_ready_to_send := ready\<rparr>)"

definition rtp_SetRtcpMuxEnabled ::
    "bool \<Rightarrow> 'a RtpTransport_scheme \<Rightarrow> 'a RtpTransport_scheme" where
  "rtp_SetRtcpMuxEnabled enable t = MaybeSignalReadyToSend (t\<lparr>rtcp_mux_enabled := enable\<rparr>)"

definition OnReadyToSend :: "tid \<Rightarrow> 'a RtpTransport_scheme \<Rightarrow> 'a RtpTransport_scheme" where
  "OnReadyToSend transport t = SetReadyToSend (Some transport = rtcp_packet_transport t) True t"

section \<open>The packet transports\<close>

definition transport_writable :: "packet_net \<Rightarrow> tid option \<Rightarrow> bool" where
  "transport_writable N to = (case to of None \<Rightarrow> False | Some x \<Rightarrow> net_writable N x)"

text \<open>Disconnecting from the old transport and connecting to the new one, the part the two
  setters share.\<close>

definition switch_slots ::
    "packet_net \<Rightarrow> tid option \<Rightarrow> tid option \<Rightarrow> 'a RtpTransport_scheme \<Rightarrow> 'a RtpTransport_scheme"
  where
  "switch_slots N old new t =
     (let t1 = (case old of
                  None \<Rightarrow> t
                | Some x \<Rightarrow> emit (SigNetworkRouteChanged None) (emit (DisconnectSlots x) t))
      in case new of
           None \<Rightarrow> t1
         | Some x \<Rightarrow> emit (SigNetworkRouteChanged (net_route N x)) (emit (ConnectSlots x) t1))"

definition SetRtpPacketTransport ::
    "packet_net \<Rightarrow> tid option \<Rightarrow> 'a RtpTransport_scheme \<Rightarrow> 'a RtpTransport_scheme" where
  "SetRtpPacketTransport N new t =
     (if new = rtp_packet_transport t then t
      else SetReadyToSend False (transport_writable N new)
             ((switch_slots N (rtp_packet_transport t) new t)\<lparr>rtp_packet_transport := new\<rparr>))"

definition SetRtcpPacketTransport ::
    "packet_net \<Rightarrow> tid option \<Rightarrow> 'a RtpTransport_scheme \<Rightarrow> 'a RtpTransport_scheme" where
  "SetRtcpPacketTransport N new t =
     (if new = rtcp_packet_transport t then t
      else SetReadyToSend True (transport_writable N new)
             ((switch_slots N (rtcp_packet_transport t) new t)\<lparr>rtcp_packet_transport := new\<rparr>))"

definition transport_for :: "bool \<Rightarrow> 'a RtpTransport_scheme \<Rightarrow> tid option" where
  "transport_for rtcp t =
     (if rtcp \<and> \<not> rtcp_mux_enabled t then rtcp_packet_transport t else rtp_packet_transport t)"

definition rtp_IsWritable :: "packet_net \<Rightarrow> bool \<Rightarrow> 'a RtpTransport_scheme \<Rightarrow> bool" where
  "rtp_IsWritable N rtcp t = transport_writable N (transport_for rtcp t)"

definition IsTransportWritable :: "packet_net \<Rightarrow> 'a RtpTransport_scheme \<Rightarrow> bool" where
  "IsTransportWritable N t =
     (let rtcp_transport = (if rtcp_mux_enabled t then None else rtcp_packet_transport t)
      in transport_writable N (rtp_packet_transport t)
         \<and> (rtcp_transport = None \<or> transport_writable N rtcp_transport))"

definition SetRtpOption :: "packet_net \<Rightarrow> int \<Rightarrow> int \<Rightarrow> 'a RtpTransport_scheme \<Rightarrow> int option" where
  "SetRtpOption N opt v t =
     map_option (\<lambda>x. net_set_option N x opt v) (rtp_packet_transport t)"

definition SetRtcpOption :: "packet_net \<Rightarrow> int \<Rightarrow> int \<Rightarrow> 'a RtpTransport_scheme \<Rightarrow> int" where
  "SetRtcpOption N opt v t =
     (case rtcp_packet_transport t of Some x \<Rightarrow> net_set_option N x opt v | None \<Rightarrow> -1)"

definition transport_name :: "packet_net \<Rightarrow> 'a RtpTransport_scheme \<Rightarrow> string option" where
  "transport_name N t = map_option (net_name N) (rtp_packet_transport t)"

section \<open>Sending\<close>

text \<open>
  The transport pointer is used without a check: \<open>None\<close> is the crash of the code on a null
  transport, otherwise the verdict and the changed object.
\<close>

definition SendPacket ::
    "packet_net \<Rightarrow> bool \<Rightarrow> byte list \<Rightarrow> int \<Rightarrow> 'a RtpTransport_scheme
     \<Rightarrow> (bool \<times> 'a RtpTransport_scheme) option" where
  "SendPacket N rtcp packet flags t =
     (case transport_for rtcp t of
        None \<Rightarrow> None
      | Some x \<Rightarrow>
          (let ret = net_send N x packet;
               t1 = emit (PacketOut x packet flags) t
           in if ret \<noteq> int (length packet) then
                Some (False, if net_error N x = net_ENOTCONN N then SetReadyToSend rtcp False t1
                             else t1)
              else Some (True, t1)))"

definition rtp_SendRtpPacket ::
    "packet_net \<Rightarrow> byte list \<Rightarrow> int \<Rightarrow> 'a RtpTransport_scheme
     \<Rightarrow> (bool \<times> 'a RtpTransport_scheme) option" where
  "rtp_SendRtpPacket N packet flags t = SendPacket N False packet flags t"

definition rtp_SendRtcpPacket ::
    "packet_net \<Rightarrow> byte list \<Rightarrow> int \<Rightarrow> 'a RtpTransport_scheme
     \<Rightarrow> (bool \<times> 'a RtpTransport_scheme) option" where
  "rtp_SendRtcpPacket N packet flags t = SendPacket N True packet flags t"

section \<open>Receiving\<close>

text \<open>
  \<open>DemuxPacket\<close> only writes a log line: the code that would parse the packet and hand it to
  the demuxer is commented out.
\<close>

definition DemuxPacket ::
    "byte list \<Rightarrow> int \<Rightarrow> 'a RtpTransport_scheme \<Rightarrow> 'a RtpTransport_scheme" where
  "DemuxPacket packet packet_time_us t = t"

definition rtp_OnRtpPacketReceived ::
    "byte list \<Rightarrow> int \<Rightarrow> 'a RtpTransport_scheme \<Rightarrow> 'a RtpTransport_scheme" where
  "rtp_OnRtpPacketReceived packet packet_time_us t = DemuxPacket packet packet_time_us t"

definition rtp_OnRtcpPacketReceived ::
    "byte list \<Rightarrow> int \<Rightarrow> 'a RtpTransport_scheme \<Rightarrow> 'a RtpTransport_scheme" where
  "rtp_OnRtcpPacketReceived packet packet_time_us t =
     emit (SigRtcpPacketReceived packet packet_time_us) t"

text \<open>The two handlers \<open>OnReadPacket\<close> calls are virtual: they are arguments, over any state.\<close>

definition OnReadPacket ::
    "rtp_util \<Rightarrow> (byte list \<Rightarrow> int \<Rightarrow> 's \<Rightarrow> 's) \<Rightarrow> (byte list \<Rightarrow> int \<Rightarrow> 's \<Rightarrow> 's)
     \<Rightarrow> byte list \<Rightarrow> int \<Rightarrow> 's \<Rightarrow> 's" where
  "OnReadPacket U on_rtp on_rtcp data packet_time_us t =
     (let packet_type = InferRtpPacketType U data
      in if packet_type = kUnknown then t
         else if \<not> IsValidRtpPacketSize U packet_type (length data) then t
         else if packet_type = kRtcp then on_rtcp data packet_time_us t
         else on_rtp data packet_time_us t)"

definition rtp_OnNetworkRouteChanged ::
    "route option \<Rightarrow> 'a RtpTransport_scheme \<Rightarrow> 'a RtpTransport_scheme" where
  "rtp_OnNetworkRouteChanged r t = emit (SigNetworkRouteChanged r) t"

definition rtp_OnWritableState ::
    "packet_net \<Rightarrow> 'a RtpTransport_scheme \<Rightarrow> 'a RtpTransport_scheme" where
  "rtp_OnWritableState N t = emit (SigWritableState (IsTransportWritable N t)) t"

definition OnSentPacket :: "int \<Rightarrow> 'a RtpTransport_scheme \<Rightarrow> 'a RtpTransport_scheme" where
  "OnSentPacket sent t = emit (SigSentPacket sent) t"

section \<open>Header extensions and the demuxer\<close>

definition UpdateRtpHeaderExtensionMap ::
    "(string \<times> int) list \<Rightarrow> 'a RtpTransport_scheme \<Rightarrow> 'a RtpTransport_scheme" where
  "UpdateRtpHeaderExtensionMap exts t = t\<lparr>header_extension_map := exts\<rparr>"

definition RegisterRtpDemuxerSink ::
    "demuxer_lib \<Rightarrow> nat \<Rightarrow> nat \<Rightarrow> 'a RtpTransport_scheme \<Rightarrow> bool \<times> 'a RtpTransport_scheme" where
  "RegisterRtpDemuxerSink D criteria sink t =
     (case dm_RemoveSink D sink (demuxer_state t) of (_, d1) \<Rightarrow>
        (case dm_AddSink D criteria sink d1 of (b, d2) \<Rightarrow> (b, t\<lparr>demuxer_state := d2\<rparr>)))"

definition UnregisterRtpDemuxerSink ::
    "demuxer_lib \<Rightarrow> nat \<Rightarrow> 'a RtpTransport_scheme \<Rightarrow> bool \<times> 'a RtpTransport_scheme" where
  "UnregisterRtpDemuxerSink D sink t =
     (case dm_RemoveSink D sink (demuxer_state t) of (b, d) \<Rightarrow> (b, t\<lparr>demuxer_state := d\<rparr>))"

section \<open>Frames\<close>

text \<open>What \<open>MaybeSignalReadyToSend\<close> does, as an update of an announced value.\<close>

definition announce_ready :: "bool \<Rightarrow> 'a RtpTransport_scheme \<Rightarrow> 'a RtpTransport_scheme" where
  "announce_ready v t =
     (if v \<noteq> ready_to_send t then emit (SigReadyToSend v) (t\<lparr>ready_to_send := v\<rparr>) else t)"

fun ready_news :: "Signal \<Rightarrow> bool list" where
  "ready_news (SigReadyToSend b) = [b]"
| "ready_news _ = []"

definition ready_told :: "'a RtpTransport_scheme \<Rightarrow> bool list" where
  "ready_told t = concat (List.map ready_news (signals t))"

definition ready_due :: "'a RtpTransport_scheme \<Rightarrow> bool" where
  "ready_due t \<longleftrightarrow> rtp_ready_to_send t \<and> (rtcp_ready_to_send t \<or> rtcp_mux_enabled t)"

lemma MaybeSignalReadyToSend_eq: "MaybeSignalReadyToSend t = announce_ready (ready_due t) t"
  by (simp add: MaybeSignalReadyToSend_def announce_ready_def ready_due_def Let_def)

lemma ready_told_emit [simp]: "ready_told (emit x t) = ready_told t @ ready_news x"
  by (simp add: ready_told_def emit_def)

lemma ready_told_cong [simp]:
  "ready_told (t\<lparr>ready_to_send := v\<rparr>) = ready_told t"
  "ready_told (t\<lparr>rtp_ready_to_send := v\<rparr>) = ready_told t"
  "ready_told (t\<lparr>rtcp_ready_to_send := v\<rparr>) = ready_told t"
  "ready_told (t\<lparr>rtcp_mux_enabled := v\<rparr>) = ready_told t"
  "ready_told (t\<lparr>rtp_packet_transport := w\<rparr>) = ready_told t"
  "ready_told (t\<lparr>rtcp_packet_transport := w\<rparr>) = ready_told t"
  "ready_told (t\<lparr>header_extension_map := h\<rparr>) = ready_told t"
  "ready_told (t\<lparr>demuxer_state := d\<rparr>) = ready_told t"
  by (simp_all add: ready_told_def)

lemma emit_frame [simp]:
  "ready_to_send (emit x t) = ready_to_send t"
  "rtp_ready_to_send (emit x t) = rtp_ready_to_send t"
  "rtcp_ready_to_send (emit x t) = rtcp_ready_to_send t"
  "rtcp_mux_enabled (emit x t) = rtcp_mux_enabled t"
  "rtp_packet_transport (emit x t) = rtp_packet_transport t"
  "rtcp_packet_transport (emit x t) = rtcp_packet_transport t"
  "demuxer_state (emit x t) = demuxer_state t"
  "header_extension_map (emit x t) = header_extension_map t"
  "signals (emit x t) = signals t @ [x]"
  by (simp_all add: emit_def)

lemma SetReadyToSend_frame [simp]:
  "rtcp_mux_enabled (SetReadyToSend b r t) = rtcp_mux_enabled t"
  "rtp_packet_transport (SetReadyToSend b r t) = rtp_packet_transport t"
  "rtcp_packet_transport (SetReadyToSend b r t) = rtcp_packet_transport t"
  by (simp_all add: SetReadyToSend_def MaybeSignalReadyToSend_def Let_def)

lemma switch_slots_frame [simp]:
  "ready_to_send (switch_slots N old new t) = ready_to_send t"
  "rtp_ready_to_send (switch_slots N old new t) = rtp_ready_to_send t"
  "rtcp_ready_to_send (switch_slots N old new t) = rtcp_ready_to_send t"
  "rtcp_mux_enabled (switch_slots N old new t) = rtcp_mux_enabled t"
  "rtp_packet_transport (switch_slots N old new t) = rtp_packet_transport t"
  "rtcp_packet_transport (switch_slots N old new t) = rtcp_packet_transport t"
  "ready_told (switch_slots N old new t) = ready_told t"
  by (simp_all add: switch_slots_def Let_def split: option.splits)

section \<open>The announced value\<close>

interpretation rdy: change_signal ready_to_send ready_told "\<lambda>_. True" announce_ready
  by unfold_locales (simp_all add: announce_ready_def)

text \<open>The object is settled when the announced value is the due one.\<close>

definition ready_ok :: "'a RtpTransport_scheme \<Rightarrow> bool" where
  "ready_ok t \<longleftrightarrow> rdy.in_step False t \<and> ready_to_send t = ready_due t"

lemma ready_due_announce [simp]: "ready_due (announce_ready v t) = ready_due t"
  by (simp add: announce_ready_def ready_due_def)

lemma ready_ok_maybe: "rdy.in_step False t \<Longrightarrow> ready_ok (MaybeSignalReadyToSend t)"
  unfolding ready_ok_def MaybeSignalReadyToSend_eq
  by (simp add: rdy.in_step_upd rdy.val_upd)

lemma ready_ok_frame:
  assumes "ready_ok t" "ready_told t' = ready_told t" "ready_to_send t' = ready_to_send t"
    "rtp_ready_to_send t' = rtp_ready_to_send t" "rtcp_ready_to_send t' = rtcp_ready_to_send t"
    "rtcp_mux_enabled t' = rtcp_mux_enabled t"
  shows "ready_ok t'"
  using assms by (simp add: ready_ok_def ready_due_def rdy.in_step_def)

lemma ready_ok_emit [inv_intros]: "ready_news x = [] \<Longrightarrow> ready_ok t \<Longrightarrow> ready_ok (emit x t)"
  by (erule ready_ok_frame) simp_all

lemma ready_ok_SetReadyToSend [inv_intros]: "ready_ok t \<Longrightarrow> ready_ok (SetReadyToSend b r t)"
  unfolding SetReadyToSend_def
  by (rule ready_ok_maybe, rule rdy.in_step_frame [where s = t]) (simp_all add: ready_ok_def)

lemma ready_ok_SetRtcpMuxEnabled [inv_intros]:
  "ready_ok t \<Longrightarrow> ready_ok (rtp_SetRtcpMuxEnabled e t)"
  unfolding rtp_SetRtcpMuxEnabled_def
  by (rule ready_ok_maybe, rule rdy.in_step_frame [where s = t]) (simp_all add: ready_ok_def)

lemma ready_ok_switch [simp]:
  "ready_ok (switch_slots N old new t) = ready_ok t"
  "ready_ok (t\<lparr>rtp_packet_transport := w\<rparr>) = ready_ok t"
  "ready_ok (t\<lparr>rtcp_packet_transport := w\<rparr>) = ready_ok t"
  "ready_ok (t\<lparr>header_extension_map := h\<rparr>) = ready_ok t"
  "ready_ok (t\<lparr>demuxer_state := d\<rparr>) = ready_ok t"
  by (simp_all add: ready_ok_def ready_due_def rdy.in_step_def)

lemma ready_ok_SetRtpPacketTransport [inv_intros]:
  "ready_ok t \<Longrightarrow> ready_ok (SetRtpPacketTransport N new t)"
  by (simp add: SetRtpPacketTransport_def ready_ok_SetReadyToSend)

lemma ready_ok_SetRtcpPacketTransport [inv_intros]:
  "ready_ok t \<Longrightarrow> ready_ok (SetRtcpPacketTransport N new t)"
  by (simp add: SetRtcpPacketTransport_def ready_ok_SetReadyToSend)

lemma ready_ok_SendPacket:
  "ready_ok t \<Longrightarrow> SendPacket N rtcp p flags t = Some (b, t') \<Longrightarrow> ready_ok t'"
  by (auto simp: SendPacket_def Let_def split: option.splits if_splits intro!: inv_intros)

section \<open>The connected slots\<close>

text \<open>How many times the object's slots are connected to a transport: connections minus
  disconnections. A transport in use is connected once for each of its roles.\<close>

fun slot_change :: "tid \<Rightarrow> Signal \<Rightarrow> int" where
  "slot_change x (ConnectSlots y) = (if x = y then 1 else 0)"
| "slot_change x (DisconnectSlots y) = (if x = y then -1 else 0)"
| "slot_change x _ = 0"

definition slots :: "tid \<Rightarrow> 'a RtpTransport_scheme \<Rightarrow> int" where
  "slots x t = sum_list (List.map (slot_change x) (signals t))"

definition roles :: "tid \<Rightarrow> 'a RtpTransport_scheme \<Rightarrow> int" where
  "roles x t = of_bool (rtp_packet_transport t = Some x)
             + of_bool (rtcp_packet_transport t = Some x)"

definition slots_ok :: "'a RtpTransport_scheme \<Rightarrow> bool" where
  "slots_ok t \<longleftrightarrow> (\<forall>x. slots x t = roles x t)"

lemma slots_emit [simp]: "slots x (emit y t) = slots x t + slot_change x y"
  by (simp add: slots_def)

lemma slots_cong [simp]:
  "slots x (t\<lparr>ready_to_send := v\<rparr>) = slots x t"
  "slots x (t\<lparr>rtp_ready_to_send := v\<rparr>) = slots x t"
  "slots x (t\<lparr>rtcp_ready_to_send := v\<rparr>) = slots x t"
  "slots x (t\<lparr>rtcp_mux_enabled := v\<rparr>) = slots x t"
  "slots x (t\<lparr>rtp_packet_transport := w\<rparr>) = slots x t"
  "slots x (t\<lparr>rtcp_packet_transport := w\<rparr>) = slots x t"
  "slots x (t\<lparr>header_extension_map := h\<rparr>) = slots x t"
  "slots x (t\<lparr>demuxer_state := d\<rparr>) = slots x t"
  by (simp_all add: slots_def)

lemma slots_SetReadyToSend [simp]: "slots x (SetReadyToSend b r t) = slots x t"
  by (simp add: SetReadyToSend_def MaybeSignalReadyToSend_def Let_def)

lemma slots_switch [simp]:
  "slots x (switch_slots N old new t)
     = slots x t - of_bool (old = Some x) + of_bool (new = Some x)"
  by (auto simp: switch_slots_def Let_def split: option.splits)

lemma slots_ok_set [inv_intros]:
  "slots_ok t \<Longrightarrow> slots_ok (SetRtpPacketTransport N new t)"
  "slots_ok t \<Longrightarrow> slots_ok (SetRtcpPacketTransport N new t)"
  by (simp_all add: slots_ok_def SetRtpPacketTransport_def SetRtcpPacketTransport_def roles_def)

lemma slots_ok_emit [inv_intros]:
  "(\<And>x. slot_change x y = 0) \<Longrightarrow> slots_ok t \<Longrightarrow> slots_ok (emit y t)"
  by (simp add: slots_ok_def roles_def)

lemma slots_ok_ready [inv_intros]:
  "slots_ok t \<Longrightarrow> slots_ok (SetReadyToSend b r t)"
  "slots_ok t \<Longrightarrow> slots_ok (rtp_SetRtcpMuxEnabled e t)"
  by (simp_all add: slots_ok_def roles_def rtp_SetRtcpMuxEnabled_def MaybeSignalReadyToSend_def
      Let_def)

lemma slots_ok_header_map [simp]: "slots_ok (t\<lparr>header_extension_map := h\<rparr>) = slots_ok t"
  by (simp add: slots_ok_def roles_def)

lemma slots_ok_SendPacket:
  "slots_ok t \<Longrightarrow> SendPacket N rtcp p flags t = Some (b, t') \<Longrightarrow> slots_ok t'"
  by (auto simp: SendPacket_def Let_def split: option.splits if_splits intro!: inv_intros)

section \<open>A session of calls\<close>

definition new_RtpTransport :: "bool \<Rightarrow> RtpTransport" where
  "new_RtpTransport mux =
     \<lparr>rtcp_mux_enabled = mux, rtp_packet_transport = None, rtcp_packet_transport = None,
      ready_to_send = False, rtp_ready_to_send = False, rtcp_ready_to_send = False,
      demuxer_state = 0, header_extension_map = [], signals = []\<rparr>"

datatype RtpCall =
    CallSetRtcpMuxEnabled bool
  | CallSetRtpPacketTransport "tid option"
  | CallSetRtcpPacketTransport "tid option"
  | CallOnReadyToSend tid
  | CallSendPacket bool "byte list" int
  | CallOnReadPacket "byte list" int
  | CallOnNetworkRouteChanged "route option"
  | CallOnWritableState
  | CallOnSentPacket int
  | CallUpdateRtpHeaderExtensionMap "(string \<times> int) list"

fun rtp_call ::
    "rtp_util \<Rightarrow> packet_net \<times> RtpCall \<Rightarrow> 'a RtpTransport_scheme \<Rightarrow> 'a RtpTransport_scheme option"
  where
  "rtp_call U (N, CallSetRtcpMuxEnabled e) t = Some (rtp_SetRtcpMuxEnabled e t)"
| "rtp_call U (N, CallSetRtpPacketTransport x) t = Some (SetRtpPacketTransport N x t)"
| "rtp_call U (N, CallSetRtcpPacketTransport x) t = Some (SetRtcpPacketTransport N x t)"
| "rtp_call U (N, CallOnReadyToSend x) t = Some (OnReadyToSend x t)"
| "rtp_call U (N, CallSendPacket rtcp p flags) t = map_option snd (SendPacket N rtcp p flags t)"
| "rtp_call U (N, CallOnReadPacket p us) t =
     Some (OnReadPacket U rtp_OnRtpPacketReceived rtp_OnRtcpPacketReceived p us t)"
| "rtp_call U (N, CallOnNetworkRouteChanged r) t = Some (rtp_OnNetworkRouteChanged r t)"
| "rtp_call U (N, CallOnWritableState) t = Some (rtp_OnWritableState N t)"
| "rtp_call U (N, CallOnSentPacket p) t = Some (OnSentPacket p t)"
| "rtp_call U (N, CallUpdateRtpHeaderExtensionMap h) t = Some (UpdateRtpHeaderExtensionMap h t)"

fun rtp_run ::
    "rtp_util \<Rightarrow> (packet_net \<times> RtpCall) list \<Rightarrow> 'a RtpTransport_scheme
     \<Rightarrow> 'a RtpTransport_scheme option" where
  "rtp_run U [] t = Some t"
| "rtp_run U (c # cs) t = Option.bind (rtp_call U c t) (rtp_run U cs)"

lemmas rtp_handler_defs = OnReadyToSend_def OnReadPacket_def rtp_OnRtpPacketReceived_def
  rtp_OnRtcpPacketReceived_def DemuxPacket_def rtp_OnNetworkRouteChanged_def
  rtp_OnWritableState_def OnSentPacket_def UpdateRtpHeaderExtensionMap_def

lemma ready_ok_rtp_call: "ready_ok t \<Longrightarrow> rtp_call U c t = Some t' \<Longrightarrow> ready_ok t'"
  by (induction U c t rule: rtp_call.induct)
    (auto simp: rtp_handler_defs Let_def intro!: inv_intros dest: ready_ok_SendPacket)

lemma slots_ok_rtp_call: "slots_ok t \<Longrightarrow> rtp_call U c t = Some t' \<Longrightarrow> slots_ok t'"
  by (induction U c t rule: rtp_call.induct)
    (auto simp: rtp_handler_defs Let_def intro!: inv_intros dest: slots_ok_SendPacket)

interpretation rtp_seq: call_run "rtp_call U" "rtp_run U" for U
  by unfold_locales simp_all

lemma ready_ok_rtp_run: "ready_ok t \<Longrightarrow> rtp_run U cs t = Some t' \<Longrightarrow> ready_ok t'"
  by (rule rtp_seq.run_keeps [where P = ready_ok, OF _ _ ready_ok_rtp_call])

lemma slots_ok_rtp_run: "slots_ok t \<Longrightarrow> rtp_run U cs t = Some t' \<Longrightarrow> slots_ok t'"
  by (rule rtp_seq.run_keeps [where P = slots_ok, OF _ _ slots_ok_rtp_call])

lemma new_RtpTransport_ok: "ready_ok (new_RtpTransport m)" "slots_ok (new_RtpTransport m)"
  by (simp_all add: ready_ok_def rdy.in_step_start ready_told_def ready_due_def slots_ok_def
      slots_def roles_def new_RtpTransport_def)

section \<open>Properties\<close>

text \<open>C18: From construction on and after any sequence of calls, whatever the network answers
  at each of them: the readiness last announced is the current one, it is exactly "RTP ready and
  (RTCP ready or RTCP muxed)", no announcement repeats the previous one, and the object's slots
  are connected to a packet transport once for each role the transport has, so nothing stays
  connected to a transport that was replaced.\<close>

theorem rtp_ready_and_slots_settled:
  assumes "rtp_run U cs (new_RtpTransport m) = Some t"
  shows "ready_to_send t
           = (rtp_ready_to_send t \<and> (rtcp_ready_to_send t \<or> rtcp_mux_enabled t))
    \<and> no_stutter (False # ready_told t) \<and> last (False # ready_told t) = ready_to_send t
    \<and> (\<forall>x. slots x t = of_bool (rtp_packet_transport t = Some x)
                      + of_bool (rtcp_packet_transport t = Some x))"
proof -
  have "ready_ok t"
    using ready_ok_rtp_run new_RtpTransport_ok assms by blast
  moreover have "slots_ok t"
    using slots_ok_rtp_run new_RtpTransport_ok assms by blast
  ultimately show ?thesis
    by (simp add: ready_ok_def ready_due_def rdy.in_step_def slots_ok_def roles_def)
qed

definition demo_net :: packet_net where
  "demo_net =
     \<lparr>net_writable = (\<lambda>x. x = 1), net_send = (\<lambda>x p. if x = 1 then int (length p) else -1),
      net_error = (\<lambda>_. 107), net_ENOTCONN = 107, net_route = (\<lambda>_. None),
      net_set_option = (\<lambda>_ _ _. 0), net_name = (\<lambda>_. ''t'')\<rparr>"

definition demo_util :: rtp_util where
  "demo_util =
     \<lparr>InferRtpPacketType = (\<lambda>d. if length d < 2 then kUnknown
                                 else if 200 \<le> d ! 1 \<and> d ! 1 < 210 then kRtcp else kRtp),
      IsValidRtpPacketSize = (\<lambda>k n. if k = kRtcp then 4 \<le> n else 12 \<le> n)\<rparr>"

definition demo_calls :: "(packet_net \<times> RtpCall) list" where
  "demo_calls = List.map (\<lambda>c. (demo_net, c))
     [CallSetRtpPacketTransport (Some 1), CallSetRtcpPacketTransport (Some 2), CallOnReadyToSend 2,
      CallSendPacket True [1, 2] 0, CallSetRtcpMuxEnabled True, CallOnWritableState]"

definition demo_transport :: RtpTransport where
  "demo_transport = the (rtp_run demo_util demo_calls (new_RtpTransport False))"

lemmas rtp_demo_defs = demo_net_def demo_util_def demo_calls_def new_RtpTransport_def emit_def
  SetRtpPacketTransport_def SetRtcpPacketTransport_def switch_slots_def transport_writable_def
  SetReadyToSend_def MaybeSignalReadyToSend_def rtp_SetRtcpMuxEnabled_def OnReadyToSend_def
  SendPacket_def transport_for_def rtp_OnWritableState_def IsTransportWritable_def

lemma demo_transport_value:
  "rtp_run demo_util demo_calls (new_RtpTransport False) = Some demo_transport"
  by (simp add: demo_transport_def rtp_demo_defs Let_def)

lemma demo_transport_news: "ready_told demo_transport = [True, False, True]"
  by (simp add: demo_transport_def rtp_demo_defs Let_def ready_told_def)

theorem rtp_ready_and_slots_settled_witness:
  "ready_told demo_transport = [True, False, True] \<and> ready_to_send demo_transport"
proof -
  have "last (False # ready_told demo_transport) = ready_to_send demo_transport"
    using rtp_ready_and_slots_settled [OF demo_transport_value] by blast
  then show ?thesis by (simp add: demo_transport_news)
qed

text \<open>The packets handed to the packet transports.\<close>

fun out_of :: "Signal \<Rightarrow> (tid \<times> byte list \<times> int) list" where
  "out_of (PacketOut x p flags) = [(x, p, flags)]"
| "out_of _ = []"

definition packets_out :: "'a RtpTransport_scheme \<Rightarrow> (tid \<times> byte list \<times> int) list" where
  "packets_out t = concat (List.map out_of (signals t))"

lemma packets_out_emit [simp]: "packets_out (emit x t) = packets_out t @ out_of x"
  by (simp add: packets_out_def)

lemma packets_out_SetReadyToSend [simp]: "packets_out (SetReadyToSend b r t) = packets_out t"
  by (simp add: SetReadyToSend_def MaybeSignalReadyToSend_def Let_def packets_out_def)

lemma ready_after_loss:
  assumes "ready_ok t"
  shows "ready_to_send (SetReadyToSend rtcp False t)
           = (ready_to_send t \<and> rtcp \<and> rtcp_mux_enabled t)"
  using assms
  by (auto simp: ready_ok_def ready_due_def SetReadyToSend_def MaybeSignalReadyToSend_def Let_def)

text \<open>A send needs the transport it selects, the RTCP one only when RTCP is not muxed, and
  dereferences it unchecked. The packet is handed to that transport exactly once, success is
  reported exactly when the transport took every byte, and the object stops being ready to send
  exactly on an ENOTCONN failure, except that losing the connection on muxed RTCP leaves it
  ready.\<close>

theorem rtp_send_outcome:
  assumes "ready_ok t"
  shows "(SendPacket N rtcp p flags t = None) = (transport_for rtcp t = None)
    \<and> (\<forall>b t'. SendPacket N rtcp p flags t = Some (b, t') \<longrightarrow>
         (\<exists>x. transport_for rtcp t = Some x
            \<and> packets_out t' = packets_out t @ [(x, p, flags)]
            \<and> b = (net_send N x p = int (length p))
            \<and> ready_to_send t' = (ready_to_send t
                 \<and> (b \<or> net_error N x \<noteq> net_ENOTCONN N \<or> rtcp \<and> rtcp_mux_enabled t))))"
proof (cases "transport_for rtcp t")
  case None
  then show ?thesis by (simp add: SendPacket_def)
next
  case (Some x)
  have "ready_ok (emit (PacketOut x p flags) t)" using assms by (simp add: ready_ok_emit)
  from ready_after_loss [OF this] Some show ?thesis
    by (auto simp: SendPacket_def Let_def split: if_splits)
qed

theorem rtp_send_outcome_witness:
  "\<exists>t'. SendPacket (demo_net\<lparr>net_send := \<lambda>_ _. -1\<rparr>) True [1] 0 demo_transport = Some (False, t')
     \<and> ready_to_send t'"
proof -
  have t: "ready_ok demo_transport" "ready_to_send demo_transport" "rtcp_mux_enabled demo_transport"
    "transport_for True demo_transport = Some 1"
    by (simp_all add: demo_transport_def rtp_demo_defs Let_def ready_ok_def ready_due_def
        ready_told_def rdy.in_step_def)
  then show ?thesis
    using rtp_send_outcome [OF t(1), of "demo_net\<lparr>net_send := \<lambda>_ _. -1\<rparr>" True "[1]" 0]
    by (cases "SendPacket (demo_net\<lparr>net_send := \<lambda>_ _. -1\<rparr>) True [1] 0 demo_transport") auto
qed

end
