(* ===== verification/SrtpTransport.thy ===== *)
theory SrtpTransport
  imports SrtpSession RtpTransport
begin

text \<open>
  The SRTP transport (srtp_transport.cpp, srtp_transport.h): the RTP transport with up to four
  SRTP sessions, keyed either from SDES parameters or by the DTLS layer above.

  The record extends \<open>RtpTransport\<close> and is extended by the DTLS-SRTP transport. Operations that
  create, key or destroy sessions thread the process-wide libsrtp state. What the code takes from
  rtc_base (cipher suite names, key lengths, base64, a fresh buffer) is the record \<open>key_util\<close>;
  \<open>ku_buffer n\<close> is the content a buffer of n bytes has before it is written. The flag
  ENABLE_EXTERNAL_AUTH is not set by the build, so sending takes the plain branch.
\<close>

section \<open>Parameters and state\<close>

record CryptoParams =
  cipher_suite :: string
  key_params :: string

record key_util =
  ku_suite_from_name :: "string \<Rightarrow> int"
  ku_invalid_suite :: int
  ku_key_salt_lengths :: "int \<Rightarrow> (nat \<times> nat) option"
  ku_base64_strict :: "string \<Rightarrow> byte list option"
  ku_buffer :: "nat \<Rightarrow> byte list"

record SrtpTransport = RtpTransport +
  send_session :: "SrtpSession option"
  recv_session :: "SrtpSession option"
  send_rtcp_session :: "SrtpSession option"
  recv_rtcp_session :: "SrtpSession option"
  send_params :: "CryptoParams option"
  recv_params :: "CryptoParams option"
  send_cipher_suite :: "int option"
  recv_cipher_suite :: "int option"
  send_key :: "byte list"
  recv_key :: "byte list"
  srtp_writable :: bool
  external_auth_enabled :: bool
  rtp_abs_sendtime_extn_id :: int
  decryption_failure_count :: int

section \<open>Activity and writability\<close>

definition IsSrtpActive :: "'a SrtpTransport_scheme \<Rightarrow> bool" where
  "IsSrtpActive t \<longleftrightarrow> send_session t \<noteq> None \<and> recv_session t \<noteq> None"

definition srtp_IsWritable :: "packet_net \<Rightarrow> bool \<Rightarrow> 'a SrtpTransport_scheme \<Rightarrow> bool" where
  "srtp_IsWritable N rtcp t \<longleftrightarrow> IsSrtpActive t \<and> rtp_IsWritable N rtcp t"

definition MaybeUpdateWritableState ::
    "packet_net \<Rightarrow> 'a SrtpTransport_scheme \<Rightarrow> 'a SrtpTransport_scheme" where
  "MaybeUpdateWritableState N t =
     (let writable = srtp_IsWritable N True t \<and> srtp_IsWritable N False t
      in if srtp_writable t \<noteq> writable
         then emit (SigWritableState writable) (t\<lparr>srtp_writable := writable\<rparr>)
         else t)"

definition srtp_OnWritableState ::
    "packet_net \<Rightarrow> 'a SrtpTransport_scheme \<Rightarrow> 'a SrtpTransport_scheme" where
  "srtp_OnWritableState N t =
     emit (SigWritableState (srtp_IsWritable N False t \<and> srtp_IsWritable N True t)) t"

section \<open>Sessions\<close>

text \<open>Assigning null to an owning pointer destroys the session it held.\<close>

definition drop_session :: "'w srtp_lib \<Rightarrow> SrtpSession option \<Rightarrow> 'w srtp_global \<Rightarrow> 'w srtp_global"
  where
  "drop_session L so g = (case so of None \<Rightarrow> g | Some s \<Rightarrow> destroy_SrtpSession L s g)"

definition ResetParams ::
    "'w srtp_lib \<Rightarrow> packet_net \<Rightarrow> 'a SrtpTransport_scheme \<Rightarrow> 'w srtp_global
     \<Rightarrow> 'a SrtpTransport_scheme \<times> 'w srtp_global" where
  "ResetParams L N t g =
     (let g1 = drop_session L (send_session t) g;
          g2 = drop_session L (recv_session t) g1;
          g3 = drop_session L (send_rtcp_session t) g2;
          g4 = drop_session L (recv_rtcp_session t) g3
      in (MaybeUpdateWritableState N
            (t\<lparr>send_session := None, recv_session := None,
               send_rtcp_session := None, recv_rtcp_session := None\<rparr>), g4))"

definition CreateSrtpSessions ::
    "'w srtp_lib \<Rightarrow> 'a SrtpTransport_scheme \<Rightarrow> 'w srtp_global
     \<Rightarrow> 'a SrtpTransport_scheme \<times> 'w srtp_global" where
  "CreateSrtpSessions L t g =
     (let g1 = drop_session L (recv_session t) (drop_session L (send_session t) g);
          s = (if external_auth_enabled t then sess_EnableExternalAuth new_SrtpSession
               else new_SrtpSession)
      in (t\<lparr>send_session := Some s, recv_session := Some new_SrtpSession\<rparr>, g1))"

text \<open>
  \<open>sk\<close> and \<open>rk\<close> are the key buffers. A session pointer used without a check is the session it
  points to; where it is null the operation is never reached (\<open>recv_session\<close> is set whenever
  \<open>send_session\<close> is), and the model takes a fresh session there.
\<close>

definition session_of :: "SrtpSession option \<Rightarrow> SrtpSession" where
  "session_of so = (case so of None \<Rightarrow> new_SrtpSession | Some s \<Rightarrow> s)"

definition SetRtpParams ::
    "'w srtp_lib \<Rightarrow> packet_net \<Rightarrow> int \<Rightarrow> byte list \<Rightarrow> int list \<Rightarrow> int \<Rightarrow> byte list \<Rightarrow> int list
     \<Rightarrow> 'a SrtpTransport_scheme \<Rightarrow> 'w srtp_global
     \<Rightarrow> bool \<times> 'a SrtpTransport_scheme \<times> 'w srtp_global" where
  "SetRtpParams L N scs sk sext rcs rk rext t g =
     (let new_sessions = (send_session t = None);
          (t1, g1) = (if new_sessions then CreateSrtpSessions L t g else (t, g));
          (ret, s, g2) = (if new_sessions
                          then SetSend L scs (Some sk) sext (session_of (send_session t1)) g1
                          else UpdateSend L scs (Some sk) sext (session_of (send_session t1)) g1);
          t2 = t1\<lparr>send_session := Some s\<rparr>
      in if \<not> ret then (False, ResetParams L N t2 g2)
         else
           (let (ret, r, g3) =
                  (if new_sessions
                   then SetRecv L rcs (Some rk) rext (session_of (recv_session t2)) g2
                   else UpdateRecv L rcs (Some rk) rext (session_of (recv_session t2)) g2);
                t3 = t2\<lparr>recv_session := Some r\<rparr>
            in if \<not> ret then (False, ResetParams L N t3 g3)
               else (True, MaybeUpdateWritableState N t3, g3)))"

definition SetRtcpParams ::
    "'w srtp_lib \<Rightarrow> packet_net \<Rightarrow> int \<Rightarrow> byte list \<Rightarrow> int list \<Rightarrow> int \<Rightarrow> byte list \<Rightarrow> int list
     \<Rightarrow> 'a SrtpTransport_scheme \<Rightarrow> 'w srtp_global
     \<Rightarrow> bool \<times> 'a SrtpTransport_scheme \<times> 'w srtp_global" where
  "SetRtcpParams L N scs sk sext rcs rk rext t g =
     (if send_rtcp_session t \<noteq> None \<or> recv_rtcp_session t \<noteq> None then (False, t, g)
      else
        (let (ret, s, g1) = SetSend L scs (Some sk) sext new_SrtpSession g;
             t1 = t\<lparr>send_rtcp_session := Some s\<rparr>
         in if \<not> ret then (False, t1, g1)
            else
              (let (ret, r, g2) = SetRecv L rcs (Some rk) rext new_SrtpSession g1;
                   t2 = t1\<lparr>recv_rtcp_session := Some r\<rparr>
               in if \<not> ret then (False, t2, g2)
                  else (True, MaybeUpdateWritableState N t2, g2))))"

section \<open>Keys from SDES parameters\<close>

definition ParseKeyParams :: "key_util \<Rightarrow> string \<Rightarrow> nat \<Rightarrow> byte list option" where
  "ParseKeyParams K params len =
     (if take 7 params \<noteq> ''inline:'' then None
      else case ku_base64_strict K (drop 7 params) of
             None \<Rightarrow> None
           | Some k \<Rightarrow> if length k \<noteq> len then None else Some k)"

definition MaybeSetKeyParams ::
    "'w srtp_lib \<Rightarrow> packet_net \<Rightarrow> 'a SrtpTransport_scheme \<Rightarrow> 'w srtp_global
     \<Rightarrow> bool \<times> 'a SrtpTransport_scheme \<times> 'w srtp_global" where
  "MaybeSetKeyParams L N t g =
     (case (send_cipher_suite t, recv_cipher_suite t) of
        (Some scs, Some rcs) \<Rightarrow> SetRtpParams L N scs (send_key t) [] rcs (recv_key t) [] t g
      | _ \<Rightarrow> (True, t, g))"

definition SetSrtpSendKey ::
    "'w srtp_lib \<Rightarrow> packet_net \<Rightarrow> key_util \<Rightarrow> CryptoParams
     \<Rightarrow> 'a SrtpTransport_scheme \<Rightarrow> 'w srtp_global
     \<Rightarrow> RTCError \<times> 'a SrtpTransport_scheme \<times> 'w srtp_global" where
  "SetSrtpSendKey L N K params t g =
     (if send_params t \<noteq> None then
        (RTCErr UNSUPPORTED_OPERATION
           ''Setting the SRTP send key twice is currently unsupported.'', t, g)
      else if recv_params t \<noteq> None \<and> cipher_suite (the (recv_params t)) \<noteq> cipher_suite params then
        (RTCErr UNSUPPORTED_OPERATION
           ''The send key and receive key must have the same cipher suite.'', t, g)
      else
        (let cs = ku_suite_from_name K (cipher_suite params);
             t1 = t\<lparr>send_cipher_suite := Some cs\<rparr>
         in if cs = ku_invalid_suite K then
              (RTCErr INVALID_PARAMETER ''Invalid SRTP crypto suite'', t1, g)
            else case ku_key_salt_lengths K cs of
              None \<Rightarrow> (RTCErr INVALID_PARAMETER
                        ''Could not get lengths for crypto suite(s): send cipher_suite '', t1, g)
            | Some (key_len, salt_len) \<Rightarrow>
                (case ParseKeyParams K (key_params params) (key_len + salt_len) of
                   None \<Rightarrow> (RTCErr INVALID_PARAMETER ''Failed to parse the crypto key params'',
                             t1\<lparr>send_key := ku_buffer K (key_len + salt_len)\<rparr>, g)
                 | Some k \<Rightarrow>
                     (case MaybeSetKeyParams L N (t1\<lparr>send_key := k\<rparr>) g of
                        (False, t2, g2) \<Rightarrow>
                          (RTCErr INVALID_PARAMETER ''Failed to set the crypto key params'', t2, g2)
                      | (True, t2, g2) \<Rightarrow> (OK, t2\<lparr>send_params := Some params\<rparr>, g2)))))"

definition SetSrtpReceiveKey ::
    "'w srtp_lib \<Rightarrow> packet_net \<Rightarrow> key_util \<Rightarrow> CryptoParams
     \<Rightarrow> 'a SrtpTransport_scheme \<Rightarrow> 'w srtp_global
     \<Rightarrow> RTCError \<times> 'a SrtpTransport_scheme \<times> 'w srtp_global" where
  "SetSrtpReceiveKey L N K params t g =
     (if recv_params t \<noteq> None then
        (RTCErr UNSUPPORTED_OPERATION
           ''Setting the SRTP send key twice is currently unsupported.'', t, g)
      else if send_params t \<noteq> None \<and> cipher_suite (the (send_params t)) \<noteq> cipher_suite params then
        (RTCErr UNSUPPORTED_OPERATION
           ''The send key and receive key must have the same cipher suite.'', t, g)
      else
        (let cs = ku_suite_from_name K (cipher_suite params);
             t1 = t\<lparr>recv_cipher_suite := Some cs\<rparr>
         in if cs = ku_invalid_suite K then
              (RTCErr INVALID_PARAMETER ''Invalid SRTP crypto suite'', t1, g)
            else case ku_key_salt_lengths K cs of
              None \<Rightarrow> (RTCErr INVALID_PARAMETER
                        ''Could not get lengths for crypto suite(s): recv cipher_suite '', t1, g)
            | Some (key_len, salt_len) \<Rightarrow>
                (case ParseKeyParams K (key_params params) (key_len + salt_len) of
                   None \<Rightarrow> (RTCErr INVALID_PARAMETER ''Failed to parse the crypto key params'',
                             t1\<lparr>recv_key := ku_buffer K (key_len + salt_len)\<rparr>, g)
                 | Some k \<Rightarrow>
                     (case MaybeSetKeyParams L N (t1\<lparr>recv_key := k\<rparr>) g of
                        (False, t2, g2) \<Rightarrow>
                          (RTCErr INVALID_PARAMETER ''Failed to set the crypto key params'', t2, g2)
                      | (True, t2, g2) \<Rightarrow> (OK, t2\<lparr>recv_params := Some params\<rparr>, g2)))))"

section \<open>Protection\<close>

definition ProtectRtp ::
    "'w srtp_lib \<Rightarrow> byte list \<Rightarrow> int \<Rightarrow> 'a SrtpTransport_scheme \<Rightarrow> 'w srtp_global
     \<Rightarrow> bool \<times> byte list \<times> 'a SrtpTransport_scheme \<times> 'w srtp_global" where
  "ProtectRtp L p max_len t g =
     (if \<not> IsSrtpActive t then (False, p, t, g)
      else case sess_ProtectRtp L p max_len (session_of (send_session t)) g of
             (b, p', s, g') \<Rightarrow> (b, p', t\<lparr>send_session := Some s\<rparr>, g'))"

definition ProtectRtp_index ::
    "'w srtp_lib \<Rightarrow> byte list \<Rightarrow> int \<Rightarrow> 'a SrtpTransport_scheme \<Rightarrow> 'w srtp_global
     \<Rightarrow> (bool \<times> (64 word) option) \<times> byte list \<times> 'a SrtpTransport_scheme \<times> 'w srtp_global" where
  "ProtectRtp_index L p max_len t g =
     (if \<not> IsSrtpActive t then ((False, None), p, t, g)
      else case sess_ProtectRtp_index L p max_len (session_of (send_session t)) g of
             (b, p', s, g') \<Rightarrow> (b, p', t\<lparr>send_session := Some s\<rparr>, g'))"

definition ProtectRtcp ::
    "'w srtp_lib \<Rightarrow> byte list \<Rightarrow> int \<Rightarrow> 'a SrtpTransport_scheme \<Rightarrow> 'w srtp_global
     \<Rightarrow> bool \<times> byte list \<times> 'a SrtpTransport_scheme \<times> 'w srtp_global" where
  "ProtectRtcp L p max_len t g =
     (if \<not> IsSrtpActive t then (False, p, t, g)
      else case send_rtcp_session t of
             Some s0 \<Rightarrow>
               (case sess_ProtectRtcp L p max_len s0 g of
                  (b, p', s, g') \<Rightarrow> (b, p', t\<lparr>send_rtcp_session := Some s\<rparr>, g'))
           | None \<Rightarrow>
               (case sess_ProtectRtcp L p max_len (session_of (send_session t)) g of
                  (b, p', s, g') \<Rightarrow> (b, p', t\<lparr>send_session := Some s\<rparr>, g')))"

definition UnprotectRtp ::
    "'w srtp_lib \<Rightarrow> byte list \<Rightarrow> 'a SrtpTransport_scheme \<Rightarrow> 'w srtp_global
     \<Rightarrow> bool \<times> byte list \<times> 'a SrtpTransport_scheme \<times> 'w srtp_global" where
  "UnprotectRtp L p t g =
     (if \<not> IsSrtpActive t then (False, p, t, g)
      else case sess_UnprotectRtp L p (session_of (recv_session t)) g of
             (b, p', s, g') \<Rightarrow> (b, p', t\<lparr>recv_session := Some s\<rparr>, g'))"

definition UnprotectRtcp ::
    "'w srtp_lib \<Rightarrow> byte list \<Rightarrow> 'a SrtpTransport_scheme \<Rightarrow> 'w srtp_global
     \<Rightarrow> bool \<times> byte list \<times> 'a SrtpTransport_scheme \<times> 'w srtp_global" where
  "UnprotectRtcp L p t g =
     (if \<not> IsSrtpActive t then (False, p, t, g)
      else case recv_rtcp_session t of
             Some s0 \<Rightarrow>
               (case sess_UnprotectRtcp L p s0 g of
                  (b, p', s, g') \<Rightarrow> (b, p', t\<lparr>recv_rtcp_session := Some s\<rparr>, g'))
           | None \<Rightarrow>
               (case sess_UnprotectRtcp L p (session_of (recv_session t)) g of
                  (b, p', s, g') \<Rightarrow> (b, p', t\<lparr>recv_session := Some s\<rparr>, g')))"

definition GetRtpAuthParams ::
    "'w srtp_lib \<Rightarrow> 'a SrtpTransport_scheme \<Rightarrow> 'w srtp_global \<Rightarrow> (byte list \<times> int) option" where
  "GetRtpAuthParams L t g =
     (if \<not> IsSrtpActive t then None
      else sess_GetRtpAuthParams L (session_of (send_session t)) g)"

definition GetSrtpOverhead :: "'a SrtpTransport_scheme \<Rightarrow> int option" where
  "GetSrtpOverhead t =
     (if \<not> IsSrtpActive t then None
      else Some (sess_GetSrtpOverhead (session_of (send_session t))))"

definition EnableExternalAuth :: "'a SrtpTransport_scheme \<Rightarrow> 'a SrtpTransport_scheme" where
  "EnableExternalAuth t = t\<lparr>external_auth_enabled := True\<rparr>"

definition IsExternalAuthActive :: "'a SrtpTransport_scheme \<Rightarrow> bool" where
  "IsExternalAuthActive t \<longleftrightarrow>
     IsSrtpActive t \<and> sess_IsExternalAuthActive (session_of (send_session t))"

section \<open>Sending and receiving\<close>

text \<open>\<open>None\<close> is the crash on a null packet transport, as for \<open>SendPacket\<close>.\<close>

definition srtp_SendRtpPacket ::
    "'w srtp_lib \<Rightarrow> packet_net \<Rightarrow> byte list \<Rightarrow> int \<Rightarrow> int
     \<Rightarrow> 'a SrtpTransport_scheme \<Rightarrow> 'w srtp_global
     \<Rightarrow> (bool \<times> 'a SrtpTransport_scheme \<times> 'w srtp_global) option" where
  "srtp_SendRtpPacket L N packet capacity flags t g =
     (if \<not> IsSrtpActive t then Some (False, t, g)
      else case ProtectRtp L packet capacity t g of
             (False, _, t1, g1) \<Rightarrow> Some (False, t1, g1)
           | (True, packet', t1, g1) \<Rightarrow>
               map_option (\<lambda>(b, t2). (b, t2, g1)) (SendPacket N False packet' flags t1))"

definition srtp_SendRtcpPacket ::
    "'w srtp_lib \<Rightarrow> packet_net \<Rightarrow> byte list \<Rightarrow> int \<Rightarrow> int
     \<Rightarrow> 'a SrtpTransport_scheme \<Rightarrow> 'w srtp_global
     \<Rightarrow> (bool \<times> 'a SrtpTransport_scheme \<times> 'w srtp_global) option" where
  "srtp_SendRtcpPacket L N packet capacity flags t g =
     (if \<not> IsSrtpActive t then Some (False, t, g)
      else case ProtectRtcp L packet capacity t g of
             (False, _, t1, g1) \<Rightarrow> Some (False, t1, g1)
           | (True, packet', t1, g1) \<Rightarrow>
               map_option (\<lambda>(b, t2). (b, t2, g1)) (SendPacket N True packet' flags t1))"

definition srtp_OnRtpPacketReceived ::
    "'w srtp_lib \<Rightarrow> byte list \<Rightarrow> int \<Rightarrow> 'a SrtpTransport_scheme \<times> 'w srtp_global
     \<Rightarrow> 'a SrtpTransport_scheme \<times> 'w srtp_global" where
  "srtp_OnRtpPacketReceived L packet packet_time_us tg =
     (case tg of (t, g) \<Rightarrow>
        if \<not> IsSrtpActive t then (t, g)
        else case UnprotectRtp L packet t g of
               (False, _, t1, g1) \<Rightarrow>
                 (t1\<lparr>decryption_failure_count := decryption_failure_count t1 + 1\<rparr>, g1)
             | (True, packet', t1, g1) \<Rightarrow> (DemuxPacket packet' packet_time_us t1, g1))"

definition srtp_OnRtcpPacketReceived ::
    "'w srtp_lib \<Rightarrow> byte list \<Rightarrow> int \<Rightarrow> 'a SrtpTransport_scheme \<times> 'w srtp_global
     \<Rightarrow> 'a SrtpTransport_scheme \<times> 'w srtp_global" where
  "srtp_OnRtcpPacketReceived L packet packet_time_us tg =
     (case tg of (t, g) \<Rightarrow>
        if \<not> IsSrtpActive t then (t, g)
        else case UnprotectRtcp L packet t g of
               (False, _, t1, g1) \<Rightarrow> (t1, g1)
             | (True, packet', t1, g1) \<Rightarrow>
                 (emit (SigRtcpPacketReceived packet' packet_time_us) t1, g1))"

definition srtp_OnNetworkRouteChanged ::
    "route option \<Rightarrow> 'a SrtpTransport_scheme \<Rightarrow> 'a SrtpTransport_scheme" where
  "srtp_OnNetworkRouteChanged ro t =
     emit (SigNetworkRouteChanged
             (map_option
                (\<lambda>r. r\<lparr>packet_overhead := packet_overhead r
                         + (case GetSrtpOverhead t of None \<Rightarrow> 0 | Some n \<Rightarrow> n)\<rparr>) ro)) t"

section \<open>What the operations leave alone\<close>

text \<open>The four sessions together, and the count of library users they hold.\<close>

definition sessions ::
    "'a SrtpTransport_scheme
     \<Rightarrow> SrtpSession option \<times> SrtpSession option \<times> SrtpSession option \<times> SrtpSession option" where
  "sessions t = (send_session t, recv_session t, send_rtcp_session t, recv_rtcp_session t)"

fun four_held ::
    "SrtpSession option \<times> SrtpSession option \<times> SrtpSession option \<times> SrtpSession option \<Rightarrow> int"
  where
  "four_held (a, b, c, d) = sess_res.weight_opt a + sess_res.weight_opt b
     + sess_res.weight_opt c + sess_res.weight_opt d"

definition held :: "'a SrtpTransport_scheme \<Rightarrow> int" where
  "held t = four_held (sessions t)"

fun keyed :: "SrtpSession option \<Rightarrow> bool" where
  "keyed None = True"
| "keyed (Some s) = (sess_handle s \<noteq> None \<and> sess_inited s)"

text \<open>The two main sessions exist together and hold a libsrtp context.\<close>

definition srtp_ok :: "'a SrtpTransport_scheme \<Rightarrow> bool" where
  "srtp_ok t \<longleftrightarrow> (send_session t = None) = (recv_session t = None)
     \<and> keyed (send_session t) \<and> keyed (recv_session t)"

lemma drop_session_eq: "drop_session L = sess_res.drop_opt L"
  by (simp add: fun_eq_iff drop_session_def sess_res.drop_opt_def)

lemma usage_count_drop_session [simp]:
  "usage_count (drop_session L so g) = usage_count g - sess_res.weight_opt so"
  by (simp add: drop_session_eq sess_res.drop_opt_counter)

lemma weight_opt_simps [simp]:
  "sess_res.weight_opt None = 0"
  "sess_res.weight_opt (Some s) = sess_weight s"
  "sess_weight new_SrtpSession = 0"
  "sess_weight (sess_EnableExternalAuth s) = sess_weight s"
  by (simp_all add: sess_res.weight_opt_def sess_weight_def new_SrtpSession_def
      sess_EnableExternalAuth_def)

lemma sessions_emit [simp]: "sessions (emit x t) = sessions t"
  by (simp add: emit_def sessions_def)

lemma sessions_ready [simp]:
  "sessions (SetReadyToSend b r t) = sessions t"
  "sessions (rtp_SetRtcpMuxEnabled e t) = sessions t"
  by (simp_all add: SetReadyToSend_def rtp_SetRtcpMuxEnabled_def MaybeSignalReadyToSend_def
      emit_def sessions_def Let_def)

lemma sessions_switch [simp]: "sessions (switch_slots N old new t) = sessions t"
  by (simp add: switch_slots_def emit_def sessions_def Let_def split: option.splits)

lemma sessions_cong [simp]:
  "sessions (t\<lparr>srtp_writable := w\<rparr>) = sessions t"
  "sessions (t\<lparr>decryption_failure_count := n\<rparr>) = sessions t"
  "sessions (t\<lparr>send_cipher_suite := c\<rparr>) = sessions t"
  "sessions (t\<lparr>recv_cipher_suite := c\<rparr>) = sessions t"
  "sessions (t\<lparr>send_key := k\<rparr>) = sessions t"
  "sessions (t\<lparr>recv_key := k\<rparr>) = sessions t"
  "sessions (t\<lparr>send_params := pr\<rparr>) = sessions t"
  "sessions (t\<lparr>recv_params := pr\<rparr>) = sessions t"
  "sessions (t\<lparr>external_auth_enabled := e\<rparr>) = sessions t"
  "sessions (t\<lparr>rtp_packet_transport := x\<rparr>) = sessions t"
  "sessions (t\<lparr>rtcp_packet_transport := x\<rparr>) = sessions t"
  "sessions (t\<lparr>header_extension_map := h\<rparr>) = sessions t"
  by (simp_all add: sessions_def)

lemma sessions_set [simp]:
  "sessions (SetRtpPacketTransport N x t) = sessions t"
  "sessions (SetRtcpPacketTransport N x t) = sessions t"
  by (simp_all add: SetRtpPacketTransport_def SetRtcpPacketTransport_def)

lemma sessions_MaybeUpdate [simp]: "sessions (MaybeUpdateWritableState N t) = sessions t"
  by (simp add: MaybeUpdateWritableState_def Let_def)

lemma sessions_SendPacket [frame]:
  "SendPacket N rtcp p f t = Some (b, t') \<Longrightarrow> sessions t' = sessions t"
  by (auto simp: SendPacket_def Let_def split: option.splits if_splits)

lemma sessions_cong_pred:
  assumes "sessions t' = sessions t"
  shows "held t' = held t" "srtp_ok t' = srtp_ok t" "IsSrtpActive t' = IsSrtpActive t"
  using assms by (simp_all add: held_def srtp_ok_def IsSrtpActive_def sessions_def)

section \<open>Accounting\<close>

text \<open>The users in the count that are not this transport's own.\<close>

definition others :: "'a SrtpTransport_scheme \<times> 'w srtp_global \<Rightarrow> int" where
  "others tg = usage_count (snd tg) - held (fst tg)"

lemma others_frame: "sessions t' = sessions t \<Longrightarrow> others (t', g) = others (t, g)"
  by (simp add: others_def held_def)

lemma ResetParams_inv:
  assumes "ResetParams L N t g = (t', g')"
  shows "others (t', g') = others (t, g) \<and> srtp_ok t' \<and> \<not> IsSrtpActive t'
    \<and> sessions t' = (None, None, None, None)"
proof -
  let ?u = "t\<lparr>send_session := None, recv_session := None, send_rtcp_session := None,
      recv_rtcp_session := None\<rparr>"
  have "t' = MaybeUpdateWritableState N ?u" using assms by (simp add: ResetParams_def Let_def)
  then have "sessions t' = sessions ?u" by (simp only: sessions_MaybeUpdate)
  then have s: "sessions t' = (None, None, None, None)" by (simp add: sessions_def)
  then have "srtp_ok t'" "\<not> IsSrtpActive t'" "held t' = 0"
    by (simp_all add: srtp_ok_def IsSrtpActive_def held_def sessions_def)
  moreover have "usage_count g' = usage_count g - held t"
    using assms by (auto simp: ResetParams_def Let_def held_def sessions_def)
  ultimately show ?thesis using s by (simp add: others_def)
qed

lemma SetKey_acc:
  assumes "SetKey L ty cs k e s g = (b, s', g')" "\<not> sess_inited s"
  shows "usage_count g' - sess_weight s' = usage_count g \<and> (b \<longrightarrow> keyed (Some s'))"
  using SetKey_balance [OF assms] SetKey_handle [OF assms(1)] by simp

lemma UpdateKey_acc:
  assumes "UpdateKey L ty cs k e s g = (b, s', g')"
  shows "usage_count g' - sess_weight s' = usage_count g - sess_weight s
     \<and> (keyed (Some s) \<longrightarrow> keyed (Some s'))"
  using UpdateKey_balance [OF assms] by (simp add: sess_weight_def)

lemma session_acc:
  "SetSend L cs k e s g = (b, s', g') \<Longrightarrow> \<not> sess_inited s \<Longrightarrow>
     usage_count g' - sess_weight s' = usage_count g \<and> (b \<longrightarrow> keyed (Some s'))"
  "SetRecv L cs k e s g = (b, s', g') \<Longrightarrow> \<not> sess_inited s \<Longrightarrow>
     usage_count g' - sess_weight s' = usage_count g \<and> (b \<longrightarrow> keyed (Some s'))"
  "UpdateSend L cs k e s g = (b, s', g') \<Longrightarrow>
     usage_count g' - sess_weight s' = usage_count g - sess_weight s
     \<and> (keyed (Some s) \<longrightarrow> keyed (Some s'))"
  "UpdateRecv L cs k e s g = (b, s', g') \<Longrightarrow>
     usage_count g' - sess_weight s' = usage_count g - sess_weight s
     \<and> (keyed (Some s) \<longrightarrow> keyed (Some s'))"
  unfolding SetSend_def SetRecv_def UpdateSend_def UpdateRecv_def
  by (erule (1) SetKey_acc, erule (1) SetKey_acc, erule UpdateKey_acc, erule UpdateKey_acc)

lemma new_session_fresh [simp]:
  "\<not> sess_inited new_SrtpSession" "\<not> sess_inited (sess_EnableExternalAuth new_SrtpSession)"
  by (simp_all add: new_SrtpSession_def sess_EnableExternalAuth_def)

lemma CreateSrtpSessions_result:
  assumes "CreateSrtpSessions L t g = (t1, g1)" "send_session t = None" "srtp_ok t"
  shows "\<exists>s. send_session t1 = Some s \<and> \<not> sess_inited s \<and> sess_weight s = 0
      \<and> recv_session t1 = Some new_SrtpSession
      \<and> send_rtcp_session t1 = send_rtcp_session t \<and> recv_rtcp_session t1 = recv_rtcp_session t
      \<and> usage_count g1 = usage_count g"
  using assms by (auto simp: CreateSrtpSessions_def Let_def srtp_ok_def)

text \<open>Both parameter setters keep the accounts and, for the main sessions, the shape.\<close>

lemma others_set:
  "send_session t = Some s \<Longrightarrow>
     others (t\<lparr>send_session := Some s'\<rparr>, g) = others (t, g) + sess_weight s - sess_weight s'"
  "recv_session t = Some s \<Longrightarrow>
     others (t\<lparr>recv_session := Some s'\<rparr>, g) = others (t, g) + sess_weight s - sess_weight s'"
  "others (t, g') = others (t, g) + usage_count g' - usage_count g"
  by (simp_all add: others_def held_def sessions_def)

lemma SetRtpParams_inv:
  assumes "SetRtpParams L N scs sk sext rcs rk rext t g = (b, t', g')" "srtp_ok t"
  shows "others (t', g') = others (t, g) \<and> srtp_ok t' \<and> IsSrtpActive t' = b"
proof -
  define new where "new \<longleftrightarrow> send_session t = None"
  obtain t1 g1 where c: "(if new then CreateSrtpSessions L t g else (t, g)) = (t1, g1)"
    by fastforce
  obtain s r where sr: "send_session t1 = Some s" "recv_session t1 = Some r"
    and fresh: "new \<longrightarrow> \<not> sess_inited s \<and> \<not> sess_inited r"
    and old: "\<not> new \<longrightarrow> keyed (Some s) \<and> keyed (Some r)"
    and o1: "others (t1, g1) = others (t, g)"
  proof (cases new)
    case True
    with c CreateSrtpSessions_result [of L t g t1 g1] assms(2) that show ?thesis
      by (fastforce simp: new_def others_def held_def sessions_def srtp_ok_def)
  next
    case False
    with c assms(2) that show ?thesis by (auto simp: new_def srtp_ok_def)
  qed
  obtain ret s2 g2 where s2: "(if new then SetSend L scs (Some sk) sext s g1
      else UpdateSend L scs (Some sk) sext s g1) = (ret, s2, g2)" by (metis prod_cases3)
  have a2: "usage_count g2 - sess_weight s2 = usage_count g1 - sess_weight s"
    and k2: "ret \<longrightarrow> keyed (Some s2)"
    using s2 fresh old session_acc(1) [of L scs "Some sk" sext s g1 ret s2 g2]
      session_acc(3) [of L scs "Some sk" sext s g1 ret s2 g2]
    by (auto simp: sess_weight_def split: if_splits)
  obtain ret3 r3 g3 where r3: "(if new then SetRecv L rcs (Some rk) rext r g2
      else UpdateRecv L rcs (Some rk) rext r g2) = (ret3, r3, g3)" by (metis prod_cases3)
  have a3: "usage_count g3 - sess_weight r3 = usage_count g2 - sess_weight r"
    and k3: "ret3 \<longrightarrow> keyed (Some r3)"
    using r3 fresh old session_acc(2) [of L rcs "Some rk" rext r g2 ret3 r3 g3]
      session_acc(4) [of L rcs "Some rk" rext r g2 ret3 r3 g3]
    by (auto simp: sess_weight_def split: if_splits)
  let ?t2 = "t1\<lparr>send_session := Some s2\<rparr>"
  let ?t3 = "?t2\<lparr>recv_session := Some r3\<rparr>"
  have o2: "others (?t2, g2) = others (t, g)"
    using a2 o1 sr by (simp add: others_def held_def sessions_def)
  have o3: "others (?t3, g3) = others (t, g)"
    using a2 a3 o1 sr by (simp add: others_def held_def sessions_def)
  have res: "(b, t', g') =
     (if \<not> ret then (False, ResetParams L N ?t2 g2)
      else if \<not> ret3 then (False, ResetParams L N ?t3 g3)
      else (True, MaybeUpdateWritableState N ?t3, g3))"
    using assms(1) c s2 r3 sr
    by (simp add: SetRtpParams_def new_def Let_def session_of_def split: if_splits)
  show ?thesis
  proof (cases "ret \<and> ret3")
    case True
    then have "t' = MaybeUpdateWritableState N ?t3" "b" "g' = g3" using res by simp_all
    moreover from this have "sessions t' = sessions ?t3" by simp
    moreover have "srtp_ok ?t3" "IsSrtpActive ?t3" using k2 k3 True by (simp_all add: srtp_ok_def IsSrtpActive_def)
    ultimately show ?thesis using o3 sessions_cong_pred others_frame by metis
  next
    case False
    then show ?thesis using res o2 o3 ResetParams_inv by (metis Pair_inject)
  qed
qed

lemma SetRtpParams_rtcp:
  assumes "SetRtpParams L N scs sk sext rcs rk rext t g = (True, t', g')"
  shows "send_rtcp_session t' = send_rtcp_session t \<and> recv_rtcp_session t' = recv_rtcp_session t"
proof -
  have m: "send_rtcp_session (MaybeUpdateWritableState N u) = send_rtcp_session u"
    "recv_rtcp_session (MaybeUpdateWritableState N u) = recv_rtcp_session u" for u
    using sessions_MaybeUpdate [of N u] by (simp_all add: sessions_def)
  from assms show ?thesis
    by (auto simp: SetRtpParams_def CreateSrtpSessions_def Let_def m split: if_splits prod.splits)
qed

lemma SetRtcpParams_inv:
  assumes "SetRtcpParams L N scs sk sext rcs rk rext t g = (b, t', g')"
  shows "others (t', g') = others (t, g) \<and> send_session t' = send_session t
    \<and> recv_session t' = recv_session t"
proof (cases "send_rtcp_session t \<noteq> None \<or> recv_rtcp_session t \<noteq> None")
  case True
  then show ?thesis using assms by (auto simp: SetRtcpParams_def)
next
  case False
  obtain ret s g1 where s: "SetSend L scs (Some sk) sext new_SrtpSession g = (ret, s, g1)"
    by (metis prod_cases3)
  obtain ret2 r g2 where r: "SetRecv L rcs (Some rk) rext new_SrtpSession g1 = (ret2, r, g2)"
    by (metis prod_cases3)
  let ?t1 = "t\<lparr>send_rtcp_session := Some s\<rparr>"
  let ?t2 = "?t1\<lparr>recv_rtcp_session := Some r\<rparr>"
  have acc: "usage_count g1 - sess_weight s = usage_count g"
    "usage_count g2 - sess_weight r = usage_count g1"
    using session_acc(1) [OF s] session_acc(2) [OF r] by simp_all
  have o: "others (?t1, g1) = others (t, g)" "others (?t2, g2) = others (t, g)"
    using False acc by (simp_all add: others_def held_def sessions_def)
  have m: "sessions (MaybeUpdateWritableState N ?t2) = sessions ?t2" by simp
  then have "others (MaybeUpdateWritableState N ?t2, g2) = others (?t2, g2)"
    by (rule others_frame)
  with assms False s r o m show ?thesis
    by (auto simp: SetRtcpParams_def Let_def sessions_def split: if_splits)
qed

lemma MaybeSetKeyParams_inv:
  assumes "MaybeSetKeyParams L N t g = (b, t', g')" "srtp_ok t"
  shows "others (t', g') = others (t, g) \<and> srtp_ok t'"
  using assms SetRtpParams_inv
  by (fastforce simp: MaybeSetKeyParams_def split: option.splits)

lemma inv_cong [simp]:
  "others (t\<lparr>send_cipher_suite := c\<rparr>, g) = others (t, g)"
  "others (t\<lparr>recv_cipher_suite := c\<rparr>, g) = others (t, g)"
  "others (t\<lparr>send_key := k\<rparr>, g) = others (t, g)"
  "others (t\<lparr>recv_key := k\<rparr>, g) = others (t, g)"
  "others (t\<lparr>send_params := q\<rparr>, g) = others (t, g)"
  "others (t\<lparr>recv_params := q\<rparr>, g) = others (t, g)"
  "others (t\<lparr>external_auth_enabled := e\<rparr>, g) = others (t, g)"
  "others (t\<lparr>decryption_failure_count := n\<rparr>, g) = others (t, g)"
  "srtp_ok (t\<lparr>send_cipher_suite := c\<rparr>) = srtp_ok t"
  "srtp_ok (t\<lparr>recv_cipher_suite := c\<rparr>) = srtp_ok t"
  "srtp_ok (t\<lparr>send_key := k\<rparr>) = srtp_ok t"
  "srtp_ok (t\<lparr>recv_key := k\<rparr>) = srtp_ok t"
  "srtp_ok (t\<lparr>send_params := q\<rparr>) = srtp_ok t"
  "srtp_ok (t\<lparr>recv_params := q\<rparr>) = srtp_ok t"
  "srtp_ok (t\<lparr>external_auth_enabled := e\<rparr>) = srtp_ok t"
  "srtp_ok (t\<lparr>decryption_failure_count := n\<rparr>) = srtp_ok t"
  by (simp_all add: others_def held_def srtp_ok_def)

text \<open>An operation that does not touch the sessions keeps both.\<close>

lemma inv_frame:
  assumes "sessions t' = sessions t"
  shows "others (t', g) = others (t, g) \<and> srtp_ok t' = srtp_ok t"
  using others_frame [OF assms] sessions_cong_pred(2) [OF assms] by blast

lemmas base_ops_inv [simp] =
  sessions_emit [THEN inv_frame, THEN conjunct1] sessions_emit [THEN inv_frame, THEN conjunct2]
  sessions_ready(1) [THEN inv_frame, THEN conjunct1]
  sessions_ready(1) [THEN inv_frame, THEN conjunct2]
  sessions_ready(2) [THEN inv_frame, THEN conjunct1]
  sessions_ready(2) [THEN inv_frame, THEN conjunct2]
  sessions_set(1) [THEN inv_frame, THEN conjunct1] sessions_set(1) [THEN inv_frame, THEN conjunct2]
  sessions_set(2) [THEN inv_frame, THEN conjunct1] sessions_set(2) [THEN inv_frame, THEN conjunct2]
  sessions_MaybeUpdate [THEN inv_frame, THEN conjunct1]
  sessions_MaybeUpdate [THEN inv_frame, THEN conjunct2]

lemma SetSrtpSendKey_inv:
  assumes "SetSrtpSendKey L N K params t g = (e, t', g')" "srtp_ok t"
  shows "others (t', g') = others (t, g) \<and> srtp_ok t'"
  using assms by (auto simp: SetSrtpSendKey_def Let_def
      split: if_splits option.splits prod.splits bool.splits dest!: MaybeSetKeyParams_inv)

lemma SetSrtpReceiveKey_inv:
  assumes "SetSrtpReceiveKey L N K params t g = (e, t', g')" "srtp_ok t"
  shows "others (t', g') = others (t, g) \<and> srtp_ok t'"
  using assms by (auto simp: SetSrtpReceiveKey_def Let_def
      split: if_splits option.splits prod.splits bool.splits dest!: MaybeSetKeyParams_inv)

text \<open>Protection keeps accounts, shape and everything the base transport has.\<close>

lemma protect_inv:
  "ProtectRtp L p n t g = (b, p', t', g') \<Longrightarrow> srtp_ok t \<Longrightarrow>
     others (t', g') = others (t, g) \<and> srtp_ok t' \<and> signals t' = signals t"
  "ProtectRtcp L p n t g = (b, p', t', g') \<Longrightarrow> srtp_ok t \<Longrightarrow>
     others (t', g') = others (t, g) \<and> srtp_ok t' \<and> signals t' = signals t"
  "UnprotectRtp L p t g = (b, p', t', g') \<Longrightarrow> srtp_ok t \<Longrightarrow>
     others (t', g') = others (t, g) \<and> srtp_ok t' \<and> signals t' = signals t"
  "UnprotectRtcp L p t g = (b, p', t', g') \<Longrightarrow> srtp_ok t \<Longrightarrow>
     others (t', g') = others (t, g) \<and> srtp_ok t' \<and> signals t' = signals t"
  by (auto simp: ProtectRtp_def ProtectRtcp_def UnprotectRtp_def UnprotectRtcp_def IsSrtpActive_def
      session_of_def srtp_ok_def others_def held_def sessions_def sess_weight_def
      split: if_splits prod.splits option.splits dest!: protection_frame)

lemma SendPacket_inv:
  "SendPacket N rtcp p f t = Some (b, t') \<Longrightarrow> held t' = held t \<and> srtp_ok t' = srtp_ok t"
  using sessions_SendPacket sessions_cong_pred by blast

lemma srtp_Send_inv:
  "srtp_SendRtpPacket L N p n f t g = Some (b, t', g') \<Longrightarrow> srtp_ok t \<Longrightarrow>
     others (t', g') = others (t, g) \<and> srtp_ok t'"
  "srtp_SendRtcpPacket L N p n f t g = Some (b, t', g') \<Longrightarrow> srtp_ok t \<Longrightarrow>
     others (t', g') = others (t, g) \<and> srtp_ok t'"
  by (auto simp: srtp_SendRtpPacket_def srtp_SendRtcpPacket_def others_def
      split: if_splits prod.splits bool.splits
      dest!: protect_inv [unfolded others_def] SendPacket_inv)

lemma srtp_Received_inv:
  "srtp_OnRtpPacketReceived L p us (t, g) = (t', g') \<Longrightarrow> srtp_ok t \<Longrightarrow>
     others (t', g') = others (t, g) \<and> srtp_ok t'"
  "srtp_OnRtcpPacketReceived L p us (t, g) = (t', g') \<Longrightarrow> srtp_ok t \<Longrightarrow>
     others (t', g') = others (t, g) \<and> srtp_ok t'"
  by (auto simp: srtp_OnRtpPacketReceived_def srtp_OnRtcpPacketReceived_def DemuxPacket_def
      split: if_splits prod.splits bool.splits dest!: protect_inv)

section \<open>A session of calls\<close>

datatype SrtpCall =
    S_SetRtcpMuxEnabled bool
  | S_SetRtpPacketTransport "tid option"
  | S_SetRtcpPacketTransport "tid option"
  | S_OnReadyToSend tid
  | S_OnReadPacket "byte list" int
  | S_OnNetworkRouteChanged "route option"
  | S_OnWritableState
  | S_SetSrtpSendKey CryptoParams
  | S_SetSrtpReceiveKey CryptoParams
  | S_SetRtpParams int "byte list" "int list" int "byte list" "int list"
  | S_SetRtcpParams int "byte list" "int list" int "byte list" "int list"
  | S_ResetParams
  | S_SendRtpPacket "byte list" int int
  | S_SendRtcpPacket "byte list" int int
  | S_EnableExternalAuth

fun srtp_call ::
    "'w srtp_lib \<Rightarrow> key_util \<Rightarrow> rtp_util \<Rightarrow> packet_net \<times> SrtpCall
     \<Rightarrow> 'a SrtpTransport_scheme \<times> 'w srtp_global
     \<Rightarrow> ('a SrtpTransport_scheme \<times> 'w srtp_global) option" where
  "srtp_call L K U (N, S_SetRtcpMuxEnabled e) (t, g) = Some (rtp_SetRtcpMuxEnabled e t, g)"
| "srtp_call L K U (N, S_SetRtpPacketTransport x) (t, g) = Some (SetRtpPacketTransport N x t, g)"
| "srtp_call L K U (N, S_SetRtcpPacketTransport x) (t, g) = Some (SetRtcpPacketTransport N x t, g)"
| "srtp_call L K U (N, S_OnReadyToSend x) (t, g) = Some (OnReadyToSend x t, g)"
| "srtp_call L K U (N, S_OnReadPacket p us) (t, g) =
     Some (OnReadPacket U (srtp_OnRtpPacketReceived L) (srtp_OnRtcpPacketReceived L) p us (t, g))"
| "srtp_call L K U (N, S_OnNetworkRouteChanged r) (t, g) = Some (srtp_OnNetworkRouteChanged r t, g)"
| "srtp_call L K U (N, S_OnWritableState) (t, g) = Some (srtp_OnWritableState N t, g)"
| "srtp_call L K U (N, S_SetSrtpSendKey q) (t, g) = Some (snd (SetSrtpSendKey L N K q t g))"
| "srtp_call L K U (N, S_SetSrtpReceiveKey q) (t, g) = Some (snd (SetSrtpReceiveKey L N K q t g))"
| "srtp_call L K U (N, S_SetRtpParams scs sk se rcs rk re) (t, g) =
     Some (snd (SetRtpParams L N scs sk se rcs rk re t g))"
| "srtp_call L K U (N, S_SetRtcpParams scs sk se rcs rk re) (t, g) =
     Some (snd (SetRtcpParams L N scs sk se rcs rk re t g))"
| "srtp_call L K U (N, S_ResetParams) (t, g) = Some (ResetParams L N t g)"
| "srtp_call L K U (N, S_SendRtpPacket p n f) (t, g) =
     map_option snd (srtp_SendRtpPacket L N p n f t g)"
| "srtp_call L K U (N, S_SendRtcpPacket p n f) (t, g) =
     map_option snd (srtp_SendRtcpPacket L N p n f t g)"
| "srtp_call L K U (N, S_EnableExternalAuth) (t, g) = Some (EnableExternalAuth t, g)"

fun srtp_run ::
    "'w srtp_lib \<Rightarrow> key_util \<Rightarrow> rtp_util \<Rightarrow> (packet_net \<times> SrtpCall) list
     \<Rightarrow> 'a SrtpTransport_scheme \<times> 'w srtp_global
     \<Rightarrow> ('a SrtpTransport_scheme \<times> 'w srtp_global) option" where
  "srtp_run L K U [] tg = Some tg"
| "srtp_run L K U (c # cs) tg = Option.bind (srtp_call L K U c tg) (srtp_run L K U cs)"

definition new_SrtpTransport :: "bool \<Rightarrow> SrtpTransport" where
  "new_SrtpTransport mux =
     RtpTransport.extend (new_RtpTransport mux)
       \<lparr>send_session = None, recv_session = None, send_rtcp_session = None,
        recv_rtcp_session = None, send_params = None, recv_params = None,
        send_cipher_suite = None, recv_cipher_suite = None, send_key = [], recv_key = [],
        srtp_writable = False, external_auth_enabled = False, rtp_abs_sendtime_extn_id = -1,
        decryption_failure_count = 0\<rparr>"

text \<open>The destructor: the members go in reverse order of declaration.\<close>

definition destroy_SrtpTransport ::
    "'w srtp_lib \<Rightarrow> 'a SrtpTransport_scheme \<Rightarrow> 'w srtp_global \<Rightarrow> 'w srtp_global" where
  "destroy_SrtpTransport L t g =
     drop_session L (send_session t) (drop_session L (recv_session t)
       (drop_session L (send_rtcp_session t) (drop_session L (recv_rtcp_session t) g)))"

lemma SetRtcpParams_ok:
  assumes "SetRtcpParams L N scs sk sext rcs rk rext t g = (b, t', g')" "srtp_ok t"
  shows "others (t', g') = others (t, g) \<and> srtp_ok t'"
  using SetRtcpParams_inv [OF assms(1)] assms(2) by (simp add: srtp_ok_def)

lemma srtp_call_inv:
  assumes "srtp_call L K U c (t, g) = Some (t', g')" "srtp_ok t"
  shows "others (t', g') = others (t, g) \<and> srtp_ok t'"
  using assms
  by (cases c rule: prod.exhaust, rename_tac N k, case_tac k)
    (auto simp: OnReadPacket_def Let_def OnReadyToSend_def srtp_OnNetworkRouteChanged_def
      srtp_OnWritableState_def EnableExternalAuth_def
      split: if_splits
      dest!: snd_eqD [of _ "(t', g')"] srtp_Received_inv srtp_Send_inv ResetParams_inv
      dest: SetSrtpSendKey_inv SetSrtpReceiveKey_inv SetRtpParams_inv SetRtcpParams_ok)

interpretation srtp_seq: call_run "srtp_call L K U" "srtp_run L K U" for L K U
  by unfold_locales simp_all

lemma srtp_run_inv:
  assumes "srtp_run L K U cs (t, g) = Some (t', g')" "srtp_ok t"
  shows "others (t', g') = others (t, g) \<and> srtp_ok t'"
  using srtp_seq.run_keeps [where P = "\<lambda>(x, h). others (x, h) = others (t, g) \<and> srtp_ok x", OF assms(1)]
    assms(2) srtp_call_inv by fastforce

lemma new_SrtpTransport_ok:
  "srtp_ok (new_SrtpTransport m)" "sessions (new_SrtpTransport m) = (None, None, None, None)"
  by (simp_all add: new_SrtpTransport_def new_RtpTransport_def RtpTransport.extend_def srtp_ok_def
      sessions_def)

lemma usage_count_destroy_SrtpTransport:
  "usage_count (destroy_SrtpTransport L t g) = others (t, g)"
  by (simp add: destroy_SrtpTransport_def others_def held_def sessions_def)

section \<open>Properties\<close>

text \<open>C14: Whatever sequence of calls an SRTP transport takes (keying by SDES or from above, in
  any order and with any failures of libsrtp, sending, receiving, resets), its two main sessions
  exist together and then both hold a libsrtp context, and destroying the transport leaves the
  process-wide count of libsrtp users where it was before the transport existed.\<close>

theorem srtp_transport_balanced:
  assumes "srtp_run L K U cs (new_SrtpTransport m, g) = Some (t, g')"
  shows "usage_count (destroy_SrtpTransport L t g') = usage_count g
    \<and> (send_session t = None) = (recv_session t = None)
    \<and> (\<forall>s. send_session t = Some s \<or> recv_session t = Some s \<longrightarrow> sess_handle s \<noteq> None)"
proof -
  have "others (t, g') = others (new_SrtpTransport m, g)" "srtp_ok t"
    using srtp_run_inv [OF assms] new_SrtpTransport_ok by blast+
  moreover have "held (new_SrtpTransport m) = 0" by (simp add: held_def new_SrtpTransport_ok)
  ultimately show ?thesis
    by (auto simp: usage_count_destroy_SrtpTransport others_def srtp_ok_def)
qed

definition demo_key_util :: key_util where
  "demo_key_util =
     \<lparr>ku_suite_from_name = (\<lambda>n. if n = ''AES'' then 1 else 0), ku_invalid_suite = 0,
      ku_key_salt_lengths = (\<lambda>cs. if cs = 1 then Some (16, 14) else None),
      ku_base64_strict = (\<lambda>b. if b = ''ok'' then Some demo_key else None),
      ku_buffer = (\<lambda>n. replicate n 0)\<rparr>"

definition demo_params :: CryptoParams where
  "demo_params = \<lparr>cipher_suite = ''AES'', key_params = ''inline:ok''\<rparr>"

definition bad_params :: CryptoParams where
  "bad_params = \<lparr>cipher_suite = ''AES'', key_params = ''inline:?''\<rparr>"

definition demo_srtp_calls :: "(packet_net \<times> SrtpCall) list" where
  "demo_srtp_calls =
     [(demo_net, S_SetSrtpSendKey demo_params), (demo_net, S_SetSrtpReceiveKey demo_params)]"

lemmas srtp_demo_defs = demo_defs demo_key_util_def demo_params_def bad_params_def
  new_SrtpTransport_def RtpTransport.extend_def new_RtpTransport_def
  SetSrtpSendKey_def SetSrtpReceiveKey_def MaybeSetKeyParams_def ParseKeyParams_def
  SetRtpParams_def CreateSrtpSessions_def session_of_def MaybeUpdateWritableState_def
  srtp_IsWritable_def IsSrtpActive_def rtp_IsWritable_def transport_for_def transport_writable_def
  SetSend_def SetRecv_def SetKey_def DoSetKey_def IncrementLibsrtpUsageCountAndMaybeInit_def
  build_policy_def set_tag_lens_def new_SrtpSession_def

definition demo_srtp :: "SrtpTransport \<times> unit srtp_global" where
  "demo_srtp = the (srtp_run demo_lib demo_key_util demo_util demo_srtp_calls
                      (new_SrtpTransport True, demo_global))"

lemma demo_srtp_value:
  "srtp_run demo_lib demo_key_util demo_util demo_srtp_calls (new_SrtpTransport True, demo_global)
     = Some demo_srtp"
  "IsSrtpActive (fst demo_srtp)" "\<not> srtp_writable (fst demo_srtp)"
  "usage_count (snd demo_srtp) = 2" "rtp_packet_transport (fst demo_srtp) = None"
  "rtcp_mux_enabled (fst demo_srtp)"
  by (simp_all add: demo_srtp_def demo_srtp_calls_def srtp_demo_defs Let_def)

theorem srtp_transport_balanced_witness:
  "usage_count (snd demo_srtp) = 2
     \<and> usage_count (destroy_SrtpTransport demo_lib (fst demo_srtp) (snd demo_srtp)) = 0"
proof -
  obtain t g where d: "demo_srtp = (t, g)" by fastforce
  show ?thesis
    using srtp_transport_balanced [OF demo_srtp_value(1) [unfolded d]] demo_srtp_value(4)
    by (simp add: d demo_global_def)
qed

text \<open>C2: Nothing leaves an SRTP transport in the clear. A send that hands anything to a packet
  transport hands it exactly one packet, the output of a successful libsrtp protection of the
  given packet by the libsrtp context of the session in charge: the main send session for RTP,
  the RTCP session for RTCP when there is one. It goes to the RTP transport, or for RTCP without
  muxing to the RTCP one.\<close>

theorem srtp_sends_only_protected:
  assumes "srtp_SendRtpPacket L N p n f t g = Some (b, t', g') \<and> rtcp = False
         \<and> so = send_session t \<and> prot = lib_protect L
    \<or> srtp_SendRtcpPacket L N p n f t g = Some (b, t', g') \<and> rtcp = True
         \<and> so = (if send_rtcp_session t = None then send_session t else send_rtcp_session t)
         \<and> prot = lib_protect_rtcp L"
    and "packets_out t' \<noteq> packets_out t"
  shows "IsSrtpActive t \<and> (\<exists>s h p' w x. so = Some s \<and> sess_handle s = Some h
    \<and> prot h p (lib_state g) = (0, p', w)
    \<and> transport_for rtcp t = Some x \<and> packets_out t' = packets_out t @ [(x, p', f)])"
proof -
  have out: "packets_out (t\<lparr>send_session := z\<rparr>) = packets_out t"
    "packets_out (t\<lparr>send_rtcp_session := z\<rparr>) = packets_out t"
    "transport_for rtcp (t\<lparr>send_session := z\<rparr>) = transport_for rtcp t"
    "transport_for rtcp (t\<lparr>send_rtcp_session := z\<rparr>) = transport_for rtcp t" for z rtcp
    by (simp_all add: packets_out_def transport_for_def)
  have snd: "SendPacket N r q f u = Some (b', u') \<Longrightarrow>
      \<exists>x. transport_for r u = Some x \<and> packets_out u' = packets_out u @ [(x, q, f)]"
    for r q b' and u u' :: "'a SrtpTransport_scheme"
    by (auto simp: SendPacket_def Let_def split: option.splits if_splits)
  from assms show ?thesis
    by (elim disjE conjE)
      (auto simp: srtp_SendRtpPacket_def srtp_SendRtcpPacket_def ProtectRtp_def ProtectRtcp_def
        sess_ProtectRtp_def sess_ProtectRtcp_def session_of_def IsSrtpActive_def Let_def out
        split: if_splits prod.splits bool.splits option.splits dest!: snd)
qed

lemma demo_srtp_send:
  "\<exists>t' g'. srtp_SendRtpPacket demo_lib demo_net [1, 2] 100 0
       ((fst demo_srtp)\<lparr>rtp_packet_transport := Some 1\<rparr>) demo_global = Some (True, t', g')
     \<and> packets_out t' = [(1, [1, 2] @ replicate 10 0, 0)]"
  by (simp add: demo_srtp_def demo_srtp_calls_def srtp_demo_defs Let_def srtp_SendRtpPacket_def
      ProtectRtp_def sess_ProtectRtp_def SendPacket_def demo_net_def emit_def packets_out_def)

theorem srtp_sends_only_protected_witness:
  "IsSrtpActive ((fst demo_srtp)\<lparr>rtp_packet_transport := Some 1\<rparr>)"
proof -
  let ?t = "(fst demo_srtp)\<lparr>rtp_packet_transport := Some 1\<rparr>"
  have "packets_out ?t = []"
    by (simp add: demo_srtp_def demo_srtp_calls_def srtp_demo_defs Let_def packets_out_def)
  with demo_srtp_send obtain t' g'
    where s: "srtp_SendRtpPacket demo_lib demo_net [1, 2] 100 0 ?t demo_global = Some (True, t', g')"
      and "packets_out t' \<noteq> packets_out ?t" by auto
  from srtp_sends_only_protected [OF disjI1 this(2), OF conjI, OF s]
  show ?thesis by blast
qed

text \<open>A send key that was refused is still used. When \<open>SetSrtpSendKey\<close> fails because the key
  does not parse, the cipher suite it stored stays, with a key buffer that was never written;
  a following \<open>SetSrtpReceiveKey\<close> with good parameters then keys the send session with that
  buffer, and when it succeeds the transport is active although no send key was accepted.\<close>

theorem srtp_refused_send_key_is_used:
  assumes "send_params t = None" "recv_params t = None" "srtp_ok t"
    and cs: "cs = ku_suite_from_name K (cipher_suite p)" "cs \<noteq> ku_invalid_suite K"
      "ku_key_salt_lengths K cs = Some (kl, sl)" "cipher_suite q = cipher_suite p"
    and bad: "ParseKeyParams K (key_params p) (kl + sl) = None"
    and good: "ParseKeyParams K (key_params q) (kl + sl) = Some k"
  shows "\<exists>t1. SetSrtpSendKey L N K p t g
        = (RTCErr INVALID_PARAMETER ''Failed to parse the crypto key params'', t1, g)
    \<and> (\<forall>t2 g2. SetSrtpReceiveKey L N K q t1 g = (OK, t2, g2) \<longrightarrow>
         IsSrtpActive t2 \<and> send_params t1 = None
         \<and> (\<exists>t3. SetRtpParams L N cs (ku_buffer K (kl + sl)) [] cs k []
                   (t1\<lparr>recv_cipher_suite := Some cs, recv_key := k\<rparr>) g = (True, t3, g2)
                 \<and> t2 = t3\<lparr>recv_params := Some q\<rparr>))"
proof -
  let ?t1 = "t\<lparr>send_cipher_suite := Some cs, send_key := ku_buffer K (kl + sl)\<rparr>"
  have send: "SetSrtpSendKey L N K p t g
      = (RTCErr INVALID_PARAMETER ''Failed to parse the crypto key params'', ?t1, g)"
    using assms by (simp add: SetSrtpSendKey_def Let_def)
  have recv: "\<exists>t3. SetRtpParams L N cs (ku_buffer K (kl + sl)) [] cs k []
        (?t1\<lparr>recv_cipher_suite := Some cs, recv_key := k\<rparr>) g = (True, t3, g2)
      \<and> t2 = t3\<lparr>recv_params := Some q\<rparr>"
    if "SetSrtpReceiveKey L N K q ?t1 g = (OK, t2, g2)" for t2 g2
    using that assms
    by (auto simp: SetSrtpReceiveKey_def MaybeSetKeyParams_def Let_def
        split: prod.splits bool.splits)
  moreover have "IsSrtpActive t2" if r: "SetSrtpReceiveKey L N K q ?t1 g = (OK, t2, g2)" for t2 g2
  proof -
    obtain t3 where t3: "SetRtpParams L N cs (ku_buffer K (kl + sl)) [] cs k []
        (?t1\<lparr>recv_cipher_suite := Some cs, recv_key := k\<rparr>) g = (True, t3, g2)"
      "t2 = t3\<lparr>recv_params := Some q\<rparr>" using recv [OF r] by blast
    have "srtp_ok (?t1\<lparr>recv_cipher_suite := Some cs, recv_key := k\<rparr>)" using assms(3) by simp
    from SetRtpParams_inv [OF t3(1) this] t3(2) show ?thesis by (simp add: IsSrtpActive_def)
  qed
  ultimately show ?thesis using send assms(1) by (intro exI [of _ ?t1]) simp
qed

lemma demo_refused_then_active:
  "let (e, t, g) = SetSrtpSendKey demo_lib demo_net demo_key_util bad_params
                     (new_SrtpTransport True) demo_global;
       (e', t', g') = SetSrtpReceiveKey demo_lib demo_net demo_key_util demo_params t g
   in e' = OK"
  by (simp add: srtp_demo_defs Let_def)

theorem srtp_refused_send_key_is_used_witness:
  "\<exists>e t1 t2 g2. SetSrtpSendKey demo_lib demo_net demo_key_util bad_params
                     (new_SrtpTransport True) demo_global = (e, t1, demo_global) \<and> e \<noteq> OK
     \<and> SetSrtpReceiveKey demo_lib demo_net demo_key_util demo_params t1 demo_global = (OK, t2, g2)
     \<and> IsSrtpActive t2"
proof -
  let ?t = "new_SrtpTransport True"
  have "send_params ?t = None" "recv_params ?t = None" "srtp_ok ?t"
    "1 = ku_suite_from_name demo_key_util (cipher_suite bad_params)"
    "1 \<noteq> ku_invalid_suite demo_key_util" "ku_key_salt_lengths demo_key_util 1 = Some (16, 14)"
    "cipher_suite demo_params = cipher_suite bad_params"
    "ParseKeyParams demo_key_util (key_params bad_params) (16 + 14) = None"
    "ParseKeyParams demo_key_util (key_params demo_params) (16 + 14) = Some demo_key"
    by (simp_all add: srtp_demo_defs srtp_ok_def)
  from srtp_refused_send_key_is_used [OF this, of demo_lib demo_net demo_global]
  obtain t1 where t1: "SetSrtpSendKey demo_lib demo_net demo_key_util bad_params ?t demo_global
        = (RTCErr INVALID_PARAMETER ''Failed to parse the crypto key params'', t1, demo_global)"
    and act: "\<And>t2 g2. SetSrtpReceiveKey demo_lib demo_net demo_key_util demo_params t1 demo_global
        = (OK, t2, g2) \<Longrightarrow> IsSrtpActive t2" by blast
  obtain e t2 g2 where r: "SetSrtpReceiveKey demo_lib demo_net demo_key_util demo_params t1
      demo_global = (e, t2, g2)" by (metis prod_cases3)
  with demo_refused_then_active t1 have "e = OK" by simp
  with r have ok: "SetSrtpReceiveKey demo_lib demo_net demo_key_util demo_params t1 demo_global
      = (OK, t2, g2)" by simp
  with act [OF ok] t1 show ?thesis by blast
qed

lemma SetRtcpParams_failed:
  assumes "SetRtcpParams L N scs sk se rcs rk re t g = (False, t1, g1)"
  shows "send_rtcp_session t1 \<noteq> None \<or> recv_rtcp_session t1 \<noteq> None"
proof (cases "send_rtcp_session t \<noteq> None \<or> recv_rtcp_session t \<noteq> None")
  case True
  then show ?thesis using assms by (auto simp: SetRtcpParams_def)
next
  case False
  obtain b s g2 where s: "SetSend L scs (Some sk) se new_SrtpSession g = (b, s, g2)"
    by (metis prod_cases3)
  obtain b' r g3 where r: "SetRecv L rcs (Some rk) re new_SrtpSession g2 = (b', r, g3)"
    by (metis prod_cases3)
  from assms False s r show ?thesis by (auto simp: SetRtcpParams_def Let_def split: if_splits)
qed

text \<open>A failed \<open>SetRtcpParams\<close> can never be retried: whatever made it fail, the same or any
  other parameters fail from then on without touching the transport or libsrtp, because a session
  that could not be keyed stays in place.\<close>

theorem srtp_rtcp_params_not_retriable:
  assumes "SetRtcpParams L N scs sk se rcs rk re t g = (False, t1, g1)"
  shows "SetRtcpParams L' N' scs' sk' se' rcs' rk' re' t1 g' = (False, t1, g')"
  using SetRtcpParams_failed [OF assms] by (auto simp: SetRtcpParams_def)

theorem srtp_rtcp_params_not_retriable_witness:
  "let (b, t1, g1) = SetRtcpParams demo_lib demo_net 1 [] [] 1 demo_key [] (fst demo_srtp)
                       (snd demo_srtp)
   in \<not> b \<and> \<not> fst (SetRtcpParams demo_lib demo_net 1 demo_key [] 1 demo_key [] t1 g1)"
proof -
  obtain b t1 g1 where r: "SetRtcpParams demo_lib demo_net 1 [] [] 1 demo_key [] (fst demo_srtp)
      (snd demo_srtp) = (b, t1, g1)" by (metis prod_cases3)
  moreover have b: "b = False"
  proof -
    have "\<not> fst (SetRtcpParams demo_lib demo_net 1 [] [] 1 demo_key [] (fst demo_srtp)
        (snd demo_srtp))"
      by (simp add: SetRtcpParams_def demo_srtp_def demo_srtp_calls_def srtp_demo_defs Let_def)
    with r show ?thesis by simp
  qed
  ultimately have f: "SetRtcpParams demo_lib demo_net 1 [] [] 1 demo_key [] (fst demo_srtp)
      (snd demo_srtp) = (False, t1, g1)" by simp
  from srtp_rtcp_params_not_retriable [OF f, of demo_lib demo_net 1 demo_key "[]" 1 demo_key "[]" g1]
  show ?thesis by (simp add: f)
qed

text \<open>Observers can be left believing a dead transport writable. When the keys came before
  the network was writable, the stored flag is false; the network's own change is then announced
  without being stored, so a later reset, which makes the transport unwritable, announces
  nothing.\<close>

theorem srtp_reset_goes_unannounced:
  assumes "IsSrtpActive t" "\<not> srtp_writable t"
    and "rtp_IsWritable N True t" "rtp_IsWritable N False t"
  shows "\<exists>t' g'. srtp_run L K U [(N, S_OnWritableState), (N, S_ResetParams)] (t, g) = Some (t', g')
    \<and> signals t' = signals t @ [SigWritableState True] \<and> \<not> srtp_IsWritable N rtcp t'"
  using assms
  by (simp add: srtp_OnWritableState_def srtp_IsWritable_def IsSrtpActive_def ResetParams_def Let_def
      MaybeUpdateWritableState_def emit_def)

theorem srtp_reset_goes_unannounced_witness:
  "\<exists>t' g'. srtp_run demo_lib demo_key_util demo_util
       [(demo_net, S_OnWritableState), (demo_net, S_ResetParams)]
       ((fst demo_srtp)\<lparr>rtp_packet_transport := Some 1\<rparr>, snd demo_srtp) = Some (t', g')
     \<and> last (signals t') = SigWritableState True \<and> \<not> srtp_IsWritable demo_net False t'"
proof -
  let ?t = "(fst demo_srtp)\<lparr>rtp_packet_transport := Some 1\<rparr>"
  have "IsSrtpActive ?t" "\<not> srtp_writable ?t" "rtp_IsWritable demo_net True ?t"
    "rtp_IsWritable demo_net False ?t"
    using demo_srtp_value(2,3,6)
    by (simp_all add: IsSrtpActive_def rtp_IsWritable_def transport_for_def transport_writable_def
        demo_net_def)
  from srtp_reset_goes_unannounced [OF this, of demo_lib demo_key_util demo_util "snd demo_srtp"]
  show ?thesis by fastforce
qed

end
