(* ===== verification/DtlsSrtpTransport.thy ===== *)
theory DtlsSrtpTransport
  imports SrtpTransport
begin

text \<open>
  The DTLS-SRTP transport (dtls_srtp_transport.cpp, dtls_srtp_transport.h): the SRTP transport
  keyed from the DTLS handshake of its RTP and RTCP DTLS transports.

  The DTLS transports are libice objects, named by their address like the packet transports they
  are; the record \<open>dtls_net\<close> holds what the code reads from them (activity, state, suite, exported
  keying material, role) together with the network and the key functions of the layers below.
  Subscriptions to DTLS state and calls of the state callback are logged in the object.
\<close>

section \<open>Parameters and state\<close>

datatype SSLRole = SSL_CLIENT | SSL_SERVER

record dtls_net =
  dn_packets :: packet_net
  dn_keys :: key_util
  dn_active :: "tid \<Rightarrow> bool"
  dn_connected :: "tid \<Rightarrow> bool"
  dn_suite :: "tid \<Rightarrow> int option"
  dn_export :: "tid \<Rightarrow> nat \<Rightarrow> byte list option"
  dn_role :: "tid \<Rightarrow> SSLRole option"

datatype DtlsLog = Subscribe tid | Unsubscribe tid | StateChangeCallback

record DtlsSrtpTransport = SrtpTransport +
  rtp_dtls_transport :: "tid option"
  rtcp_dtls_transport :: "tid option"
  send_extension_ids :: "int list option"
  recv_extension_ids :: "int list option"
  active_reset_srtp_params :: bool
  has_state_callback :: bool
  dtls_log :: "DtlsLog list"

section \<open>The state of the handshake\<close>

definition rtcp_transport_in_use :: "'a DtlsSrtpTransport_scheme \<Rightarrow> tid option" where
  "rtcp_transport_in_use t = (if rtcp_mux_enabled t then None else rtcp_dtls_transport t)"

definition both_transports ::
    "(tid \<Rightarrow> bool) \<Rightarrow> 'a DtlsSrtpTransport_scheme \<Rightarrow> bool" where
  "both_transports P t =
     (case rtp_dtls_transport t of
        None \<Rightarrow> False
      | Some x \<Rightarrow> P x \<and> (case rtcp_transport_in_use t of None \<Rightarrow> True | Some y \<Rightarrow> P y))"

definition IsDtlsActive :: "dtls_net \<Rightarrow> 'a DtlsSrtpTransport_scheme \<Rightarrow> bool" where
  "IsDtlsActive D t = both_transports (dn_active D) t"

definition IsDtlsConnected :: "dtls_net \<Rightarrow> 'a DtlsSrtpTransport_scheme \<Rightarrow> bool" where
  "IsDtlsConnected D t = both_transports (dn_connected D) t"

definition IsDtlsWritable :: "dtls_net \<Rightarrow> 'a DtlsSrtpTransport_scheme \<Rightarrow> bool" where
  "IsDtlsWritable D t = both_transports (net_writable (dn_packets D)) t"

definition DtlsHandshakeCompleted :: "dtls_net \<Rightarrow> 'a DtlsSrtpTransport_scheme \<Rightarrow> bool" where
  "DtlsHandshakeCompleted D t \<longleftrightarrow> IsDtlsActive D t \<and> IsDtlsConnected D t"

section \<open>Keys\<close>

text \<open>The suite, the send key and the receive key; \<open>None\<close> where the code returns false.\<close>

definition ExtractParams ::
    "dtls_net \<Rightarrow> tid option \<Rightarrow> (int \<times> byte list \<times> byte list) option" where
  "ExtractParams D dtls_transport =
     (case dtls_transport of
        None \<Rightarrow> None
      | Some x \<Rightarrow>
          if \<not> dn_active D x then None
          else case dn_suite D x of
            None \<Rightarrow> None
          | Some cs \<Rightarrow>
              (case ku_key_salt_lengths (dn_keys D) cs of
                 None \<Rightarrow> None
               | Some (key_len, salt_len) \<Rightarrow>
                   (case dn_export D x (key_len * 2 + salt_len * 2) of
                      None \<Rightarrow> None
                    | Some buf \<Rightarrow>
                        (let client_write_key = take key_len buf
                               @ take salt_len (drop (2 * key_len) buf);
                             server_write_key = take key_len (drop key_len buf)
                               @ take salt_len (drop (2 * key_len + salt_len) buf)
                         in case dn_role D x of
                              None \<Rightarrow> None
                            | Some SSL_SERVER \<Rightarrow> Some (cs, server_write_key, client_write_key)
                            | Some SSL_CLIENT \<Rightarrow> Some (cs, client_write_key, server_write_key)))))"

definition ids_or_empty :: "int list option \<Rightarrow> int list" where
  "ids_or_empty x = (case x of None \<Rightarrow> [] | Some l \<Rightarrow> l)"

definition SetupRtpDtlsSrtp ::
    "'w srtp_lib \<Rightarrow> dtls_net \<Rightarrow> 'a DtlsSrtpTransport_scheme \<times> 'w srtp_global
     \<Rightarrow> 'a DtlsSrtpTransport_scheme \<times> 'w srtp_global" where
  "SetupRtpDtlsSrtp L D tg =
     (case tg of (t, g) \<Rightarrow>
        case ExtractParams D (rtp_dtls_transport t) of
          None \<Rightarrow> (t, g)
        | Some (cs, sk, rk) \<Rightarrow>
            snd (SetRtpParams L (dn_packets D) cs sk (ids_or_empty (send_extension_ids t))
                   cs rk (ids_or_empty (recv_extension_ids t)) t g))"

definition SetupRtcpDtlsSrtp ::
    "'w srtp_lib \<Rightarrow> dtls_net \<Rightarrow> 'a DtlsSrtpTransport_scheme \<times> 'w srtp_global
     \<Rightarrow> 'a DtlsSrtpTransport_scheme \<times> 'w srtp_global" where
  "SetupRtcpDtlsSrtp L D tg =
     (case tg of (t, g) \<Rightarrow>
        if IsSrtpActive t then (t, g)
        else case ExtractParams D (rtcp_dtls_transport t) of
          None \<Rightarrow> (t, g)
        | Some (cs, sk, rk) \<Rightarrow>
            snd (SetRtcpParams L (dn_packets D) cs sk (ids_or_empty (send_extension_ids t))
                   cs rk (ids_or_empty (recv_extension_ids t)) t g))"

definition MaybeSetupDtlsSrtp ::
    "'w srtp_lib \<Rightarrow> dtls_net \<Rightarrow> 'a DtlsSrtpTransport_scheme \<times> 'w srtp_global
     \<Rightarrow> 'a DtlsSrtpTransport_scheme \<times> 'w srtp_global" where
  "MaybeSetupDtlsSrtp L D tg =
     (if IsSrtpActive (fst tg) \<or> \<not> IsDtlsWritable D (fst tg) then tg
      else
        (let tg1 = SetupRtpDtlsSrtp L D tg
         in if \<not> rtcp_mux_enabled (fst tg1) \<and> rtcp_dtls_transport (fst tg1) \<noteq> None
            then SetupRtcpDtlsSrtp L D tg1 else tg1))"

section \<open>Transports\<close>

definition log_switch ::
    "tid option \<Rightarrow> tid option \<Rightarrow> 'a DtlsSrtpTransport_scheme \<Rightarrow> 'a DtlsSrtpTransport_scheme" where
  "log_switch old new t =
     t\<lparr>dtls_log := dtls_log t
         @ (case old of None \<Rightarrow> [] | Some x \<Rightarrow> [Unsubscribe x])
         @ (case new of None \<Rightarrow> [] | Some x \<Rightarrow> [Subscribe x])\<rparr>"

text \<open>\<open>SetDtlsTransport\<close> on each of the two pointers.\<close>

definition SetRtpDtlsTransport ::
    "tid option \<Rightarrow> 'a DtlsSrtpTransport_scheme \<Rightarrow> 'a DtlsSrtpTransport_scheme" where
  "SetRtpDtlsTransport new t =
     (if rtp_dtls_transport t = new then t
      else (log_switch (rtp_dtls_transport t) new t)\<lparr>rtp_dtls_transport := new\<rparr>)"

definition SetRtcpDtlsTransport ::
    "tid option \<Rightarrow> 'a DtlsSrtpTransport_scheme \<Rightarrow> 'a DtlsSrtpTransport_scheme" where
  "SetRtcpDtlsTransport new t =
     (if rtcp_dtls_transport t = new then t
      else (log_switch (rtcp_dtls_transport t) new t)\<lparr>rtcp_dtls_transport := new\<rparr>)"

text \<open>\<open>None\<close> is the failed RTC_CHECK.\<close>

definition SetDtlsTransports ::
    "'w srtp_lib \<Rightarrow> dtls_net \<Rightarrow> tid option \<Rightarrow> tid option
     \<Rightarrow> 'a DtlsSrtpTransport_scheme \<times> 'w srtp_global
     \<Rightarrow> ('a DtlsSrtpTransport_scheme \<times> 'w srtp_global) option" where
  "SetDtlsTransports L D rtp rtcp tg =
     (let tg1 = (if IsSrtpActive (fst tg)
                    \<and> (rtp \<noteq> rtp_dtls_transport (fst tg) \<or> active_reset_srtp_params (fst tg))
                 then ResetParams L (dn_packets D) (fst tg) (snd tg) else tg)
      in if rtcp \<noteq> None \<and> rtcp \<noteq> rtcp_dtls_transport (fst tg1) \<and> IsSrtpActive (fst tg1)
         then None
         else
           (let N = dn_packets D;
                t2 = SetRtcpPacketTransport N rtcp (SetRtcpDtlsTransport rtcp (fst tg1));
                t3 = SetRtpPacketTransport N rtp (SetRtpDtlsTransport rtp t2)
            in Some (MaybeSetupDtlsSrtp L D (t3, snd tg1))))"

definition dtls_SetRtcpMuxEnabled ::
    "'w srtp_lib \<Rightarrow> dtls_net \<Rightarrow> bool \<Rightarrow> 'a DtlsSrtpTransport_scheme \<times> 'w srtp_global
     \<Rightarrow> 'a DtlsSrtpTransport_scheme \<times> 'w srtp_global" where
  "dtls_SetRtcpMuxEnabled L D enable tg =
     (let tg1 = (rtp_SetRtcpMuxEnabled enable (fst tg), snd tg)
      in if enable then MaybeSetupDtlsSrtp L D tg1 else tg1)"

section \<open>Header extensions, state changes, keys from outside\<close>

definition UpdateSendEncryptedHeaderExtensionIds ::
    "'w srtp_lib \<Rightarrow> dtls_net \<Rightarrow> int list \<Rightarrow> 'a DtlsSrtpTransport_scheme \<times> 'w srtp_global
     \<Rightarrow> 'a DtlsSrtpTransport_scheme \<times> 'w srtp_global" where
  "UpdateSendEncryptedHeaderExtensionIds L D ids tg =
     (if send_extension_ids (fst tg) = Some ids then tg
      else
        (let tg1 = ((fst tg)\<lparr>send_extension_ids := Some ids\<rparr>, snd tg)
         in if DtlsHandshakeCompleted D (fst tg1) then SetupRtpDtlsSrtp L D tg1 else tg1))"

definition UpdateRecvEncryptedHeaderExtensionIds ::
    "'w srtp_lib \<Rightarrow> dtls_net \<Rightarrow> int list \<Rightarrow> 'a DtlsSrtpTransport_scheme \<times> 'w srtp_global
     \<Rightarrow> 'a DtlsSrtpTransport_scheme \<times> 'w srtp_global" where
  "UpdateRecvEncryptedHeaderExtensionIds L D ids tg =
     (if recv_extension_ids (fst tg) = Some ids then tg
      else
        (let tg1 = ((fst tg)\<lparr>recv_extension_ids := Some ids\<rparr>, snd tg)
         in if DtlsHandshakeCompleted D (fst tg1) then SetupRtpDtlsSrtp L D tg1 else tg1))"

definition OnDtlsState ::
    "'w srtp_lib \<Rightarrow> dtls_net \<Rightarrow> bool \<Rightarrow> 'a DtlsSrtpTransport_scheme \<times> 'w srtp_global
     \<Rightarrow> 'a DtlsSrtpTransport_scheme \<times> 'w srtp_global" where
  "OnDtlsState L D is_connected tg =
     (let t1 = (if has_state_callback (fst tg)
                then (fst tg)\<lparr>dtls_log := dtls_log (fst tg) @ [StateChangeCallback]\<rparr> else fst tg)
      in if \<not> is_connected then ResetParams L (dn_packets D) t1 (snd tg)
         else MaybeSetupDtlsSrtp L D (t1, snd tg))"

definition dtls_OnWritableState ::
    "'w srtp_lib \<Rightarrow> dtls_net \<Rightarrow> 'a DtlsSrtpTransport_scheme \<times> 'w srtp_global
     \<Rightarrow> 'a DtlsSrtpTransport_scheme \<times> 'w srtp_global" where
  "dtls_OnWritableState L D tg = MaybeSetupDtlsSrtp L D tg"

definition SetOnDtlsStateChange ::
    "bool \<Rightarrow> 'a DtlsSrtpTransport_scheme \<Rightarrow> 'a DtlsSrtpTransport_scheme" where
  "SetOnDtlsStateChange callback t = t\<lparr>has_state_callback := callback\<rparr>"

definition SetActiveResetSrtpParams ::
    "bool \<Rightarrow> 'a DtlsSrtpTransport_scheme \<Rightarrow> 'a DtlsSrtpTransport_scheme" where
  "SetActiveResetSrtpParams b t = t\<lparr>active_reset_srtp_params := b\<rparr>"

definition dtls_SetSrtpSendKey :: "CryptoParams \<Rightarrow> RTCError" where
  "dtls_SetSrtpSendKey params =
     RTCErr UNSUPPORTED_OPERATION ''Set SRTP keys for DTLS-SRTP is not supported.''"

definition dtls_SetSrtpReceiveKey :: "CryptoParams \<Rightarrow> RTCError" where
  "dtls_SetSrtpReceiveKey params =
     RTCErr UNSUPPORTED_OPERATION ''Set SRTP keys for DTLS-SRTP is not supported.''"

section \<open>What the SRTP layer leaves alone\<close>

definition outer ::
    "'a SrtpTransport_scheme \<Rightarrow> 'a \<times> tid option \<times> tid option \<times> bool" where
  "outer t = (SrtpTransport.more t, rtp_packet_transport t, rtcp_packet_transport t,
              rtcp_mux_enabled t)"

lemma outer_emit [simp]: "outer (emit x t) = outer t"
  by (simp add: outer_def emit_def)

lemma outer_cong [simp]:
  "outer (t\<lparr>send_session := a\<rparr>) = outer t"
  "outer (t\<lparr>recv_session := a\<rparr>) = outer t"
  "outer (t\<lparr>send_rtcp_session := a\<rparr>) = outer t"
  "outer (t\<lparr>recv_rtcp_session := a\<rparr>) = outer t"
  "outer (t\<lparr>srtp_writable := w\<rparr>) = outer t"
  "outer (t\<lparr>decryption_failure_count := n\<rparr>) = outer t"
  by (simp_all add: outer_def)

lemma outer_MaybeUpdate [simp]: "outer (MaybeUpdateWritableState N t) = outer t"
  by (simp add: MaybeUpdateWritableState_def Let_def)

lemma outer_SetReadyToSend [simp]: "outer (SetReadyToSend b r t) = outer t"
  by (simp add: SetReadyToSend_def MaybeSignalReadyToSend_def outer_def emit_def Let_def)

lemma outer_ResetParams [simp]: "outer (fst (ResetParams L N t g)) = outer t"
  by (simp add: ResetParams_def Let_def)

lemma outer_ResetParams_eq: "ResetParams L N t g = (t', g') \<Longrightarrow> outer t' = outer t"
  by (metis fst_conv outer_ResetParams)

lemma outer_Create: "CreateSrtpSessions L t g = (t', g') \<Longrightarrow> outer t' = outer t"
  by (auto simp: CreateSrtpSessions_def Let_def)

lemma outer_SetRtpParams:
  "SetRtpParams L N scs sk se rcs rk re t g = (b, t', g') \<Longrightarrow> outer t' = outer t"
  by (auto simp: SetRtpParams_def Let_def split: if_splits prod.splits
      dest!: outer_ResetParams_eq outer_Create)

lemma outer_SetRtcpParams:
  "SetRtcpParams L N scs sk se rcs rk re t g = (b, t', g') \<Longrightarrow> outer t' = outer t"
  by (auto simp: SetRtcpParams_def Let_def split: if_splits prod.splits)

lemma outer_SendPacket: "SendPacket N rtcp p f t = Some (b, t') \<Longrightarrow> outer t' = outer t"
  by (auto simp: SendPacket_def Let_def split: option.splits if_splits)

lemma outer_protect:
  "ProtectRtp L p n t g = (b, p', t', g') \<Longrightarrow> outer t' = outer t"
  "ProtectRtcp L p n t g = (b, p', t', g') \<Longrightarrow> outer t' = outer t"
  "UnprotectRtp L p t g = (b, p', t', g') \<Longrightarrow> outer t' = outer t"
  "UnprotectRtcp L p t g = (b, p', t', g') \<Longrightarrow> outer t' = outer t"
  by (auto simp: ProtectRtp_def ProtectRtcp_def UnprotectRtp_def UnprotectRtcp_def
      split: if_splits prod.splits option.splits)

lemma outer_Send:
  "srtp_SendRtpPacket L N p n f t g = Some (b, t', g') \<Longrightarrow> outer t' = outer t"
  "srtp_SendRtcpPacket L N p n f t g = Some (b, t', g') \<Longrightarrow> outer t' = outer t"
  by (auto simp: srtp_SendRtpPacket_def srtp_SendRtcpPacket_def
      split: if_splits prod.splits bool.splits dest!: outer_protect outer_SendPacket)

lemma outer_Received:
  "srtp_OnRtpPacketReceived L p us (t, g) = (t', g') \<Longrightarrow> outer t' = outer t"
  "srtp_OnRtcpPacketReceived L p us (t, g) = (t', g') \<Longrightarrow> outer t' = outer t"
  by (auto simp: srtp_OnRtpPacketReceived_def srtp_OnRtcpPacketReceived_def DemuxPacket_def
      split: if_splits prod.splits bool.splits dest!: outer_protect)

text \<open>The part of the object that only this class writes.\<close>

lemma outer_fields:
  assumes "outer t' = outer t"
  shows "rtp_dtls_transport t' = rtp_dtls_transport t"
    "rtcp_dtls_transport t' = rtcp_dtls_transport t" "dtls_log t' = dtls_log t"
    "rtp_packet_transport t' = rtp_packet_transport t"
    "rtcp_packet_transport t' = rtcp_packet_transport t"
    "rtcp_mux_enabled t' = rtcp_mux_enabled t"
  using assms by (cases t, cases t', simp add: outer_def)+

section \<open>Setting up\<close>

lemma SetupRtpDtlsSrtp_inv:
  assumes "SetupRtpDtlsSrtp L D (t, g) = (t', g')" "srtp_ok t"
  shows "others (t', g') = others (t, g) \<and> srtp_ok t' \<and> outer t' = outer t"
  using assms SetRtpParams_inv outer_SetRtpParams
  by (fastforce simp: SetupRtpDtlsSrtp_def split: option.splits prod.splits dest!: snd_eqD)

lemma SetupRtcpDtlsSrtp_inv:
  assumes "SetupRtcpDtlsSrtp L D (t, g) = (t', g')" "srtp_ok t"
  shows "others (t', g') = others (t, g) \<and> srtp_ok t' \<and> outer t' = outer t"
  using assms SetRtcpParams_ok outer_SetRtcpParams
  by (fastforce simp: SetupRtcpDtlsSrtp_def split: if_splits option.splits prod.splits
      dest!: snd_eqD)

lemma MaybeSetupDtlsSrtp_inv:
  assumes "MaybeSetupDtlsSrtp L D (t, g) = (t', g')" "srtp_ok t"
  shows "others (t', g') = others (t, g) \<and> srtp_ok t' \<and> outer t' = outer t"
proof -
  obtain t1 g1 where 1: "SetupRtpDtlsSrtp L D (t, g) = (t1, g1)" by fastforce
  obtain t2 g2 where 2: "SetupRtcpDtlsSrtp L D (t1, g1) = (t2, g2)" by fastforce
  from SetupRtpDtlsSrtp_inv [OF 1] SetupRtcpDtlsSrtp_inv [OF 2] assms 1 2 show ?thesis
    by (auto simp: MaybeSetupDtlsSrtp_def Let_def split: if_splits)
qed

text \<open>The part of the frames that needs no invariant.\<close>

lemma outer_SetupRtp: "SetupRtpDtlsSrtp L D (t, g) = (t', g') \<Longrightarrow> outer t' = outer t"
  by (auto simp: SetupRtpDtlsSrtp_def split: option.splits prod.splits
      dest!: snd_eqD dest: outer_SetRtpParams)

lemma outer_SetupRtcp: "SetupRtcpDtlsSrtp L D (t, g) = (t', g') \<Longrightarrow> outer t' = outer t"
  by (auto simp: SetupRtcpDtlsSrtp_def split: if_splits option.splits prod.splits
      dest!: snd_eqD dest: outer_SetRtcpParams)

lemma outer_MaybeSetup:
  assumes "MaybeSetupDtlsSrtp L D (t, g) = (t', g')"
  shows "outer t' = outer t"
proof -
  obtain t1 g1 where 1: "SetupRtpDtlsSrtp L D (t, g) = (t1, g1)" by fastforce
  obtain t2 g2 where 2: "SetupRtcpDtlsSrtp L D (t1, g1) = (t2, g2)" by fastforce
  from outer_SetupRtp [OF 1] outer_SetupRtcp [OF 2] assms 1 2 show ?thesis
    by (auto simp: MaybeSetupDtlsSrtp_def Let_def split: if_splits)
qed

section \<open>A session of calls\<close>

fun log_change :: "tid \<Rightarrow> DtlsLog \<Rightarrow> int" where
  "log_change x (Subscribe y) = (if x = y then 1 else 0)"
| "log_change x (Unsubscribe y) = (if x = y then -1 else 0)"
| "log_change x StateChangeCallback = 0"

definition subscribed :: "tid \<Rightarrow> 'a DtlsSrtpTransport_scheme \<Rightarrow> int" where
  "subscribed x t = sum_list (List.map (log_change x) (dtls_log t))"

text \<open>The object sends on the DTLS transports it is keyed by and listens to exactly these.\<close>

definition dtls_ok :: "'a DtlsSrtpTransport_scheme \<Rightarrow> bool" where
  "dtls_ok t \<longleftrightarrow> rtp_packet_transport t = rtp_dtls_transport t
     \<and> rtcp_packet_transport t = rtcp_dtls_transport t
     \<and> (\<forall>x. subscribed x t = of_bool (rtp_dtls_transport t = Some x)
                          + of_bool (rtcp_dtls_transport t = Some x))"

lemma dtls_ok_outer:
  assumes "outer t' = outer t"
  shows "dtls_ok t' = dtls_ok t"
  by (simp add: dtls_ok_def subscribed_def outer_fields [OF assms])

datatype DtlsCall =
    D_SetDtlsTransports "tid option" "tid option"
  | D_SetRtcpMuxEnabled bool
  | D_UpdateSendEncryptedHeaderExtensionIds "int list"
  | D_UpdateRecvEncryptedHeaderExtensionIds "int list"
  | D_OnDtlsState bool
  | D_OnWritableState
  | D_SetOnDtlsStateChange bool
  | D_SetActiveResetSrtpParams bool
  | D_OnReadyToSend tid
  | D_OnReadPacket "byte list" int
  | D_OnNetworkRouteChanged "route option"
  | D_SendRtpPacket "byte list" int int
  | D_SendRtcpPacket "byte list" int int

fun dtls_call ::
    "'w srtp_lib \<Rightarrow> rtp_util \<Rightarrow> dtls_net \<times> DtlsCall
     \<Rightarrow> 'a DtlsSrtpTransport_scheme \<times> 'w srtp_global
     \<Rightarrow> ('a DtlsSrtpTransport_scheme \<times> 'w srtp_global) option" where
  "dtls_call L U (D, D_SetDtlsTransports a b) tg = SetDtlsTransports L D a b tg"
| "dtls_call L U (D, D_SetRtcpMuxEnabled e) tg = Some (dtls_SetRtcpMuxEnabled L D e tg)"
| "dtls_call L U (D, D_UpdateSendEncryptedHeaderExtensionIds ids) tg =
     Some (UpdateSendEncryptedHeaderExtensionIds L D ids tg)"
| "dtls_call L U (D, D_UpdateRecvEncryptedHeaderExtensionIds ids) tg =
     Some (UpdateRecvEncryptedHeaderExtensionIds L D ids tg)"
| "dtls_call L U (D, D_OnDtlsState c) tg = Some (OnDtlsState L D c tg)"
| "dtls_call L U (D, D_OnWritableState) tg = Some (dtls_OnWritableState L D tg)"
| "dtls_call L U (D, D_SetOnDtlsStateChange c) (t, g) = Some (SetOnDtlsStateChange c t, g)"
| "dtls_call L U (D, D_SetActiveResetSrtpParams b) (t, g) = Some (SetActiveResetSrtpParams b t, g)"
| "dtls_call L U (D, D_OnReadyToSend x) (t, g) = Some (OnReadyToSend x t, g)"
| "dtls_call L U (D, D_OnReadPacket p us) tg =
     Some (OnReadPacket U (srtp_OnRtpPacketReceived L) (srtp_OnRtcpPacketReceived L) p us tg)"
| "dtls_call L U (D, D_OnNetworkRouteChanged r) (t, g) = Some (srtp_OnNetworkRouteChanged r t, g)"
| "dtls_call L U (D, D_SendRtpPacket p n f) (t, g) =
     map_option snd (srtp_SendRtpPacket L (dn_packets D) p n f t g)"
| "dtls_call L U (D, D_SendRtcpPacket p n f) (t, g) =
     map_option snd (srtp_SendRtcpPacket L (dn_packets D) p n f t g)"

fun dtls_run ::
    "'w srtp_lib \<Rightarrow> rtp_util \<Rightarrow> (dtls_net \<times> DtlsCall) list
     \<Rightarrow> 'a DtlsSrtpTransport_scheme \<times> 'w srtp_global
     \<Rightarrow> ('a DtlsSrtpTransport_scheme \<times> 'w srtp_global) option" where
  "dtls_run L U [] tg = Some tg"
| "dtls_run L U (c # cs) tg = Option.bind (dtls_call L U c tg) (dtls_run L U cs)"

definition new_DtlsSrtpTransport :: "bool \<Rightarrow> DtlsSrtpTransport" where
  "new_DtlsSrtpTransport mux =
     SrtpTransport.extend (new_SrtpTransport mux)
       \<lparr>rtp_dtls_transport = None, rtcp_dtls_transport = None, send_extension_ids = None,
        recv_extension_ids = None, active_reset_srtp_params = False, has_state_callback = False,
        dtls_log = []\<rparr>"

lemma sessions_cong_dtls [simp]:
  "sessions (t\<lparr>send_extension_ids := i\<rparr>) = sessions t"
  "sessions (t\<lparr>recv_extension_ids := i\<rparr>) = sessions t"
  "sessions (t\<lparr>dtls_log := l\<rparr>) = sessions t"
  "sessions (t\<lparr>has_state_callback := b\<rparr>) = sessions t"
  "sessions (t\<lparr>active_reset_srtp_params := b\<rparr>) = sessions t"
  "sessions (t\<lparr>rtp_dtls_transport := x\<rparr>) = sessions t"
  "sessions (t\<lparr>rtcp_dtls_transport := x\<rparr>) = sessions t"
  by (simp_all add: sessions_def)

lemma inv_cong_dtls [simp]:
  "others (t\<lparr>send_extension_ids := i\<rparr>, g) = others (t, g)"
  "others (t\<lparr>recv_extension_ids := i\<rparr>, g) = others (t, g)"
  "others (t\<lparr>dtls_log := l\<rparr>, g) = others (t, g)"
  "others (t\<lparr>has_state_callback := b\<rparr>, g) = others (t, g)"
  "others (t\<lparr>active_reset_srtp_params := b\<rparr>, g) = others (t, g)"
  "others (t\<lparr>rtp_dtls_transport := x\<rparr>, g) = others (t, g)"
  "others (t\<lparr>rtcp_dtls_transport := x\<rparr>, g) = others (t, g)"
  "srtp_ok (t\<lparr>send_extension_ids := i\<rparr>) = srtp_ok t"
  "srtp_ok (t\<lparr>recv_extension_ids := i\<rparr>) = srtp_ok t"
  "srtp_ok (t\<lparr>dtls_log := l\<rparr>) = srtp_ok t"
  "srtp_ok (t\<lparr>has_state_callback := b\<rparr>) = srtp_ok t"
  "srtp_ok (t\<lparr>active_reset_srtp_params := b\<rparr>) = srtp_ok t"
  "srtp_ok (t\<lparr>rtp_dtls_transport := x\<rparr>) = srtp_ok t"
  "srtp_ok (t\<lparr>rtcp_dtls_transport := x\<rparr>) = srtp_ok t"
  by (simp_all add: others_def held_def sessions_def srtp_ok_def)

lemma dtls_ok_cong [simp]:
  "dtls_ok (t\<lparr>send_extension_ids := i\<rparr>) = dtls_ok t"
  "dtls_ok (t\<lparr>recv_extension_ids := i\<rparr>) = dtls_ok t"
  "dtls_ok (t\<lparr>has_state_callback := b\<rparr>) = dtls_ok t"
  "dtls_ok (t\<lparr>active_reset_srtp_params := b\<rparr>) = dtls_ok t"
  "dtls_ok (t\<lparr>dtls_log := dtls_log t @ [StateChangeCallback]\<rparr>) = dtls_ok t"
  by (simp_all add: dtls_ok_def subscribed_def)

lemma more_fields:
  assumes "SrtpTransport.more t' = SrtpTransport.more t"
  shows "rtp_dtls_transport t' = rtp_dtls_transport t"
    "rtcp_dtls_transport t' = rtcp_dtls_transport t" "dtls_log t' = dtls_log t"
  using assms by (cases t, cases t', simp)+

lemma more_emit [simp]: "SrtpTransport.more (emit x t) = SrtpTransport.more t"
  by (simp add: emit_def)

lemma more_SetReadyToSend [simp]:
  "SrtpTransport.more (SetReadyToSend b r t) = SrtpTransport.more t"
  by (simp add: SetReadyToSend_def MaybeSignalReadyToSend_def Let_def)

lemma more_switch [simp]: "SrtpTransport.more (switch_slots N old new t) = SrtpTransport.more t"
  by (simp add: switch_slots_def Let_def split: option.splits)

lemma more_set [simp]:
  "SrtpTransport.more (SetRtpPacketTransport N x t) = SrtpTransport.more t"
  "SrtpTransport.more (SetRtcpPacketTransport N x t) = SrtpTransport.more t"
  by (simp_all add: SetRtpPacketTransport_def SetRtcpPacketTransport_def)

lemma set_packet_fields [simp]:
  "rtp_packet_transport (SetRtpPacketTransport N x t) = x"
  "rtcp_packet_transport (SetRtpPacketTransport N x t) = rtcp_packet_transport t"
  "rtcp_packet_transport (SetRtcpPacketTransport N x t) = x"
  "rtp_packet_transport (SetRtcpPacketTransport N x t) = rtp_packet_transport t"
  by (simp_all add: SetRtpPacketTransport_def SetRtcpPacketTransport_def)

lemmas set_dtls_fields [simp] = more_set(1) [THEN more_fields(1)] more_set(1) [THEN more_fields(2)]
  more_set(1) [THEN more_fields(3)] more_set(2) [THEN more_fields(1)]
  more_set(2) [THEN more_fields(2)] more_set(2) [THEN more_fields(3)]

lemma subscribed_set [simp]:
  "subscribed x (SetRtpPacketTransport N y t) = subscribed x t"
  "subscribed x (SetRtcpPacketTransport N y t) = subscribed x t"
  "subscribed x (SetRtpDtlsTransport y t)
     = subscribed x t - of_bool (rtp_dtls_transport t = Some x) + of_bool (y = Some x)"
  "subscribed x (SetRtcpDtlsTransport y t)
     = subscribed x t - of_bool (rtcp_dtls_transport t = Some x) + of_bool (y = Some x)"
  by (auto simp: subscribed_def SetRtpDtlsTransport_def SetRtcpDtlsTransport_def log_switch_def
      split: option.splits)

lemma set_dtls_transport_fields [simp]:
  "rtp_dtls_transport (SetRtpDtlsTransport y t) = y"
  "rtcp_dtls_transport (SetRtpDtlsTransport y t) = rtcp_dtls_transport t"
  "rtcp_dtls_transport (SetRtcpDtlsTransport y t) = y"
  "rtp_dtls_transport (SetRtcpDtlsTransport y t) = rtp_dtls_transport t"
  "rtp_packet_transport (SetRtpDtlsTransport y t) = rtp_packet_transport t"
  "rtcp_packet_transport (SetRtpDtlsTransport y t) = rtcp_packet_transport t"
  "rtp_packet_transport (SetRtcpDtlsTransport y t) = rtp_packet_transport t"
  "rtcp_packet_transport (SetRtcpDtlsTransport y t) = rtcp_packet_transport t"
  "others (SetRtpDtlsTransport y t, g) = others (t, g)"
  "others (SetRtcpDtlsTransport y t, g) = others (t, g)"
  "srtp_ok (SetRtpDtlsTransport y t) = srtp_ok t"
  "srtp_ok (SetRtcpDtlsTransport y t) = srtp_ok t"
  by (simp_all add: SetRtpDtlsTransport_def SetRtcpDtlsTransport_def log_switch_def)

lemma SetupRtp_step:
  assumes "SetupRtpDtlsSrtp L D (t, g) = (t', g')" "srtp_ok t" "dtls_ok t"
  shows "others (t', g') = others (t, g) \<and> srtp_ok t' \<and> dtls_ok t'"
  using SetupRtpDtlsSrtp_inv [OF assms(1,2)] assms(3) dtls_ok_outer by blast

lemma MaybeSetup_step:
  assumes "MaybeSetupDtlsSrtp L D (t, g) = (t', g')" "srtp_ok t" "dtls_ok t"
  shows "others (t', g') = others (t, g) \<and> srtp_ok t' \<and> dtls_ok t'"
  using MaybeSetupDtlsSrtp_inv [OF assms(1,2)] assms(3) dtls_ok_outer by blast

lemma Reset_step:
  assumes "ResetParams L N t g = (t', g')" "dtls_ok t"
  shows "others (t', g') = others (t, g) \<and> srtp_ok t' \<and> dtls_ok t'"
  using ResetParams_inv [OF assms(1)] outer_ResetParams_eq [OF assms(1)] assms(2) dtls_ok_outer
  by blast

lemma frame_step:
  assumes "outer t' = outer t" "others (t', g') = others (t, g) \<and> srtp_ok t'" "dtls_ok t"
  shows "others (t', g') = others (t, g) \<and> srtp_ok t' \<and> dtls_ok t'"
  using assms dtls_ok_outer by blast

lemma SetDtlsTransports_inv:
  assumes "SetDtlsTransports L D a b (t, g) = Some (t', g')" "srtp_ok t" "dtls_ok t"
  shows "others (t', g') = others (t, g) \<and> srtp_ok t' \<and> dtls_ok t'
    \<and> rtp_dtls_transport t' = a \<and> rtcp_dtls_transport t' = b"
proof -
  let ?reset = "IsSrtpActive t \<and> (a \<noteq> rtp_dtls_transport t \<or> active_reset_srtp_params t)"
  obtain t1 g1 where 1: "(if ?reset then ResetParams L (dn_packets D) t g else (t, g)) = (t1, g1)"
    by fastforce
  have t1: "others (t1, g1) = others (t, g)" "srtp_ok t1" "dtls_ok t1"
    using 1 assms(2,3) Reset_step [of L "dn_packets D" t g t1 g1] by (auto split: if_splits)
  let ?t3 = "SetRtpPacketTransport (dn_packets D) a (SetRtpDtlsTransport a
      (SetRtcpPacketTransport (dn_packets D) b (SetRtcpDtlsTransport b t1)))"
  have m: "MaybeSetupDtlsSrtp L D (?t3, g1) = (t', g')"
    using assms(1) 1 by (auto simp: SetDtlsTransports_def Let_def split: if_splits)
  have "others (?t3, g1) = others (t, g)" "srtp_ok ?t3" "dtls_ok ?t3"
    using t1 by (simp_all add: dtls_ok_def)
  with MaybeSetupDtlsSrtp_inv [OF m] show ?thesis
    using dtls_ok_outer [of t' ?t3] outer_fields [of t' ?t3] by simp
qed

lemma OnReadPacket_cases:
  "OnReadPacket U f h p us s = s \<or> OnReadPacket U f h p us s = f p us s
    \<or> OnReadPacket U f h p us s = h p us s"
  by (simp add: OnReadPacket_def Let_def)

lemma dtls_call_inv:
  assumes "dtls_call L U (D, c) (t, g) = Some (t', g')" "srtp_ok t" "dtls_ok t"
  shows "others (t', g') = others (t, g) \<and> srtp_ok t' \<and> dtls_ok t'"
proof (cases c)
  case (D_SetDtlsTransports a b)
  with assms(1) have "SetDtlsTransports L D a b (t, g) = Some (t', g')" by simp
  from SetDtlsTransports_inv [OF this assms(2,3)] show ?thesis by blast
next
  case (D_SetRtcpMuxEnabled e)
  have "dtls_ok (rtp_SetRtcpMuxEnabled e t)"
    using assms(3) more_fields [of "rtp_SetRtcpMuxEnabled e t" t]
    by (auto simp: dtls_ok_def subscribed_def rtp_SetRtcpMuxEnabled_def MaybeSignalReadyToSend_def
        Let_def)
  with D_SetRtcpMuxEnabled assms MaybeSetup_step [of L D "rtp_SetRtcpMuxEnabled e t" g t' g']
  show ?thesis by (auto simp: dtls_SetRtcpMuxEnabled_def Let_def split: if_splits)
next
  case (D_OnReadPacket p us)
  with assms(1) consider "(t', g') = (t, g)"
    | "srtp_OnRtpPacketReceived L p us (t, g) = (t', g')"
    | "srtp_OnRtcpPacketReceived L p us (t, g) = (t', g')"
    using OnReadPacket_cases [of U "srtp_OnRtpPacketReceived L" "srtp_OnRtcpPacketReceived L" p us
        "(t, g)"] by fastforce
  then show ?thesis
  proof cases
    case 1
    then show ?thesis using assms(2,3) by simp
  next
    case 2
    from frame_step [OF outer_Received(1) [OF 2] srtp_Received_inv(1) [OF 2 assms(2)] assms(3)]
    show ?thesis .
  next
    case 3
    from frame_step [OF outer_Received(2) [OF 3] srtp_Received_inv(2) [OF 3 assms(2)] assms(3)]
    show ?thesis .
  qed
next
  case (D_SendRtpPacket p n f)
  with assms(1) obtain r where "srtp_SendRtpPacket L (dn_packets D) p n f t g = Some (r, t', g')"
    by auto
  from frame_step [OF outer_Send(1) [OF this] srtp_Send_inv(1) [OF this assms(2)] assms(3)]
  show ?thesis .
next
  case (D_SendRtcpPacket p n f)
  with assms(1) obtain r where "srtp_SendRtcpPacket L (dn_packets D) p n f t g = Some (r, t', g')"
    by auto
  from frame_step [OF outer_Send(2) [OF this] srtp_Send_inv(2) [OF this assms(2)] assms(3)]
  show ?thesis .
next
  case (D_OnReadyToSend x)
  then show ?thesis using assms frame_step [of t' t g' g] by (auto simp: OnReadyToSend_def)
next
  case (D_OnNetworkRouteChanged r)
  then show ?thesis using assms frame_step [of t' t g' g]
    by (auto simp: srtp_OnNetworkRouteChanged_def)
qed (use assms in \<open>auto simp: UpdateSendEncryptedHeaderExtensionIds_def
      UpdateRecvEncryptedHeaderExtensionIds_def OnDtlsState_def dtls_OnWritableState_def
      SetOnDtlsStateChange_def SetActiveResetSrtpParams_def Let_def
      split: if_splits dest: SetupRtp_step MaybeSetup_step Reset_step\<close>)

interpretation dtls_seq: call_run "dtls_call L U" "dtls_run L U" for L U
  by unfold_locales simp_all

lemma dtls_run_inv:
  assumes "dtls_run L U cs (t, g) = Some (t', g')" "srtp_ok t" "dtls_ok t"
  shows "others (t', g') = others (t, g) \<and> srtp_ok t' \<and> dtls_ok t'"
  using dtls_seq.run_keeps [where P = "\<lambda>(x, h). others (x, h) = others (t, g) \<and> srtp_ok x \<and> dtls_ok x",
      OF assms(1)] assms(2,3) dtls_call_inv by fastforce

section \<open>Becoming active\<close>

definition handshake_done :: "dtls_net \<Rightarrow> 'a DtlsSrtpTransport_scheme \<Rightarrow> bool" where
  "handshake_done D t \<longleftrightarrow> (IsDtlsWritable D t \<or> DtlsHandshakeCompleted D t)
     \<and> ExtractParams D (rtp_dtls_transport t) \<noteq> None"

lemma both_transports_outer:
  assumes "outer t' = outer t"
  shows "both_transports P t' = both_transports P t"
proof -
  have "rtcp_transport_in_use t' = rtcp_transport_in_use t"
    by (simp add: rtcp_transport_in_use_def outer_fields [OF assms])
  then show ?thesis unfolding both_transports_def by (simp only: outer_fields [OF assms])
qed

lemma handshake_done_outer:
  assumes "outer t' = outer t"
  shows "handshake_done D t' = handshake_done D t"
  by (simp add: handshake_done_def IsDtlsWritable_def DtlsHandshakeCompleted_def IsDtlsActive_def
      IsDtlsConnected_def both_transports_outer [OF assms] outer_fields [OF assms])

lemma SetupRtpDtlsSrtp_activates:
  assumes "SetupRtpDtlsSrtp L D (t, g) = (t', g')" "\<not> IsSrtpActive t" "IsSrtpActive t'"
  shows "ExtractParams D (rtp_dtls_transport t) \<noteq> None"
  using assms by (auto simp: SetupRtpDtlsSrtp_def split: option.splits)

lemma SetupRtcpDtlsSrtp_activity:
  assumes "SetupRtcpDtlsSrtp L D (t, g) = (t', g')"
  shows "IsSrtpActive t' = IsSrtpActive t \<and> (IsSrtpActive t \<longrightarrow> (t', g') = (t, g))"
  using assms SetRtcpParams_inv
  by (fastforce simp: SetupRtcpDtlsSrtp_def IsSrtpActive_def split: if_splits option.splits
      dest!: snd_eqD)

lemma MaybeSetupDtlsSrtp_activates:
  assumes "MaybeSetupDtlsSrtp L D (t, g) = (t', g')" "\<not> IsSrtpActive t" "IsSrtpActive t'"
    "srtp_ok t"
  shows "handshake_done D t' \<and> SetupRtpDtlsSrtp L D (t, g) = (t', g') \<and> IsDtlsWritable D t"
proof -
  obtain t1 g1 where 1: "SetupRtpDtlsSrtp L D (t, g) = (t1, g1)" by fastforce
  obtain t2 g2 where 2: "SetupRtcpDtlsSrtp L D (t1, g1) = (t2, g2)" by fastforce
  have w: "IsDtlsWritable D t" using assms by (auto simp: MaybeSetupDtlsSrtp_def split: if_splits)
  have "(t', g') = (t1, g1) \<or> (t', g') = (t2, g2)"
    using assms 1 2 w by (auto simp: MaybeSetupDtlsSrtp_def Let_def split: if_splits)
  then have eq: "(t', g') = (t1, g1)" using SetupRtcpDtlsSrtp_activity [OF 2] assms(3) by auto
  then have "ExtractParams D (rtp_dtls_transport t) \<noteq> None"
    using SetupRtpDtlsSrtp_activates [OF 1 assms(2)] assms(3) by simp
  then have "handshake_done D t" using w by (simp add: handshake_done_def)
  moreover have "outer t' = outer t" using MaybeSetupDtlsSrtp_inv [OF assms(1,4)] by blast
  ultimately show ?thesis using handshake_done_outer 1 eq w by auto
qed

lemma SetupRtp_handshake:
  assumes "SetupRtpDtlsSrtp L D (t, g) = (t', g')" "\<not> IsSrtpActive t" "IsSrtpActive t'"
    "srtp_ok t" "DtlsHandshakeCompleted D t"
  shows "handshake_done D t'"
proof -
  have "handshake_done D t"
    using SetupRtpDtlsSrtp_activates [OF assms(1-3)] assms(5) by (simp add: handshake_done_def)
  moreover have "outer t' = outer t" using SetupRtpDtlsSrtp_inv [OF assms(1,4)] by blast
  ultimately show ?thesis using handshake_done_outer by blast
qed

lemma active_frame [simp]:
  "IsSrtpActive (emit y t) = IsSrtpActive t"
  "IsSrtpActive (SetReadyToSend b r t) = IsSrtpActive t"
  "IsSrtpActive (rtp_SetRtcpMuxEnabled e t) = IsSrtpActive t"
  "IsSrtpActive (SetRtpPacketTransport N x t) = IsSrtpActive t"
  "IsSrtpActive (SetRtcpPacketTransport N x t) = IsSrtpActive t"
  "IsSrtpActive (SetRtpDtlsTransport x' t') = IsSrtpActive t'"
  "IsSrtpActive (SetRtcpDtlsTransport x' t') = IsSrtpActive t'"
  "IsSrtpActive (t'\<lparr>send_extension_ids := i\<rparr>) = IsSrtpActive t'"
  "IsSrtpActive (t'\<lparr>recv_extension_ids := i\<rparr>) = IsSrtpActive t'"
  "IsSrtpActive (t'\<lparr>dtls_log := l\<rparr>) = IsSrtpActive t'"
  "IsSrtpActive (t'\<lparr>has_state_callback := c\<rparr>) = IsSrtpActive t'"
  "IsSrtpActive (t'\<lparr>active_reset_srtp_params := c\<rparr>) = IsSrtpActive t'"
  by (rule sessions_cong_pred(3), simp add: SetRtpDtlsTransport_def SetRtcpDtlsTransport_def
      log_switch_def)+

lemma inactive_traffic:
  assumes "\<not> IsSrtpActive t"
  shows "srtp_OnRtpPacketReceived L p us (t, g) = (t, g)"
    "srtp_OnRtcpPacketReceived L p us (t, g) = (t, g)"
    "srtp_SendRtpPacket L N p n f t g = Some (False, t, g)"
    "srtp_SendRtcpPacket L N p n f t g = Some (False, t, g)"
  using assms by (simp_all add: srtp_OnRtpPacketReceived_def srtp_OnRtcpPacketReceived_def
      srtp_SendRtpPacket_def srtp_SendRtcpPacket_def)

lemma SetDtlsTransports_activates:
  assumes "SetDtlsTransports L D a b (t, g) = Some (t', g')" "\<not> IsSrtpActive t"
    "IsSrtpActive t'" "srtp_ok t"
  shows "handshake_done D t'"
proof -
  let ?t3 = "SetRtpPacketTransport (dn_packets D) a (SetRtpDtlsTransport a
      (SetRtcpPacketTransport (dn_packets D) b (SetRtcpDtlsTransport b t)))"
  have "MaybeSetupDtlsSrtp L D (?t3, g) = (t', g')"
    using assms(1,2) by (simp add: SetDtlsTransports_def Let_def)
  moreover have "srtp_ok ?t3" "\<not> IsSrtpActive ?t3" using assms(2,4) by simp_all
  ultimately show ?thesis using MaybeSetupDtlsSrtp_activates assms(3) by blast
qed

section \<open>Properties\<close>

definition demo_dtls :: dtls_net where
  "demo_dtls =
     \<lparr>dn_packets = demo_net, dn_keys = demo_key_util, dn_active = (\<lambda>_. True),
      dn_connected = (\<lambda>_. True), dn_suite = (\<lambda>_. Some 1),
      dn_export = (\<lambda>_ n. Some (map of_nat [0..<n])), dn_role = (\<lambda>_. Some SSL_CLIENT)\<rparr>"

definition demo_dtls_calls :: "(dtls_net \<times> DtlsCall) list" where
  "demo_dtls_calls =
     [(demo_dtls, D_SetDtlsTransports (Some 1) (Some 2)), (demo_dtls, D_SetRtcpMuxEnabled True)]"

lemmas dtls_demo_defs = demo_dtls_def demo_dtls_calls_def new_DtlsSrtpTransport_def
  SrtpTransport.extend_def SetDtlsTransports_def SetRtcpDtlsTransport_def SetRtpDtlsTransport_def
  log_switch_def MaybeSetupDtlsSrtp_def IsDtlsWritable_def both_transports_def
  rtcp_transport_in_use_def SetupRtpDtlsSrtp_def ExtractParams_def ids_or_empty_def
  dtls_SetRtcpMuxEnabled_def

definition demo_dtls_state :: "DtlsSrtpTransport \<times> unit srtp_global" where
  "demo_dtls_state =
     the (dtls_run demo_lib demo_util demo_dtls_calls (new_DtlsSrtpTransport False, demo_global))"

lemma demo_dtls_value:
  "dtls_run demo_lib demo_util demo_dtls_calls (new_DtlsSrtpTransport False, demo_global)
     = Some demo_dtls_state"
  "IsSrtpActive (fst demo_dtls_state)"
  by (simp_all add: demo_dtls_state_def dtls_demo_defs srtp_demo_defs rtp_demo_defs Let_def)

text \<open>C7: Over any sequence of calls a DTLS-SRTP transport sends and receives on the very DTLS
  transports it takes its keys from, is subscribed to the state of these and of no other, and
  still releases every libsrtp user it took when it is destroyed.\<close>

theorem dtls_transports_consistent:
  assumes "dtls_run L U cs (new_DtlsSrtpTransport m, g) = Some (t, g')"
  shows "rtp_packet_transport t = rtp_dtls_transport t
    \<and> rtcp_packet_transport t = rtcp_dtls_transport t
    \<and> (\<forall>x. subscribed x t = of_bool (rtp_dtls_transport t = Some x)
                          + of_bool (rtcp_dtls_transport t = Some x))
    \<and> usage_count (destroy_SrtpTransport L t g') = usage_count g"
proof -
  have new: "srtp_ok (new_DtlsSrtpTransport m)" "dtls_ok (new_DtlsSrtpTransport m)"
    "held (new_DtlsSrtpTransport m) = 0"
    by (simp_all add: new_DtlsSrtpTransport_def new_SrtpTransport_def new_RtpTransport_def
        RtpTransport.extend_def SrtpTransport.extend_def srtp_ok_def dtls_ok_def subscribed_def
        held_def sessions_def)
  from dtls_run_inv [OF assms new(1,2)] new(3) show ?thesis
    by (simp add: dtls_ok_def usage_count_destroy_SrtpTransport others_def)
qed

theorem dtls_transports_consistent_witness:
  "subscribed 1 (fst demo_dtls_state) = of_bool (rtp_dtls_transport (fst demo_dtls_state) = Some 1)
       + of_bool (rtcp_dtls_transport (fst demo_dtls_state) = Some 1)
   \<and> IsSrtpActive (fst demo_dtls_state)"
proof -
  obtain t g where d: "demo_dtls_state = (t, g)" by fastforce
  show ?thesis
    using dtls_transports_consistent [OF demo_dtls_value(1) [unfolded d]] demo_dtls_value(2)
    by (simp add: d)
qed



text \<open>C8: The two ends of a DTLS connection key their SRTP sessions consistently: when the client
  and the server export the same keying material, the client's send key is the server's receive
  key and the reverse, both keys have the length the suite asks for, and together they use every
  byte of the material once, in the order client key, server key, client salt, server salt.\<close>

theorem dtls_endpoints_keys_agree:
  assumes act: "dn_active C x" "dn_active S y"
    and suite: "dn_suite C x = Some cs" "dn_suite S y = Some cs"
    and lens: "ku_key_salt_lengths (dn_keys C) cs = Some (kl, sl)"
      "ku_key_salt_lengths (dn_keys S) cs = Some (kl, sl)"
    and export: "dn_export C x (kl * 2 + sl * 2) = Some buf"
      "dn_export S y (kl * 2 + sl * 2) = Some buf" "length buf = kl * 2 + sl * 2"
    and roles: "dn_role C x = Some SSL_CLIENT" "dn_role S y = Some SSL_SERVER"
  shows "\<exists>ck sk. ExtractParams C (Some x) = Some (cs, ck, sk)
    \<and> ExtractParams S (Some y) = Some (cs, sk, ck)
    \<and> length ck = kl + sl \<and> length sk = kl + sl
    \<and> take kl ck @ take kl sk @ drop kl ck @ drop kl sk = buf"
proof -
  obtain a b c d where buf: "buf = a @ b @ c @ d" "length a = kl" "length b = kl" "length c = sl"
    "length d = sl"
  proof
    show "buf = take kl buf @ take kl (drop kl buf) @ take sl (drop (2 * kl) buf)
              @ drop (2 * kl + sl) buf"
      by (metis append_take_drop_id drop_drop mult_2 add.commute)
  qed (use export(3) in simp_all)
  have "ExtractParams C (Some x) = Some (cs, a @ c, b @ d)"
    "ExtractParams S (Some y) = Some (cs, b @ d, a @ c)"
    using assms buf(2-5) by (simp_all add: ExtractParams_def buf(1) Let_def mult_2)
  then show ?thesis using buf by (intro exI [of _ "a @ c"] exI [of _ "b @ d"]) simp
qed

theorem dtls_endpoints_keys_agree_witness:
  "\<exists>ck sk. ExtractParams demo_dtls (Some 1) = Some (1, ck, sk)
     \<and> ExtractParams (demo_dtls\<lparr>dn_role := \<lambda>_. Some SSL_SERVER\<rparr>) (Some 1) = Some (1, sk, ck)
     \<and> length ck = 30"
  using dtls_endpoints_keys_agree [of demo_dtls 1 "demo_dtls\<lparr>dn_role := \<lambda>_. Some SSL_SERVER\<rparr>" 1
      1 16 14 "map of_nat [0..<60]"]
  by (fastforce simp: demo_dtls_def demo_key_util_def)

text \<open>When RTP keying succeeds, the keys of the RTCP DTLS transport are never installed, muxed or
  not: the step that would do it stops at once because the transport is already active. RTCP is
  then protected by the main sessions, with the keys of the RTP DTLS transport.\<close>

theorem dtls_rtcp_keys_skipped:
  assumes "MaybeSetupDtlsSrtp L D (t, g) = (t', g')" "srtp_ok t" "\<not> IsSrtpActive t"
    "IsSrtpActive t'" "send_rtcp_session t = None"
  shows "SetupRtpDtlsSrtp L D (t, g) = (t', g') \<and> send_rtcp_session t' = None
    \<and> ProtectRtcp L p n t' g'' = (case sess_ProtectRtcp L p n (session_of (send_session t')) g'' of
         (b, p', s, g3) \<Rightarrow> (b, p', t'\<lparr>send_session := Some s\<rparr>, g3))"
proof -
  have s: "SetupRtpDtlsSrtp L D (t, g) = (t', g')"
    using MaybeSetupDtlsSrtp_activates [OF assms(1,3,4,2)] by blast
  have "send_rtcp_session t' = None"
  proof -
    obtain cs sk rk where e: "SetRtpParams L (dn_packets D) cs sk (ids_or_empty (send_extension_ids t))
        cs rk (ids_or_empty (recv_extension_ids t)) t g = (True, t', g')"
      using s assms(2-4) SetRtpParams_inv
      by (fastforce simp: SetupRtpDtlsSrtp_def split: option.splits dest!: snd_eqD)
    then show ?thesis using SetRtpParams_rtcp [OF e] assms(5) by simp
  qed
  then show ?thesis using s assms(4) by (simp add: ProtectRtcp_def)
qed

definition demo_unmuxed :: DtlsSrtpTransport where
  "demo_unmuxed = (new_DtlsSrtpTransport False)
     \<lparr>rtp_dtls_transport := Some 1, rtcp_dtls_transport := Some 2\<rparr>"

definition demo_dtls_up :: dtls_net where
  "demo_dtls_up = demo_dtls\<lparr>dn_packets := demo_net\<lparr>net_writable := \<lambda>_. True\<rparr>\<rparr>"

lemma demo_unmuxed_activates:
  "IsSrtpActive (fst (MaybeSetupDtlsSrtp demo_lib demo_dtls_up (demo_unmuxed, demo_global)))"
  by (simp add: demo_unmuxed_def demo_dtls_up_def SetupRtcpDtlsSrtp_def dtls_demo_defs
      srtp_demo_defs rtp_demo_defs Let_def)

theorem dtls_rtcp_keys_skipped_witness:
  "ExtractParams demo_dtls_up (rtcp_dtls_transport demo_unmuxed) \<noteq> None
   \<and> (\<exists>t' g'. MaybeSetupDtlsSrtp demo_lib demo_dtls_up (demo_unmuxed, demo_global) = (t', g')
        \<and> IsSrtpActive t' \<and> send_rtcp_session t' = None)"
proof -
  obtain t' g' where m: "MaybeSetupDtlsSrtp demo_lib demo_dtls_up (demo_unmuxed, demo_global) = (t', g')"
    by fastforce
  have d: "srtp_ok demo_unmuxed" "\<not> IsSrtpActive demo_unmuxed" "send_rtcp_session demo_unmuxed = None"
    by (simp_all add: demo_unmuxed_def new_DtlsSrtpTransport_def new_SrtpTransport_def
        new_RtpTransport_def RtpTransport.extend_def SrtpTransport.extend_def srtp_ok_def
        IsSrtpActive_def)
  have "IsSrtpActive t'" using demo_unmuxed_activates m by simp
  with dtls_rtcp_keys_skipped [OF m d(1,2) _ d(3)] m show ?thesis
    by (auto simp: demo_unmuxed_def demo_dtls_up_def ExtractParams_def demo_dtls_def
        demo_key_util_def Let_def)
qed

end
