(* ===== verification/DtlsTransport.thy ===== *)
theory DtlsTransport
  imports Prelude
begin

text \<open>
  The DTLS transport handed to applications (dtls_transport.cpp) and the ICE wrapper it owns
  (ice_transport.cc): it owns an internal libice transport, keeps a snapshot of its state and
  security parameters, and passes every change to one observer.

  The internal transport is named by its address; the record \<open>dtls_internals\<close> holds what the
  code reads from it. What the observer is told is appended to \<open>dt_told\<close>.
\<close>

section \<open>Parameters and state\<close>

datatype DtlsState = DS_kNew | DS_kConnecting | DS_kConnected | DS_kClosed | DS_kFailed

record dtls_internals =
  di_state :: "nat \<Rightarrow> DtlsState"
  di_version :: "nat \<Rightarrow> int option"
  di_cipher :: "nat \<Rightarrow> int option"
  di_srtp :: "nat \<Rightarrow> int option"
  di_chain :: "nat \<Rightarrow> nat option"
  di_ice :: "nat \<Rightarrow> nat option"

record DtlsInformation =
  inf_state :: DtlsState
  inf_version :: "int option"
  inf_cipher :: "int option"
  inf_srtp :: "int option"
  inf_chain :: "nat option"

definition plain_info :: "DtlsState \<Rightarrow> DtlsInformation" where
  "plain_info s = \<lparr>inf_state = s, inf_version = None, inf_cipher = None, inf_srtp = None,
                   inf_chain = None\<rparr>"

record DtlsTransport =
  dt_info :: DtlsInformation
  dt_internal :: "nat option"
  dt_ice :: "nat option"
  dt_observer :: bool
  dt_told :: "DtlsInformation list"

section \<open>Operations\<close>

definition dt_UpdateInformation :: "dtls_internals \<Rightarrow> DtlsTransport \<Rightarrow> DtlsTransport" where
  "dt_UpdateInformation I t =
     t\<lparr>dt_info :=
        (case dt_internal t of
           None \<Rightarrow> plain_info DS_kClosed
         | Some x \<Rightarrow>
             if di_state I x = DS_kConnected then
               (let success = di_version I x \<noteq> None \<and> di_cipher I x \<noteq> None \<and> di_srtp I x \<noteq> None
                in if success then
                     \<lparr>inf_state = di_state I x, inf_version = di_version I x,
                      inf_cipher = di_cipher I x, inf_srtp = di_srtp I x, inf_chain = di_chain I x\<rparr>
                   else
                     \<lparr>inf_state = di_state I x, inf_version = None, inf_cipher = None,
                      inf_srtp = None, inf_chain = di_chain I x\<rparr>)
             else plain_info (di_state I x))\<rparr>"

definition new_DtlsTransport :: "dtls_internals \<Rightarrow> nat \<Rightarrow> DtlsTransport" where
  "new_DtlsTransport I x =
     dt_UpdateInformation I
       \<lparr>dt_info = plain_info DS_kNew, dt_internal = Some x, dt_ice = di_ice I x,
        dt_observer = False, dt_told = []\<rparr>"

definition dt_notify :: "DtlsTransport \<Rightarrow> DtlsTransport" where
  "dt_notify t = t\<lparr>dt_told := dt_told t @ [dt_info t]\<rparr>"

definition dt_RegisterObserver :: "DtlsTransport \<Rightarrow> DtlsTransport" where
  "dt_RegisterObserver t = t\<lparr>dt_observer := True\<rparr>"

definition dt_UnregisterObserver :: "DtlsTransport \<Rightarrow> DtlsTransport" where
  "dt_UnregisterObserver t = t\<lparr>dt_observer := False\<rparr>"

definition ice_Clear :: "nat option \<Rightarrow> nat option" where
  "ice_Clear internal = None"

text \<open>\<open>None\<close>: the internal transport is gone already and the code dereferences a null pointer.\<close>

definition dt_Clear :: "dtls_internals \<Rightarrow> DtlsTransport \<Rightarrow> DtlsTransport option" where
  "dt_Clear I t =
     (case dt_internal t of
        None \<Rightarrow> None
      | Some x \<Rightarrow>
          (let must_send_event = (di_state I x \<noteq> DS_kClosed);
               t1 = dt_UpdateInformation I (t\<lparr>dt_internal := None, dt_ice := ice_Clear (dt_ice t)\<rparr>)
           in Some (if dt_observer t1 \<and> must_send_event then dt_notify t1 else t1)))"

definition OnInternalDtlsState :: "dtls_internals \<Rightarrow> DtlsTransport \<Rightarrow> DtlsTransport" where
  "OnInternalDtlsState I t =
     (let t1 = dt_UpdateInformation I t in if dt_observer t1 then dt_notify t1 else t1)"

section \<open>Calls\<close>

datatype DtCall = DT_Register | DT_Unregister | DT_Clear | DT_OnInternalDtlsState

fun dt_call :: "dtls_internals \<times> DtCall \<Rightarrow> DtlsTransport \<Rightarrow> DtlsTransport option" where
  "dt_call (I, DT_Register) t = Some (dt_RegisterObserver t)"
| "dt_call (I, DT_Unregister) t = Some (dt_UnregisterObserver t)"
| "dt_call (I, DT_Clear) t = dt_Clear I t"
| "dt_call (I, DT_OnInternalDtlsState) t = Some (OnInternalDtlsState I t)"

fun dt_run :: "(dtls_internals \<times> DtCall) list \<Rightarrow> DtlsTransport \<Rightarrow> DtlsTransport option" where
  "dt_run [] t = Some t"
| "dt_run (c # cs) t = Option.bind (dt_call c t) (dt_run cs)"

text \<open>Parameters of the connection are only shown for a connected transport, and all or none.\<close>

definition info_ok :: "DtlsInformation \<Rightarrow> bool" where
  "info_ok i \<longleftrightarrow> (inf_version i \<noteq> None \<longrightarrow> inf_state i = DS_kConnected)
     \<and> (inf_version i = None) = (inf_srtp i = None)
     \<and> (inf_cipher i = None) = (inf_srtp i = None)
     \<and> (inf_chain i \<noteq> None \<longrightarrow> inf_state i = DS_kConnected)"

definition dt_ok :: "DtlsTransport \<Rightarrow> bool" where
  "dt_ok t \<longleftrightarrow> info_ok (dt_info t) \<and> (\<forall>i \<in> set (dt_told t). info_ok i)
     \<and> (dt_internal t = None \<longrightarrow> dt_info t = plain_info DS_kClosed \<and> dt_ice t = None)"

lemma info_ok_Update: "info_ok (dt_info (dt_UpdateInformation I t))"
  by (auto simp: dt_UpdateInformation_def info_ok_def plain_info_def Let_def split: option.splits)

lemma Update_frame [simp]:
  "dt_told (dt_UpdateInformation I t) = dt_told t"
  "dt_internal (dt_UpdateInformation I t) = dt_internal t"
  "dt_ice (dt_UpdateInformation I t) = dt_ice t"
  "dt_observer (dt_UpdateInformation I t) = dt_observer t"
  by (simp_all add: dt_UpdateInformation_def)

lemma Update_gone: "dt_internal t = None \<Longrightarrow>
    dt_info (dt_UpdateInformation I t) = plain_info DS_kClosed"
  by (simp add: dt_UpdateInformation_def)

lemma dt_ok_notify: "dt_ok t \<Longrightarrow> dt_ok (dt_notify t)"
  by (simp add: dt_ok_def dt_notify_def)

lemma dt_ok_event: "dt_ok t \<Longrightarrow> dt_ok (OnInternalDtlsState I t)"
  by (auto simp: OnInternalDtlsState_def Let_def dt_ok_def [of t] info_ok_Update Update_gone
      intro!: dt_ok_notify)
    (auto simp: dt_ok_def info_ok_Update Update_gone)

lemma dt_ok_Clear:
  assumes "dt_ok t" "dt_Clear I t = Some t'"
  shows "dt_ok t'"
proof -
  let ?t1 = "dt_UpdateInformation I (t\<lparr>dt_internal := None, dt_ice := ice_Clear (dt_ice t)\<rparr>)"
  have "dt_ok ?t1"
    using assms(1) info_ok_Update [of I "t\<lparr>dt_internal := None, dt_ice := ice_Clear (dt_ice t)\<rparr>"]
    by (simp add: dt_ok_def Update_gone ice_Clear_def)
  moreover have "t' = ?t1 \<or> t' = dt_notify ?t1"
    using assms(2) by (auto simp: dt_Clear_def Let_def split: option.splits if_splits)
  ultimately show ?thesis using dt_ok_notify by blast
qed

lemma dt_ok_call: "dt_ok t \<Longrightarrow> dt_call c t = Some t' \<Longrightarrow> dt_ok t'"
  by (induction c t rule: dt_call.induct)
    (auto simp: dt_RegisterObserver_def dt_UnregisterObserver_def dt_ok_event
      intro: dt_ok_Clear, simp_all add: dt_ok_def)

interpretation dt_seq: call_run dt_call dt_run
  by unfold_locales simp_all

lemma dt_ok_run: "dt_ok t \<Longrightarrow> dt_run cs t = Some t' \<Longrightarrow> dt_ok t'"
  by (rule dt_seq.run_keeps [where P = dt_ok, OF _ _ dt_ok_call])

lemma dt_gone_call: "dt_internal t = None \<Longrightarrow> dt_call c t = Some t' \<Longrightarrow> dt_internal t' = None"
  by (cases c rule: prod.exhaust, rename_tac I k, case_tac k)
    (auto simp: dt_RegisterObserver_def dt_UnregisterObserver_def dt_Clear_def Let_def
      OnInternalDtlsState_def dt_notify_def)

lemma dt_gone_run:
  "dt_internal t = None \<Longrightarrow> dt_run cs t = Some t' \<Longrightarrow> dt_internal t' = None"
  by (rule dt_seq.run_keeps [where P = "\<lambda>t. dt_internal t = None", OF _ _ dt_gone_call])

lemma dt_ok_new: "dt_ok (new_DtlsTransport I x)"
  by (simp add: dt_ok_def new_DtlsTransport_def info_ok_Update)

section \<open>Properties\<close>

text \<open>C39: From construction on, at every moment and in everything the observer was ever told,
  the TLS version, the cipher suite and the SRTP suite are shown together or not at all, and
  only for a connected transport. After \<open>Clear\<close> the transport shows closed for good, whatever
  events still arrive, with its ICE transport released, and a second \<open>Clear\<close> is a null
  dereference.\<close>

theorem dtls_information_sound:
  assumes "dt_run cs (new_DtlsTransport I x) = Some t" "dt_call (J, DT_Clear) t = Some t1"
    "dt_run ds t1 = Some t2"
  shows "info_ok (dt_info t) \<and> (\<forall>i \<in> set (dt_told t2). info_ok i)
    \<and> dt_info t2 = plain_info DS_kClosed \<and> dt_ice t2 = None \<and> dt_call (J', DT_Clear) t2 = None"
proof -
  have t: "dt_ok t" using dt_ok_run dt_ok_new assms(1) by blast
  then have t2: "dt_ok t2" using dt_ok_run dt_ok_call assms(2,3) by blast
  have "dt_internal t1 = None"
    using assms(2) by (auto simp: dt_Clear_def dt_notify_def Let_def split: option.splits)
  then have "dt_internal t2 = None" using dt_gone_run assms(3) by blast
  with t t2 show ?thesis by (simp add: dt_ok_def dt_Clear_def)
qed

definition demo_internals :: dtls_internals where
  "demo_internals = \<lparr>di_state = (\<lambda>_. DS_kConnected), di_version = (\<lambda>_. Some 771),
     di_cipher = (\<lambda>_. Some 1), di_srtp = (\<lambda>_. Some 1), di_chain = (\<lambda>_. Some 0),
     di_ice = (\<lambda>_. Some 9)\<rparr>"

theorem dtls_information_sound_witness:
  "\<exists>t t1 t2. dt_run [(demo_internals, DT_Register), (demo_internals, DT_OnInternalDtlsState)]
        (new_DtlsTransport demo_internals 1) = Some t
     \<and> dt_call (demo_internals, DT_Clear) t = Some t1
     \<and> dt_run [(demo_internals, DT_OnInternalDtlsState)] t1 = Some t2
     \<and> length (dt_told t2) = 3 \<and> dt_info t2 = plain_info DS_kClosed"
proof -
  let ?cs = "[(demo_internals, DT_Register), (demo_internals, DT_OnInternalDtlsState)]"
  have "\<exists>t t1 t2. dt_run ?cs (new_DtlsTransport demo_internals 1) = Some t
     \<and> dt_call (demo_internals, DT_Clear) t = Some t1
     \<and> dt_run [(demo_internals, DT_OnInternalDtlsState)] t1 = Some t2 \<and> length (dt_told t2) = 3"
    by (simp add: new_DtlsTransport_def dt_RegisterObserver_def OnInternalDtlsState_def Let_def
        dt_Clear_def dt_UpdateInformation_def dt_notify_def demo_internals_def)
  then obtain t t1 t2 where
    r: "dt_run ?cs (new_DtlsTransport demo_internals 1) = Some t"
      "dt_call (demo_internals, DT_Clear) t = Some t1"
      "dt_run [(demo_internals, DT_OnInternalDtlsState)] t1 = Some t2" "length (dt_told t2) = 3"
    by blast
  from dtls_information_sound [OF r(1-3)] r show ?thesis by blast
qed

end
