(* ===== verification/SctpTransport.thy ===== *)
theory SctpTransport
  imports DtlsTransport
begin

text \<open>
  The SCTP transport (sctp_transport.cc): the state shown for the data channels, driven by the
  DTLS transport below it and by the SCTP association, and passed to one observer.

  The internal SCTP transport and the DTLS transports are references (numbers); what the code
  reads from them at a call is an argument: whether starting works, the stream counts, and
  \<open>internal_of\<close>, the internal transport of a \<open>DtlsTransport\<close>. An operation that dereferences a
  null pointer or fails an RTC_CHECK returns \<open>None\<close>.
\<close>

section \<open>State\<close>

datatype SctpState = SS_kNew | SS_kConnecting | SS_kConnected | SS_kClosed

record SctpInformation =
  si_state :: SctpState
  si_dtls :: "nat option"
  si_max_message_size :: "int option"
  si_max_channels :: "int option"

record SctpTransport =
  sctp_info :: SctpInformation
  sctp_internal :: "nat option"
  sctp_dtls :: "nat option"
  sctp_observer :: bool
  sctp_told :: "SctpInformation list"
  sctp_subscribed :: "nat list"

section \<open>Operations\<close>

definition sctp_UpdateInformation :: "SctpState \<Rightarrow> SctpTransport \<Rightarrow> SctpTransport" where
  "sctp_UpdateInformation state t =
     (let must_send_update = (state \<noteq> si_state (sctp_info t));
          info = \<lparr>si_state = state, si_dtls = sctp_dtls t,
                  si_max_message_size = si_max_message_size (sctp_info t),
                  si_max_channels = si_max_channels (sctp_info t)\<rparr>;
          t1 = t\<lparr>sctp_info := info\<rparr>
      in if sctp_observer t1 \<and> must_send_update
         then t1\<lparr>sctp_told := sctp_told t1 @ [info]\<rparr> else t1)"

definition new_SctpTransport :: "nat \<Rightarrow> SctpTransport" where
  "new_SctpTransport internal =
     sctp_UpdateInformation SS_kNew
       \<lparr>sctp_info = \<lparr>si_state = SS_kNew, si_dtls = None, si_max_message_size = None,
                     si_max_channels = None\<rparr>,
        sctp_internal = Some internal, sctp_dtls = None, sctp_observer = False, sctp_told = [],
        sctp_subscribed = []\<rparr>"

definition sctp_RegisterObserver :: "SctpTransport \<Rightarrow> SctpTransport" where
  "sctp_RegisterObserver t = t\<lparr>sctp_observer := True\<rparr>"

definition sctp_UnregisterObserver :: "SctpTransport \<Rightarrow> SctpTransport" where
  "sctp_UnregisterObserver t = t\<lparr>sctp_observer := False\<rparr>"

definition sctp_Clear :: "SctpTransport \<Rightarrow> SctpTransport" where
  "sctp_Clear t =
     sctp_UpdateInformation SS_kClosed (t\<lparr>sctp_dtls := None, sctp_internal := None\<rparr>)"

definition sctp_SetDtlsTransport ::
    "(nat \<Rightarrow> nat option) \<Rightarrow> nat option \<Rightarrow> SctpTransport \<Rightarrow> SctpTransport option" where
  "sctp_SetDtlsTransport internal_of transport t =
     (let next_state = si_state (sctp_info t);
          t1 = t\<lparr>sctp_dtls := transport\<rparr>
      in if sctp_internal t = None then Some (sctp_UpdateInformation next_state t1)
         else case transport of
           None \<Rightarrow> Some (sctp_UpdateInformation next_state t1)
         | Some d \<Rightarrow>
             (case internal_of d of
                None \<Rightarrow> None
              | Some x \<Rightarrow>
                  Some (sctp_UpdateInformation
                          (if si_state (sctp_info t) = SS_kNew then SS_kConnecting else next_state)
                          (t1\<lparr>sctp_subscribed := sctp_subscribed t1 @ [x]\<rparr>))))"

definition sctp_Start :: "bool \<Rightarrow> int \<Rightarrow> SctpTransport \<Rightarrow> SctpTransport option" where
  "sctp_Start start_ok max_message_size t =
     (let t1 = t\<lparr>sctp_info := (sctp_info t)\<lparr>si_max_message_size := Some max_message_size\<rparr>\<rparr>
      in if sctp_internal t1 = None then None
         else Some (if \<not> start_ok then sctp_UpdateInformation SS_kClosed t1 else t1))"

definition OnAssociationChangeCommunicationUp ::
    "int option \<Rightarrow> int option \<Rightarrow> SctpTransport \<Rightarrow> SctpTransport option" where
  "OnAssociationChangeCommunicationUp max_outbound max_inbound t =
     (if sctp_internal t = None then None
      else
        (let t1 = (case (max_outbound, max_inbound) of
                     (Some a, Some b) \<Rightarrow>
                       t\<lparr>sctp_info := (sctp_info t)\<lparr>si_max_channels := Some (min a b)\<rparr>\<rparr>
                   | _ \<Rightarrow> t)
         in Some (sctp_UpdateInformation SS_kConnected t1)))"

definition OnDtlsStateChange ::
    "(nat \<Rightarrow> nat option) \<Rightarrow> nat \<Rightarrow> DtlsState \<Rightarrow> SctpTransport \<Rightarrow> SctpTransport option" where
  "OnDtlsStateChange internal_of transport state t =
     (case sctp_dtls t of
        None \<Rightarrow> None
      | Some d \<Rightarrow>
          if internal_of d \<noteq> Some transport then None
          else Some (if state = DS_kClosed \<or> state = DS_kFailed
                     then sctp_UpdateInformation SS_kClosed t else t))"

section \<open>The announced state\<close>

definition sctp_states_told :: "SctpTransport \<Rightarrow> SctpState list" where
  "sctp_states_told t = List.map si_state (sctp_told t)"

interpretation sctp_sig: change_signal "\<lambda>t. si_state (sctp_info t)" sctp_states_told sctp_observer
  sctp_UpdateInformation
  by unfold_locales (auto simp: sctp_UpdateInformation_def sctp_states_told_def Let_def)

text \<open>The information shows the DTLS transport in use, too.\<close>

definition sctp_ok :: "SctpTransport \<Rightarrow> bool" where
  "sctp_ok t \<longleftrightarrow> sctp_sig.in_step SS_kNew t \<and> si_dtls (sctp_info t) = sctp_dtls t"

lemma sctp_ok_upd:
  assumes "sctp_sig.in_step SS_kNew t"
  shows "sctp_ok (sctp_UpdateInformation v t)"
  unfolding sctp_ok_def using sctp_sig.in_step_upd [OF assms, of v]
  by (simp add: sctp_UpdateInformation_def Let_def)

lemma in_step_cong [simp]:
  "sctp_sig.in_step s0 (t\<lparr>sctp_dtls := d\<rparr>) = sctp_sig.in_step s0 t"
  "sctp_sig.in_step s0 (t\<lparr>sctp_internal := x\<rparr>) = sctp_sig.in_step s0 t"
  "sctp_sig.in_step s0 (t\<lparr>sctp_subscribed := l\<rparr>) = sctp_sig.in_step s0 t"
  "sctp_sig.in_step s0 (t\<lparr>sctp_info := (sctp_info t)\<lparr>si_max_channels := c\<rparr>\<rparr>)
     = sctp_sig.in_step s0 t"
  "sctp_sig.in_step s0 (t\<lparr>sctp_info := (sctp_info t)\<lparr>si_max_message_size := c\<rparr>\<rparr>)
     = sctp_sig.in_step s0 t"
  by (simp_all add: sctp_sig.in_step_def sctp_states_told_def)

lemma sctp_ok_max_message [simp]:
  "sctp_ok (t\<lparr>sctp_info := (sctp_info t)\<lparr>si_max_message_size := c\<rparr>\<rparr>) = sctp_ok t"
  by (simp add: sctp_ok_def)

section \<open>Calls\<close>

datatype SctpCall =
    SC_SetDtlsTransport "nat option"
  | SC_Start bool int
  | SC_CommunicationUp "int option" "int option"
  | SC_DtlsStateChange nat DtlsState
  | SC_Clear

fun sctp_call ::
    "(nat \<Rightarrow> nat option) \<times> SctpCall \<Rightarrow> SctpTransport \<Rightarrow> SctpTransport option" where
  "sctp_call (I, SC_SetDtlsTransport d) t = sctp_SetDtlsTransport I d t"
| "sctp_call (I, SC_Start started m) t = sctp_Start started m t"
| "sctp_call (I, SC_CommunicationUp a b) t = OnAssociationChangeCommunicationUp a b t"
| "sctp_call (I, SC_DtlsStateChange x s) t = OnDtlsStateChange I x s t"
| "sctp_call (I, SC_Clear) t = Some (sctp_Clear t)"

fun sctp_run ::
    "((nat \<Rightarrow> nat option) \<times> SctpCall) list \<Rightarrow> SctpTransport \<Rightarrow> SctpTransport option" where
  "sctp_run [] t = Some t"
| "sctp_run (c # cs) t = Option.bind (sctp_call c t) (sctp_run cs)"

lemma sctp_ok_call:
  assumes "sctp_ok t" "sctp_call c t = Some t'"
  shows "sctp_ok t'"
proof -
  have "sctp_sig.in_step SS_kNew t" using assms(1) by (simp add: sctp_ok_def)
  with assms show ?thesis
    by (induction c t rule: sctp_call.induct)
      (auto simp: sctp_SetDtlsTransport_def sctp_Start_def OnAssociationChangeCommunicationUp_def
        OnDtlsStateChange_def sctp_Clear_def Let_def intro!: sctp_ok_upd
        split: if_splits option.splits)
qed

interpretation sctp_seq: call_run sctp_call sctp_run
  by unfold_locales simp_all

lemma sctp_ok_run: "sctp_ok t \<Longrightarrow> sctp_run cs t = Some t' \<Longrightarrow> sctp_ok t'"
  by (rule sctp_seq.run_keeps [where P = sctp_ok, OF _ _ sctp_ok_call])

lemma sctp_ok_start: "sctp_ok (sctp_RegisterObserver (new_SctpTransport x))"
  by (simp add: sctp_ok_def sctp_sig.in_step_start sctp_RegisterObserver_def new_SctpTransport_def
      sctp_UpdateInformation_def sctp_states_told_def)

section \<open>Properties\<close>

text \<open>C40: An observer registered from the start is told every change of state and nothing else:
  over any sequence of calls the states it is told never repeat, the last one is the current
  state, and the information always names the DTLS transport in use.\<close>

theorem sctp_observer_in_step:
  assumes "sctp_run cs (sctp_RegisterObserver (new_SctpTransport x)) = Some t"
  shows "no_stutter (SS_kNew # sctp_states_told t)
    \<and> last (SS_kNew # sctp_states_told t) = si_state (sctp_info t)
    \<and> si_dtls (sctp_info t) = sctp_dtls t"
  using sctp_ok_run [OF sctp_ok_start assms] by (simp add: sctp_ok_def sctp_sig.in_step_def)

definition demo_sctp_calls :: "((nat \<Rightarrow> nat option) \<times> SctpCall) list" where
  "demo_sctp_calls = List.map (\<lambda>c. (\<lambda>d. Some (d + 10), c))
     [SC_SetDtlsTransport (Some 1), SC_Start True 1000, SC_CommunicationUp (Some 8) (Some 4),
      SC_DtlsStateChange 11 DS_kFailed, SC_DtlsStateChange 11 DS_kClosed]"

theorem sctp_observer_in_step_witness:
  "\<exists>t. sctp_run demo_sctp_calls (sctp_RegisterObserver (new_SctpTransport 0)) = Some t
     \<and> sctp_states_told t = [SS_kConnecting, SS_kConnected, SS_kClosed]
     \<and> si_state (sctp_info t) = SS_kClosed"
proof -
  have "\<exists>t. sctp_run demo_sctp_calls (sctp_RegisterObserver (new_SctpTransport 0)) = Some t
     \<and> sctp_states_told t = [SS_kConnecting, SS_kConnected, SS_kClosed]"
    by (simp add: demo_sctp_calls_def new_SctpTransport_def sctp_RegisterObserver_def
        sctp_UpdateInformation_def sctp_SetDtlsTransport_def sctp_Start_def Let_def
        OnAssociationChangeCommunicationUp_def OnDtlsStateChange_def sctp_states_told_def)
  then obtain t where t: "sctp_run demo_sctp_calls (sctp_RegisterObserver (new_SctpTransport 0)) = Some t"
    "sctp_states_told t = [SS_kConnecting, SS_kConnected, SS_kClosed]" by blast
  from sctp_observer_in_step [OF t(1)] t show ?thesis by auto
qed

text \<open>Replacing the DTLS transport leaves a trap. The old internal transport stays subscribed,
  so its next change of state, whatever it is, fails the check in the handler and ends the
  process.\<close>

theorem sctp_replaced_transport_aborts:
  assumes "sctp_internal t \<noteq> None" "I d = Some x" "I e \<noteq> Some x"
    "sctp_run [(I, SC_SetDtlsTransport (Some d)), (I, SC_SetDtlsTransport e')] t = Some t'"
    "e' = None \<or> e' = Some e"
  shows "x \<in> set (sctp_subscribed t') \<and> sctp_run [(I, SC_DtlsStateChange x s)] t' = None"
  using assms
  by (auto simp: sctp_SetDtlsTransport_def sctp_UpdateInformation_def OnDtlsStateChange_def Let_def
      split: if_splits option.splits)

theorem sctp_replaced_transport_aborts_witness:
  "sctp_run [(Some, SC_SetDtlsTransport (Some 1)), (Some, SC_SetDtlsTransport None),
     (Some, SC_DtlsStateChange 1 DS_kConnected)] (new_SctpTransport 0) = None"
proof -
  have "sctp_internal (new_SctpTransport 0) \<noteq> None"
    by (simp add: new_SctpTransport_def sctp_UpdateInformation_def)
  from sctp_replaced_transport_aborts [OF this, of Some 1 1 2 None _ DS_kConnected]
  show ?thesis
    by (cases "sctp_run [(Some, SC_SetDtlsTransport (Some 1)), (Some, SC_SetDtlsTransport None)]
        (new_SctpTransport 0)") (auto simp: bind_eq_Some_conv bind_eq_None_conv)
qed

end
