(* ===== verification/SessionDescription.thy ===== *)
theory SessionDescription
  imports Prelude
begin

text \<open>
  The session description (csession_description.cpp, csession_description.h): bundle groups,
  media contents, transport infos, and the text form that is sent to the peer.

  Codecs, streams and transport descriptions are structures of libmedia_transfer_protocol and
  libice: the records below have the fields this code reads. The texts those libraries make (the
  name of a connection role, a fingerprint in RFC 4572 form) are the record \<open>sdp_text\<close>.
\<close>

section \<open>Numbers as text\<close>

text \<open>\<open>std::to_string\<close> and stream output of an integer.\<close>

definition digit :: "nat \<Rightarrow> char" where
  "digit d = char_of (48 + d)"

fun show_nat :: "nat \<Rightarrow> string" where
  "show_nat n = (if n < 10 then [digit n] else show_nat (n div 10) @ [digit (n mod 10)])"

declare show_nat.simps [simp del]

definition show_int :: "int \<Rightarrow> string" where
  "show_int i = (if i < 0 then ''-'' @ show_nat (nat (- i)) else show_nat (nat i))"

definition crlf :: string where
  "crlf = [CHR 0x0D, CHR 0x0A]"

section \<open>Data\<close>

record ContentGroup =
  semantics :: string
  content_names :: "string list"

datatype MediaType = MEDIA_TYPE_AUDIO | MEDIA_TYPE_VIDEO

record Codec =
  codec_id :: int
  codec_name :: string
  codec_clockrate :: int
  codec_channels :: int
  feedback_params :: "(string \<times> string) list"
  codec_params :: "(string \<times> string) list"

record SsrcGroup =
  group_semantics :: string
  group_ssrcs :: "ssrc list"

record StreamParams =
  stream_id :: string
  stream_ids :: "string list"
  stream_ssrcs :: "ssrc list"
  ssrc_groups :: "SsrcGroup list"
  stream_cname :: string

datatype RtpTransceiverDirection = kSendRecv | kSendOnly | kRecvOnly | kInactive | kStopped

record MediaContentDescription =
  media_type :: MediaType
  rtcp_mux :: bool
  direction :: RtpTransceiverDirection
  codecs :: "Codec list"
  send_streams :: "StreamParams list"

datatype MediaProtocolType = Proto_kRtp | Proto_kSctp | Proto_kOther

record ContentInfo =
  ci_name :: string
  ci_type :: MediaProtocolType
  ci_rejected :: bool
  ci_bundle_only :: bool
  ci_description :: "MediaContentDescription option"

datatype ConnectionRole =
    CONNECTIONROLE_NONE | CONNECTIONROLE_ACTIVE | CONNECTIONROLE_PASSIVE
  | CONNECTIONROLE_ACTPASS | CONNECTIONROLE_HOLDCONN

record SSLFingerprint =
  fp_algorithm :: string
  fp_digest :: "byte list"

datatype IceMode = ICEMODE_FULL | ICEMODE_LITE

record TransportDescription =
  ice_ufrag :: string
  ice_pwd :: string
  ice_mode :: IceMode
  connection_role :: ConnectionRole
  identity_fingerprint :: "SSLFingerprint option"

record TransportInfo =
  ti_content_name :: string
  ti_description :: TransportDescription

record SessionDescription =
  contents :: "ContentInfo list"
  transport_infos :: "TransportInfo list"
  content_groups :: "ContentGroup list"

record sdp_text =
  role_text :: "ConnectionRole \<Rightarrow> string"
  fingerprint_text :: "SSLFingerprint \<Rightarrow> string"

section \<open>Content groups\<close>

definition FirstContentName :: "ContentGroup \<Rightarrow> string option" where
  "FirstContentName gr = (case content_names gr of [] \<Rightarrow> None | n # _ \<Rightarrow> Some n)"

definition HasContentName :: "string \<Rightarrow> ContentGroup \<Rightarrow> bool" where
  "HasContentName n gr \<longleftrightarrow> n \<in> set (content_names gr)"

definition AddContentName :: "string \<Rightarrow> ContentGroup \<Rightarrow> ContentGroup" where
  "AddContentName n gr =
     (if \<not> HasContentName n gr then gr\<lparr>content_names := content_names gr @ [n]\<rparr> else gr)"

text \<open>The first occurrence goes.\<close>

definition RemoveContentName :: "string \<Rightarrow> ContentGroup \<Rightarrow> bool \<times> ContentGroup" where
  "RemoveContentName n gr =
     (if n \<in> set (content_names gr) then (True, gr\<lparr>content_names := remove1 n (content_names gr)\<rparr>)
      else (False, gr))"

definition group_ToString :: "ContentGroup \<Rightarrow> string" where
  "group_ToString gr =
     semantics gr @ ''('' @ concat (List.map (\<lambda>n. n @ '' '') (content_names gr)) @ '')''"

section \<open>Lookups\<close>

definition HasGroup :: "string \<Rightarrow> SessionDescription \<Rightarrow> bool" where
  "HasGroup mid s \<longleftrightarrow> list_ex (\<lambda>gr. semantics gr = mid) (content_groups s)"

definition GetTransportInfoByName :: "string \<Rightarrow> SessionDescription \<Rightarrow> TransportInfo option" where
  "GetTransportInfoByName mid s = List.find (\<lambda>ti. ti_content_name ti = mid) (transport_infos s)"

definition GetGroupByName :: "string \<Rightarrow> SessionDescription \<Rightarrow> ContentGroup option" where
  "GetGroupByName n s = List.find (\<lambda>gr. semantics gr = n) (content_groups s)"

definition GetGroupsByName :: "string \<Rightarrow> SessionDescription \<Rightarrow> ContentGroup list" where
  "GetGroupsByName n s = filter (\<lambda>gr. semantics gr = n) (content_groups s)"

section \<open>Text\<close>

definition AddRtcpFbLine :: "Codec \<Rightarrow> string" where
  "AddRtcpFbLine c =
     concat (List.map (\<lambda>(i, p). ''a=rtcp-fb:'' @ show_int (codec_id c) @ '' '' @ i
               @ (if p \<noteq> '''' then '' '' @ p else '''') @ crlf) (feedback_params c))"

text \<open>\<open>None\<close>: \<open>data.substr(1)\<close> throws on the empty string.\<close>

definition AddFmtpLine :: "Codec \<Rightarrow> string option" where
  "AddFmtpLine c =
     (let data = concat (List.map (\<lambda>(k, v). '';'' @ k @ ''='' @ v) (codec_params c))
      in if data = '''' then None
         else Some (''a=fmtp:'' @ show_int (codec_id c) @ '' '' @ drop 1 data @ crlf))"

definition rtpmap_line :: "MediaType \<Rightarrow> Codec \<Rightarrow> string" where
  "rtpmap_line ty c =
     ''a=rtpmap:'' @ show_int (codec_id c) @ '' '' @ codec_name c @ ''/''
     @ show_int (codec_clockrate c)
     @ (if ty = MEDIA_TYPE_AUDIO then ''/'' @ show_int (codec_channels c) else '''') @ crlf"

fun BuildRtpMap :: "MediaType \<Rightarrow> Codec list \<Rightarrow> string option" where
  "BuildRtpMap ty [] = Some ''''"
| "BuildRtpMap ty (c # cs) =
     (case AddFmtpLine c of
        None \<Rightarrow> None
      | Some f \<Rightarrow> map_option (\<lambda>rest. rtpmap_line ty c @ AddRtcpFbLine c @ f @ rest)
                    (BuildRtpMap ty cs))"

definition BuildSsrc :: "StreamParams list \<Rightarrow> string" where
  "BuildSsrc streams =
     concat (List.map (\<lambda>st.
       concat (List.map (\<lambda>gr. if group_ssrcs gr = [] then ''''
         else ''a=ssrc-group:FID''
              @ concat (List.map (\<lambda>x. '' '' @ show_nat (unat x)) (group_ssrcs gr)) @ crlf)
         (ssrc_groups st))
       @ concat (List.map (\<lambda>x. ''a=ssrc:'' @ show_nat (unat x) @ '' cname:'' @ stream_cname st @ crlf)
         (stream_ssrcs st))) streams)"

definition transport_lines :: "sdp_text \<Rightarrow> TransportDescription \<Rightarrow> string" where
  "transport_lines X td =
     ''a=ice-ufrag:'' @ ice_ufrag td @ crlf @ ''a=ice-pwd:'' @ ice_pwd td @ crlf
     @ ''a=ice-options:trickle'' @ crlf
     @ (case identity_fingerprint td of
          None \<Rightarrow> ''''
        | Some fp \<Rightarrow> ''a=fingerprint:'' @ fp_algorithm fp @ '' '' @ fingerprint_text X fp @ crlf
                     @ ''a=setup:'' @ role_text X (connection_role td) @ crlf)"

text \<open>\<open>None\<close>: a null description is dereferenced, or \<open>AddFmtpLine\<close> throws.\<close>

definition content_text :: "sdp_text \<Rightarrow> SessionDescription \<Rightarrow> ContentInfo \<Rightarrow> string option" where
  "content_text X s c =
     (case ci_description c of
        None \<Rightarrow> None
      | Some d \<Rightarrow>
          map_option (\<lambda>maps.
              ''m='' @ ci_name c @ '' 9 '' @ ''UDP/TLS/RTP/SAVPF''
              @ concat (List.map (\<lambda>co. '' '' @ show_int (codec_id co)) (codecs d)) @ crlf
              @ ''c=IN IP4 0.0.0.0'' @ crlf @ ''a=rtcp:9 IN IP4 0.0.0.0'' @ crlf
              @ (case GetTransportInfoByName (ci_name c) s of
                   None \<Rightarrow> '''' | Some ti \<Rightarrow> transport_lines X (ti_description ti))
              @ ''a=mid:'' @ ci_name c @ crlf @ ''a='' @ ''sendonly'' @ crlf
              @ maps @ BuildSsrc (send_streams d))
            (BuildRtpMap (media_type d) (codecs d)))"

fun contents_text :: "sdp_text \<Rightarrow> SessionDescription \<Rightarrow> ContentInfo list \<Rightarrow> string option" where
  "contents_text X s [] = Some ''''"
| "contents_text X s (c # cs) =
     (case content_text X s c of
        None \<Rightarrow> None
      | Some a \<Rightarrow> map_option (\<lambda>b. a @ b) (contents_text X s cs))"

definition bundle_line :: "SessionDescription \<Rightarrow> string" where
  "bundle_line s =
     (case GetGroupByName ''BUNDLE'' s of
        None \<Rightarrow> ''''
      | Some gr \<Rightarrow> if content_names gr = [] then ''''
                  else ''a=group:BUNDLE'' @ concat (List.map (\<lambda>n. '' '' @ n) (content_names gr))
                       @ crlf)"

definition session_ToString :: "sdp_text \<Rightarrow> SessionDescription \<Rightarrow> string option" where
  "session_ToString X s =
     map_option (\<lambda>body.
         ''v=0'' @ crlf @ ''o=- 0 2 IN IP4 127.0.0.1'' @ crlf @ ''s=-'' @ crlf @ ''t=0 0'' @ crlf
         @ bundle_line s @ ''a=msid-semantic: WMS'' @ crlf @ body)
       (contents_text X s (contents s))"

section \<open>Facts\<close>

lemma AddFmtpLine_None: "AddFmtpLine c = None \<longleftrightarrow> codec_params c = []"
  by (cases "codec_params c") (auto simp: AddFmtpLine_def Let_def)

lemma BuildRtpMap_None: "BuildRtpMap ty cs = None \<longleftrightarrow> (\<exists>c \<in> set cs. codec_params c = [])"
proof (induction cs)
  case (Cons c cs)
  then show ?case using AddFmtpLine_None [of c] by (cases "AddFmtpLine c") auto
qed simp

lemma content_text_None:
  "content_text X s c = None \<longleftrightarrow>
     (case ci_description c of None \<Rightarrow> True | Some d \<Rightarrow> \<exists>k \<in> set (codecs d). codec_params k = [])"
  by (simp add: content_text_def BuildRtpMap_None split: option.split)

lemma contents_text_None:
  "contents_text X s cs = None \<longleftrightarrow> (\<exists>c \<in> set cs. content_text X s c = None)"
  by (induction cs) (auto split: option.split)

text \<open>Changing what the media sections carry besides codecs and streams.\<close>

definition with_media ::
    "bool \<Rightarrow> RtpTransceiverDirection \<Rightarrow> ContentInfo \<Rightarrow> ContentInfo" where
  "with_media mux dir c =
     c\<lparr>ci_description := map_option (\<lambda>d. d\<lparr>rtcp_mux := mux, direction := dir\<rparr>) (ci_description c)\<rparr>"

lemma contents_text_with_media:
  "contents_text X (s\<lparr>contents := ds\<rparr>) (List.map (with_media mux dir) cs) = contents_text X s cs"
proof (induction cs)
  case Nil
  then show ?case by simp
next
  case (Cons c cs)
  have "content_text X (s\<lparr>contents := ds\<rparr>) (with_media mux dir c) = content_text X s c"
    by (cases "ci_description c")
      (simp_all add: content_text_def with_media_def GetTransportInfoByName_def)
  with Cons show ?case by (cases "content_text X s c") simp_all
qed

section \<open>Properties\<close>

text \<open>Writing a session description fails, by an exception or a null dereference, exactly when
  some content has no description or some codec has no format parameters: the line for the
  parameters is cut from a text assumed to be non-empty.\<close>

theorem sdp_text_fails_without_parameters:
  "session_ToString X s = None \<longleftrightarrow>
     (\<exists>c \<in> set (contents s).
        case ci_description c of None \<Rightarrow> True | Some d \<Rightarrow> \<exists>k \<in> set (codecs d). codec_params k = [])"
  by (simp add: session_ToString_def contents_text_None content_text_None)

text \<open>The text never tells the direction of a media section nor that RTCP is muxed: whatever
  these are set to, the same text is written, with every section send-only and without an
  rtcp-mux line.\<close>

theorem sdp_text_ignores_direction_and_mux:
  "session_ToString X (s\<lparr>contents := List.map (with_media mux dir) (contents s)\<rparr>)
     = session_ToString X s"
  by (simp add: session_ToString_def contents_text_with_media bundle_line_def GetGroupByName_def)

section \<open>Groups\<close>

lemma HasGroup_iff: "HasGroup n s \<longleftrightarrow> GetGroupByName n s \<noteq> None"
  by (auto simp: HasGroup_def GetGroupByName_def list_ex_iff find_None_iff)

lemma AddContentName_has: "HasContentName m (AddContentName n gr) \<longleftrightarrow> m = n \<or> HasContentName m gr"
  by (auto simp: AddContentName_def HasContentName_def)

lemma AddContentName_distinct:
  "distinct (content_names gr) \<Longrightarrow> distinct (content_names (AddContentName n gr))"
  by (auto simp: AddContentName_def HasContentName_def)

text \<open>A new name is added at the end and can be taken out again.\<close>

lemma RemoveContentName_Add:
  assumes "\<not> HasContentName n gr"
  shows "RemoveContentName n (AddContentName n gr) = (True, gr)"
  using assms by (simp add: RemoveContentName_def AddContentName_def HasContentName_def remove1_append)

lemma FirstContentName_Add:
  "FirstContentName (AddContentName n gr) = (case FirstContentName gr of None \<Rightarrow> Some n | Some m \<Rightarrow> Some m)"
  by (cases "content_names gr") (auto simp: FirstContentName_def AddContentName_def HasContentName_def)

end
