(* ===== verification/SdpParser.thy ===== *)
theory SdpParser
  imports SessionDescription "HOL-Library.Sublist"
begin

text \<open>
  Reading a remote session description (cp2p_peerconnection.cpp): \<open>GetAttribute\<close>,
  \<open>ParseCandidates\<close>, \<open>ParseTransportInfo\<close> and the loop of \<open>set_remote_sdp\<close> over the lines.

  \<open>rtc::tokenize\<close> and the reading of a fingerprint belong to rtc_base: they are the record
  \<open>sdp_lib\<close>. What \<open>tokenize\<close> is documented to do (split at a character, ignoring repeated and
  trailing ones) is the specification \<open>tokens\<close>, a hypothesis where it is needed.
\<close>

section \<open>Strings\<close>

text \<open>\<open>s.find(p) != npos\<close>.\<close>

fun contains :: "string \<Rightarrow> string \<Rightarrow> bool" where
  "contains p [] \<longleftrightarrow> p = []"
| "contains p (c # s) \<longleftrightarrow> prefix p (c # s) \<or> contains p s"

text \<open>\<open>s.find_first_of(cs) == 0\<close>.\<close>

definition begins_with_one_of :: "string \<Rightarrow> string \<Rightarrow> bool" where
  "begins_with_one_of cs s \<longleftrightarrow> (case s of [] \<Rightarrow> False | c # _ \<Rightarrow> c \<in> set cs)"

text \<open>\<open>s.substr(n)\<close>: \<open>std::out_of_range\<close> beyond the end.\<close>

definition substr :: "nat \<Rightarrow> string \<Rightarrow> string option" where
  "substr n s = (if n \<le> length s then Some (drop n s) else None)"

definition is_digit :: "char \<Rightarrow> bool" where
  "is_digit c \<longleftrightarrow> 48 \<le> (of_char c :: nat) \<and> (of_char c :: nat) \<le> 57"

definition digits_value :: "string \<Rightarrow> int" where
  "digits_value ds = foldl (\<lambda>a c. 10 * a + (of_char c - 48)) 0 ds"

text \<open>\<open>std::atoi\<close>; a number beyond the range of \<open>int\<close> is undefined there.\<close>

definition atoi :: "string \<Rightarrow> int" where
  "atoi s =
     (case dropWhile (\<lambda>c. c \<in> set [CHR 0x20, CHR 0x09, CHR 0x0A, CHR 0x0B, CHR 0x0C, CHR 0x0D]) s of
        [] \<Rightarrow> 0
      | c # r \<Rightarrow>
          (if c = CHR ''-'' then - digits_value (takeWhile is_digit r)
           else if c = CHR ''+'' then digits_value (takeWhile is_digit r)
           else digits_value (takeWhile is_digit (c # r))))"

definition to_lower :: "char \<Rightarrow> char" where
  "to_lower c =
     (if 65 \<le> (of_char c :: nat) \<and> (of_char c :: nat) \<le> 90 then char_of ((of_char c :: nat) + 32)
      else c)"

record sdp_lib =
  tokenize :: "char \<Rightarrow> string \<Rightarrow> string list"
  fingerprint_from_text :: "string \<Rightarrow> string \<Rightarrow> SSLFingerprint option"

section \<open>Results and state\<close>

text \<open>A call returns -1, or \<open>substr\<close> throws, or an item that is not there is read.\<close>

datatype ParseFault = Refused | Thrown | ReadsPastEnd

record IceCandidate =
  ic_foundation :: string
  ic_component :: int
  ic_protocol :: string
  ic_priority :: int
  ic_host :: string
  ic_port :: "16 word"
  ic_type :: string

record ParseState =
  ps_mid :: string
  ps_audio :: TransportInfo
  ps_video :: TransportInfo
  ps_audio_name :: string
  ps_video_name :: string
  ps_candidates :: "IceCandidate list"
  ps_groups :: "ContentGroup list"
  ps_audio_pt :: "8 word"
  ps_video_pt :: "8 word"

definition empty_description :: TransportDescription where
  "empty_description = \<lparr>ice_ufrag = '''', ice_pwd = '''', ice_mode = ICEMODE_FULL,
     connection_role = CONNECTIONROLE_NONE, identity_fingerprint = None\<rparr>"

definition empty_info :: TransportInfo where
  "empty_info = \<lparr>ti_content_name = '''', ti_description = empty_description\<rparr>"

section \<open>Lines\<close>

definition GetAttribute :: "sdp_lib \<Rightarrow> string \<Rightarrow> string" where
  "GetAttribute L line =
     (let fields = tokenize L (CHR '':'') line
      in if length fields \<noteq> 2 then '''' else fields ! 1)"

text \<open>\<open>None\<close>: the function returns false.\<close>

definition ParseCandidates ::
    "sdp_lib \<Rightarrow> string \<Rightarrow> IceCandidate list \<Rightarrow> IceCandidate list option" where
  "ParseCandidates L line all_c =
     (if \<not> contains ''a=candidate:'' line then Some all_c
      else let attr_value = GetAttribute L line in
        if attr_value = '''' then None
        else let fields = tokenize L (CHR '' '') attr_value in
          if length fields < 8 then None
          else Some (all_c @ [\<lparr>ic_foundation = fields ! 0, ic_component = atoi (fields ! 1),
                 ic_protocol = fields ! 2, ic_priority = atoi (fields ! 3),
                 ic_host = fields ! 4, ic_port = of_int (atoi (fields ! 5)),
                 ic_type = fields ! 7\<rparr>]))"

text \<open>The two error returns \<open>-1\<close> of the fingerprint branch are \<open>true\<close>.\<close>

definition ParseTransportInfo ::
    "sdp_lib \<Rightarrow> string \<Rightarrow> TransportDescription \<Rightarrow> ParseFault option \<times> TransportDescription" where
  "ParseTransportInfo L line td =
     (if contains ''a=ice-ufrag'' line then
        let v = GetAttribute L line in
        (if v = '''' then Some Refused else None, td\<lparr>ice_ufrag := v\<rparr>)
      else if contains ''a=ice-pwd'' line then
        let v = GetAttribute L line in
        (if v = '''' then Some Refused else None, td\<lparr>ice_pwd := v\<rparr>)
      else if contains ''a=fingerprint'' line then
        let items = tokenize L (CHR '' '') line in
        if length items \<noteq> 2 then (None, td)
        else (case substr 14 (items ! 0) of
                None \<Rightarrow> (Some Thrown, td)
              | Some alg \<Rightarrow>
                  (None, td\<lparr>identity_fingerprint :=
                     fingerprint_from_text L (List.map to_lower alg) (items ! 1)\<rparr>))
      else (None, td))"

definition parse_group_line :: "sdp_lib \<Rightarrow> string \<Rightarrow> ParseState \<Rightarrow> ParseState" where
  "parse_group_line L field s =
     (let items = tokenize L (CHR '' '') field in
      if length items > 1
      then s\<lparr>ps_groups := ps_groups s @ [\<lparr>semantics = ''BUNDLE'', content_names = drop 1 items\<rparr>]\<rparr>
      else s)"

text \<open>The media line: \<open>items[3]\<close> is read although only three items are sure.\<close>

definition parse_m_line ::
    "sdp_lib \<Rightarrow> string \<Rightarrow> ParseState \<Rightarrow> ParseFault option \<times> ParseState" where
  "parse_m_line L field s =
     (let items = tokenize L (CHR '' '') field in
      if length items \<le> 2 then (Some Refused, s)
      else (case substr 2 (items ! 0) of
              None \<Rightarrow> (Some Thrown, s)
            | Some mid \<Rightarrow>
                let s1 = s\<lparr>ps_mid := mid\<rparr> in
                if mid = ''audio'' then
                  let s2 = s1\<lparr>ps_audio := (ps_audio s1)\<lparr>ti_content_name := mid\<rparr>, ps_audio_name := mid\<rparr>
                  in if length items \<le> 3 then (Some ReadsPastEnd, s2)
                     else (None, s2\<lparr>ps_audio_pt := of_int (atoi (items ! 3))\<rparr>)
                else if mid = ''video'' then
                  let s2 = s1\<lparr>ps_video := (ps_video s1)\<lparr>ti_content_name := mid\<rparr>, ps_video_name := mid\<rparr>
                  in if length items \<le> 3 then (Some ReadsPastEnd, s2)
                     else (None, s2\<lparr>ps_video_pt := of_int (atoi (items ! 3))\<rparr>)
                else (None, s1)))"

definition parse_media_line ::
    "sdp_lib \<Rightarrow> string \<Rightarrow> ParseState \<Rightarrow> ParseFault option \<times> ParseState" where
  "parse_media_line L field s =
     (if ps_mid s \<noteq> ''audio'' \<and> ps_mid s \<noteq> ''video'' then (None, s)
      else case ParseCandidates L field (ps_candidates s) of
        None \<Rightarrow> (Some Refused, s)
      | Some cs \<Rightarrow>
          let s1 = s\<lparr>ps_candidates := cs\<rparr>;
              old = (if ps_mid s = ''audio'' then ps_audio s else ps_video s)
          in case ParseTransportInfo L field (ti_description old) of (f, td) \<Rightarrow>
               (f, if ps_mid s = ''audio'' then s1\<lparr>ps_audio := old\<lparr>ti_description := td\<rparr>\<rparr>
                   else s1\<lparr>ps_video := old\<lparr>ti_description := td\<rparr>\<rparr>))"

definition parse_line ::
    "sdp_lib \<Rightarrow> string \<Rightarrow> ParseState \<Rightarrow> ParseFault option \<times> ParseState" where
  "parse_line L field s =
     (if contains ''a=group:BUNDLE'' field then parse_media_line L field (parse_group_line L field s)
      else if begins_with_one_of ''m='' field
      then (case parse_m_line L field s of
              (Some f, s1) \<Rightarrow> (Some f, s1)
            | (None, s1) \<Rightarrow> parse_media_line L field s1)
      else parse_media_line L field s)"

fun parse_lines ::
    "sdp_lib \<Rightarrow> string list \<Rightarrow> ParseState \<Rightarrow> ParseFault option \<times> ParseState" where
  "parse_lines L [] s = (None, s)"
| "parse_lines L (l # ls) s =
     (case parse_line L l s of (Some f, s1) \<Rightarrow> (Some f, s1) | (None, s1) \<Rightarrow> parse_lines L ls s1)"

section \<open>The whole description\<close>

text \<open>
  What the peer connection keeps of remote descriptions; the description itself goes to the
  transport controller with the candidates. A failure leaves the new description with the groups
  read so far, and the payload types already read.
\<close>

record Remote =
  remote_desc :: "SessionDescription option"
  audio_pt :: "8 word"
  video_pt :: "8 word"

definition start_parse :: "Remote \<Rightarrow> ParseState" where
  "start_parse r = \<lparr>ps_mid = '''', ps_audio = empty_info, ps_video = empty_info,
     ps_audio_name = '''', ps_video_name = '''', ps_candidates = [], ps_groups = [],
     ps_audio_pt = audio_pt r, ps_video_pt = video_pt r\<rparr>"

definition parsed_content :: "MediaType \<Rightarrow> string \<Rightarrow> ContentInfo" where
  "parsed_content ty n = \<lparr>ci_name = n, ci_type = Proto_kRtp, ci_rejected = False,
     ci_bundle_only = False,
     ci_description = Some \<lparr>media_type = ty, rtcp_mux = False, direction = kSendRecv, codecs = [],
       send_streams = []\<rparr>\<rparr>"

definition finish_parse :: "ParseState \<Rightarrow> SessionDescription" where
  "finish_parse s = \<lparr>
     contents = [parsed_content MEDIA_TYPE_AUDIO (ps_audio_name s),
                 parsed_content MEDIA_TYPE_VIDEO (ps_video_name s)],
     transport_infos = [ps_audio s, ps_video s],
     content_groups = ps_groups s\<rparr>"

text \<open>The fields of the text, without their last character when lines end in CR LF.\<close>

definition sdp_fields :: "sdp_lib \<Rightarrow> string \<Rightarrow> string list" where
  "sdp_fields L sdp =
     (let fields = tokenize L (CHR 0x0A) sdp
      in if contains crlf sdp then List.map butlast fields else fields)"

definition read_remote_sdp ::
    "sdp_lib \<Rightarrow> string \<Rightarrow> Remote \<Rightarrow> ParseFault option \<times> IceCandidate list \<times> Remote" where
  "read_remote_sdp L sdp r =
     (if tokenize L (CHR 0x0A) sdp = [] then (Some Refused, [], r)
      else case parse_lines L (sdp_fields L sdp) (start_parse r) of
        (Some f, s) \<Rightarrow>
          (Some f, [], \<lparr>remote_desc = Some \<lparr>contents = [], transport_infos = [], content_groups = ps_groups s\<rparr>,
             audio_pt = ps_audio_pt s, video_pt = ps_video_pt s\<rparr>)
      | (None, s) \<Rightarrow>
          (None, ps_candidates s, \<lparr>remote_desc = Some (finish_parse s),
             audio_pt = ps_audio_pt s, video_pt = ps_video_pt s\<rparr>))"

section \<open>What \<open>tokenize\<close> is documented to do\<close>

fun split_on :: "char \<Rightarrow> string \<Rightarrow> string list" where
  "split_on d [] = [[]]"
| "split_on d (c # s) =
     (if c = d then [] # split_on d s
      else case split_on d s of [] \<Rightarrow> [[c]] | t # ts \<Rightarrow> (c # t) # ts)"

text \<open>The fields between the delimiters; empty ones are left out.\<close>

definition tokens :: "char \<Rightarrow> string \<Rightarrow> string list" where
  "tokens d s = filter (\<lambda>t. t \<noteq> []) (split_on d s)"

definition tokenizer_ok :: "sdp_lib \<Rightarrow> bool" where
  "tokenizer_ok L \<longleftrightarrow> (\<forall>d s. tokenize L d s = tokens d s)"

lemma tokenizer_okD: "tokenizer_ok L \<Longrightarrow> tokenize L d s = tokens d s"
  by (simp add: tokenizer_ok_def)

lemma split_on_word: "d \<notin> set w \<Longrightarrow> split_on d w = [w]"
  by (induction w) auto

lemma split_on_app: "d \<notin> set w \<Longrightarrow> split_on d (w @ d # s) = w # split_on d s"
  by (induction w) auto

lemma tokens_Nil [simp]: "tokens d [] = []"
  by (simp add: tokens_def)

lemma tokens_word: "d \<notin> set w \<Longrightarrow> w \<noteq> [] \<Longrightarrow> tokens d w = [w]"
  by (simp add: tokens_def split_on_word)

lemma tokens_app: "d \<notin> set w \<Longrightarrow> w \<noteq> [] \<Longrightarrow> tokens d (w @ d # s) = w # tokens d s"
  by (simp add: tokens_def split_on_app)

text \<open>A text given as its lines.\<close>

definition lines_text :: "string list \<Rightarrow> string" where
  "lines_text ls = concat (List.map (\<lambda>l. l @ crlf) ls)"

lemma lines_text_simps [simp]:
  "lines_text [] = []" "lines_text (l # ls) = l @ crlf @ lines_text ls"
  "lines_text (as @ bs) = lines_text as @ lines_text bs"
  by (simp_all add: lines_text_def)

definition plain_line :: "string \<Rightarrow> bool" where
  "plain_line l \<longleftrightarrow> CHR 0x0A \<notin> set l \<and> CHR 0x0D \<notin> set l"

lemma contains_app: "contains p (a @ p @ b)"
proof (induction a)
  case Nil
  show ?case by (cases p; cases b) simp_all
next
  case (Cons c a)
  then show ?case by simp
qed

lemma sdp_fields_lines:
  assumes "tokenizer_ok L" "ls \<noteq> []" "\<And>l. l \<in> set ls \<Longrightarrow> plain_line l"
  shows "tokenize L (CHR 0x0A) (lines_text ls) \<noteq> []" "sdp_fields L (lines_text ls) = ls"
proof -
  have "(\<And>l. l \<in> set ls \<Longrightarrow> plain_line l) \<Longrightarrow>
      tokens (CHR 0x0A) (lines_text ls) = List.map (\<lambda>l. l @ [CHR 0x0D]) ls" for ls
  proof (induction ls)
    case Nil
    then show ?case by simp
  next
    case (Cons l ls)
    have "tokens (CHR 0x0A) ((l @ [CHR 0x0D]) @ CHR 0x0A # lines_text ls)
        = (l @ [CHR 0x0D]) # tokens (CHR 0x0A) (lines_text ls)"
      using Cons.prems by (intro tokens_app) (auto simp: plain_line_def)
    with Cons show ?case by (simp add: crlf_def)
  qed
  then have t: "tokenize L (CHR 0x0A) (lines_text ls) = List.map (\<lambda>l. l @ [CHR 0x0D]) ls"
    using assms by (simp add: tokenizer_okD)
  obtain l ls' where "ls = l # ls'" using assms(2) by (cases ls) auto
  then have "contains crlf (lines_text ls)"
    using contains_app [of crlf l "lines_text ls'"] by simp
  then show "sdp_fields L (lines_text ls) = ls" by (simp add: sdp_fields_def t comp_def)
  show "tokenize L (CHR 0x0A) (lines_text ls) \<noteq> []" using assms(2) t by simp
qed

section \<open>Lines that say nothing to the parser\<close>

lemma parse_lines_append:
  "parse_lines L (as @ bs) s =
     (case parse_lines L as s of (None, s1) \<Rightarrow> parse_lines L bs s1 | (Some f, s1) \<Rightarrow> (Some f, s1))"
  by (induction as arbitrary: s) (auto split: prod.splits option.splits)

definition inert :: "string \<Rightarrow> bool" where
  "inert l \<longleftrightarrow> \<not> begins_with_one_of ''m='' l \<and> \<not> contains ''a=group:BUNDLE'' l
     \<and> \<not> contains ''a=candidate:'' l \<and> \<not> contains ''a=ice-ufrag'' l \<and> \<not> contains ''a=ice-pwd'' l
     \<and> \<not> contains ''a=fingerprint'' l"

lemma parse_line_inert: "inert l \<Longrightarrow> parse_line L l s = (None, s)"
  by (simp add: inert_def parse_line_def parse_media_line_def ParseCandidates_def
      ParseTransportInfo_def Let_def)

lemma parse_lines_inert: "list_all inert ls \<Longrightarrow> parse_lines L ls s = (None, s)"
  by (induction ls) (simp_all add: parse_line_inert)

text \<open>In an attribute line without another equals sign, only the attribute's name counts.\<close>

lemma contains_needs: "c \<in> set p \<Longrightarrow> c \<notin> set s \<Longrightarrow> \<not> contains p s"
proof (induction s)
  case Nil
  then show ?case by auto
next
  case (Cons a s)
  have "\<not> prefix p (a # s)" using Cons.prems set_mono_prefix [of p "a # s"] by blast
  then show ?case using Cons by simp
qed

lemma contains_attribute:
  assumes "CHR ''='' \<notin> set r"
  shows "contains (''a='' @ p) (''a='' @ r) = prefix p r"
proof -
  have "\<not> contains (''a='' @ p) (CHR ''='' # r)"
    using assms contains_needs [of "CHR ''=''" "''a='' @ p" r] by simp
  then show ?thesis by simp
qed

lemma inert_attribute:
  assumes "CHR ''='' \<notin> set r" "\<not> prefix ''group:BUNDLE'' r" "\<not> prefix ''candidate:'' r"
    "\<not> prefix ''ice-ufrag'' r" "\<not> prefix ''ice-pwd'' r" "\<not> prefix ''fingerprint'' r"
  shows "inert (''a='' @ r)"
  using assms(2-) contains_attribute [OF assms(1), of "''group:BUNDLE''"]
    contains_attribute [OF assms(1), of "''candidate:''"]
    contains_attribute [OF assms(1), of "''ice-ufrag''"]
    contains_attribute [OF assms(1), of "''ice-pwd''"]
    contains_attribute [OF assms(1), of "''fingerprint''"]
  by (simp add: inert_def begins_with_one_of_def del: contains.simps)

section \<open>Properties\<close>

lemma split_on_nonempty [simp]: "split_on d s \<noteq> []"
  by (induction s) (auto split: list.split)

lemma split_on_append: "split_on d (a @ d # b) = split_on d a @ split_on d b"
proof (induction a)
  case Nil
  then show ?case by simp
next
  case (Cons c a)
  then show ?case by (cases "split_on d a") auto
qed

lemma tokens_append: "tokens d (a @ d # b) = tokens d a @ tokens d b"
  by (simp add: tokens_def split_on_append)

lemma tokens_nonempty: "c \<in> set s \<Longrightarrow> c \<noteq> d \<Longrightarrow> tokens d s \<noteq> []"
proof (induction s)
  case Nil
  then show ?case by simp
next
  case (Cons a s)
  then show ?case
    by (cases "split_on d s") (auto simp: tokens_def filter_empty_conv split: list.splits)
qed

text \<open>A description is refused as a whole because of one candidate with an IPv6 address. In an
  audio or video section, a candidate line with a colon anywhere after the attribute's name,
  between other characters, makes the call fail, whatever the other lines say: the attribute is
  split at every colon and must have exactly two parts.\<close>

theorem sdp_candidate_with_colon_refused:
  assumes "tokenizer_ok L" "parse_lines L before (start_parse r) = (None, s)"
    "ps_mid s \<in> {''audio'', ''video''}"
    "l = ''a=candidate:'' @ a @ '':'' @ b" "CHR ''='' \<notin> set (a @ b)"
    "\<exists>c \<in> set a. c \<noteq> CHR '':''" "\<exists>c \<in> set b. c \<noteq> CHR '':''"
    "\<And>x. x \<in> set (before @ l # after) \<Longrightarrow> plain_line x"
  shows "fst (read_remote_sdp L (lines_text (before @ l # after)) r) = Some Refused"
proof -
  have l: "l = ''a='' @ ''candidate:'' @ a @ '':'' @ b" using assms(4) by simp
  have eq: "CHR ''='' \<notin> set (''candidate:'' @ a @ '':'' @ b)" using assms(5) by simp
  have no: "\<not> contains ''a=group:BUNDLE'' l" and yes: "contains ''a=candidate:'' l"
    using contains_attribute [OF eq, of "''group:BUNDLE''"]
      contains_attribute [OF eq, of "''candidate:''"] unfolding l by (simp_all del: contains.simps)
  have m: "\<not> begins_with_one_of ''m='' l" by (simp add: l begins_with_one_of_def)
  have "tokens (CHR '':'') l
      = tokens (CHR '':'') ''a=candidate'' @ tokens (CHR '':'') a @ tokens (CHR '':'') b"
    using tokens_append [of "CHR '':''" "''a=candidate''" "a @ '':'' @ b"]
      tokens_append [of "CHR '':''" a b] by (simp add: l)
  moreover have "tokens (CHR '':'') a \<noteq> []" "tokens (CHR '':'') b \<noteq> []"
    using assms(6,7) tokens_nonempty by blast+
  moreover have "tokens (CHR '':'') ''a=candidate'' = [''a=candidate'']" by (simp add: tokens_word)
  ultimately have "length (tokens (CHR '':'') l) > 2"
    by (cases "tokens (CHR '':'') a"; cases "tokens (CHR '':'') b") simp_all
  then have "GetAttribute L l = ''''" using assms(1) by (simp add: GetAttribute_def tokenizer_okD)
  then have "fst (parse_line L l s) = Some Refused"
    using no yes m assms(3) by (auto simp: parse_line_def parse_media_line_def ParseCandidates_def)
  then obtain s' where "parse_line L l s = (Some Refused, s')" by (cases "parse_line L l s") auto
  then have "parse_lines L (before @ l # after) (start_parse r) = (Some Refused, s')"
    using assms(2) by (simp add: parse_lines_append)
  moreover have "tokenize L (CHR 0x0A) (lines_text (before @ l # after)) \<noteq> []"
    "sdp_fields L (lines_text (before @ l # after)) = before @ l # after"
    using sdp_fields_lines [of L "before @ l # after", OF assms(1) _ assms(8)] by simp_all
  ultimately show ?thesis by (simp add: read_remote_sdp_def)
qed

definition demo_sdp_lib :: sdp_lib where
  "demo_sdp_lib = \<lparr>tokenize = tokens,
     fingerprint_from_text = (\<lambda>a t. Some \<lparr>fp_algorithm = a, fp_digest = List.map of_char t\<rparr>)\<rparr>"

theorem sdp_candidate_with_colon_refused_witness:
  "fst (read_remote_sdp demo_sdp_lib (lines_text ([''v=0'', ''m=audio 9 RTP/SAVPF 111''] @
      ''a=candidate:1 1 udp 99 fe80::1 5000 typ host'' # []))
      \<lparr>remote_desc = None, audio_pt = 0, video_pt = 0\<rparr>) = Some Refused"
proof -
  let ?r = "\<lparr>remote_desc = None, audio_pt = 0, video_pt = 0\<rparr>"
  let ?before = "[''v=0'', ''m=audio 9 RTP/SAVPF 111'']"
  have t: "tokenizer_ok demo_sdp_lib" by (simp add: tokenizer_ok_def demo_sdp_lib_def)
  have "fst (parse_lines demo_sdp_lib ?before (start_parse ?r)) = None
      \<and> ps_mid (snd (parse_lines demo_sdp_lib ?before (start_parse ?r))) = ''audio''"
    by code_simp
  then obtain s where s: "parse_lines demo_sdp_lib ?before (start_parse ?r) = (None, s)"
    "ps_mid s \<in> {''audio'', ''video''}"
    by (cases "parse_lines demo_sdp_lib ?before (start_parse ?r)") auto
  show ?thesis
    by (rule sdp_candidate_with_colon_refused [OF t s, where a = "''1 1 udp 99 fe80:''"
          and b = "''1 5000 typ host''"]) (auto simp: plain_line_def)
qed

end
