(* ===== verification/BundleManager.thy ===== *)
theory BundleManager
  imports SessionDescription
begin

text \<open>
  The bundle manager (class \<open>BundleManager\<close> of jsep_transport_collection.cc): the BUNDLE groups
  in force, the groups of the last stable state, and the index from a mid to its group.

  The index holds pointers to the group objects, so a group is paired with its address; a new
  object gets a new address. The operations that take such a pointer return \<open>None\<close> where the
  code dereferences or erases the end of a container.
\<close>

section \<open>State\<close>

type_synonym group_ptr = nat

record BundleManager =
  is_max_bundle :: bool
  bundle_groups :: "(group_ptr \<times> ContentGroup) list"
  stable_bundle_groups :: "ContentGroup list"
  established :: "(string, group_ptr) smap"
  next_group :: nat

definition new_BundleManager :: "bool \<Rightarrow> BundleManager" where
  "new_BundleManager mb =
     \<lparr>is_max_bundle = mb, bundle_groups = [], stable_bundle_groups = [], established = [],
      next_group = 0\<rparr>"

section \<open>Operations\<close>

definition group_bindings :: "(group_ptr \<times> ContentGroup) list \<Rightarrow> (string \<times> group_ptr) list" where
  "group_bindings gs = concat (List.map (\<lambda>(i, gr). List.map (\<lambda>n. (n, i)) (content_names gr)) gs)"

definition RefreshEstablishedBundleGroupsByMid :: "BundleManager \<Rightarrow> BundleManager" where
  "RefreshEstablishedBundleGroupsByMid b =
     b\<lparr>established :=
        foldl (\<lambda>m (i, gr). foldl (\<lambda>m n. smap_put n i m) m (content_names gr)) [] (bundle_groups b)\<rparr>"

definition copy_groups :: "ContentGroup list \<Rightarrow> BundleManager \<Rightarrow> BundleManager" where
  "copy_groups gs b =
     b\<lparr>bundle_groups := zip [next_group b ..< next_group b + length gs] gs,
       next_group := next_group b + length gs\<rparr>"

definition overwrite_group :: "group_ptr \<Rightarrow> ContentGroup \<Rightarrow> BundleManager \<Rightarrow> BundleManager" where
  "overwrite_group i gr b =
     b\<lparr>bundle_groups := List.map (\<lambda>(j, old). if j = i then (j, gr) else (j, old)) (bundle_groups b)\<rparr>"

text \<open>One group of an offer: the first of its mids that has a group overwrites that group.\<close>

definition update_existing :: "BundleManager \<times> bool \<Rightarrow> ContentGroup \<Rightarrow> BundleManager \<times> bool" where
  "update_existing bc gr =
     (case List.find (\<lambda>m. map_of (established (fst bc)) m \<noteq> None) (content_names gr) of
        None \<Rightarrow> bc
      | Some m \<Rightarrow> (overwrite_group (the (map_of (established (fst bc)) m)) gr (fst bc), True))"

definition bundle_Update :: "SessionDescription \<Rightarrow> SdpType \<Rightarrow> BundleManager \<Rightarrow> BundleManager" where
  "bundle_Update description type b =
     (let new_groups = GetGroupsByName ''BUNDLE'' description
      in if is_max_bundle b \<or> type = kAnswer
         then RefreshEstablishedBundleGroupsByMid (copy_groups new_groups b)
         else if type = kOffer then
           (case foldl update_existing (b, False) new_groups of
              (b1, changed) \<Rightarrow> if changed then RefreshEstablishedBundleGroupsByMid b1 else b1)
         else b)"

definition LookupGroupByMid :: "string \<Rightarrow> BundleManager \<Rightarrow> group_ptr option" where
  "LookupGroupByMid mid b = map_of (established b) mid"

definition IsFirstMidInGroup :: "string \<Rightarrow> BundleManager \<Rightarrow> bool option" where
  "IsFirstMidInGroup mid b =
     (case LookupGroupByMid mid b of
        None \<Rightarrow> Some True
      | Some i \<Rightarrow>
          (case map_of (bundle_groups b) i of
             None \<Rightarrow> None
           | Some gr \<Rightarrow> map_option (\<lambda>n. mid = n) (FirstContentName gr)))"

definition DeleteMid :: "group_ptr \<Rightarrow> string \<Rightarrow> BundleManager \<Rightarrow> BundleManager option" where
  "DeleteMid i mid b =
     (case map_of (bundle_groups b) i of
        None \<Rightarrow> None
      | Some gr \<Rightarrow>
          (let b1 = overwrite_group i (snd (RemoveContentName mid gr)) b
           in if map_of (established b1) mid = None then None
              else Some (b1\<lparr>established := smap_del mid (established b1)\<rparr>)))"

fun DeleteMids :: "group_ptr \<Rightarrow> string list \<Rightarrow> BundleManager \<Rightarrow> BundleManager option" where
  "DeleteMids i [] b = Some b"
| "DeleteMids i (m # ms) b = Option.bind (DeleteMid i m b) (DeleteMids i ms)"

definition DeleteGroup :: "group_ptr \<Rightarrow> BundleManager \<Rightarrow> BundleManager option" where
  "DeleteGroup i b =
     (case map_of (bundle_groups b) i of
        None \<Rightarrow> None
      | Some gr \<Rightarrow>
          map_option (\<lambda>b1. b1\<lparr>bundle_groups := filter (\<lambda>p. fst p \<noteq> i) (bundle_groups b1)\<rparr>)
            (DeleteMids i (content_names gr) b))"

definition bundle_Rollback :: "BundleManager \<Rightarrow> BundleManager" where
  "bundle_Rollback b = RefreshEstablishedBundleGroupsByMid (copy_groups (stable_bundle_groups b) b)"

definition bundle_Commit :: "BundleManager \<Rightarrow> BundleManager" where
  "bundle_Commit b = b\<lparr>stable_bundle_groups := List.map snd (bundle_groups b)\<rparr>"

section \<open>The index\<close>

lemma Refresh_put_all:
  "established (RefreshEstablishedBundleGroupsByMid b) = sm.put_all (group_bindings (bundle_groups b)) []"
proof -
  have one: "foldl (\<lambda>m n. smap_put n i m) m ns = sm.put_all (List.map (\<lambda>n. (n, i)) ns) m"
    for i :: nat and m and ns :: "string list"
    by (induction ns arbitrary: m) (simp_all add: sm.put_all_def)
  have "foldl (\<lambda>m (i, gr). foldl (\<lambda>m n. smap_put n i m) m (content_names gr)) m gs
      = sm.put_all (group_bindings gs) m" for m gs
    by (induction gs arbitrary: m)
      (auto simp: one group_bindings_def sm.put_all_def)
  then show ?thesis by (simp add: RefreshEstablishedBundleGroupsByMid_def)
qed

lemma Refresh_frame [simp]:
  "bundle_groups (RefreshEstablishedBundleGroupsByMid b) = bundle_groups b"
  "next_group (RefreshEstablishedBundleGroupsByMid b) = next_group b"
  "stable_bundle_groups (RefreshEstablishedBundleGroupsByMid b) = stable_bundle_groups b"
  by (simp_all add: RefreshEstablishedBundleGroupsByMid_def)

text \<open>The index is the one a refresh would make, and addresses are not reused.\<close>

definition bundle_ok :: "BundleManager \<Rightarrow> bool" where
  "bundle_ok b \<longleftrightarrow> smap_ok (established b)
     \<and> map_of (established b) = map_of (rev (group_bindings (bundle_groups b)))
     \<and> distinct (List.map fst (bundle_groups b))
     \<and> (\<forall>i \<in> fst ` set (bundle_groups b). i < next_group b)"

lemma bundle_ok_Refresh:
  assumes "distinct (List.map fst (bundle_groups b))"
    "\<forall>i \<in> fst ` set (bundle_groups b). i < next_group b"
  shows "bundle_ok (RefreshEstablishedBundleGroupsByMid b)"
  using assms sm.get_put_all [of "[]" "group_bindings (bundle_groups b)"]
    sm.wf_put_all [of "[]" "group_bindings (bundle_groups b)"]
  by (simp add: bundle_ok_def Refresh_put_all)

lemma copy_groups_fields:
  "distinct (List.map fst (bundle_groups (copy_groups gs b)))"
  "\<forall>i \<in> fst ` set (bundle_groups (copy_groups gs b)). i < next_group (copy_groups gs b)"
  "List.map snd (bundle_groups (copy_groups gs b)) = gs"
  "stable_bundle_groups (copy_groups gs b) = stable_bundle_groups b"
  by (auto simp: copy_groups_def dest: set_zip_leftD)

lemma overwrite_keys [simp]:
  "List.map fst (bundle_groups (overwrite_group i gr b)) = List.map fst (bundle_groups b)"
  "next_group (overwrite_group i gr b) = next_group b"
  "stable_bundle_groups (overwrite_group i gr b) = stable_bundle_groups b"
  "established (overwrite_group i gr b) = established b"
  by (auto simp: overwrite_group_def)

lemma update_existing_frame:
  assumes "foldl update_existing (b, c) gs = (b1, c1)"
  shows "List.map fst (bundle_groups b1) = List.map fst (bundle_groups b)
    \<and> next_group b1 = next_group b \<and> stable_bundle_groups b1 = stable_bundle_groups b
    \<and> established b1 = established b \<and> (\<not> c1 \<longrightarrow> b1 = b)"
  using assms
proof (induction gs arbitrary: b c)
  case Nil
  then show ?case by simp
next
  case (Cons gr gs)
  obtain b2 c2 where s: "update_existing (b, c) gr = (b2, c2)" by fastforce
  have "List.map fst (bundle_groups b2) = List.map fst (bundle_groups b)
    \<and> next_group b2 = next_group b \<and> stable_bundle_groups b2 = stable_bundle_groups b
    \<and> established b2 = established b \<and> (b2 = b \<and> c2 = c \<or> c2)"
    using s by (auto simp: update_existing_def split: option.splits)
  moreover have "c1" if "c2"
    using that Cons.prems s
  proof -
    have mono: "snd (foldl update_existing (b, True) gs)" for b
      by (induction gs arbitrary: b) (auto simp: update_existing_def split: option.split)
    show ?thesis using that Cons.prems s mono [of b2] by simp
  qed
  ultimately show ?case using Cons.IH [of b2 c2] Cons.prems s by auto
qed

lemma bundle_ok_Update: "bundle_ok b \<Longrightarrow> bundle_ok (bundle_Update d ty b)"
proof -
  assume b: "bundle_ok b"
  obtain b1 c1 where f: "foldl update_existing (b, False) (GetGroupsByName ''BUNDLE'' d) = (b1, c1)"
    by fastforce
  have keys: "List.map fst (bundle_groups b1) = List.map fst (bundle_groups b)"
    "next_group b1 = next_group b" and same: "\<not> c1 \<Longrightarrow> b1 = b"
    using update_existing_frame [OF f] by auto
  have "fst ` set (bundle_groups b1) = fst ` set (bundle_groups b)"
    using keys(1) by (metis list.set_map)
  then have "bundle_ok (RefreshEstablishedBundleGroupsByMid b1)"
    using b keys by (intro bundle_ok_Refresh) (simp_all add: bundle_ok_def)
  then show ?thesis
    using b f same copy_groups_fields by (simp add: bundle_Update_def bundle_ok_Refresh Let_def)
qed

lemma bundle_ok_Rollback: "bundle_ok (bundle_Rollback b)"
  by (simp add: bundle_Rollback_def bundle_ok_Refresh copy_groups_fields)

lemma bundle_ok_Commit: "bundle_ok b \<Longrightarrow> bundle_ok (bundle_Commit b)"
  by (simp add: bundle_ok_def bundle_Commit_def)

section \<open>Deleting\<close>

text \<open>No mid is listed twice, neither in one group nor in two.\<close>

definition listed_once :: "BundleManager \<Rightarrow> bool" where
  "listed_once b \<longleftrightarrow> distinct (List.map fst (group_bindings (bundle_groups b)))"

lemma group_bindings_Cons:
  "group_bindings ((i, gr) # gs) = List.map (\<lambda>n. (n, i)) (content_names gr) @ group_bindings gs"
  by (simp add: group_bindings_def)

lemma in_group_bindings:
  "(m, i) \<in> set (group_bindings gs) \<longleftrightarrow> (\<exists>gr. (i, gr) \<in> set gs \<and> m \<in> set (content_names gr))"
  by (auto simp: group_bindings_def)

lemma content_names_Remove [simp]:
  "content_names (snd (RemoveContentName m gr)) = remove1 m (content_names gr)"
  by (simp add: RemoveContentName_def remove1_idem)

lemma group_bindings_remove:
  assumes "distinct (List.map fst (group_bindings gs))" "distinct (List.map fst gs)"
    "(i, gr) \<in> set gs" "mid \<in> set (content_names gr)"
  shows "group_bindings (List.map (\<lambda>(j, old). if j = i then (j, snd (RemoveContentName mid gr))
                                              else (j, old)) gs)
       = filter (\<lambda>p. fst p \<noteq> mid) (group_bindings gs)"
  using assms
proof (induction gs)
  case Nil
  then show ?case by simp
next
  case (Cons p gs)
  obtain j old where p: "p = (j, old)" by fastforce
  have d: "distinct (content_names old)"
    using Cons.prems(1) by (simp add: p group_bindings_Cons comp_def distinct_map)
  have other: "mid \<notin> fst ` set (group_bindings gs)" if "mid \<in> set (content_names old)"
    using that Cons.prems(1) by (auto simp: p group_bindings_Cons comp_def)
  show ?case
  proof (cases "j = i")
    case True
    then have old: "old = gr" using Cons.prems(2,3) by (auto simp: p rev_image_eqI)
    have keep: "List.map (\<lambda>(j, old). if j = i then (j, snd (RemoveContentName mid gr))
                                    else (j, old)) gs = gs"
      using Cons.prems(2) True by (intro map_idI) (auto simp: p rev_image_eqI)
    have "filter (\<lambda>q. fst q \<noteq> mid) (group_bindings gs) = group_bindings gs"
      using other Cons.prems(4) old by (intro filter_True) (auto simp: rev_image_eqI)
    then show ?thesis
      using True old keep d
      by (simp add: p group_bindings_Cons filter_map comp_def distinct_remove1_removeAll
          removeAll_filter_not_eq eq_commute)
  next
    case False
    then have gr: "(i, gr) \<in> set gs" using Cons.prems(3) by (auto simp: p)
    then have "mid \<in> fst ` set (group_bindings gs)"
      using Cons.prems(4) in_group_bindings by force
    then have "mid \<notin> set (content_names old)" using other by blast
    then have "filter (\<lambda>q. fst q \<noteq> mid) (List.map (\<lambda>n. (n, j)) (content_names old))
        = List.map (\<lambda>n. (n, j)) (content_names old)" by (intro filter_True) auto
    moreover have "distinct (List.map fst (group_bindings gs))" "distinct (List.map fst gs)"
      using Cons.prems(1,2) by (simp_all add: p group_bindings_Cons)
    ultimately show ?thesis
      using False Cons.IH [OF _ _ gr Cons.prems(4)] by (simp add: p group_bindings_Cons)
  qed
qed

lemma DeleteMid_exact:
  assumes "bundle_ok b" "listed_once b" "(i, gr) \<in> set (bundle_groups b)"
    "mid \<in> set (content_names gr)"
  shows "\<exists>b'. DeleteMid i mid b = Some b' \<and> bundle_ok b' \<and> listed_once b'
    \<and> bundle_groups b' = List.map (\<lambda>(j, old). if j = i then (j, snd (RemoveContentName mid gr))
                                                else (j, old)) (bundle_groups b)
    \<and> stable_bundle_groups b' = stable_bundle_groups b"
proof -
  let ?b1 = "overwrite_group i (snd (RemoveContentName mid gr)) b"
  have keys: "distinct (List.map fst (bundle_groups b))" using assms(1) by (simp add: bundle_ok_def)
  have b1: "group_bindings (bundle_groups ?b1)
      = filter (\<lambda>p. fst p \<noteq> mid) (group_bindings (bundle_groups b))"
    using group_bindings_remove [OF _ keys assms(3,4)] assms(2)
    by (simp add: overwrite_group_def listed_once_def)
  have "mid \<in> fst ` set (rev (group_bindings (bundle_groups b)))"
    using assms(3,4) in_group_bindings by force
  then have est: "map_of (established b) mid \<noteq> None"
    using assms(1) by (simp add: bundle_ok_def map_of_eq_None_iff)
  have "fst ` set (bundle_groups ?b1) = fst ` set (bundle_groups b)"
    using overwrite_keys(1) by (metis list.set_map)
  moreover have "map_of (rev (filter (\<lambda>p. fst p \<noteq> mid) (group_bindings (bundle_groups b))))
      = (map_of (established b))(mid := None)"
    using assms(1) map_of_smap_del [of mid "rev (group_bindings (bundle_groups b))"]
    by (simp add: smap_del_def rev_filter bundle_ok_def)
  ultimately have "bundle_ok (?b1\<lparr>established := smap_del mid (established ?b1)\<rparr>)"
    using assms(1) b1 by (simp add: bundle_ok_def)
  moreover have "listed_once (?b1\<lparr>established := smap_del mid (established ?b1)\<rparr>)"
    using assms(2) b1 by (simp add: listed_once_def distinct_map_filter)
  moreover have "map_of (bundle_groups b) i = Some gr" using keys assms(3) by simp
  ultimately show ?thesis using est by (simp add: DeleteMid_def overwrite_group_def Let_def)
qed

lemma DeleteMids_exact:
  assumes "bundle_ok b" "listed_once b" "(i, gr) \<in> set (bundle_groups b)" "content_names gr = ms"
  shows "\<exists>b'. DeleteMids i ms b = Some b' \<and> bundle_ok b' \<and> listed_once b'
    \<and> List.map fst (bundle_groups b') = List.map fst (bundle_groups b)
    \<and> (\<exists>gr'. (i, gr') \<in> set (bundle_groups b') \<and> content_names gr' = [])
    \<and> stable_bundle_groups b' = stable_bundle_groups b"
  using assms
proof (induction ms arbitrary: b gr)
  case Nil
  then show ?case by auto
next
  case (Cons m ms)
  from DeleteMid_exact [OF Cons.prems(1-3), of m] Cons.prems(4)
  obtain b1 where b1: "DeleteMid i m b = Some b1" "bundle_ok b1" "listed_once b1"
    "bundle_groups b1 = List.map (\<lambda>(j, old). if j = i then (j, snd (RemoveContentName m gr))
        else (j, old)) (bundle_groups b)" "stable_bundle_groups b1 = stable_bundle_groups b" by auto
  have "(i, snd (RemoveContentName m gr)) \<in> set (bundle_groups b1)"
    using Cons.prems(3) b1(4) by force
  from Cons.IH [OF b1(2,3) this] Cons.prems(4) b1(5)
  obtain b' where "DeleteMids i ms b1 = Some b'" "bundle_ok b'" "listed_once b'"
    "List.map fst (bundle_groups b') = List.map fst (bundle_groups b1)"
    "\<exists>gr'. (i, gr') \<in> set (bundle_groups b') \<and> content_names gr' = []"
    "stable_bundle_groups b' = stable_bundle_groups b" by auto
  moreover have "List.map fst (bundle_groups b1) = List.map fst (bundle_groups b)"
    by (auto simp: b1(4))
  ultimately show ?case using b1(1) by simp
qed

lemma group_bindings_drop_empty:
  "\<forall>p \<in> set gs. fst p = i \<longrightarrow> content_names (snd p) = [] \<Longrightarrow>
     group_bindings (filter (\<lambda>p. fst p \<noteq> i) gs) = group_bindings gs"
  by (induction gs) (auto simp: group_bindings_def split: prod.split)

lemma DeleteGroup_exact:
  assumes "bundle_ok b" "listed_once b" "i \<in> fst ` set (bundle_groups b)"
  shows "\<exists>b'. DeleteGroup i b = Some b' \<and> bundle_ok b' \<and> listed_once b'
    \<and> i \<notin> fst ` set (bundle_groups b') \<and> stable_bundle_groups b' = stable_bundle_groups b"
proof -
  obtain gr where gr: "(i, gr) \<in> set (bundle_groups b)" using assms(3) by auto
  then have m: "map_of (bundle_groups b) i = Some gr" using assms(1) by (simp add: bundle_ok_def)
  obtain b1 gr' where b1: "DeleteMids i (content_names gr) b = Some b1" "bundle_ok b1" "listed_once b1"
    "(i, gr') \<in> set (bundle_groups b1)" "content_names gr' = []"
    "stable_bundle_groups b1 = stable_bundle_groups b"
    using DeleteMids_exact [OF assms(1,2) gr refl] by blast
  have "\<forall>p \<in> set (bundle_groups b1). fst p = i \<longrightarrow> content_names (snd p) = []"
    using b1(2,4,5) eq_key_imp_eq_value [of "bundle_groups b1" i gr'] unfolding bundle_ok_def
    by fastforce
  then have bind: "group_bindings (filter (\<lambda>p. fst p \<noteq> i) (bundle_groups b1))
      = group_bindings (bundle_groups b1)" by (rule group_bindings_drop_empty)
  let ?b2 = "b1\<lparr>bundle_groups := filter (\<lambda>p. fst p \<noteq> i) (bundle_groups b1)\<rparr>"
  have "bundle_ok ?b2" "listed_once ?b2"
    using b1(2,3) bind by (auto simp: bundle_ok_def listed_once_def distinct_map_filter)
  then show ?thesis using m b1(1,6) by (auto simp: DeleteGroup_def)
qed

section \<open>Calls\<close>

datatype BundleCall =
    BM_Update SessionDescription SdpType
  | BM_DeleteMid group_ptr string
  | BM_DeleteGroup group_ptr
  | BM_Rollback
  | BM_Commit

fun bundle_call :: "BundleCall \<Rightarrow> BundleManager \<Rightarrow> BundleManager option" where
  "bundle_call (BM_Update d ty) b = Some (bundle_Update d ty b)"
| "bundle_call (BM_DeleteMid i m) b = DeleteMid i m b"
| "bundle_call (BM_DeleteGroup i) b = DeleteGroup i b"
| "bundle_call BM_Rollback b = Some (bundle_Rollback b)"
| "bundle_call BM_Commit b = Some (bundle_Commit b)"

fun bundle_run :: "BundleCall list \<Rightarrow> BundleManager \<Rightarrow> BundleManager option" where
  "bundle_run [] b = Some b"
| "bundle_run (c # cs) b = Option.bind (bundle_call c b) (bundle_run cs)"

text \<open>The callers delete a mid from the group that lists it, or a group that exists, while no mid
  is listed twice.\<close>

fun proper_call :: "BundleCall \<Rightarrow> BundleManager \<Rightarrow> bool" where
  "proper_call (BM_DeleteMid i m) b \<longleftrightarrow> listed_once b \<and> (m, i) \<in> set (group_bindings (bundle_groups b))"
| "proper_call (BM_DeleteGroup i) b \<longleftrightarrow> listed_once b \<and> i \<in> set (List.map fst (bundle_groups b))"
| "proper_call _ b \<longleftrightarrow> True"

fun proper_run :: "BundleCall list \<Rightarrow> BundleManager \<Rightarrow> bool" where
  "proper_run [] b \<longleftrightarrow> True"
| "proper_run (c # cs) b \<longleftrightarrow> proper_call c b
     \<and> (case bundle_call c b of None \<Rightarrow> True | Some b1 \<Rightarrow> proper_run cs b1)"

lemma bundle_ok_call:
  assumes "bundle_ok b" "proper_call c b"
  shows "\<exists>b'. bundle_call c b = Some b' \<and> bundle_ok b'
    \<and> (c \<noteq> BM_Commit \<longrightarrow> stable_bundle_groups b' = stable_bundle_groups b)"
proof (cases c)
  case (BM_Update d ty)
  obtain b1 c1 where f: "foldl update_existing (b, False) (GetGroupsByName ''BUNDLE'' d) = (b1, c1)"
    by fastforce
  from update_existing_frame [OF f] BM_Update bundle_ok_Update [OF assms(1)] f show ?thesis
    by (simp add: bundle_Update_def Let_def copy_groups_fields)
next
  case (BM_DeleteMid i m)
  then obtain gr where "(i, gr) \<in> set (bundle_groups b)" "m \<in> set (content_names gr)" "listed_once b"
    using assms(2) by (auto simp: in_group_bindings)
  with DeleteMid_exact [OF assms(1)] BM_DeleteMid show ?thesis by fastforce
next
  case (BM_DeleteGroup i)
  then show ?thesis using assms DeleteGroup_exact [OF assms(1)] by fastforce
next
  case BM_Rollback
  then show ?thesis by (simp add: bundle_ok_Rollback) (simp add: bundle_Rollback_def copy_groups_fields)
next
  case BM_Commit
  then show ?thesis using assms(1) by (simp add: bundle_ok_Commit)
qed

interpretation bundle_seq: guarded_run bundle_call bundle_run proper_call proper_run
  by unfold_locales simp_all

lemma bundle_ok_run:
  assumes "bundle_ok b" "proper_run cs b"
  shows "\<exists>b'. bundle_run cs b = Some b' \<and> bundle_ok b'
    \<and> (BM_Commit \<notin> set cs \<longrightarrow> stable_bundle_groups b' = stable_bundle_groups b)"
proof (rule bundle_seq.run_returns [OF assms(2), where P = "\<lambda>b'. bundle_ok b'
    \<and> (BM_Commit \<notin> set cs \<longrightarrow> stable_bundle_groups b' = stable_bundle_groups b)"])
  show "bundle_ok b \<and> (BM_Commit \<notin> set cs \<longrightarrow> stable_bundle_groups b = stable_bundle_groups b)"
    using assms(1) by simp
next
  fix c b1
  assume "bundle_ok b1 \<and> (BM_Commit \<notin> set cs \<longrightarrow> stable_bundle_groups b1 = stable_bundle_groups b)"
    and "c \<in> set cs" "proper_call c b1"
  then show "\<exists>b2. bundle_call c b1 = Some b2 \<and> bundle_ok b2
      \<and> (BM_Commit \<notin> set cs \<longrightarrow> stable_bundle_groups b2 = stable_bundle_groups b)"
    using bundle_ok_call [of b1 c] by fastforce
qed

lemma bundle_ok_new: "bundle_ok (new_BundleManager mb)"
  by (simp add: bundle_ok_def new_BundleManager_def group_bindings_def)

lemma Lookup_Some:
  assumes "bundle_ok b" "LookupGroupByMid m b = Some i"
  shows "\<exists>gr. map_of (bundle_groups b) i = Some gr \<and> m \<in> set (content_names gr)"
proof -
  have "(m, i) \<in> set (group_bindings (bundle_groups b))"
    using assms map_of_SomeD [of "rev (group_bindings (bundle_groups b))" m i]
    by (simp add: bundle_ok_def LookupGroupByMid_def)
  then show ?thesis using assms(1) by (auto simp: in_group_bindings bundle_ok_def)
qed

lemma Lookup_None:
  assumes "bundle_ok b"
  shows "LookupGroupByMid m b = None \<longleftrightarrow> (\<forall>p \<in> set (bundle_groups b). m \<notin> set (content_names (snd p)))"
proof -
  have "LookupGroupByMid m b = None \<longleftrightarrow> m \<notin> fst ` set (group_bindings (bundle_groups b))"
    using assms map_of_eq_None_iff [of "rev (group_bindings (bundle_groups b))" m]
    by (simp add: bundle_ok_def LookupGroupByMid_def)
  also have "\<dots> \<longleftrightarrow> (\<forall>p \<in> set (bundle_groups b). m \<notin> set (content_names (snd p)))"
    using in_group_bindings [of m _ "bundle_groups b"] by force
  finally show ?thesis .
qed

text \<open>The group a mid finds: the last one that lists it.\<close>

definition group_of :: "string \<Rightarrow> BundleManager \<Rightarrow> ContentGroup option" where
  "group_of m b = Option.bind (LookupGroupByMid m b) (map_of (bundle_groups b))"

lemma find_snoc:
  "List.find P (xs @ [x])
     = (case List.find P xs of Some y \<Rightarrow> Some y | None \<Rightarrow> if P x then Some x else None)"
  by (induction xs) auto

lemma map_of_const: "map_of (rev (List.map (\<lambda>n. (n, i)) ns)) m = (if m \<in> set ns then Some i else None)"
  by (induction ns) (auto simp: map_add_def split: option.split)

lemma lookup_last:
  "distinct (List.map fst gs) \<Longrightarrow>
     Option.bind (map_of (rev (group_bindings gs)) m) (map_of gs)
       = List.find (\<lambda>gr. m \<in> set (content_names gr)) (rev (List.map snd gs))"
proof (induction gs)
  case Nil
  then show ?case by (simp add: group_bindings_def)
next
  case (Cons p gs)
  obtain i gr where p: "p = (i, gr)" by fastforce
  have IH: "Option.bind (map_of (rev (group_bindings gs)) m) (map_of gs)
      = List.find (\<lambda>gr. m \<in> set (content_names gr)) (rev (List.map snd gs))"
    using Cons by simp
  show ?case
  proof (cases "map_of (rev (group_bindings gs)) m")
    case None
    with IH show ?thesis
      by (simp add: p group_bindings_Cons map_of_const find_snoc map_add_def split: option.split)
  next
    case (Some j)
    then have "(m, j) \<in> set (group_bindings gs)"
      using map_of_SomeD [of "rev (group_bindings gs)"] by simp
    then obtain gr' where gr': "(j, gr') \<in> set gs" by (auto simp: in_group_bindings)
    then have "j \<noteq> i" "map_of gs j = Some gr'" using Cons.prems by (force simp: p)+
    with IH Some show ?thesis
      by (simp add: p group_bindings_Cons find_snoc map_add_def flip: IH)
  qed
qed

lemma group_of_last:
  "bundle_ok b \<Longrightarrow>
     group_of m b
       = List.find (\<lambda>gr. m \<in> set (content_names gr)) (rev (List.map snd (bundle_groups b)))"
  by (simp add: bundle_ok_def group_of_def LookupGroupByMid_def lookup_last)

section \<open>Properties\<close>

text \<open>C15: The index from mids to groups is exact. Over any sequence of updates, deletions, commits
  and rollbacks in which the callers delete what exists while no mid is listed twice, nothing is
  undefined; a mid found in the index points to a live group that lists it, a mid not found is
  listed by no group, and asking whether a mid leads its group always has an answer.\<close>

theorem bundle_index_exact:
  assumes "proper_run cs (new_BundleManager mb)"
  shows "\<exists>b. bundle_run cs (new_BundleManager mb) = Some b
    \<and> (\<forall>m. case LookupGroupByMid m b of
             Some i \<Rightarrow> (\<exists>gr. map_of (bundle_groups b) i = Some gr \<and> HasContentName m gr)
           | None \<Rightarrow> (\<forall>p \<in> set (bundle_groups b). \<not> HasContentName m (snd p)))
    \<and> (\<forall>m. IsFirstMidInGroup m b \<noteq> None)"
proof -
  obtain b where b: "bundle_run cs (new_BundleManager mb) = Some b" "bundle_ok b"
    using bundle_ok_run [OF bundle_ok_new assms] by blast
  have "case LookupGroupByMid m b of
          Some i \<Rightarrow> (\<exists>gr. map_of (bundle_groups b) i = Some gr \<and> HasContentName m gr)
        | None \<Rightarrow> (\<forall>p \<in> set (bundle_groups b). \<not> HasContentName m (snd p))" for m
    using Lookup_Some [OF b(2), of m] Lookup_None [OF b(2), of m]
    by (auto simp: HasContentName_def split: option.split)
  moreover have "IsFirstMidInGroup m b \<noteq> None" for m
    using Lookup_Some [OF b(2), of m]
    by (auto simp: IsFirstMidInGroup_def FirstContentName_def split: option.split list.split)
  ultimately show ?thesis using b(1) by blast
qed

definition demo_bundle :: "string list list \<Rightarrow> SessionDescription" where
  "demo_bundle gs = \<lparr>contents = [], transport_infos = [],
     content_groups = List.map (\<lambda>g. \<lparr>semantics = ''BUNDLE'', content_names = g\<rparr>) gs\<rparr>"

definition demo_bundle_calls :: "BundleCall list" where
  "demo_bundle_calls =
     [BM_Update (demo_bundle [[''a'', ''b''], [''c'']]) kAnswer, BM_Commit,
      BM_Update (demo_bundle [[''b'', ''d'']]) kOffer, BM_DeleteMid 0 ''d'', BM_DeleteGroup 1]"

lemmas bundle_demo_defs = demo_bundle_def demo_bundle_calls_def new_BundleManager_def
  bundle_Update_def GetGroupsByName_def copy_groups_def RefreshEstablishedBundleGroupsByMid_def
  update_existing_def overwrite_group_def bundle_Commit_def DeleteMid_def DeleteGroup_def
  RemoveContentName_def listed_once_def group_bindings_def upt_rec

lemma demo_bundle_proper: "proper_run demo_bundle_calls (new_BundleManager False)"
  by (simp add: bundle_demo_defs Let_def smap_del_def)

theorem bundle_index_exact_witness:
  "\<exists>b. bundle_run demo_bundle_calls (new_BundleManager False) = Some b
     \<and> IsFirstMidInGroup ''b'' b \<noteq> None"
  using bundle_index_exact [OF demo_bundle_proper] by blast



end
