(* ===== verification/TransportCollection.thy ===== *)
theory TransportCollection
  imports Prelude
begin

text \<open>
  The collection of JSEP transports (class \<open>JsepTransportCollection\<close> of
  jsep_transport_collection.cc): who owns a transport, which transport a mid uses now, and which
  it used at the last stable state.

  A transport is its address. The two callbacks are the argument \<open>cb\<close> (what the map-change
  callback answers) and entries of the log: what was told, and which transports were destroyed.
\<close>

section \<open>State\<close>

type_synonym transport = nat

datatype CollEvent = MapChange string "transport option" | StateChange | Destroyed transport

record Collection =
  transports_by_name :: "(string, transport) smap"
  mid_to_transport :: "(string, transport) smap"
  stable_mid_to_transport :: "(string, transport) smap"
  coll_log :: "CollEvent list"

definition empty_Collection :: Collection where
  "empty_Collection =
     \<lparr>transports_by_name = [], mid_to_transport = [], stable_mid_to_transport = [], coll_log = []\<rparr>"

type_synonym map_callback = "string \<Rightarrow> transport option \<Rightarrow> bool"

definition log_event :: "CollEvent list \<Rightarrow> Collection \<Rightarrow> Collection" where
  "log_event es C = C\<lparr>coll_log := coll_log C @ es\<rparr>"

section \<open>Lookups\<close>

definition Transports :: "Collection \<Rightarrow> transport list" where
  "Transports C = List.map snd (transports_by_name C)"

definition ActiveTransports :: "Collection \<Rightarrow> transport list" where
  "ActiveTransports C = sort (remdups (List.map snd (mid_to_transport C)))"

definition GetTransportByName :: "string \<Rightarrow> Collection \<Rightarrow> transport option" where
  "GetTransportByName n C = map_of (transports_by_name C) n"

definition GetTransportForMid :: "string \<Rightarrow> Collection \<Rightarrow> transport option" where
  "GetTransportForMid mid C = map_of (mid_to_transport C) mid"

definition TransportInUse :: "transport \<Rightarrow> Collection \<Rightarrow> bool" where
  "TransportInUse x C \<longleftrightarrow> x \<in> set (List.map snd (mid_to_transport C))"

definition TransportNeededForRollback :: "transport \<Rightarrow> Collection \<Rightarrow> bool" where
  "TransportNeededForRollback x C \<longleftrightarrow> x \<in> set (List.map snd (stable_mid_to_transport C))"

definition IsConsistent :: "Collection \<Rightarrow> bool" where
  "IsConsistent C \<longleftrightarrow>
     (\<forall>b \<in> set (transports_by_name C).
        TransportInUse (snd b) C \<or> TransportNeededForRollback (snd b) C)"

section \<open>Operations\<close>

definition MaybeDestroyJsepTransport :: "transport \<Rightarrow> Collection \<Rightarrow> Collection" where
  "MaybeDestroyJsepTransport x C =
     (if TransportInUse x C then C
      else if TransportNeededForRollback x C then log_event [StateChange] C
      else case List.find (\<lambda>b. snd b = x) (transports_by_name C) of
             None \<Rightarrow> C
           | Some b \<Rightarrow>
               log_event [Destroyed x, StateChange]
                 (C\<lparr>transports_by_name := smap_del (fst b) (transports_by_name C)\<rparr>))"

definition DestroyUnusedTransports :: "Collection \<Rightarrow> Collection" where
  "DestroyUnusedTransports C =
     (let used = (\<lambda>b. TransportInUse (snd b) C \<or> TransportNeededForRollback (snd b) C);
          gone = filter (\<lambda>b. \<not> used b) (transports_by_name C);
          C1 = C\<lparr>transports_by_name := filter used (transports_by_name C)\<rparr>
      in if gone = [] then C1
         else log_event (List.map (\<lambda>b. Destroyed (snd b)) gone @ [StateChange]) C1)"

definition SetTransportForMid ::
    "map_callback \<Rightarrow> string \<Rightarrow> transport \<Rightarrow> Collection \<Rightarrow> bool \<times> Collection" where
  "SetTransportForMid cb mid x C =
     (if map_of (mid_to_transport C) mid = Some x then (True, C)
      else
        (let C1 = log_event [MapChange mid (Some x)] C;
             C2 = C1\<lparr>mid_to_transport := smap_put mid x (mid_to_transport C1)\<rparr>
         in (cb mid (Some x),
             case map_of (mid_to_transport C) mid of
               None \<Rightarrow> C2
             | Some old \<Rightarrow> MaybeDestroyJsepTransport old C2)))"

text \<open>The owner map takes the new transport; an old one under the same name is destroyed.\<close>

definition RegisterTransport ::
    "map_callback \<Rightarrow> string \<Rightarrow> transport \<Rightarrow> Collection \<Rightarrow> Collection" where
  "RegisterTransport cb mid x C =
     (let C1 = snd (SetTransportForMid cb mid x C);
          C2 = C1\<lparr>transports_by_name := smap_put mid x (transports_by_name C1)\<rparr>
      in case map_of (transports_by_name C1) mid of
           None \<Rightarrow> C2
         | Some old \<Rightarrow> log_event [Destroyed old] C2)"

definition RemoveTransportForMid :: "map_callback \<Rightarrow> string \<Rightarrow> Collection \<Rightarrow> Collection" where
  "RemoveTransportForMid cb mid C =
     (let C1 = log_event [MapChange mid None] C
      in case GetTransportForMid mid C1 of
           None \<Rightarrow> C1
         | Some old \<Rightarrow>
             MaybeDestroyJsepTransport old
               (C1\<lparr>mid_to_transport := smap_del mid (mid_to_transport C1)\<rparr>))"

definition DestroyAllTransports :: "map_callback \<Rightarrow> Collection \<Rightarrow> Collection" where
  "DestroyAllTransports cb C =
     log_event (List.map (\<lambda>b. Destroyed (snd b)) (transports_by_name C))
       ((log_event (List.map (\<lambda>b. MapChange (fst b) None) (transports_by_name C)) C)
          \<lparr>transports_by_name := []\<rparr>)"

text \<open>\<open>ret && callback(...)\<close>: once the callback refused, it is not called again.\<close>

definition tell ::
    "map_callback \<Rightarrow> string \<times> transport option \<Rightarrow> bool \<times> Collection \<Rightarrow> bool \<times> Collection" where
  "tell cb c rC =
     (if fst rC then (cb (fst c) (snd c), log_event [MapChange (fst c) (snd c)] (snd rC)) else rC)"

definition rollback_changes :: "Collection \<Rightarrow> (string \<times> transport option) list" where
  "rollback_changes C =
     List.map (\<lambda>b. (fst b, None))
       (filter (\<lambda>b. map_of (stable_mid_to_transport C) (fst b) = None) (mid_to_transport C))
     @ List.map (\<lambda>b. (fst b, Some (snd b)))
         (filter (\<lambda>b. map_of (mid_to_transport C) (fst b) \<noteq> Some (snd b))
            (stable_mid_to_transport C))"

definition RollbackTransports :: "map_callback \<Rightarrow> Collection \<Rightarrow> bool \<times> Collection" where
  "RollbackTransports cb C =
     (case fold (tell cb) (rollback_changes C) (True, C) of
        (ret, C1) \<Rightarrow>
          (ret, DestroyUnusedTransports
                  (log_event [StateChange]
                     (C1\<lparr>mid_to_transport := stable_mid_to_transport C1\<rparr>))))"

definition CommitTransports :: "Collection \<Rightarrow> Collection" where
  "CommitTransports C =
     DestroyUnusedTransports (C\<lparr>stable_mid_to_transport := mid_to_transport C\<rparr>)"

section \<open>Ownership\<close>

text \<open>Every transport a mid uses or may return to is owned, owners are unique, and nothing is kept
  that nobody uses.\<close>

definition coll_ok :: "Collection \<Rightarrow> bool" where
  "coll_ok C \<longleftrightarrow>
     smap_ok (transports_by_name C) \<and> smap_ok (mid_to_transport C)
     \<and> smap_ok (stable_mid_to_transport C)
     \<and> distinct (List.map snd (transports_by_name C))
     \<and> snd ` set (transports_by_name C)
         = snd ` set (mid_to_transport C) \<union> snd ` set (stable_mid_to_transport C)"

lemma log_event_frame [simp]:
  "transports_by_name (log_event es C) = transports_by_name C"
  "mid_to_transport (log_event es C) = mid_to_transport C"
  "stable_mid_to_transport (log_event es C) = stable_mid_to_transport C"
  "coll_log (log_event es C) = coll_log C @ es"
  by (simp_all add: log_event_def)

lemma coll_ok_log [simp]: "coll_ok (log_event es C) = coll_ok C"
  by (simp add: coll_ok_def)

lemma coll_ok_consistent:
  assumes "coll_ok C"
  shows "IsConsistent C"
  unfolding IsConsistent_def
proof
  fix b
  assume "b \<in> set (transports_by_name C)"
  then have "snd b \<in> snd ` set (mid_to_transport C) \<union> snd ` set (stable_mid_to_transport C)"
    using assms unfolding coll_ok_def by blast
  then show "TransportInUse (snd b) C \<or> TransportNeededForRollback (snd b) C"
    by (simp add: TransportInUse_def TransportNeededForRollback_def)
qed

lemma smap_set_del: "smap_ok m \<Longrightarrow> set (smap_del k m) = {b \<in> set m. fst b \<noteq> k}"
  by (auto simp: smap_del_def)

lemma smap_set_put: "smap_ok m \<Longrightarrow> set (smap_put k v m) = insert (k, v) {b \<in> set m. fst b \<noteq> k}"
proof -
  assume m: "smap_ok m"
  have "b \<in> set (smap_put k v m) \<longleftrightarrow> b = (k, v) \<or> b \<in> set m \<and> fst b \<noteq> k" for b
    using smap_in_set_iff [OF smap_ok_put [OF m], of "fst b" "snd b" k v]
      smap_in_set_iff [OF m, of "fst b" "snd b"] by (cases b) auto
  then show ?thesis by blast
qed

lemma distinct_snd_del: "distinct (List.map snd m) \<Longrightarrow> distinct (List.map snd (smap_del k m))"
  by (simp add: smap_del_def distinct_map_filter)

text \<open>
  Dropping one user of a transport and then destroying it if nobody is left. The set \<open>X\<close> holds
  transports that are used but not owned yet (one that is being registered).
\<close>

definition used :: "Collection \<Rightarrow> transport set" where
  "used C = snd ` set (mid_to_transport C) \<union> snd ` set (stable_mid_to_transport C)"

definition owned :: "Collection \<Rightarrow> transport set" where
  "owned C = snd ` set (transports_by_name C)"

definition maps_ok :: "Collection \<Rightarrow> bool" where
  "maps_ok C \<longleftrightarrow> smap_ok (transports_by_name C) \<and> smap_ok (mid_to_transport C)
     \<and> smap_ok (stable_mid_to_transport C) \<and> distinct (List.map snd (transports_by_name C))"

lemma coll_ok_alt: "coll_ok C \<longleftrightarrow> maps_ok C \<and> owned C = used C"
  by (auto simp: coll_ok_def maps_ok_def owned_def used_def)

lemma used_iff: "x \<in> used C \<longleftrightarrow> TransportInUse x C \<or> TransportNeededForRollback x C"
  by (simp add: used_def TransportInUse_def TransportNeededForRollback_def)

lemma MaybeDestroy_frame [simp]:
  "mid_to_transport (MaybeDestroyJsepTransport x C) = mid_to_transport C"
  "stable_mid_to_transport (MaybeDestroyJsepTransport x C) = stable_mid_to_transport C"
  "used (MaybeDestroyJsepTransport x C) = used C"
  by (simp_all add: MaybeDestroyJsepTransport_def used_def split: option.split)

lemma MaybeDestroy_owned:
  assumes "maps_ok C" "owned C = insert x (used C - X)" "x \<notin> X"
  shows "maps_ok (MaybeDestroyJsepTransport x C)"
    "owned (MaybeDestroyJsepTransport x C) = used C - X"
    "set (transports_by_name (MaybeDestroyJsepTransport x C)) \<subseteq> set (transports_by_name C)"
proof -
  let ?C' = "MaybeDestroyJsepTransport x C"
  have "maps_ok ?C' \<and> owned ?C' = used C - X
    \<and> set (transports_by_name ?C') \<subseteq> set (transports_by_name C)"
  proof (cases "x \<in> used C")
    case True
    then have "?C' = C \<or> ?C' = log_event [StateChange] C"
      by (auto simp: MaybeDestroyJsepTransport_def used_iff)
    moreover have "owned C = used C - X" using assms(2,3) True by auto
    ultimately show ?thesis
      using assms(1) by (elim disjE) (simp_all add: maps_ok_def owned_def)
  next
    case False
    have "x \<in> owned C" using assms(2) by simp
    then obtain b where b: "List.find (\<lambda>b. snd b = x) (transports_by_name C) = Some b"
      by (cases "List.find (\<lambda>b. snd b = x) (transports_by_name C)")
        (auto simp: find_None_iff owned_def)
    then have bx: "b \<in> set (transports_by_name C)" "snd b = x" by (auto simp: find_Some_iff)
    have only: "\<forall>c \<in> set (transports_by_name C). fst c = fst b \<longleftrightarrow> snd c = x"
      using assms(1) bx unfolding maps_ok_def smap_ok_def distinct_map by (metis inj_onD)
    have C': "?C' = log_event [Destroyed x, StateChange]
        (C\<lparr>transports_by_name := smap_del (fst b) (transports_by_name C)\<rparr>)"
      using False b by (simp add: MaybeDestroyJsepTransport_def used_iff)
    have "set (smap_del (fst b) (transports_by_name C))
        = {c \<in> set (transports_by_name C). snd c \<noteq> x}"
      using only assms(1) by (auto simp: smap_set_del maps_ok_def)
    then have "owned ?C' = owned C - {x}" by (auto simp: C' owned_def)
    then show ?thesis
      using assms False by (auto simp: C' maps_ok_def smap_del_def distinct_map_filter)
  qed
  then show "maps_ok ?C'" "owned ?C' = used C - X"
    "set (transports_by_name ?C') \<subseteq> set (transports_by_name C)" by auto
qed

lemma MaybeDestroy_ok:
  assumes "maps_ok C" "owned C = insert x (used C)"
  shows "coll_ok (MaybeDestroyJsepTransport x C)"
  using MaybeDestroy_owned [of C x "{}"] assms by (simp add: coll_ok_alt)

lemma DestroyUnused_ok:
  assumes "smap_ok (transports_by_name C)" "smap_ok (mid_to_transport C)"
    "smap_ok (stable_mid_to_transport C)" "distinct (List.map snd (transports_by_name C))"
    "snd ` set (mid_to_transport C) \<union> snd ` set (stable_mid_to_transport C)
       \<subseteq> snd ` set (transports_by_name C)"
  shows "coll_ok (DestroyUnusedTransports C)"
proof -
  let ?used = "\<lambda>b. TransportInUse (snd b) C \<or> TransportNeededForRollback (snd b) C"
  have "snd ` {b \<in> set (transports_by_name C). ?used b}
      = snd ` set (mid_to_transport C) \<union> snd ` set (stable_mid_to_transport C)" (is "?l = ?r")
  proof
    show "?l \<subseteq> ?r" by (auto simp: TransportInUse_def TransportNeededForRollback_def)
    show "?r \<subseteq> ?l"
    proof
      fix x
      assume x: "x \<in> ?r"
      then obtain b where "b \<in> set (transports_by_name C)" "x = snd b" using assms(5) by blast
      moreover have "?used b"
        using x calculation(2) by (simp add: TransportInUse_def TransportNeededForRollback_def)
      ultimately show "x \<in> ?l" by blast
    qed
  qed
  then show ?thesis
    using assms by (simp add: DestroyUnusedTransports_def coll_ok_def Let_def distinct_map_filter)
qed

lemma values_put:
  "smap_ok m \<Longrightarrow> snd ` set (smap_put k v m) = insert v (snd ` {b \<in> set m. fst b \<noteq> k})"
  by (simp add: smap_set_put)

lemma values_split:
  assumes "smap_ok m"
  shows "snd ` set m = snd ` {b \<in> set m. fst b \<noteq> k}
    \<union> (case map_of m k of None \<Rightarrow> {} | Some v \<Rightarrow> {v})"
proof -
  have "set m = {b \<in> set m. fst b \<noteq> k} \<union> {b \<in> set m. fst b = k}" by auto
  moreover have "{b \<in> set m. fst b = k} = (case map_of m k of None \<Rightarrow> {} | Some v \<Rightarrow> {(k, v)})"
    using smap_in_set_iff [OF assms, of k] by (auto split: option.split)
  ultimately have "snd ` set m = snd ` {b \<in> set m. fst b \<noteq> k}
      \<union> snd ` (case map_of m k of None \<Rightarrow> {} | Some v \<Rightarrow> {(k, v)})" by (metis image_Un)
  then show ?thesis by (simp split: option.splits)
qed

text \<open>Replacing what one mid uses: the mid's old transport may be left without a user.\<close>

lemma used_put:
  assumes "smap_ok (mid_to_transport C)"
  shows "used (C\<lparr>mid_to_transport := smap_put mid x (mid_to_transport C)\<rparr>)
      \<union> (case map_of (mid_to_transport C) mid of None \<Rightarrow> {} | Some old \<Rightarrow> {old})
    = insert x (used C)"
  using assms values_split [OF assms, of mid] by (auto simp: used_def values_put)

lemma used_del:
  assumes "smap_ok (mid_to_transport C)"
  shows "used (C\<lparr>mid_to_transport := smap_del mid (mid_to_transport C)\<rparr>)
      \<union> (case map_of (mid_to_transport C) mid of None \<Rightarrow> {} | Some old \<Rightarrow> {old})
    = used C"
  using assms values_split [OF assms, of mid] by (auto simp: used_def smap_set_del)

lemma log_event_sets [simp]:
  "used (log_event es C) = used C" "owned (log_event es C) = owned C"
  "maps_ok (log_event es C) = maps_ok C"
  "log_event es C\<lparr>mid_to_transport := m\<rparr> = log_event es (C\<lparr>mid_to_transport := m\<rparr>)"
  "owned (C\<lparr>mid_to_transport := m\<rparr>) = owned C"
  "MaybeDestroyJsepTransport x (log_event es C)
     = (MaybeDestroyJsepTransport x C)\<lparr>coll_log := coll_log C @ es
         @ drop (length (coll_log C)) (coll_log (MaybeDestroyJsepTransport x C))\<rparr>"
  by (auto simp: used_def owned_def maps_ok_def log_event_def MaybeDestroyJsepTransport_def
      TransportInUse_def TransportNeededForRollback_def split: option.split)

lemma coll_ok_clog [simp]:
  "coll_ok (C\<lparr>coll_log := l\<rparr>) = coll_ok C" "used (C\<lparr>coll_log := l\<rparr>) = used C"
  by (simp_all add: coll_ok_def used_def)

lemma SetTransportForMid_ok:
  assumes "coll_ok C" "x \<in> owned C"
  shows "coll_ok (snd (SetTransportForMid cb mid x C))"
proof -
  let ?C2 = "C\<lparr>mid_to_transport := smap_put mid x (mid_to_transport C)\<rparr>"
  have m: "smap_ok (mid_to_transport C)" "maps_ok C" "owned C = used C"
    using assms(1) by (simp_all add: coll_ok_alt maps_ok_def)
  then have m2: "maps_ok ?C2" by (simp add: maps_ok_def)
  have u: "used ?C2 \<union> (case map_of (mid_to_transport C) mid of None \<Rightarrow> {} | Some old \<Rightarrow> {old})
      = used C" using used_put [OF m(1), of mid x] assms(2) m(3) by auto
  show ?thesis
  proof (cases "map_of (mid_to_transport C) mid")
    case None
    then have "coll_ok ?C2" using u m m2 by (simp add: coll_ok_alt)
    with None show ?thesis by (simp add: SetTransportForMid_def Let_def)
  next
    case (Some old)
    then have "coll_ok (MaybeDestroyJsepTransport old ?C2)"
      using u m m2 by (intro MaybeDestroy_ok) auto
    with Some assms(1) show ?thesis by (simp add: SetTransportForMid_def Let_def)
  qed
qed

lemma RemoveTransportForMid_ok:
  assumes "coll_ok C"
  shows "coll_ok (RemoveTransportForMid cb mid C)"
proof (cases "map_of (mid_to_transport C) mid")
  case None
  then show ?thesis using assms by (simp add: RemoveTransportForMid_def GetTransportForMid_def)
next
  case (Some old)
  let ?C2 = "C\<lparr>mid_to_transport := smap_del mid (mid_to_transport C)\<rparr>"
  have m: "smap_ok (mid_to_transport C)" "maps_ok C" "owned C = used C"
    using assms(1) by (simp_all add: coll_ok_alt maps_ok_def)
  have "coll_ok (MaybeDestroyJsepTransport old ?C2)"
    using used_del [OF m(1), of mid] m Some by (intro MaybeDestroy_ok) (auto simp: maps_ok_def)
  then show ?thesis using Some by (simp add: RemoveTransportForMid_def GetTransportForMid_def)
qed

lemma tell_frame:
  "snd (tell cb c rC) = log_event (if fst rC then [MapChange (fst c) (snd c)] else []) (snd rC)"
  by (simp add: tell_def log_event_def)

lemma fold_tell_frame [simp]:
  "transports_by_name (snd (fold (tell cb) cs rC)) = transports_by_name (snd rC)"
  "mid_to_transport (snd (fold (tell cb) cs rC)) = mid_to_transport (snd rC)"
  "stable_mid_to_transport (snd (fold (tell cb) cs rC)) = stable_mid_to_transport (snd rC)"
  by (induction cs arbitrary: rC) (simp_all add: tell_frame)

lemma RollbackTransports_ok:
  assumes "coll_ok C"
  shows "coll_ok (snd (RollbackTransports cb C))"
proof -
  obtain ret C1 where f: "fold (tell cb) (rollback_changes C) (True, C) = (ret, C1)" by fastforce
  have "transports_by_name C1 = transports_by_name C"
    "stable_mid_to_transport C1 = stable_mid_to_transport C"
    using fold_tell_frame [of cb "rollback_changes C" "(True, C)"] by (simp_all add: f)
  then have "coll_ok (DestroyUnusedTransports (log_event [StateChange]
      (C1\<lparr>mid_to_transport := stable_mid_to_transport C1\<rparr>)))"
    using assms by (intro DestroyUnused_ok) (simp_all add: coll_ok_def)
  then show ?thesis by (simp add: RollbackTransports_def f)
qed

lemma CommitTransports_ok: "coll_ok C \<Longrightarrow> coll_ok (CommitTransports C)"
  unfolding CommitTransports_def by (rule DestroyUnused_ok) (auto simp: coll_ok_def)

lemma distinct_values_put:
  "map_of m k = None \<Longrightarrow> v \<notin> snd ` set m \<Longrightarrow> distinct (List.map snd m) \<Longrightarrow>
     distinct (List.map snd (smap_put k v m))"
proof (induction m)
  case Nil
  then show ?case by simp
next
  case (Cons b bs)
  have "snd ` set (smap_put k v bs) \<subseteq> insert v (snd ` set bs)" by (induction bs) auto
  with Cons show ?case by (auto split: if_splits)
qed

text \<open>A new transport under a name whose old owner, if any, nobody else uses.\<close>

definition may_register :: "string \<Rightarrow> transport \<Rightarrow> Collection \<Rightarrow> bool" where
  "may_register mid x C \<longleftrightarrow>
     x \<notin> set (List.map snd (transports_by_name C))
     \<and> (case map_of (transports_by_name C) mid of
          None \<Rightarrow> True
        | Some y \<Rightarrow> y \<notin> set (List.map snd (stable_mid_to_transport C))
                   \<and> y \<notin> set (List.map snd (smap_del mid (mid_to_transport C))))"

lemma RegisterTransport_ok:
  assumes "coll_ok C" "may_register mid x C"
  shows "coll_ok (RegisterTransport cb mid x C)"
proof -
  let ?C2 = "C\<lparr>mid_to_transport := smap_put mid x (mid_to_transport C)\<rparr>"
  let ?C1 = "snd (SetTransportForMid cb mid x C)"
  have m: "smap_ok (mid_to_transport C)" "maps_ok C" "owned C = used C"
    using assms(1) by (simp_all add: coll_ok_alt maps_ok_def)
  have x: "x \<notin> owned C" using assms(2) by (simp add: may_register_def owned_def)
  then have new: "map_of (mid_to_transport C) mid \<noteq> Some x"
    using m smap_values [OF m(1)] by (auto simp: used_def ran_def)
  have m2: "maps_ok ?C2" using m by (simp add: maps_ok_def)
  have u: "used ?C2 \<union> (case map_of (mid_to_transport C) mid of None \<Rightarrow> {} | Some old \<Rightarrow> {old})
      = insert x (used C)" by (rule used_put [OF m(1)])
  have C1: "maps_ok ?C1 \<and> owned ?C1 = used ?C2 - {x} \<and> used ?C1 = used ?C2
      \<and> set (transports_by_name ?C1) \<subseteq> set (transports_by_name C)"
  proof (cases "map_of (mid_to_transport C) mid")
    case None
    then show ?thesis
      using u m m2 x by (auto simp: SetTransportForMid_def Let_def maps_ok_def)
  next
    case (Some old)
    have "old \<in> used C" using smap_values [OF m(1)] Some by (auto simp: used_def ran_def)
    then have "owned ?C2 = insert old (used ?C2 - {x})" "old \<notin> {x}"
      using u m(3) x Some by auto
    from MaybeDestroy_owned [OF m2 this] Some new show ?thesis
      by (simp add: SetTransportForMid_def Let_def maps_ok_def owned_def)
  qed
  have none: "map_of (transports_by_name ?C1) mid = None"
  proof (rule ccontr)
    assume "map_of (transports_by_name ?C1) mid \<noteq> None"
    then obtain y where y: "map_of (transports_by_name ?C1) mid = Some y" by blast
    then have yC1: "(mid, y) \<in> set (transports_by_name ?C1)" by (rule map_of_SomeD)
    then have yC: "map_of (transports_by_name C) mid = Some y"
      using C1 m(2) smap_in_set_iff [of "transports_by_name C" mid y] by (auto simp: maps_ok_def)
    have "y \<in> owned ?C1" using yC1 by (force simp: owned_def)
    then have "y \<in> used ?C2" "y \<noteq> x" using C1 by auto
    then have "y \<in> snd ` {b \<in> set (mid_to_transport C). fst b \<noteq> mid}
        \<or> y \<in> snd ` set (stable_mid_to_transport C)"
      using m(1) by (auto simp: used_def values_put)
    then show False using assms(2) yC m(1) by (auto simp: may_register_def smap_set_del)
  qed
  let ?C3 = "?C1\<lparr>transports_by_name := smap_put mid x (transports_by_name ?C1)\<rparr>"
  have t: "smap_ok (transports_by_name ?C1)" using C1 by (simp add: maps_ok_def)
  have "x \<in> used ?C2" using m(1) by (simp add: used_def values_put)
  moreover have "set (transports_by_name ?C3) = insert (mid, x) (set (transports_by_name ?C1))"
    using none by (auto simp: smap_set_put [OF t] map_of_eq_None_iff)
  then have "owned ?C3 = insert x (owned ?C1)" by (simp add: owned_def)
  moreover have "x \<notin> owned ?C1" using C1 by simp
  then have "distinct (List.map snd (transports_by_name ?C3))"
    using C1 none by (simp add: distinct_values_put maps_ok_def owned_def)
  ultimately have "coll_ok ?C3"
    using C1 t by (auto simp: coll_ok_alt maps_ok_def used_def)
  then show ?thesis using none by (simp add: RegisterTransport_def Let_def)
qed

text \<open>
  Destroying everything leaves the mids as they are: a mid that is looked up afterwards gives a
  transport that is gone, and no collection with a mid stays consistent.
\<close>

lemma DestroyAllTransports_frame:
  "Transports (DestroyAllTransports cb C) = []"
  "GetTransportForMid mid (DestroyAllTransports cb C) = GetTransportForMid mid C"
  by (simp_all add: DestroyAllTransports_def Transports_def GetTransportForMid_def)

lemma DestroyAllTransports_not_ok:
  assumes "GetTransportForMid mid C = Some x"
  shows "\<not> coll_ok (DestroyAllTransports cb C)"
proof -
  have "mid_to_transport C \<noteq> []" using assms by (auto simp: GetTransportForMid_def)
  then show ?thesis by (auto simp: coll_ok_def DestroyAllTransports_def)
qed

section \<open>What the subscribers were told\<close>

fun told_step :: "(string \<rightharpoonup> transport) \<Rightarrow> CollEvent \<Rightarrow> (string \<rightharpoonup> transport)" where
  "told_step m (MapChange mid x) = m(mid := x)"
| "told_step m _ = m"

definition told_map :: "Collection \<Rightarrow> (string \<rightharpoonup> transport)" where
  "told_map C = foldl told_step Map.empty (coll_log C)"

lemma told_map_log: "told_map (log_event es C) = foldl told_step (told_map C) es"
  by (simp add: told_map_def)

lemma told_map_frame [simp]:
  "told_map (C\<lparr>mid_to_transport := m\<rparr>) = told_map C"
  "told_map (C\<lparr>transports_by_name := n\<rparr>) = told_map C"
  "told_map (C\<lparr>stable_mid_to_transport := n\<rparr>) = told_map C"
  by (simp_all add: told_map_def)

lemma told_map_MaybeDestroy [simp]: "told_map (MaybeDestroyJsepTransport x C) = told_map C"
  by (simp add: MaybeDestroyJsepTransport_def told_map_log split: option.split)

lemma foldl_told_Destroyed [simp]: "foldl told_step m (List.map (\<lambda>b. Destroyed (f b)) bs) = m"
  by (induction bs) simp_all

lemma told_map_DestroyUnused [simp]: "told_map (DestroyUnusedTransports C) = told_map C"
  by (simp add: DestroyUnusedTransports_def told_map_log Let_def)

lemma DestroyUnused_frame [simp]:
  "mid_to_transport (DestroyUnusedTransports C) = mid_to_transport C"
  "stable_mid_to_transport (DestroyUnusedTransports C) = stable_mid_to_transport C"
  by (simp_all add: DestroyUnusedTransports_def Let_def)

lemma told_map_clog [simp]:
  "coll_log C' = coll_log C @ es \<Longrightarrow> told_map C' = foldl told_step (told_map C) es"
  by (simp add: told_map_def)

definition accept_all :: map_callback where
  "accept_all mid x = True"

lemma told_SetTransportForMid:
  "told_map C = map_of (mid_to_transport C) \<Longrightarrow>
     told_map (snd (SetTransportForMid cb mid x C))
       = map_of (mid_to_transport (snd (SetTransportForMid cb mid x C)))"
  by (simp add: SetTransportForMid_def Let_def told_map_log del: log_event_sets split: option.split)

lemma told_RemoveTransportForMid:
  "told_map C = map_of (mid_to_transport C) \<Longrightarrow>
     told_map (RemoveTransportForMid cb mid C) = map_of (mid_to_transport (RemoveTransportForMid cb mid C))"
  by (simp add: RemoveTransportForMid_def GetTransportForMid_def Let_def told_map_log fun_upd_idem
      del: log_event_sets split: option.split)

lemma told_RegisterTransport:
  "told_map C = map_of (mid_to_transport C) \<Longrightarrow>
     told_map (RegisterTransport cb mid x C) = map_of (mid_to_transport (RegisterTransport cb mid x C))"
  using told_SetTransportForMid [of C cb mid x]
  by (simp add: RegisterTransport_def Let_def told_map_log split: option.split)

lemma fold_tell_accept:
  "fold (tell accept_all) cs (True, C)
     = (True, log_event (List.map (\<lambda>c. MapChange (fst c) (snd c)) cs) C)"
  by (induction cs arbitrary: C) (simp_all add: tell_def accept_all_def log_event_def)

lemma foldl_told_changes:
  "distinct (List.map fst cs) \<Longrightarrow>
     foldl told_step m (List.map (\<lambda>c. MapChange (fst c) (snd c)) cs) k
       = (case map_of cs k of None \<Rightarrow> m k | Some v \<Rightarrow> v)"
  by (induction cs arbitrary: m) (auto split: option.split simp: map_of_eq_None_iff rev_image_eqI)

lemma map_of_changes:
  assumes "smap_ok (mid_to_transport C)" "smap_ok (stable_mid_to_transport C)"
  shows "distinct (List.map fst (rollback_changes C))"
    "(case map_of (rollback_changes C) k of None \<Rightarrow> map_of (mid_to_transport C) k | Some v \<Rightarrow> v)
       = map_of (stable_mid_to_transport C) k"
proof -
  let ?A = "filter (\<lambda>b. map_of (stable_mid_to_transport C) (fst b) = None) (mid_to_transport C)"
  let ?B = "filter (\<lambda>b. map_of (mid_to_transport C) (fst b) \<noteq> Some (snd b)) (stable_mid_to_transport C)"
  have dA: "distinct (List.map fst ?A)" and dB: "distinct (List.map fst ?B)"
    using assms by (simp_all add: smap_ok_def distinct_map_filter)
  have "fst ` set ?A \<inter> fst ` set ?B = {}"
    by (auto simp: map_of_eq_None_iff)
  then show d: "distinct (List.map fst (rollback_changes C))"
    using dA dB by (simp add: rollback_changes_def comp_def image_image)
  have mem: "(k, v) \<in> set (rollback_changes C) \<longleftrightarrow>
      v = None \<and> map_of (stable_mid_to_transport C) k = None \<and> map_of (mid_to_transport C) k \<noteq> None
      \<or> v \<noteq> None \<and> map_of (stable_mid_to_transport C) k = v \<and> map_of (mid_to_transport C) k \<noteq> v" for v
    using smap_in_set_iff [OF assms(1), of k] smap_in_set_iff [OF assms(2), of k]
    by (auto simp: rollback_changes_def image_iff)
  show "(case map_of (rollback_changes C) k of None \<Rightarrow> map_of (mid_to_transport C) k | Some v \<Rightarrow> v)
      = map_of (stable_mid_to_transport C) k"
  proof (cases "map_of (rollback_changes C) k")
    case None
    then have "\<forall>v. (k, v) \<notin> set (rollback_changes C)" by (force simp: map_of_eq_None_iff)
    then have n: "(k, None) \<notin> set (rollback_changes C)"
      "(k, map_of (stable_mid_to_transport C) k) \<notin> set (rollback_changes C)" by blast+
    have "map_of (mid_to_transport C) k = map_of (stable_mid_to_transport C) k"
      using n(1) [unfolded mem] n(2) [unfolded mem]
      by (cases "map_of (stable_mid_to_transport C) k = None") simp_all
    then show ?thesis by (simp add: None)
  next
    case (Some v)
    then have "(k, v) \<in> set (rollback_changes C)" by (rule map_of_SomeD)
    then have "v = map_of (stable_mid_to_transport C) k" unfolding mem by metis
    then show ?thesis by (simp add: Some)
  qed
qed

lemma told_RollbackTransports:
  assumes "told_map C = map_of (mid_to_transport C)" "coll_ok C"
  shows "fst (RollbackTransports accept_all C)"
    "mid_to_transport (snd (RollbackTransports accept_all C)) = stable_mid_to_transport C"
    "stable_mid_to_transport (snd (RollbackTransports accept_all C)) = stable_mid_to_transport C"
    "told_map (snd (RollbackTransports accept_all C)) = map_of (stable_mid_to_transport C)"
proof -
  have m: "smap_ok (mid_to_transport C)" "smap_ok (stable_mid_to_transport C)"
    using assms(2) by (simp_all add: coll_ok_def)
  show "fst (RollbackTransports accept_all C)"
    "mid_to_transport (snd (RollbackTransports accept_all C)) = stable_mid_to_transport C"
    "stable_mid_to_transport (snd (RollbackTransports accept_all C)) = stable_mid_to_transport C"
    by (simp_all add: RollbackTransports_def fold_tell_accept)
  show "told_map (snd (RollbackTransports accept_all C)) = map_of (stable_mid_to_transport C)"
    using map_of_changes [OF m] foldl_told_changes [OF map_of_changes(1) [OF m]]
    by (simp add: RollbackTransports_def fold_tell_accept told_map_log assms(1) fun_eq_iff
        del: log_event_sets)
qed

section \<open>Calls\<close>

datatype CollCall =
    CC_Register string transport
  | CC_SetTransportForMid string transport
  | CC_RemoveTransportForMid string
  | CC_Rollback
  | CC_Commit

fun coll_call :: "map_callback \<Rightarrow> CollCall \<Rightarrow> Collection \<Rightarrow> Collection" where
  "coll_call cb (CC_Register mid x) C = RegisterTransport cb mid x C"
| "coll_call cb (CC_SetTransportForMid mid x) C = snd (SetTransportForMid cb mid x C)"
| "coll_call cb (CC_RemoveTransportForMid mid) C = RemoveTransportForMid cb mid C"
| "coll_call cb CC_Rollback C = snd (RollbackTransports cb C)"
| "coll_call cb CC_Commit C = CommitTransports C"

text \<open>A transport given to a mid is owned; a registered one is new and replaces no shared one.\<close>

fun proper_coll_call :: "CollCall \<Rightarrow> Collection \<Rightarrow> bool" where
  "proper_coll_call (CC_Register mid x) C = may_register mid x C"
| "proper_coll_call (CC_SetTransportForMid mid x) C \<longleftrightarrow> x \<in> set (Transports C)"
| "proper_coll_call _ C \<longleftrightarrow> True"

fun coll_run :: "map_callback \<Rightarrow> CollCall list \<Rightarrow> Collection \<Rightarrow> Collection" where
  "coll_run cb [] C = C"
| "coll_run cb (c # cs) C = coll_run cb cs (coll_call cb c C)"

fun proper_coll_run :: "map_callback \<Rightarrow> CollCall list \<Rightarrow> Collection \<Rightarrow> bool" where
  "proper_coll_run cb [] C \<longleftrightarrow> True"
| "proper_coll_run cb (c # cs) C \<longleftrightarrow>
     proper_coll_call c C \<and> proper_coll_run cb cs (coll_call cb c C)"

lemma coll_ok_call: "coll_ok C \<Longrightarrow> proper_coll_call c C \<Longrightarrow> coll_ok (coll_call cb c C)"
  by (cases c) (simp_all add: RegisterTransport_ok RemoveTransportForMid_ok RollbackTransports_ok
      CommitTransports_ok Transports_def owned_def SetTransportForMid_ok)

lemma coll_ok_run: "coll_ok C \<Longrightarrow> proper_coll_run cb cs C \<Longrightarrow> coll_ok (coll_run cb cs C)"
  by (induction cs arbitrary: C) (auto intro: coll_ok_call)

lemma told_call:
  assumes "coll_ok C" "told_map C = map_of (mid_to_transport C)"
  shows "told_map (coll_call accept_all c C) = map_of (mid_to_transport (coll_call accept_all c C))"
  using assms told_RollbackTransports [OF assms(2,1)]
  by (cases c) (simp_all add: told_RegisterTransport told_SetTransportForMid
      told_RemoveTransportForMid CommitTransports_def)

lemma told_run:
  "coll_ok C \<Longrightarrow> told_map C = map_of (mid_to_transport C) \<Longrightarrow> proper_coll_run accept_all cs C \<Longrightarrow>
     told_map (coll_run accept_all cs C) = map_of (mid_to_transport (coll_run accept_all cs C))"
  by (induction cs arbitrary: C) (auto intro: told_call coll_ok_call)

lemma stable_call:
  "c \<noteq> CC_Commit \<Longrightarrow>
     stable_mid_to_transport (coll_call accept_all c C) = stable_mid_to_transport C"
  by (cases c) (simp_all add: RegisterTransport_def SetTransportForMid_def RollbackTransports_def
      RemoveTransportForMid_def fold_tell_accept Let_def del: log_event_sets split: option.split)

lemma stable_run:
  "CC_Commit \<notin> set cs \<Longrightarrow>
     stable_mid_to_transport (coll_run accept_all cs C) = stable_mid_to_transport C"
  by (induction cs arbitrary: C) (simp_all add: stable_call eq_commute)

lemma coll_run_append: "coll_run cb (cs @ ds) C = coll_run cb ds (coll_run cb cs C)"
  by (induction cs arbitrary: C) simp_all

lemma coll_ok_empty: "coll_ok empty_Collection"
  by (simp add: coll_ok_def empty_Collection_def)

section \<open>Properties\<close>


definition demo_coll_calls :: "CollCall list" where
  "demo_coll_calls =
     [CC_Register ''a'' 1, CC_Register ''b'' 2, CC_SetTransportForMid ''b'' 1, CC_Commit,
      CC_Register ''c'' 3, CC_RemoveTransportForMid ''a'']"

lemmas coll_demo_defs = demo_coll_calls_def empty_Collection_def RegisterTransport_def
  SetTransportForMid_def may_register_def Transports_def CommitTransports_def
  DestroyUnusedTransports_def MaybeDestroyJsepTransport_def TransportInUse_def
  TransportNeededForRollback_def RemoveTransportForMid_def GetTransportForMid_def log_event_def
  smap_del_def

lemma demo_coll_proper: "proper_coll_run cb demo_coll_calls empty_Collection"
  by (simp add: coll_demo_defs Let_def)



definition demo_committed :: Collection where
  "demo_committed = coll_run accept_all [CC_Register ''a'' 1, CC_Register ''b'' 2] empty_Collection"


text \<open>With a callback that refuses, as the transport controller's always does, a rollback
  reports failure and tells the subscribers at most one of the changes it makes; the mapping
  itself is rolled back all the same.\<close>

theorem collection_rollback_silent_after_refusal:
  assumes "rollback_changes C = c # cs" "\<And>mid x. \<not> cb mid x"
  shows "\<not> fst (RollbackTransports cb C)
    \<and> told_map (snd (RollbackTransports cb C)) = told_step (told_map C) (MapChange (fst c) (snd c))
    \<and> mid_to_transport (snd (RollbackTransports cb C)) = stable_mid_to_transport C"
proof -
  have stop: "fold (tell cb) ds (False, D) = (False, D)" for ds D
    by (induction ds) (simp_all add: tell_def)
  show ?thesis
    using assms by (simp add: RollbackTransports_def tell_def stop told_map_log del: log_event_sets)
qed

theorem collection_rollback_silent_after_refusal_witness:
  "\<not> fst (RollbackTransports (\<lambda>_ _. False) demo_committed)"
proof -
  have "rollback_changes demo_committed = [(''a'', None), (''b'', None)]"
    by (simp add: rollback_changes_def demo_committed_def coll_demo_defs Let_def)
  from collection_rollback_silent_after_refusal [OF this, of "\<lambda>_ _. False"] show ?thesis by simp
qed

text \<open>Registering a transport under a name destroys the one registered there even when another
  mid still uses it: that mid is left with a transport the collection no longer owns.\<close>

theorem collection_register_can_dangle:
  assumes "coll_ok C" "x \<notin> set (Transports C)" "mid \<noteq> other"
    "GetTransportByName mid C = Some y" "GetTransportForMid mid C = Some y"
    "GetTransportForMid other C = Some y"
  shows "GetTransportForMid other (RegisterTransport cb mid x C) = Some y
    \<and> y \<notin> set (Transports (RegisterTransport cb mid x C))"
proof -
  let ?C2 = "(log_event [MapChange mid (Some x)] C)
      \<lparr>mid_to_transport := smap_put mid x (mid_to_transport C)\<rparr>"
  have y: "map_of (transports_by_name C) mid = Some y" "map_of (mid_to_transport C) mid = Some y"
    using assms(4,5) by (simp_all add: GetTransportByName_def GetTransportForMid_def)
  then have "y \<in> set (Transports C)"
    using assms(1) smap_in_set_iff [of "transports_by_name C" mid y]
    by (force simp: Transports_def coll_ok_def)
  then have "x \<noteq> y" using assms(2) by auto
  have "(other, y) \<in> set (smap_put mid x (mid_to_transport C))"
    using assms(1,3,6) by (simp add: coll_ok_def smap_in_set_iff GetTransportForMid_def)
  then have "TransportInUse y ?C2" by (force simp: TransportInUse_def)
  then have "MaybeDestroyJsepTransport y ?C2 = ?C2" by (simp only: MaybeDestroyJsepTransport_def if_True)
  then have s: "snd (SetTransportForMid cb mid x C) = ?C2"
    using y \<open>x \<noteq> y\<close> by (simp add: SetTransportForMid_def Let_def del: log_event_sets)
  have t: "smap_ok (transports_by_name C)" "distinct (List.map snd (transports_by_name C))"
    using assms(1) by (simp_all add: coll_ok_def)
  have only: "b \<in> set (transports_by_name C) \<Longrightarrow> snd b = y \<Longrightarrow> fst b = mid" for b
    using t y(1) smap_in_set_iff [OF t(1), of mid y] unfolding distinct_map
    by (metis inj_onD snd_conv fst_conv)
  have "y \<notin> snd ` set (smap_put mid x (transports_by_name C))"
    using only \<open>x \<noteq> y\<close> by (auto simp: smap_set_put [OF t(1)])
  then show ?thesis
    using assms(3,6) y by (simp add: RegisterTransport_def s GetTransportForMid_def Transports_def Let_def)
qed

definition demo_shared :: Collection where
  "demo_shared = coll_run accept_all
     [CC_Register ''a'' 1, CC_Register ''b'' 2, CC_SetTransportForMid ''b'' 1] empty_Collection"

theorem collection_register_can_dangle_witness:
  "1 \<notin> set (Transports (RegisterTransport accept_all ''a'' 3 demo_shared))
     \<and> GetTransportForMid ''b'' (RegisterTransport accept_all ''a'' 3 demo_shared) = Some 1"
proof -
  have p: "proper_coll_run accept_all
      [CC_Register ''a'' 1, CC_Register ''b'' 2, CC_SetTransportForMid ''b'' 1] empty_Collection"
    by (simp add: coll_demo_defs Let_def)
  have ok: "coll_ok demo_shared"
    using coll_ok_run [OF coll_ok_empty p] by (simp add: demo_shared_def)
  have "3 \<notin> set (Transports demo_shared)" "GetTransportByName ''a'' demo_shared = Some 1"
    "GetTransportForMid ''a'' demo_shared = Some 1" "GetTransportForMid ''b'' demo_shared = Some 1"
    by (simp_all add: demo_shared_def GetTransportByName_def coll_demo_defs Let_def)
  from collection_register_can_dangle [OF ok this(1) _ this(2-4)] show ?thesis by simp
qed

end
