(* ===== verification/JsepTransport.thy ===== *)
theory JsepTransport
  imports RtcpMuxFilter DtlsSrtpTransport SessionDescription
begin

text \<open>
  One JSEP transport (jsep_transport.cpp, jsep_transport.h): it applies the local and the remote
  transport description of a media section to its RTP transport and its DTLS transports, and
  negotiates RTCP multiplexing and the DTLS roles.

  The RTP transport it owns is one of the three kinds of the layers below. The DTLS and ICE
  transports are libice objects: the record \<open>jsep_env\<close> says how they answer, and what is asked of
  them is appended to \<open>jsep_log\<close>. The object is paired with the process-wide libsrtp state.
\<close>

section \<open>Parameters and state\<close>

datatype IceComponent = COMPONENT_RTP | COMPONENT_OTHER

record Candidate =
  cand_component :: IceComponent
  cand_text :: string

record channel_stats =
  cs_component :: int
  cs_version :: "int option"
  cs_srtp :: "int option"
  cs_cipher :: "int option"
  cs_connected :: bool
  cs_ice :: string

record jsep_env =
  je_dtls :: dtls_net
  je_validate_ice :: "string \<Rightarrow> string \<Rightarrow> RTCError"
  je_credentials_changed :: "string \<Rightarrow> string \<Rightarrow> string \<Rightarrow> string \<Rightarrow> bool"
  je_set_role :: "tid \<Rightarrow> SSLRole \<Rightarrow> bool"
  je_set_fingerprint :: "tid \<Rightarrow> SSLFingerprint \<Rightarrow> bool"
  je_certificate_fingerprint :: "string \<Rightarrow> nat \<Rightarrow> SSLFingerprint"
  je_fingerprint_text :: "SSLFingerprint \<Rightarrow> string"
  je_version :: "tid \<Rightarrow> int option"
  je_cipher :: "tid \<Rightarrow> int option"
  je_ice_stats :: "tid \<Rightarrow> string option"

record JsepTransportDescription =
  jd_rtcp_mux_enabled :: bool
  jd_cryptos :: "CryptoParams list"
  jd_encrypted_extension_ids :: "int list"
  jd_abs_sendtime_extn_id :: int
  jd_transport_desc :: TransportDescription

datatype JsepEvent =
    EvIceParameters tid string string
  | EvRemoteIceParameters tid string string IceMode
  | EvSetDtlsRole tid SSLRole
  | EvSetRemoteFingerprint tid SSLFingerprint
  | EvAddRemoteCandidate tid Candidate
  | EvRtcpMuxActive

datatype MediaTransport =
    UnencryptedRtp RtpTransport
  | Sdes SrtpTransport
  | DtlsSrtp DtlsSrtpTransport

record JsepTransport =
  jsep_mid :: string
  needs_ice_restart :: bool
  local_certificate :: "nat option"
  local_description :: "JsepTransportDescription option"
  remote_description :: "JsepTransportDescription option"
  media_transport :: MediaTransport
  jsep_rtp_dtls :: tid
  jsep_rtcp_dtls :: "tid option"
  rtcp_mux_negotiator :: RtcpMuxFilter
  jsep_log :: "JsepEvent list"

definition jlog :: "JsepEvent list \<Rightarrow> JsepTransport \<Rightarrow> JsepTransport" where
  "jlog es J = J\<lparr>jsep_log := jsep_log J @ es\<rparr>"

definition rtcp_list :: "JsepTransport \<Rightarrow> tid list" where
  "rtcp_list J = (case jsep_rtcp_dtls J of None \<Rightarrow> [] | Some y \<Rightarrow> [y])"

section \<open>RTCP multiplexing\<close>

definition media_SetRtcpMuxEnabled ::
    "'w srtp_lib \<Rightarrow> jsep_env \<Rightarrow> bool \<Rightarrow> MediaTransport \<times> 'w srtp_global
     \<Rightarrow> MediaTransport \<times> 'w srtp_global" where
  "media_SetRtcpMuxEnabled L E enable mg =
     (case fst mg of
        UnencryptedRtp t \<Rightarrow> (UnencryptedRtp (rtp_SetRtcpMuxEnabled enable t), snd mg)
      | Sdes t \<Rightarrow> (Sdes (rtp_SetRtcpMuxEnabled enable t), snd mg)
      | DtlsSrtp t \<Rightarrow>
          (case dtls_SetRtcpMuxEnabled L (je_dtls E) enable (t, snd mg) of
             (t', g') \<Rightarrow> (DtlsSrtp t', g')))"

text \<open>\<open>SetDtlsTransports\<close> checks a new RTCP transport; here there is none, so it does not abort.\<close>

definition ActivateRtcpMux ::
    "'w srtp_lib \<Rightarrow> jsep_env \<Rightarrow> JsepTransport \<times> 'w srtp_global \<Rightarrow> JsepTransport \<times> 'w srtp_global"
  where
  "ActivateRtcpMux L E Jg =
     (let J = fst Jg; g = snd Jg; N = dn_packets (je_dtls E);
          (m, g1) = (case media_transport J of
                       UnencryptedRtp t \<Rightarrow> (UnencryptedRtp (SetRtcpPacketTransport N None t), g)
                     | Sdes t \<Rightarrow> (Sdes (SetRtcpPacketTransport N None t), g)
                     | DtlsSrtp t \<Rightarrow>
                         (case SetDtlsTransports L (je_dtls E) (Some (jsep_rtp_dtls J)) None (t, g) of
                            None \<Rightarrow> (DtlsSrtp t, g)
                          | Some (t', g') \<Rightarrow> (DtlsSrtp t', g')))
      in (jlog [EvRtcpMuxActive] (J\<lparr>media_transport := m, jsep_rtcp_dtls := None\<rparr>), g1))"

definition SetRtcpMux ::
    "'w srtp_lib \<Rightarrow> jsep_env \<Rightarrow> bool \<Rightarrow> SdpType \<Rightarrow> ContentSource
     \<Rightarrow> JsepTransport \<times> 'w srtp_global \<Rightarrow> bool \<times> JsepTransport \<times> 'w srtp_global" where
  "SetRtcpMux L E enable type src Jg =
     (let J = fst Jg; g = snd Jg;
          (ret, n) = (case type of
                        kOffer \<Rightarrow> SetOffer enable src (rtcp_mux_negotiator J)
                      | kPrAnswer \<Rightarrow> SetProvisionalAnswer enable src (rtcp_mux_negotiator J)
                      | kAnswer \<Rightarrow> SetAnswer enable src (rtcp_mux_negotiator J)
                      | kRollback \<Rightarrow> (False, rtcp_mux_negotiator J));
          J1 = J\<lparr>rtcp_mux_negotiator := n\<rparr>;
          (J2, g2) = (if type = kAnswer \<and> ret \<and> IsActive n then ActivateRtcpMux L E (J1, g)
                      else (J1, g))
      in if \<not> ret then (False, J2, g2)
         else (case media_SetRtcpMuxEnabled L E (IsActive (rtcp_mux_negotiator J2))
                      (media_transport J2, g2) of
                 (m, g3) \<Rightarrow> (True, J2\<lparr>media_transport := m\<rparr>, g3)))"

section \<open>SDES\<close>

text \<open>The negotiator's call is commented out, so \<open>ret\<close> keeps its initial value.\<close>

definition SetSdes :: "CryptoParams list \<Rightarrow> int list \<Rightarrow> SdpType \<Rightarrow> ContentSource \<Rightarrow> bool" where
  "SetSdes cryptos encrypted_extension_ids type src = (let ret = False in ret)"

section \<open>DTLS\<close>

definition GetDtlsRole :: "jsep_env \<Rightarrow> JsepTransport \<Rightarrow> SSLRole option" where
  "GetDtlsRole E J = dn_role (je_dtls E) (jsep_rtp_dtls J)"

definition NegotiateDtlsRole ::
    "SdpType \<Rightarrow> ConnectionRole \<Rightarrow> ConnectionRole \<Rightarrow> SSLRole option \<Rightarrow> RTCError + SSLRole" where
  "NegotiateDtlsRole local_type lrole rrole current =
     (let role = (\<lambda>is_remote_server. Inr (if is_remote_server then SSL_CLIENT else SSL_SERVER));
          bad = (\<lambda>msg. Inl (RTCErr INVALID_PARAMETER msg))
      in if local_type = kOffer then
           (if lrole \<noteq> CONNECTIONROLE_ACTPASS then
              bad ''Offerer must use actpass value for setup attribute.''
            else if rrole = CONNECTIONROLE_ACTIVE \<or> rrole = CONNECTIONROLE_PASSIVE
                    \<or> rrole = CONNECTIONROLE_NONE then
              role (rrole = CONNECTIONROLE_PASSIVE)
            else bad ''Answerer must use either active or passive value for setup attribute.'')
         else
           (let clash =
              (if rrole = CONNECTIONROLE_ACTPASS \<or> rrole = CONNECTIONROLE_NONE then None
               else case current of
                 None \<Rightarrow>
                   if rrole = CONNECTIONROLE_ACTIVE \<and> lrole \<noteq> CONNECTIONROLE_PASSIVE then
                     Some ''Answerer must be passive when offerer is active''
                   else if rrole = CONNECTIONROLE_PASSIVE \<and> lrole \<noteq> CONNECTIONROLE_ACTIVE then
                     Some ''Answerer must be active when offerer is passive''
                   else None
               | Some c \<Rightarrow>
                   if c = SSL_CLIENT \<and> rrole = CONNECTIONROLE_ACTIVE
                      \<or> c = SSL_SERVER \<and> rrole = CONNECTIONROLE_PASSIVE then
                     Some ''Offerer must use current negotiated role for setup attribute.''
                   else None)
            in case clash of
                 Some msg \<Rightarrow> bad msg
               | None \<Rightarrow>
                   if lrole = CONNECTIONROLE_ACTIVE \<or> lrole = CONNECTIONROLE_PASSIVE then
                     role (lrole = CONNECTIONROLE_ACTIVE)
                   else bad ''Answerer must use either active or passive value for setup attribute.''))"

definition SetNegotiatedDtlsParameters ::
    "jsep_env \<Rightarrow> tid \<Rightarrow> SSLRole option \<Rightarrow> SSLFingerprint option \<Rightarrow> JsepTransport
     \<Rightarrow> RTCError \<times> JsepTransport" where
  "SetNegotiatedDtlsParameters E x role fp J =
     (let J1 = (case role of None \<Rightarrow> J | Some r \<Rightarrow> jlog [EvSetDtlsRole x r] J)
      in if (case role of None \<Rightarrow> False | Some r \<Rightarrow> \<not> je_set_role E x r) then
           (RTCErr INVALID_PARAMETER ''Failed to set SSL role for the transport.'', J1)
         else case fp of
           None \<Rightarrow> (RTCErr INVALID_PARAMETER ''Failed to apply remote fingerprint.'', J1)
         | Some f \<Rightarrow>
             (let J2 = jlog [EvSetRemoteFingerprint x f] J1
              in if \<not> je_set_fingerprint E x f then
                   (RTCErr INVALID_PARAMETER ''Failed to apply remote fingerprint.'', J2)
                 else (OK, J2)))"

definition NegotiateAndSetDtlsParameters ::
    "jsep_env \<Rightarrow> SdpType \<Rightarrow> JsepTransport \<Rightarrow> RTCError \<times> JsepTransport" where
  "NegotiateAndSetDtlsParameters E local_type J =
     (case (local_description J, remote_description J) of
        (Some ld, Some rd) \<Rightarrow>
          (let local_fp = identity_fingerprint (jd_transport_desc ld);
               remote_fp = identity_fingerprint (jd_transport_desc rd);
               push = (\<lambda>role fp.
                 case SetNegotiatedDtlsParameters E (jsep_rtp_dtls J) role fp J of
                   (e, J1) \<Rightarrow>
                     if e \<noteq> OK then (e, J1)
                     else case jsep_rtcp_dtls J1 of
                       None \<Rightarrow> (e, J1)
                     | Some y \<Rightarrow> SetNegotiatedDtlsParameters E y role fp J1)
           in if remote_fp \<noteq> None \<and> local_fp \<noteq> None then
                (case NegotiateDtlsRole local_type (connection_role (jd_transport_desc ld))
                        (connection_role (jd_transport_desc rd)) (GetDtlsRole E J) of
                   Inl e \<Rightarrow> (e, J)
                 | Inr role \<Rightarrow> push (Some role) remote_fp)
              else if local_fp \<noteq> None \<and> local_type = kAnswer then
                (RTCErr INVALID_PARAMETER
                   ''Local fingerprint supplied when caller didn't offer DTLS.'', J)
              else push None (Some \<lparr>fp_algorithm = '''', fp_digest = []\<rparr>))
      | _ \<Rightarrow>
          (RTCErr INVALID_STATE
             ''Applying an answer transport description without applying any offer.'', J))"

definition VerifyCertificateFingerprint ::
    "jsep_env \<Rightarrow> nat option \<Rightarrow> SSLFingerprint option \<Rightarrow> RTCError" where
  "VerifyCertificateFingerprint E certificate fingerprint =
     (case fingerprint of
        None \<Rightarrow> RTCErr INVALID_PARAMETER ''No fingerprint''
      | Some fp \<Rightarrow>
          (case certificate of
             None \<Rightarrow> RTCErr INVALID_PARAMETER ''Fingerprint provided but no identity available.''
           | Some c \<Rightarrow>
               (let fp_tmp = je_certificate_fingerprint E (fp_algorithm fp) c
                in if fp_tmp = fp then OK
                   else RTCErr INVALID_PARAMETER
                          (''Local fingerprint does not match identity. Expected: ''
                           @ je_fingerprint_text E fp_tmp @ '' Got: '' @ je_fingerprint_text E fp))))"

section \<open>Applying descriptions\<close>

text \<open>What a description changes in a DTLS-SRTP transport: the header extension ids to encrypt.\<close>

definition media_UpdateRecvIds ::
    "'w srtp_lib \<Rightarrow> jsep_env \<Rightarrow> int list \<Rightarrow> MediaTransport \<times> 'w srtp_global
     \<Rightarrow> MediaTransport \<times> 'w srtp_global" where
  "media_UpdateRecvIds L E ids mg =
     (case fst mg of
        DtlsSrtp t \<Rightarrow>
          (case UpdateRecvEncryptedHeaderExtensionIds L (je_dtls E) ids (t, snd mg) of
             (t', g') \<Rightarrow> (DtlsSrtp t', g'))
      | _ \<Rightarrow> mg)"

definition media_UpdateSendIds ::
    "'w srtp_lib \<Rightarrow> jsep_env \<Rightarrow> int list \<Rightarrow> int \<Rightarrow> MediaTransport \<times> 'w srtp_global
     \<Rightarrow> MediaTransport \<times> 'w srtp_global" where
  "media_UpdateSendIds L E ids abs_id mg =
     (case fst mg of
        DtlsSrtp t \<Rightarrow>
          (case UpdateSendEncryptedHeaderExtensionIds L (je_dtls E) ids (t, snd mg) of
             (t', g') \<Rightarrow> (DtlsSrtp (t'\<lparr>rtp_abs_sendtime_extn_id := abs_id\<rparr>), g'))
      | _ \<Rightarrow> mg)"

fun is_Sdes :: "MediaTransport \<Rightarrow> bool" where
  "is_Sdes (Sdes _) = True"
| "is_Sdes _ = False"

definition ice_restarting :: "jsep_env \<Rightarrow> JsepTransportDescription \<Rightarrow> JsepTransport \<Rightarrow> bool" where
  "ice_restarting E d J =
     (case local_description J of
        None \<Rightarrow> False
      | Some ld \<Rightarrow>
          je_credentials_changed E (ice_ufrag (jd_transport_desc ld)) (ice_pwd (jd_transport_desc ld))
            (ice_ufrag (jd_transport_desc d)) (ice_pwd (jd_transport_desc d)))"

text \<open>The part of \<open>SetLocalJsepTransportDescription\<close> after the description is stored.\<close>

definition finish_local ::
    "jsep_env \<Rightarrow> JsepTransportDescription \<Rightarrow> SdpType \<Rightarrow> bool \<Rightarrow> JsepTransport
     \<Rightarrow> RTCError \<times> JsepTransport" where
  "finish_local E d type restarting J =
     (let fp = identity_fingerprint (jd_transport_desc d);
          u = ice_ufrag (jd_transport_desc d); p = ice_pwd (jd_transport_desc d);
          error = (if fp = None then OK else VerifyCertificateFingerprint E (local_certificate J) fp);
          J1 = (if fp = None then J\<lparr>local_certificate := None\<rparr> else J)
      in if error \<noteq> OK then (error, J1\<lparr>local_description := None\<rparr>)
         else
           (let J2 = jlog (List.map (\<lambda>x. EvIceParameters x u p) (jsep_rtp_dtls J1 # rtcp_list J1)) J1;
                (error, J3) = (if type = kPrAnswer \<or> type = kAnswer
                               then NegotiateAndSetDtlsParameters E type J2 else (OK, J2))
            in if error \<noteq> OK then (error, J3\<lparr>local_description := None\<rparr>)
               else (OK, if needs_ice_restart J3 \<and> restarting
                         then J3\<lparr>needs_ice_restart := False\<rparr> else J3)))"

definition SetLocalJsepTransportDescription ::
    "'w srtp_lib \<Rightarrow> jsep_env \<Rightarrow> JsepTransportDescription \<Rightarrow> SdpType
     \<Rightarrow> JsepTransport \<times> 'w srtp_global \<Rightarrow> RTCError \<times> JsepTransport \<times> 'w srtp_global" where
  "SetLocalJsepTransportDescription L E d type Jg =
     (case je_validate_ice E (ice_ufrag (jd_transport_desc d)) (ice_pwd (jd_transport_desc d)) of
        RTCErr _ msg \<Rightarrow> (RTCErr INVALID_PARAMETER (''Invalid ICE parameters: '' @ msg), Jg)
      | OK \<Rightarrow>
          (case SetRtcpMux L E (jd_rtcp_mux_enabled d) type CS_LOCAL Jg of
             (False, Jg1) \<Rightarrow> (RTCErr INVALID_PARAMETER ''Failed to setup RTCP mux.'', Jg1)
           | (True, J1, g1) \<Rightarrow>
               if is_Sdes (media_transport J1)
                  \<and> \<not> SetSdes (jd_cryptos d) (jd_encrypted_extension_ids d) type CS_LOCAL then
                 (RTCErr INVALID_PARAMETER ''Failed to setup SDES crypto parameters.'', J1, g1)
               else
                 (let (m, g2) = media_UpdateRecvIds L E (jd_encrypted_extension_ids d)
                                  (media_transport J1, g1);
                      J2 = J1\<lparr>media_transport := m\<rparr>;
                      restarting = ice_restarting E d J2;
                      (e, J3) = finish_local E d type restarting (J2\<lparr>local_description := Some d\<rparr>)
                  in (e, J3, g2))))"

definition finish_remote ::
    "jsep_env \<Rightarrow> JsepTransportDescription \<Rightarrow> SdpType \<Rightarrow> JsepTransport \<Rightarrow> RTCError \<times> JsepTransport"
  where
  "finish_remote E d type J =
     (let u = ice_ufrag (jd_transport_desc d); p = ice_pwd (jd_transport_desc d);
          J1 = jlog (List.map (\<lambda>x. EvRemoteIceParameters x u p (ice_mode (jd_transport_desc d)))
                       (jsep_rtp_dtls J # rtcp_list J)) J;
          (e, J2) = (if type = kPrAnswer \<or> type = kAnswer
                     then NegotiateAndSetDtlsParameters E kOffer J1 else (OK, J1))
      in if e \<noteq> OK then (e, J2\<lparr>remote_description := None\<rparr>) else (OK, J2))"

definition SetRemoteJsepTransportDescription ::
    "'w srtp_lib \<Rightarrow> jsep_env \<Rightarrow> JsepTransportDescription \<Rightarrow> SdpType
     \<Rightarrow> JsepTransport \<times> 'w srtp_global \<Rightarrow> RTCError \<times> JsepTransport \<times> 'w srtp_global" where
  "SetRemoteJsepTransportDescription L E d type Jg =
     (case je_validate_ice E (ice_ufrag (jd_transport_desc d)) (ice_pwd (jd_transport_desc d)) of
        RTCErr _ msg \<Rightarrow>
          (RTCErr INVALID_PARAMETER (''Invalid ICE parameters: '' @ msg),
           (fst Jg)\<lparr>remote_description := None\<rparr>, snd Jg)
      | OK \<Rightarrow>
          (case SetRtcpMux L E (jd_rtcp_mux_enabled d) type CS_REMOTE Jg of
             (False, Jg1) \<Rightarrow> (RTCErr INVALID_PARAMETER ''Failed to setup RTCP mux.'', Jg1)
           | (True, J1, g1) \<Rightarrow>
               if is_Sdes (media_transport J1)
                  \<and> \<not> SetSdes (jd_cryptos d) (jd_encrypted_extension_ids d) type CS_REMOTE then
                 (RTCErr INVALID_PARAMETER ''Failed to setup SDES crypto parameters.'', J1, g1)
               else
                 (let (m, g2) = media_UpdateSendIds L E (jd_encrypted_extension_ids d)
                                  (jd_abs_sendtime_extn_id d) (media_transport J1, g1);
                      (e, J2) = finish_remote E d type
                                  (J1\<lparr>media_transport := m, remote_description := Some d\<rparr>)
                  in (e, J2, g2))))"

section \<open>Candidates, flags, statistics\<close>

fun add_candidates :: "Candidate list \<Rightarrow> JsepTransport \<Rightarrow> RTCError \<times> JsepTransport" where
  "add_candidates [] J = (OK, J)"
| "add_candidates (c # cs) J =
     (case (if cand_component c = COMPONENT_RTP then Some (jsep_rtp_dtls J) else jsep_rtcp_dtls J) of
        None \<Rightarrow> (RTCErr INVALID_PARAMETER
                  (''Candidate has an unknown component: '' @ cand_text c @ '' for mid '' @ jsep_mid J), J)
      | Some x \<Rightarrow> add_candidates cs (jlog [EvAddRemoteCandidate x c] J))"

definition AddRemoteCandidates :: "Candidate list \<Rightarrow> JsepTransport \<Rightarrow> RTCError \<times> JsepTransport" where
  "AddRemoteCandidates cs J =
     (if local_description J = None \<or> remote_description J = None then
        (RTCErr INVALID_STATE
           (jsep_mid J @ '' is not ready to use the remote candidate ''
            @ ''because the local or remote description is not set.''), J)
      else add_candidates cs J)"

definition SetLocalCertificate :: "nat option \<Rightarrow> JsepTransport \<Rightarrow> JsepTransport" where
  "SetLocalCertificate c J = J\<lparr>local_certificate := c\<rparr>"

definition SetNeedsIceRestartFlag :: "JsepTransport \<Rightarrow> JsepTransport" where
  "SetNeedsIceRestartFlag J =
     (if \<not> needs_ice_restart J then J\<lparr>needs_ice_restart := True\<rparr> else J)"

definition jsep_SetActiveResetSrtpParams :: "bool \<Rightarrow> JsepTransport \<Rightarrow> JsepTransport" where
  "jsep_SetActiveResetSrtpParams b J =
     (case media_transport J of
        DtlsSrtp t \<Rightarrow> J\<lparr>media_transport := DtlsSrtp (SetActiveResetSrtpParams b t)\<rparr>
      | _ \<Rightarrow> J)"

definition GetTransportStats ::
    "jsep_env \<Rightarrow> tid \<Rightarrow> int \<Rightarrow> channel_stats list \<Rightarrow> bool \<times> channel_stats list" where
  "GetTransportStats E x component stats =
     (case je_ice_stats E x of
        None \<Rightarrow> (False, stats)
      | Some i \<Rightarrow>
          (True, stats @ [\<lparr>cs_component = component, cs_version = je_version E x,
             cs_srtp = dn_suite (je_dtls E) x, cs_cipher = je_cipher E x,
             cs_connected = dn_connected (je_dtls E) x, cs_ice = i\<rparr>]))"

definition jsep_GetStats :: "jsep_env \<Rightarrow> JsepTransport \<Rightarrow> bool \<times> string \<times> channel_stats list" where
  "jsep_GetStats E J =
     (let (ret, stats) = GetTransportStats E (jsep_rtp_dtls J) 1 [];
          (ret2, stats2) = (case jsep_rtcp_dtls J of
                              None \<Rightarrow> (True, stats)
                            | Some y \<Rightarrow> GetTransportStats E y 2 stats)
      in (ret \<and> ret2, jsep_mid J, stats2))"

section \<open>What the steps leave alone\<close>

text \<open>The descriptions, the restart flag and the kind of media transport.\<close>

fun media_kind :: "MediaTransport \<Rightarrow> nat" where
  "media_kind (UnencryptedRtp _) = 0"
| "media_kind (Sdes _) = 1"
| "media_kind (DtlsSrtp _) = 2"

definition jsep_view where
  "jsep_view J = (local_description J, remote_description J, needs_ice_restart J,
                  local_certificate J, media_kind (media_transport J), jsep_mid J, jsep_rtp_dtls J)"

lemma is_Sdes_kind: "is_Sdes m \<longleftrightarrow> media_kind m = 1"
  by (cases m) simp_all

lemma jlog_frame [simp]:
  "local_description (jlog es J) = local_description J"
  "remote_description (jlog es J) = remote_description J"
  "needs_ice_restart (jlog es J) = needs_ice_restart J"
  "local_certificate (jlog es J) = local_certificate J"
  "media_transport (jlog es J) = media_transport J"
  "jsep_rtp_dtls (jlog es J) = jsep_rtp_dtls J"
  "jsep_rtcp_dtls (jlog es J) = jsep_rtcp_dtls J"
  "rtcp_mux_negotiator (jlog es J) = rtcp_mux_negotiator J"
  "jsep_mid (jlog es J) = jsep_mid J"
  by (simp_all add: jlog_def)

lemma media_kind_frame [simp]:
  "media_kind (fst (media_SetRtcpMuxEnabled L E e mg)) = media_kind (fst mg)"
  "media_kind (fst (media_UpdateRecvIds L E ids mg)) = media_kind (fst mg)"
  "media_kind (fst (media_UpdateSendIds L E ids a mg)) = media_kind (fst mg)"
  by (simp_all add: media_SetRtcpMuxEnabled_def media_UpdateRecvIds_def media_UpdateSendIds_def
      split: MediaTransport.split prod.split)

lemma media_kind_eqs:
  "media_SetRtcpMuxEnabled L E e (m, g) = (m', g') \<Longrightarrow> media_kind m' = media_kind m"
  "media_UpdateRecvIds L E ids (m, g) = (m', g') \<Longrightarrow> media_kind m' = media_kind m"
  "media_UpdateSendIds L E ids a (m, g) = (m', g') \<Longrightarrow> media_kind m' = media_kind m"
  using media_kind_frame by (metis fst_conv)+

lemma view_ActivateRtcpMux:
  "ActivateRtcpMux L E (J, g) = (J', g') \<Longrightarrow>
     jsep_view J' = jsep_view J \<and> rtcp_mux_negotiator J' = rtcp_mux_negotiator J"
  by (auto simp: ActivateRtcpMux_def Let_def jsep_view_def
      split: MediaTransport.splits option.splits prod.splits)

lemma jsep_view_update [simp]:
  "jsep_view (J\<lparr>rtcp_mux_negotiator := n\<rparr>) = jsep_view J"
  "media_kind m = media_kind (media_transport J) \<Longrightarrow>
     jsep_view (J\<lparr>media_transport := m\<rparr>) = jsep_view J"
  by (simp_all add: jsep_view_def)

lemma view_SetRtcpMux:
  assumes "SetRtcpMux L E e type src (J, g) = (b, J', g')"
  shows "jsep_view J' = jsep_view J"
  using assms by (auto simp: SetRtcpMux_def Let_def split: prod.splits if_splits SdpType.splits
        dest!: view_ActivateRtcpMux media_kind_eqs(1))

lemma SetNegotiated_frame:
  "SetNegotiatedDtlsParameters E x role fp J = (e, J') \<Longrightarrow> \<exists>l. J' = J\<lparr>jsep_log := l\<rparr>"
  by (auto simp: SetNegotiatedDtlsParameters_def Let_def jlog_def
      split: option.splits if_splits) (metis JsepTransport.surjective JsepTransport.update_convs(10))+

lemma Negotiate_frame:
  assumes "NegotiateAndSetDtlsParameters E ty J = (e, J')"
  shows "\<exists>l. J' = J\<lparr>jsep_log := l\<rparr>"
proof -
  have same: "\<exists>l. J = J\<lparr>jsep_log := l\<rparr>" by (intro exI [of _ "jsep_log J"]) simp
  have step: "SetNegotiatedDtlsParameters E x role fp K = (e', K') \<Longrightarrow> (\<exists>l. K = J\<lparr>jsep_log := l\<rparr>)
      \<Longrightarrow> (\<exists>l. K' = J\<lparr>jsep_log := l\<rparr>)" for x role fp K e' K'
    using SetNegotiated_frame by fastforce
  show ?thesis
    using assms same
    by (auto simp: NegotiateAndSetDtlsParameters_def Let_def
        split: option.splits prod.splits sum.splits if_splits dest: step)
qed

section \<open>Multiplexing and the media transport\<close>

fun media_mux :: "MediaTransport \<Rightarrow> bool" where
  "media_mux (UnencryptedRtp t) = rtcp_mux_enabled t"
| "media_mux (Sdes t) = rtcp_mux_enabled t"
| "media_mux (DtlsSrtp t) = rtcp_mux_enabled t"

fun media_rtcp :: "MediaTransport \<Rightarrow> tid option" where
  "media_rtcp (UnencryptedRtp t) = rtcp_packet_transport t"
| "media_rtcp (Sdes t) = rtcp_packet_transport t"
| "media_rtcp (DtlsSrtp t) = rtcp_packet_transport t"

lemma rtp_SetRtcpMux_fields [simp]:
  "rtcp_mux_enabled (rtp_SetRtcpMuxEnabled e t) = e"
  "rtcp_packet_transport (rtp_SetRtcpMuxEnabled e t) = rtcp_packet_transport t"
  by (simp_all add: rtp_SetRtcpMuxEnabled_def MaybeSignalReadyToSend_def Let_def)

lemma outer_mux:
  assumes "outer t' = outer t"
  shows "rtcp_mux_enabled t' = rtcp_mux_enabled t \<and> rtcp_packet_transport t' = rtcp_packet_transport t"
  using assms by (simp add: outer_def)

lemma dtls_SetRtcpMux_fields:
  assumes "dtls_SetRtcpMuxEnabled L D e (t, g) = (t', g')"
  shows "rtcp_mux_enabled t' = e \<and> rtcp_packet_transport t' = rtcp_packet_transport t"
proof (cases e)
  case True
  with assms have "outer t' = outer (rtp_SetRtcpMuxEnabled e t)"
    by (auto simp: dtls_SetRtcpMuxEnabled_def Let_def intro: outer_MaybeSetup)
  from outer_mux [OF this] show ?thesis by simp
next
  case False
  then show ?thesis using assms by (auto simp: dtls_SetRtcpMuxEnabled_def Let_def)
qed

lemma media_SetRtcpMux_fields:
  "media_SetRtcpMuxEnabled L E e (m, g) = (m', g') \<Longrightarrow> media_mux m' = e \<and> media_rtcp m' = media_rtcp m"
  by (cases m) (auto simp: media_SetRtcpMuxEnabled_def split: prod.splits dest: dtls_SetRtcpMux_fields)

lemma update_ids_fields:
  "UpdateRecvEncryptedHeaderExtensionIds L D ids (t, g) = (t', g') \<Longrightarrow>
     rtcp_mux_enabled t' = rtcp_mux_enabled t \<and> rtcp_packet_transport t' = rtcp_packet_transport t"
  "UpdateSendEncryptedHeaderExtensionIds L D ids (t, g) = (t', g') \<Longrightarrow>
     rtcp_mux_enabled t' = rtcp_mux_enabled t \<and> rtcp_packet_transport t' = rtcp_packet_transport t"
  by (auto simp: UpdateRecvEncryptedHeaderExtensionIds_def UpdateSendEncryptedHeaderExtensionIds_def
      Let_def split: if_splits dest!: outer_SetupRtp outer_mux)

lemma media_ids_fields:
  "media_UpdateRecvIds L E ids (m, g) = (m', g') \<Longrightarrow>
     media_mux m' = media_mux m \<and> media_rtcp m' = media_rtcp m"
  "media_UpdateSendIds L E ids a (m, g) = (m', g') \<Longrightarrow>
     media_mux m' = media_mux m \<and> media_rtcp m' = media_rtcp m"
  by (cases m; auto simp: media_UpdateRecvIds_def media_UpdateSendIds_def split: prod.splits
      dest: update_ids_fields)+

lemma SetDtlsTransports_rtcp:
  assumes "SetDtlsTransports L D a b (t, g) = Some (t', g')"
  shows "rtcp_packet_transport t' = b"
proof -
  obtain t3 g1 where "MaybeSetupDtlsSrtp L D
      (SetRtpPacketTransport (dn_packets D) a (SetRtpDtlsTransport a
         (SetRtcpPacketTransport (dn_packets D) b (SetRtcpDtlsTransport b t3))), g1) = (t', g')"
    using assms by (auto simp: SetDtlsTransports_def Let_def split: if_splits)
  from outer_fields(5) [OF outer_MaybeSetup [OF this]] show ?thesis by simp
qed

lemma SetDtlsTransports_no_rtcp: "SetDtlsTransports L D a None tg \<noteq> None"
  by (simp add: SetDtlsTransports_def Let_def)

lemma ActivateRtcpMux_fields:
  assumes "ActivateRtcpMux L E (J, g) = (J', g')"
  shows "jsep_rtcp_dtls J' = None \<and> media_rtcp (media_transport J') = None"
proof (cases "media_transport J")
  case (DtlsSrtp t)
  obtain t' h' where "SetDtlsTransports L (je_dtls E) (Some (jsep_rtp_dtls J)) None (t, g)
      = Some (t', h')" using SetDtlsTransports_no_rtcp by (metis not_None_eq surj_pair)
  with assms DtlsSrtp SetDtlsTransports_rtcp [OF this] show ?thesis
    by (auto simp: ActivateRtcpMux_def Let_def)
qed (use assms in \<open>auto simp: ActivateRtcpMux_def Let_def\<close>)

text \<open>The outcome of a negotiation step that both sides accepted.\<close>

definition mux_settled :: "SdpType \<Rightarrow> JsepTransport \<Rightarrow> bool" where
  "mux_settled type J \<longleftrightarrow>
     media_mux (media_transport J) = IsActive (rtcp_mux_negotiator J)
     \<and> (type = kAnswer \<and> IsActive (rtcp_mux_negotiator J) \<longrightarrow>
          jsep_rtcp_dtls J = None \<and> media_rtcp (media_transport J) = None)"

lemma SetRtcpMux_settled:
  assumes "SetRtcpMux L E e type src (J, g) = (True, J', g')"
  shows "mux_settled type J'"
  using assms
  by (auto simp: SetRtcpMux_def Let_def mux_settled_def
      split: prod.splits if_splits SdpType.splits
      dest!: ActivateRtcpMux_fields media_SetRtcpMux_fields)

lemma mux_settled_cong:
  "mux_settled type J \<Longrightarrow> media_mux (media_transport K) = media_mux (media_transport J) \<Longrightarrow>
     media_rtcp (media_transport K) = media_rtcp (media_transport J) \<Longrightarrow>
     rtcp_mux_negotiator K = rtcp_mux_negotiator J \<Longrightarrow> jsep_rtcp_dtls K = jsep_rtcp_dtls J \<Longrightarrow>
     mux_settled type K"
  by (simp add: mux_settled_def)

lemma finish_local_frame:
  assumes "finish_local E d type r J = (e, J')"
  shows "media_transport J' = media_transport J \<and> rtcp_mux_negotiator J' = rtcp_mux_negotiator J
    \<and> jsep_rtcp_dtls J' = jsep_rtcp_dtls J \<and> remote_description J' = remote_description J
    \<and> (e = OK \<longrightarrow> local_description J' = local_description J
          \<and> needs_ice_restart J' = (needs_ice_restart J \<and> \<not> r))
    \<and> (e \<noteq> OK \<longrightarrow> local_description J' = None \<and> needs_ice_restart J' = needs_ice_restart J)"
  using assms
  by (auto simp: finish_local_def Let_def jlog_def split: if_splits prod.splits
      dest!: Negotiate_frame)

lemma finish_remote_frame:
  assumes "finish_remote E d type J = (e, J')"
  shows "media_transport J' = media_transport J \<and> rtcp_mux_negotiator J' = rtcp_mux_negotiator J
    \<and> jsep_rtcp_dtls J' = jsep_rtcp_dtls J \<and> local_description J' = local_description J
    \<and> needs_ice_restart J' = needs_ice_restart J
    \<and> remote_description J' = (if e = OK then remote_description J else None)"
  using assms
  by (auto simp: finish_remote_def Let_def jlog_def split: if_splits prod.splits
      dest!: Negotiate_frame)

lemma SetLocal_steps:
  assumes "SetLocalJsepTransportDescription L E d type (J, g) = (e, J', g')"
  shows "(e \<noteq> OK \<and> (local_description J' = local_description J)
          \<and> needs_ice_restart J' = needs_ice_restart J \<and> remote_description J' = remote_description J)
    \<or> (\<exists>J1 g1 m g2. SetRtcpMux L E (jd_rtcp_mux_enabled d) type CS_LOCAL (J, g) = (True, J1, g1)
         \<and> \<not> is_Sdes (media_transport J1)
         \<and> media_UpdateRecvIds L E (jd_encrypted_extension_ids d) (media_transport J1, g1) = (m, g2)
         \<and> finish_local E d type (ice_restarting E d J)
             (J1\<lparr>media_transport := m, local_description := Some d\<rparr>) = (e, J'))"
proof (cases "je_validate_ice E (ice_ufrag (jd_transport_desc d)) (ice_pwd (jd_transport_desc d))")
  case (RTCErr x msg)
  then show ?thesis using assms by (auto simp: SetLocalJsepTransportDescription_def)
next
  case OK
  obtain b J1 g1 where m: "SetRtcpMux L E (jd_rtcp_mux_enabled d) type CS_LOCAL (J, g) = (b, J1, g1)"
    by (metis prod_cases3)
  note v = view_SetRtcpMux [OF m, unfolded jsep_view_def]
  show ?thesis
  proof (cases "b \<and> \<not> is_Sdes (media_transport J1)")
    case True
    then show ?thesis
      using assms OK m v
      by (auto simp: SetLocalJsepTransportDescription_def Let_def ice_restarting_def
          split: prod.splits)
  next
    case False
    then show ?thesis
      using assms OK m v
      by (auto simp: SetLocalJsepTransportDescription_def SetSdes_def split: bool.splits)
  qed
qed

lemma SetLocal_result:
  assumes "SetLocalJsepTransportDescription L E d type (J, g) = (e, J', g')"
  shows "remote_description J' = remote_description J
    \<and> (if e = OK then local_description J' = Some d
          \<and> needs_ice_restart J' = (needs_ice_restart J \<and> \<not> ice_restarting E d J)
          \<and> mux_settled type J' \<and> \<not> is_Sdes (media_transport J)
        else (local_description J' = None \<or> local_description J' = local_description J)
          \<and> needs_ice_restart J' = needs_ice_restart J)"
  using SetLocal_steps [OF assms]
proof (elim disjE exE conjE)
  assume "e \<noteq> OK" "local_description J' = local_description J"
    "needs_ice_restart J' = needs_ice_restart J" "remote_description J' = remote_description J"
  then show ?thesis by simp
next
  fix J1 g1 m g2
  assume m: "SetRtcpMux L E (jd_rtcp_mux_enabled d) type CS_LOCAL (J, g) = (True, J1, g1)"
    and ns: "\<not> is_Sdes (media_transport J1)"
    and ids: "media_UpdateRecvIds L E (jd_encrypted_extension_ids d) (media_transport J1, g1) = (m, g2)"
    and f: "finish_local E d type (ice_restarting E d J)
             (J1\<lparr>media_transport := m, local_description := Some d\<rparr>) = (e, J')"
  note v = view_SetRtcpMux [OF m, unfolded jsep_view_def]
  note fr = finish_local_frame [OF f]
  have "mux_settled type J'"
    using SetRtcpMux_settled [OF m] by (rule mux_settled_cong) (use fr media_ids_fields(1) [OF ids] in simp_all)
  then show ?thesis using v fr ns by (auto simp: is_Sdes_kind)
qed

lemma SetRemote_result:
  assumes "SetRemoteJsepTransportDescription L E d type (J, g) = (e, J', g')"
  shows "local_description J' = local_description J \<and> needs_ice_restart J' = needs_ice_restart J
    \<and> (if e = OK then remote_description J' = Some d
          \<and> mux_settled type J' \<and> \<not> is_Sdes (media_transport J)
        else remote_description J' = None \<or> remote_description J' = remote_description J)"
proof (cases "je_validate_ice E (ice_ufrag (jd_transport_desc d)) (ice_pwd (jd_transport_desc d))")
  case (RTCErr x msg)
  then show ?thesis using assms by (auto simp: SetRemoteJsepTransportDescription_def)
next
  case OK
  obtain b J1 g1 where m: "SetRtcpMux L E (jd_rtcp_mux_enabled d) type CS_REMOTE (J, g) = (b, J1, g1)"
    by (metis prod_cases3)
  note v = view_SetRtcpMux [OF m, unfolded jsep_view_def]
  show ?thesis
  proof (cases "b \<and> \<not> is_Sdes (media_transport J1)")
    case False
    then show ?thesis
      using assms OK m v
      by (auto simp: SetRemoteJsepTransportDescription_def SetSdes_def split: bool.splits)
  next
    case True
    obtain mt g2 where ids: "media_UpdateSendIds L E (jd_encrypted_extension_ids d)
        (jd_abs_sendtime_extn_id d) (media_transport J1, g1) = (mt, g2)" by fastforce
    let ?J2 = "J1\<lparr>media_transport := mt, remote_description := Some d\<rparr>"
    have m': "SetRtcpMux L E (jd_rtcp_mux_enabled d) type CS_REMOTE (J, g) = (True, J1, g1)"
      using m True by simp
    have "mux_settled type ?J2"
      by (rule mux_settled_cong [OF SetRtcpMux_settled [OF m']])
        (use media_ids_fields(2) [OF ids] in simp_all)
    obtain e2 J3 where f: "finish_remote E d type ?J2 = (e2, J3)" by fastforce
    have res: "e = e2" "J' = J3"
      using assms OK m' True ids f by (simp_all add: SetRemoteJsepTransportDescription_def)
    note fr = finish_remote_frame [OF f]
    have "mux_settled type J'"
      by (rule mux_settled_cong [OF \<open>mux_settled type ?J2\<close>]) (use fr res in simp_all)
    then show ?thesis using v True fr res by (auto simp: is_Sdes_kind)
  qed
qed

section \<open>Properties\<close>

text \<open>C9: The two ends of an offer/answer exchange take opposite DTLS roles. The offerer (its setup
  attribute \<open>off\<close>, negotiating as the offer's side) and the answerer (attribute \<open>a\<close>, whatever role
  it had before) both succeed exactly when the offer says actpass and the answer active or
  passive; then their roles differ, and the answerer is the client exactly when it said active.\<close>

theorem jsep_dtls_roles_opposite:
  "case (NegotiateDtlsRole kOffer off a c1, NegotiateDtlsRole kAnswer a off c2) of
     (Inr r1, Inr r2) \<Rightarrow>
       off = CONNECTIONROLE_ACTPASS \<and> a \<in> {CONNECTIONROLE_ACTIVE, CONNECTIONROLE_PASSIVE}
       \<and> r1 \<noteq> r2 \<and> (r2 = SSL_CLIENT) = (a = CONNECTIONROLE_ACTIVE)
   | _ \<Rightarrow> \<not> (off = CONNECTIONROLE_ACTPASS \<and> a \<in> {CONNECTIONROLE_ACTIVE, CONNECTIONROLE_PASSIVE})"
  by (cases off; cases a) (simp_all add: NegotiateDtlsRole_def)

text \<open>C27: A description is applied completely or not shown. Setting a local description leaves the
  remote one alone; on success it is stored and a pending ICE restart is settled exactly when the
  credentials changed, on failure the old description or none is left, and the restart stays
  pending. The same for the remote description, which never touches the local one.\<close>

theorem jsep_description_all_or_nothing:
  "(case SetLocalJsepTransportDescription L E d type (J, g) of (e, J', g') \<Rightarrow>
      remote_description J' = remote_description J
      \<and> (if e = OK then local_description J' = Some d
            \<and> needs_ice_restart J' = (needs_ice_restart J \<and> \<not> ice_restarting E d J)
          else local_description J' \<in> {None, local_description J}
            \<and> needs_ice_restart J' = needs_ice_restart J))
   \<and> (case SetRemoteJsepTransportDescription L E d type (J, g) of (e, J', g') \<Rightarrow>
      local_description J' = local_description J
      \<and> remote_description J' \<in> (if e = OK then {Some d} else {None, remote_description J}))"
proof -
  obtain e J' g' where l: "SetLocalJsepTransportDescription L E d type (J, g) = (e, J', g')"
    by (metis prod_cases3)
  obtain e2 J2 g2 where r: "SetRemoteJsepTransportDescription L E d type (J, g) = (e2, J2, g2)"
    by (metis prod_cases3)
  from SetLocal_result [OF l] SetRemote_result [OF r] show ?thesis
    unfolding l r by (simp split: if_splits)
qed


text \<open>A transport that uses SDES accepts no description, local or remote, of any type: the call
  that would process the crypto parameters is commented out and its result is false.\<close>

theorem jsep_sdes_never_accepted:
  assumes "media_transport J = Sdes t"
  shows "fst (SetLocalJsepTransportDescription L E d type (J, g)) \<noteq> OK
    \<and> fst (SetRemoteJsepTransportDescription L E d type (J, g)) \<noteq> OK"
proof -
  obtain e J' g' where l: "SetLocalJsepTransportDescription L E d type (J, g) = (e, J', g')"
    by (metis prod_cases3)
  obtain e2 J2 g2 where r: "SetRemoteJsepTransportDescription L E d type (J, g) = (e2, J2, g2)"
    by (metis prod_cases3)
  from SetLocal_result [OF l] SetRemote_result [OF r] assms l r show ?thesis
    by (auto split: if_splits)
qed

definition demo_env :: jsep_env where
  "demo_env =
     \<lparr>je_dtls = demo_dtls, je_validate_ice = (\<lambda>u p. OK),
      je_credentials_changed = (\<lambda>u p u' p'. u \<noteq> u' \<or> p \<noteq> p'), je_set_role = (\<lambda>_ _. True),
      je_set_fingerprint = (\<lambda>_ _. True),
      je_certificate_fingerprint = (\<lambda>a c. \<lparr>fp_algorithm = a, fp_digest = []\<rparr>),
      je_fingerprint_text = fp_algorithm, je_version = (\<lambda>_. None), je_cipher = (\<lambda>_. None),
      je_ice_stats = (\<lambda>_. None)\<rparr>"

definition demo_description :: JsepTransportDescription where
  "demo_description =
     \<lparr>jd_rtcp_mux_enabled = True, jd_cryptos = [], jd_encrypted_extension_ids = [],
      jd_abs_sendtime_extn_id = -1,
      jd_transport_desc = \<lparr>ice_ufrag = ''u'', ice_pwd = ''p'', ice_mode = ICEMODE_FULL,
        connection_role = CONNECTIONROLE_NONE, identity_fingerprint = None\<rparr>\<rparr>"

definition demo_jsep :: "MediaTransport \<Rightarrow> JsepTransport" where
  "demo_jsep m =
     \<lparr>jsep_mid = ''0'', needs_ice_restart = False, local_certificate = None,
      local_description = None, remote_description = None, media_transport = m,
      jsep_rtp_dtls = 1, jsep_rtcp_dtls = Some 2, rtcp_mux_negotiator = mux_init, jsep_log = []\<rparr>"

definition demo_offered :: "JsepTransport \<times> unit srtp_global" where
  "demo_offered = snd (SetLocalJsepTransportDescription demo_lib demo_env demo_description kOffer
     (demo_jsep (UnencryptedRtp demo_transport), demo_global))"

lemmas jsep_demo_defs = demo_env_def demo_description_def demo_jsep_def demo_offered_def
  SetLocalJsepTransportDescription_def SetRemoteJsepTransportDescription_def SetRtcpMux_def
  media_SetRtcpMuxEnabled_def media_UpdateRecvIds_def media_UpdateSendIds_def finish_local_def
  finish_remote_def ice_restarting_def jlog_def rtcp_list_def mux_init_def mux_defs
  ActivateRtcpMux_def NegotiateAndSetDtlsParameters_def SetNegotiatedDtlsParameters_def

lemma demo_answered:
  "\<exists>J' g'. SetRemoteJsepTransportDescription demo_lib demo_env demo_description kAnswer demo_offered
       = (OK, J', g') \<and> IsActive (rtcp_mux_negotiator J')"
  by (simp add: jsep_demo_defs Let_def)


theorem jsep_sdes_never_accepted_witness:
  "fst (SetLocalJsepTransportDescription demo_lib demo_env demo_description kOffer
     (demo_jsep (Sdes (new_SrtpTransport True)), demo_global)) \<noteq> OK"
  using jsep_sdes_never_accepted [of "demo_jsep (Sdes (new_SrtpTransport True))"
      "new_SrtpTransport True" demo_lib demo_env demo_description kOffer demo_global]
  by (simp add: demo_jsep_def)

end
