(* ===== verification/TransportController.thy ===== *)
theory TransportController
  imports JsepTransport TransportCollection SdpParser
begin

text \<open>
  The transport controller (ctransport_controller.cpp): it makes the ICE, DTLS and SRTP transports
  of a remote description, registers them in the collection, keeps raw pointers to the ICE and
  DTLS transports by mid, and posts to the network thread what is to be done with them.

  The transports made together for one content have one number. They live as long as their JSEP
  transport does, which the collection owns; a pointer to one that is gone, and a missing one,
  are undefined to use: the calls then are \<open>None\<close>. Posted tasks wait in a queue and run in order;
  what is invoked on the network thread has happened when the call returns.
\<close>

section \<open>State\<close>

datatype IceRole = ICEROLE_CONTROLLING | ICEROLE_CONTROLLED

datatype CtlEvent =
    SetIceRole tid IceRole
  | SetTransportCertificate tid "nat option"
  | SetTransportDtlsRole tid SSLRole
  | SetTransportIceParameters tid string string
  | SetTransportRemoteIceParameters tid string string
  | SetTransportFingerprint tid SSLFingerprint
  | MaybeStartGathering tid
  | AddTransportCandidate tid IceCandidate
  | SignalIceTransportStateChanged tid
  | SignalRtcpPacketReceived "byte list" int

text \<open>
  A task for the remote parameters reads the transport info through a pointer into the remote
  description, which the peer connection owns: the description is numbered.
\<close>

datatype NetTask =
    TaskRemoteParameters tid string string nat "SSLFingerprint option"
  | TaskLocalParameters string string string "nat option"
  | TaskStartGathering
  | TaskAddCandidate IceCandidate
  | TaskSendRtp string "byte list"

record TransportController =
  tc_ice_role :: IceRole
  tc_certificate :: "nat option"
  tc_ices :: "(string, tid) smap"
  tc_dtls_transports :: "(string, tid) smap"
  tc_transports :: Collection
  tc_objects :: "(tid \<times> JsepTransport) list"
  tc_next :: tid
  tc_description :: nat
  tc_tasks :: "NetTask list"
  tc_log :: "CtlEvent list"

definition new_TransportController :: TransportController where
  "new_TransportController = \<lparr>tc_ice_role = ICEROLE_CONTROLLING, tc_certificate = None,
     tc_ices = [], tc_dtls_transports = [], tc_transports = empty_Collection, tc_objects = [],
     tc_next = 0, tc_description = 0, tc_tasks = [], tc_log = []\<rparr>"

definition ctl_log :: "CtlEvent list \<Rightarrow> TransportController \<Rightarrow> TransportController" where
  "ctl_log es C = C\<lparr>tc_log := tc_log C @ es\<rparr>"

definition post :: "NetTask \<Rightarrow> TransportController \<Rightarrow> TransportController" where
  "post k C = C\<lparr>tc_tasks := tc_tasks C @ [k]\<rparr>"

definition alive :: "tid \<Rightarrow> TransportController \<Rightarrow> bool" where
  "alive n C \<longleftrightarrow> n \<in> set (Transports (tc_transports C))"

text \<open>\<open>std::map::insert\<close> leaves an existing entry.\<close>

definition insert_new :: "string \<Rightarrow> tid \<Rightarrow> (string, tid) smap \<Rightarrow> (string, tid) smap" where
  "insert_new k v m = (if map_of m k = None then smap_put k v m else m)"

section \<open>Making transports\<close>

definition OnTransportChanged :: map_callback where
  "OnTransportChanged mid transport = False"

definition CreateDtlsTransport :: "tid \<Rightarrow> TransportController \<Rightarrow> TransportController" where
  "CreateDtlsTransport n C =
     ctl_log (SetIceRole n ICEROLE_CONTROLLED
              # (case tc_certificate C of None \<Rightarrow> [] | Some c \<Rightarrow> [SetTransportCertificate n (Some c)])) C"

definition CreateDtlsSrtpTransport ::
    "'w srtp_lib \<Rightarrow> dtls_net \<Rightarrow> tid option \<Rightarrow> tid option \<Rightarrow> 'w srtp_global
     \<Rightarrow> (DtlsSrtpTransport \<times> 'w srtp_global) option" where
  "CreateDtlsSrtpTransport L D rtp rtcp g =
     map_option (\<lambda>(t, g'). (SetOnDtlsStateChange True (SetActiveResetSrtpParams True t), g'))
       (SetDtlsTransports L D rtp rtcp (new_DtlsSrtpTransport (rtcp = None), g))"

definition new_JsepTransport ::
    "string \<Rightarrow> nat option \<Rightarrow> MediaTransport \<Rightarrow> tid \<Rightarrow> tid option \<Rightarrow> JsepTransport" where
  "new_JsepTransport mid cert m rtp_dtls rtcp_dtls =
     \<lparr>jsep_mid = mid, needs_ice_restart = False, local_certificate = cert,
      local_description = None, remote_description = None, media_transport = m,
      jsep_rtp_dtls = rtp_dtls, jsep_rtcp_dtls = rtcp_dtls, rtcp_mux_negotiator = mux_init,
      jsep_log = []\<rparr>"

fun destroy_media :: "'w srtp_lib \<Rightarrow> MediaTransport \<Rightarrow> 'w srtp_global \<Rightarrow> 'w srtp_global" where
  "destroy_media L (UnencryptedRtp t) g = g"
| "destroy_media L (Sdes t) g = destroy_SrtpTransport L t g"
| "destroy_media L (DtlsSrtp t) g = destroy_SrtpTransport L t g"

text \<open>The JSEP transports the collection gave up are destroyed, with the sessions they hold.\<close>

definition reap ::
    "'w srtp_lib \<Rightarrow> TransportController \<times> 'w srtp_global \<Rightarrow> TransportController \<times> 'w srtp_global"
  where
  "reap L Cg =
     (let C = fst Cg
      in (C\<lparr>tc_objects := filter (\<lambda>b. alive (fst b) C) (tc_objects C)\<rparr>,
          fold (\<lambda>b g. if alive (fst b) C then g else destroy_media L (media_transport (snd b)) g)
            (tc_objects C) (snd Cg)))"

definition create_transport ::
    "'w srtp_lib \<Rightarrow> dtls_net \<Rightarrow> string \<Rightarrow> TransportController \<times> 'w srtp_global
     \<Rightarrow> (TransportController \<times> 'w srtp_global) option" where
  "create_transport L D mid Cg =
     (let n = tc_next (fst Cg);
          C1 = ctl_log [SetTransportDtlsRole n SSL_CLIENT] (CreateDtlsTransport n (fst Cg))
      in map_option (\<lambda>(t, g).
           reap L (C1\<lparr>tc_objects := tc_objects C1
                        @ [(n, new_JsepTransport mid (tc_certificate C1) (DtlsSrtp t) n None)],
                      tc_transports := RegisterTransport OnTransportChanged mid n (tc_transports C1),
                      tc_next := Suc n\<rparr>, g))
         (CreateDtlsSrtpTransport L D (Some n) None (snd Cg)))"

section \<open>Descriptions\<close>

definition post_remote ::
    "SessionDescription \<Rightarrow> string \<Rightarrow> tid \<Rightarrow> TransportController \<Rightarrow> TransportController" where
  "post_remote desc mid n C =
     (case GetTransportInfoByName mid desc of
        None \<Rightarrow> C
      | Some td \<Rightarrow>
          post (TaskRemoteParameters n (ice_ufrag (ti_description td)) (ice_pwd (ti_description td))
                  (tc_description C) (identity_fingerprint (ti_description td))) C)"

definition remote_content ::
    "'w srtp_lib \<Rightarrow> dtls_net \<Rightarrow> SessionDescription \<Rightarrow> ContentInfo
     \<Rightarrow> TransportController \<times> 'w srtp_global \<Rightarrow> (TransportController \<times> 'w srtp_global) option" where
  "remote_content L D desc c Cg =
     (if content_groups desc = [] then None
      else if ci_name c \<noteq> ci_name (hd (contents desc)) then Some Cg
      else map_option (\<lambda>(C, g).
             (post_remote desc (ci_name c) (tc_next (fst Cg))
                (C\<lparr>tc_ices := insert_new (ci_name c) (tc_next (fst Cg)) (tc_ices C),
                   tc_dtls_transports :=
                     insert_new (ci_name c) (tc_next (fst Cg)) (tc_dtls_transports C)\<rparr>), g))
           (create_transport L D (ci_name c) Cg))"

fun remote_contents ::
    "'w srtp_lib \<Rightarrow> dtls_net \<Rightarrow> SessionDescription \<Rightarrow> ContentInfo list
     \<Rightarrow> TransportController \<times> 'w srtp_global \<Rightarrow> (TransportController \<times> 'w srtp_global) option" where
  "remote_contents L D desc [] Cg = Some Cg"
| "remote_contents L D desc (c # cs) Cg =
     Option.bind (remote_content L D desc c Cg) (remote_contents L D desc cs)"

definition set_remote_sdp ::
    "'w srtp_lib \<Rightarrow> dtls_net \<Rightarrow> SessionDescription option \<Rightarrow> TransportController \<times> 'w srtp_global
     \<Rightarrow> (int \<times> TransportController \<times> 'w srtp_global) option" where
  "set_remote_sdp L D desc Cg =
     (case desc of
        None \<Rightarrow> Some (-1, Cg)
      | Some d \<Rightarrow> map_option (\<lambda>Cg'. (0, Cg')) (remote_contents L D d (contents d) Cg))"

definition local_content ::
    "SessionDescription \<Rightarrow> nat option \<Rightarrow> ContentInfo \<Rightarrow> TransportController \<Rightarrow> TransportController" where
  "local_content desc certificate c C =
     (if ci_name c \<noteq> ci_name (hd (contents desc)) then C
      else case GetTransportInfoByName (ci_name c) desc of
             None \<Rightarrow> C
           | Some td \<Rightarrow>
               post (TaskLocalParameters (ci_name c) (ice_ufrag (ti_description td))
                       (ice_pwd (ti_description td)) certificate) C)"

text \<open>A pointer of the map is used: it must be there and its transport alive.\<close>

definition each_ice ::
    "(tid \<Rightarrow> CtlEvent) \<Rightarrow> TransportController \<Rightarrow> TransportController option" where
  "each_ice ev C =
     (if list_all (\<lambda>b. alive (snd b) C) (tc_ices C)
      then Some (ctl_log (List.map (\<lambda>b. ev (snd b)) (tc_ices C)) C) else None)"

definition on_network ::
    "bool \<Rightarrow> NetTask \<Rightarrow> (TransportController \<Rightarrow> TransportController option)
     \<Rightarrow> TransportController \<Rightarrow> TransportController option" where
  "on_network current k run C = (if current then run C else Some (post k C))"

definition set_local_sdp ::
    "bool \<Rightarrow> SessionDescription option \<Rightarrow> nat option \<Rightarrow> TransportController
     \<Rightarrow> (int \<times> TransportController) option" where
  "set_local_sdp current desc certificate C =
     (case desc of
        None \<Rightarrow> Some (-1, C)
      | Some d \<Rightarrow>
          map_option (\<lambda>C'. (0, C'))
            (on_network current TaskStartGathering (each_ice MaybeStartGathering)
              (fold (local_content d certificate) (contents d) C)))"

definition set_remote_candidate ::
    "bool \<Rightarrow> IceCandidate \<Rightarrow> TransportController \<Rightarrow> (int \<times> TransportController) option" where
  "set_remote_candidate current cand C =
     map_option (\<lambda>C'. (0, C'))
       (on_network current (TaskAddCandidate cand) (each_ice (\<lambda>n. AddTransportCandidate n cand)) C)"

definition send_rtp_packet :: "string \<Rightarrow> byte list \<Rightarrow> TransportController \<Rightarrow> int \<times> TransportController" where
  "send_rtp_packet name data C = (0, post (TaskSendRtp name data) C)"

definition send_rtcp_packet :: "string \<Rightarrow> byte list \<Rightarrow> TransportController \<Rightarrow> int \<times> TransportController" where
  "send_rtcp_packet name data C = (0, C)"

definition set_certificeate :: "nat option \<Rightarrow> TransportController \<Rightarrow> TransportController" where
  "set_certificeate cert C = C\<lparr>tc_certificate := cert\<rparr>"

section \<open>Tasks\<close>

definition media_SendRtpPacket ::
    "'w srtp_lib \<Rightarrow> packet_net \<Rightarrow> byte list \<Rightarrow> int \<Rightarrow> int \<Rightarrow> MediaTransport \<Rightarrow> 'w srtp_global
     \<Rightarrow> (bool \<times> MediaTransport \<times> 'w srtp_global) option" where
  "media_SendRtpPacket L N packet capacity flags m g =
     (case m of
        UnencryptedRtp t \<Rightarrow>
          map_option (\<lambda>(b, t'). (b, UnencryptedRtp t', g)) (rtp_SendRtpPacket N packet flags t)
      | Sdes t \<Rightarrow>
          map_option (\<lambda>(b, t', g'). (b, Sdes t', g')) (srtp_SendRtpPacket L N packet capacity flags t g)
      | DtlsSrtp t \<Rightarrow>
          map_option (\<lambda>(b, t', g'). (b, DtlsSrtp t', g'))
            (srtp_SendRtpPacket L N packet capacity flags t g))"

text \<open>A name that is not registered: the packet is dropped. The buffer has room for 2048 bytes.\<close>

definition put_object ::
    "tid \<Rightarrow> JsepTransport \<Rightarrow> (tid \<times> JsepTransport) list \<Rightarrow> (tid \<times> JsepTransport) list" where
  "put_object n J os = List.map (\<lambda>x. if fst x = n then (n, J) else x) os"

definition run_send ::
    "'w srtp_lib \<Rightarrow> dtls_net \<Rightarrow> string \<Rightarrow> byte list \<Rightarrow> TransportController \<times> 'w srtp_global
     \<Rightarrow> (TransportController \<times> 'w srtp_global) option" where
  "run_send L D name data Cg =
     (case GetTransportByName name (tc_transports (fst Cg)) of
        None \<Rightarrow> Some Cg
      | Some n \<Rightarrow>
          (case map_of (tc_objects (fst Cg)) n of
             None \<Rightarrow> None
           | Some J \<Rightarrow>
               map_option (\<lambda>(b, m, g).
                   ((fst Cg)\<lparr>tc_objects :=
                       put_object n (J\<lparr>media_transport := m\<rparr>) (tc_objects (fst Cg))\<rparr>, g))
                 (media_SendRtpPacket L (dn_packets D) data (int (max (length data) 2048)) 1
                    (media_transport J) (snd Cg))))"

fun run_task ::
    "'w srtp_lib \<Rightarrow> dtls_net \<Rightarrow> NetTask \<Rightarrow> TransportController \<times> 'w srtp_global
     \<Rightarrow> (TransportController \<times> 'w srtp_global) option" where
  "run_task L D (TaskRemoteParameters n ufrag pwd k fp) (C, g) =
     (if \<not> alive n C \<or> k \<noteq> tc_description C then None
      else case fp of
             None \<Rightarrow> None
           | Some f \<Rightarrow>
               Some (ctl_log [SetTransportRemoteIceParameters n ufrag pwd,
                              SetTransportFingerprint n f] C, g))"
| "run_task L D (TaskLocalParameters mid ufrag pwd cert) (C, g) =
     (case (map_of (tc_ices C) mid, map_of (tc_dtls_transports C) mid) of
        (Some x, Some y) \<Rightarrow>
          if alive x C \<and> alive y C
          then Some (ctl_log [SetTransportIceParameters x ufrag pwd, SetTransportCertificate y cert] C, g)
          else None
      | _ \<Rightarrow> None)"
| "run_task L D TaskStartGathering (C, g) = map_option (\<lambda>C'. (C', g)) (each_ice MaybeStartGathering C)"
| "run_task L D (TaskAddCandidate cand) (C, g) =
     map_option (\<lambda>C'. (C', g)) (each_ice (\<lambda>n. AddTransportCandidate n cand) C)"
| "run_task L D (TaskSendRtp name data) (C, g) = run_send L D name data (C, g)"

text \<open>The oldest task runs.\<close>

definition run_next ::
    "'w srtp_lib \<Rightarrow> dtls_net \<Rightarrow> TransportController \<times> 'w srtp_global
     \<Rightarrow> (TransportController \<times> 'w srtp_global) option" where
  "run_next L D Cg =
     (case tc_tasks (fst Cg) of
        [] \<Rightarrow> Some Cg
      | k # ks \<Rightarrow> run_task L D k ((fst Cg)\<lparr>tc_tasks := ks\<rparr>, snd Cg))"

section \<open>What the transports report\<close>

definition DetermineIceRole :: "TransportController \<Rightarrow> TransportInfo \<Rightarrow> SdpType \<Rightarrow> bool \<Rightarrow> IceRole" where
  "DetermineIceRole C info ty locl =
     (let ice_role =
        (if \<not> locl \<and> tc_ice_role C = ICEROLE_CONTROLLED
            \<and> ice_mode (ti_description info) = ICEMODE_LITE
         then ICEROLE_CONTROLLING else tc_ice_role C)
      in ICEROLE_CONTROLLED)"

text \<open>The role that is worked out from the description is thrown away.\<close>

lemma DetermineIceRole_controlled: "DetermineIceRole C info ty locl = ICEROLE_CONTROLLED"
  by (simp add: DetermineIceRole_def)

definition OnTransportStateChanged_n :: "tid \<Rightarrow> TransportController \<Rightarrow> TransportController" where
  "OnTransportStateChanged_n n C = ctl_log [SignalIceTransportStateChanged n] C"

definition ctl_OnRtcpPacketReceived_n ::
    "byte list \<Rightarrow> int \<Rightarrow> TransportController \<Rightarrow> TransportController" where
  "ctl_OnRtcpPacketReceived_n packet packet_time_us C =
     ctl_log [SignalRtcpPacketReceived packet packet_time_us] C"

section \<open>Pointers\<close>

text \<open>
  In good order: the collection knows each transport by the one mid it was made for, the pointer
  maps are the owner map, every object is there, and its SRTP transport sends on the DTLS
  transport made with it.
\<close>

definition object_ok :: "tid \<times> JsepTransport \<Rightarrow> bool" where
  "object_ok b \<longleftrightarrow> (case media_transport (snd b) of
     DtlsSrtp t \<Rightarrow> rtp_packet_transport t = Some (fst b) | _ \<Rightarrow> False)"

fun task_ok :: "TransportController \<Rightarrow> NetTask \<Rightarrow> bool" where
  "task_ok C (TaskRemoteParameters n u p k fp) \<longleftrightarrow> alive n C \<and> k = tc_description C \<and> fp \<noteq> None"
| "task_ok C (TaskLocalParameters mid u p c) \<longleftrightarrow> map_of (tc_ices C) mid \<noteq> None"
| "task_ok C k \<longleftrightarrow> True"

definition pointers_ok :: "TransportController \<Rightarrow> bool" where
  "pointers_ok C \<longleftrightarrow>
     mid_to_transport (tc_transports C) = transports_by_name (tc_transports C)
     \<and> stable_mid_to_transport (tc_transports C) = []
     \<and> tc_ices C = transports_by_name (tc_transports C)
     \<and> tc_dtls_transports C = transports_by_name (tc_transports C)
     \<and> smap_ok (tc_ices C) \<and> distinct (List.map snd (tc_ices C))
     \<and> fst ` set (tc_objects C) = snd ` set (tc_ices C)
     \<and> distinct (List.map fst (tc_objects C))
     \<and> (\<forall>b \<in> set (tc_objects C). fst b < tc_next C)
     \<and> list_all object_ok (tc_objects C)"

definition ctl_ok :: "TransportController \<Rightarrow> bool" where
  "ctl_ok C \<longleftrightarrow> pointers_ok C \<and> list_all (task_ok C) (tc_tasks C)"

lemma alive_iff: "pointers_ok C \<Longrightarrow> alive n C \<longleftrightarrow> n \<in> snd ` set (tc_ices C)"
  by (simp add: alive_def Transports_def pointers_ok_def)

lemma alive_put: "pointers_ok C \<Longrightarrow> tc_ices C = smap_put k n m \<Longrightarrow> alive n C"
proof -
  assume "pointers_ok C" "tc_ices C = smap_put k n m"
  moreover have "(k, n) \<in> set (smap_put k n m)" by (induction m) auto
  ultimately show "alive n C" by (force simp: alive_iff)
qed

lemma ctl_log_fields [simp]:
  "tc_ice_role (ctl_log es C) = tc_ice_role C" "tc_certificate (ctl_log es C) = tc_certificate C"
  "tc_ices (ctl_log es C) = tc_ices C"
  "tc_dtls_transports (ctl_log es C) = tc_dtls_transports C"
  "tc_transports (ctl_log es C) = tc_transports C" "tc_objects (ctl_log es C) = tc_objects C"
  "tc_next (ctl_log es C) = tc_next C" "tc_description (ctl_log es C) = tc_description C"
  "tc_tasks (ctl_log es C) = tc_tasks C" "alive n (ctl_log es C) = alive n C"
  by (simp_all add: ctl_log_def alive_def)

lemma CreateDtlsTransport_fields [simp]:
  "tc_certificate (CreateDtlsTransport n C) = tc_certificate C"
  "tc_ices (CreateDtlsTransport n C) = tc_ices C"
  "tc_dtls_transports (CreateDtlsTransport n C) = tc_dtls_transports C"
  "tc_transports (CreateDtlsTransport n C) = tc_transports C"
  "tc_objects (CreateDtlsTransport n C) = tc_objects C"
  "tc_next (CreateDtlsTransport n C) = tc_next C"
  "tc_description (CreateDtlsTransport n C) = tc_description C"
  "tc_tasks (CreateDtlsTransport n C) = tc_tasks C"
  by (simp_all add: CreateDtlsTransport_def)

lemma task_ok_cong:
  "tc_ices C' = tc_ices C \<Longrightarrow> tc_transports C' = tc_transports C \<Longrightarrow>
     tc_description C' = tc_description C \<Longrightarrow> task_ok C' k = task_ok C k"
  by (cases k) (simp_all add: alive_def)

lemma ctl_log_ok [simp]:
  "pointers_ok (ctl_log es C) = pointers_ok C" "task_ok (ctl_log es C) = task_ok C"
  "ctl_ok (ctl_log es C) = ctl_ok C"
proof -
  show a: "pointers_ok (ctl_log es C) = pointers_ok C" by (simp add: pointers_ok_def)
  show b: "task_ok (ctl_log es C) = task_ok C" by (rule ext) (rule task_ok_cong; simp)
  show "ctl_ok (ctl_log es C) = ctl_ok C" using a b by (simp add: ctl_ok_def)
qed

lemma pointers_ok_frame [simp]:
  "pointers_ok (C\<lparr>tc_tasks := ks\<rparr>) = pointers_ok C"
  "pointers_ok (C\<lparr>tc_description := k\<rparr>) = pointers_ok C"
  "pointers_ok (C\<lparr>tc_certificate := c\<rparr>) = pointers_ok C"
  by (simp_all add: pointers_ok_def)

lemma task_ok_frame [simp]:
  "task_ok (C\<lparr>tc_tasks := ks\<rparr>) = task_ok C" "task_ok (C\<lparr>tc_certificate := c\<rparr>) = task_ok C"
  "task_ok (C\<lparr>tc_objects := os\<rparr>) = task_ok C"
  by (rule ext, rule task_ok_cong; simp)+

lemma CreateDtlsSrtpTransport_Some:
  obtains t g' where "CreateDtlsSrtpTransport L D (Some n) None g = Some (t, g')"
    "rtp_packet_transport t = Some n"
proof -
  let ?t3 = "SetRtpPacketTransport (dn_packets D) (Some n) (SetRtpDtlsTransport (Some n)
      (SetRtcpPacketTransport (dn_packets D) None (SetRtcpDtlsTransport None (new_DtlsSrtpTransport True))))"
  have i: "\<not> IsSrtpActive (new_DtlsSrtpTransport True)"
    by (simp add: IsSrtpActive_def new_DtlsSrtpTransport_def new_SrtpTransport_def
        new_RtpTransport_def RtpTransport.extend_def SrtpTransport.extend_def)
  obtain t g' where m: "MaybeSetupDtlsSrtp L D (?t3, g) = (t, g')" by fastforce
  have "srtp_ok (new_DtlsSrtpTransport True)"
    by (simp add: srtp_ok_def new_DtlsSrtpTransport_def SrtpTransport.extend_def new_SrtpTransport_def
        RtpTransport.extend_def new_RtpTransport_def)
  then have "srtp_ok ?t3" by simp
  then have "outer t = outer ?t3" using MaybeSetupDtlsSrtp_inv [OF m] by blast
  then have "rtp_packet_transport t = Some n" by (simp add: outer_fields(4))
  moreover have "SetDtlsTransports L D (Some n) None (new_DtlsSrtpTransport True, g) = Some (t, g')"
    using i m by (simp add: SetDtlsTransports_def Let_def)
  ultimately show ?thesis
    by (intro that [of "SetOnDtlsStateChange True (SetActiveResetSrtpParams True t)" g'])
      (simp_all add: CreateDtlsSrtpTransport_def SetOnDtlsStateChange_def SetActiveResetSrtpParams_def)
qed


lemma RegisterTransport_new:
  assumes "mid_to_transport T = transports_by_name T" "stable_mid_to_transport T = []"
    "map_of (transports_by_name T) mid = None"
  shows "transports_by_name (RegisterTransport cb mid n T) = smap_put mid n (transports_by_name T)"
    "mid_to_transport (RegisterTransport cb mid n T) = smap_put mid n (transports_by_name T)"
    "stable_mid_to_transport (RegisterTransport cb mid n T) = []"
  using assms by (simp_all add: RegisterTransport_def SetTransportForMid_def Let_def log_event_def)

lemma reap_all_alive:
  "(\<And>b. b \<in> set (tc_objects C) \<Longrightarrow> alive (fst b) C) \<Longrightarrow> reap L (C, g) = (C, g)"
proof -
  assume a: "\<And>b. b \<in> set (tc_objects C) \<Longrightarrow> alive (fst b) C"
  have "(\<And>b. b \<in> set os \<Longrightarrow> alive (fst b) C) \<Longrightarrow>
      fold (\<lambda>b g. if alive (fst b) C then g else destroy_media L (media_transport (snd b)) g) os g = g"
    for os by (induction os) simp_all
  then have "fold (\<lambda>b g. if alive (fst b) C then g else destroy_media L (media_transport (snd b)) g)
      (tc_objects C) g = g" using a by blast
  moreover have "filter (\<lambda>b. alive (fst b) C) (tc_objects C) = tc_objects C"
    using a by (simp add: filter_id_conv)
  ultimately show ?thesis by (simp add: reap_def)
qed

lemma post_remote_fields [simp]:
  "pointers_ok (post_remote d mid n C) = pointers_ok C"
  "tc_ices (post_remote d mid n C) = tc_ices C"
  "tc_description (post_remote d mid n C) = tc_description C"
  "tc_transports (post_remote d mid n C) = tc_transports C"
  "tc_tasks (post_remote d mid n C) = tc_tasks C @ (case GetTransportInfoByName mid d of
     None \<Rightarrow> []
   | Some td \<Rightarrow> [TaskRemoteParameters n (ice_ufrag (ti_description td)) (ice_pwd (ti_description td))
       (tc_description C) (identity_fingerprint (ti_description td))])"
  by (simp_all add: post_remote_def post_def split: option.split)

text \<open>A content whose mid is new: its transport is made, and nothing else is touched.\<close>

lemma remote_content_first:
  assumes "pointers_ok C" "content_groups d \<noteq> []" "ci_name c = ci_name (hd (contents d))"
    "map_of (tc_ices C) (ci_name c) = None"
  obtains C' g' where "remote_content L D d c (C, g) = Some (C', g')" "pointers_ok C'"
    "tc_description C' = tc_description C"
    "tc_ices C' = smap_put (ci_name c) (tc_next C) (tc_ices C)"
    "tc_tasks C' = tc_tasks C @ (case GetTransportInfoByName (ci_name c) d of None \<Rightarrow> []
       | Some td \<Rightarrow> [TaskRemoteParameters (tc_next C) (ice_ufrag (ti_description td))
           (ice_pwd (ti_description td)) (tc_description C) (identity_fingerprint (ti_description td))])"
proof -
  let ?mid = "ci_name c" and ?n = "tc_next C"
  obtain t g1 where t: "CreateDtlsSrtpTransport L D (Some ?n) None g = Some (t, g1)"
    "rtp_packet_transport t = Some ?n" by (rule CreateDtlsSrtpTransport_Some)
  let ?J = "new_JsepTransport ?mid (tc_certificate C) (DtlsSrtp t) ?n None"
  let ?C1 = "ctl_log [SetTransportDtlsRole ?n SSL_CLIENT] (CreateDtlsTransport ?n C)"
  let ?C2 = "?C1\<lparr>tc_objects := tc_objects C @ [(?n, ?J)],
      tc_transports := RegisterTransport OnTransportChanged ?mid ?n (tc_transports C), tc_next := Suc ?n\<rparr>"
  let ?C3 = "?C2\<lparr>tc_ices := insert_new ?mid ?n (tc_ices C),
      tc_dtls_transports := insert_new ?mid ?n (tc_dtls_transports C)\<rparr>"
  have p: "tc_ices C = transports_by_name (tc_transports C)"
    "tc_dtls_transports C = tc_ices C" "smap_ok (tc_ices C)"
    "mid_to_transport (tc_transports C) = transports_by_name (tc_transports C)"
    "stable_mid_to_transport (tc_transports C) = []"
    "fst ` set (tc_objects C) = snd ` set (tc_ices C)"
    using assms(1) by (auto simp: pointers_ok_def)
  note reg = RegisterTransport_new [OF p(4,5), of ?mid OnTransportChanged ?n]
  have none: "map_of (transports_by_name (tc_transports C)) ?mid = None" using assms(4) p(1) by simp
  have vals: "snd ` set (smap_put ?mid ?n (tc_ices C)) = insert ?n (snd ` set (tc_ices C))"
    using assms(4) p(3) by (simp add: smap_values ran_map_upd)
  have ices: "insert_new ?mid ?n (tc_ices C) = smap_put ?mid ?n (tc_ices C)"
    using assms(4) by (simp add: insert_new_def)
  have "reap L (?C2, g1) = (?C2, g1)"
  proof (rule reap_all_alive)
    fix b assume "b \<in> set (tc_objects ?C2)"
    then have "fst b \<in> insert ?n (snd ` set (tc_ices C))" using p(6) by auto
    then show "alive (fst b) ?C2"
      using vals reg(1) [OF none] p(1) by (simp add: alive_def Transports_def)
  qed
  then have "create_transport L D ?mid (C, g) = Some (?C2, g1)"
    using t(1) by (simp add: create_transport_def Let_def)
  then have "remote_content L D d c (C, g) = Some (post_remote d ?mid ?n ?C3, g1)"
    using assms(2,3) by (simp add: remote_content_def)
  moreover have "\<forall>b \<in> set (tc_objects C). fst b < ?n" using assms(1) by (simp add: pointers_ok_def)
  then have "?n \<notin> fst ` set (tc_objects C)" by auto
  then have "\<And>m. (m, ?n) \<notin> set (transports_by_name (tc_transports C))" using p(1,6) by force
  then have "pointers_ok ?C3"
    using assms(1,4) t(2) vals ices reg [OF none] p
    by (auto simp: pointers_ok_def object_ok_def new_JsepTransport_def intro!: distinct_values_put)
  ultimately show ?thesis
    by (intro that [of "post_remote d ?mid ?n ?C3" g1]) (simp_all add: ices cong: option.case_cong)
qed


lemma remote_contents_rest:
  "content_groups d \<noteq> [] \<Longrightarrow> (\<And>c. c \<in> set cs \<Longrightarrow> ci_name c \<noteq> ci_name (hd (contents d))) \<Longrightarrow>
     remote_contents L D d cs Cg = Some Cg"
  by (induction cs) (simp_all add: remote_content_def)

section \<open>Runs\<close>

datatype CtlCall =
    CT_Remote SessionDescription
  | CT_Local bool SessionDescription "nat option"
  | CT_Candidate bool IceCandidate
  | CT_SendRtp string "byte list"
  | CT_Certificate "nat option"
  | CT_RunNext

text \<open>A new remote description replaces the one the peer connection had.\<close>

fun ctl_call ::
    "'w srtp_lib \<Rightarrow> dtls_net \<Rightarrow> CtlCall \<Rightarrow> TransportController \<times> 'w srtp_global
     \<Rightarrow> (TransportController \<times> 'w srtp_global) option" where
  "ctl_call L D (CT_Remote d) (C, g) =
     map_option snd (set_remote_sdp L D (Some d) (C\<lparr>tc_description := Suc (tc_description C)\<rparr>, g))"
| "ctl_call L D (CT_Local cur d cert) (C, g) =
     map_option (\<lambda>(_, C'). (C', g)) (set_local_sdp cur (Some d) cert C)"
| "ctl_call L D (CT_Candidate cur cand) (C, g) =
     map_option (\<lambda>(_, C'). (C', g)) (set_remote_candidate cur cand C)"
| "ctl_call L D (CT_SendRtp name data) (C, g) = Some (snd (send_rtp_packet name data C), g)"
| "ctl_call L D (CT_Certificate cert) (C, g) = Some (set_certificeate cert C, g)"
| "ctl_call L D CT_RunNext (C, g) = run_next L D (C, g)"

fun ctl_run ::
    "'w srtp_lib \<Rightarrow> (dtls_net \<times> CtlCall) list \<Rightarrow> TransportController \<times> 'w srtp_global
     \<Rightarrow> (TransportController \<times> 'w srtp_global) option" where
  "ctl_run L [] Cg = Some Cg"
| "ctl_run L (c # cs) Cg = Option.bind (ctl_call L (fst c) (snd c) Cg) (ctl_run L cs)"

text \<open>
  What the caller must see to: a remote description has a bundle group, begins with a mid no
  earlier one began with and has it once, has a fingerprint for it, and does not come while the
  parameters of the one it replaces are still to be applied; a local description begins with a
  mid that was made.
\<close>

fun is_remote_task :: "NetTask \<Rightarrow> bool" where
  "is_remote_task (TaskRemoteParameters n u p k fp) = True"
| "is_remote_task k = False"

lemma task_ok_mono:
  "\<not> is_remote_task k \<Longrightarrow> task_ok C k \<Longrightarrow>
     (\<And>m. map_of (tc_ices C) m \<noteq> None \<Longrightarrow> map_of (tc_ices C') m \<noteq> None) \<Longrightarrow> task_ok C' k"
  by (cases k) simp_all

fun proper_ctl_call :: "CtlCall \<Rightarrow> TransportController \<Rightarrow> bool" where
  "proper_ctl_call (CT_Remote d) C \<longleftrightarrow>
     \<not> list_ex is_remote_task (tc_tasks C)
     \<and> content_groups d \<noteq> []
     \<and> (case contents d of
          [] \<Rightarrow> True
        | c # cs \<Rightarrow>
            map_of (tc_ices C) (ci_name c) = None \<and> ci_name c \<notin> set (List.map ci_name cs)
            \<and> (case GetTransportInfoByName (ci_name c) d of
                 None \<Rightarrow> True | Some td \<Rightarrow> identity_fingerprint (ti_description td) \<noteq> None))"
| "proper_ctl_call (CT_Local cur d cert) C \<longleftrightarrow>
     (case contents d of
        [] \<Rightarrow> True
      | c # cs \<Rightarrow> GetTransportInfoByName (ci_name c) d \<noteq> None \<longrightarrow> map_of (tc_ices C) (ci_name c) \<noteq> None)"
| "proper_ctl_call c C \<longleftrightarrow> True"

fun proper_ctl_run ::
    "'w srtp_lib \<Rightarrow> (dtls_net \<times> CtlCall) list \<Rightarrow> TransportController \<times> 'w srtp_global \<Rightarrow> bool" where
  "proper_ctl_run L [] Cg \<longleftrightarrow> True"
| "proper_ctl_run L (c # cs) Cg \<longleftrightarrow>
     proper_ctl_call (snd c) (fst Cg)
     \<and> (case ctl_call L (fst c) (snd c) Cg of None \<Rightarrow> True | Some Cg' \<Rightarrow> proper_ctl_run L cs Cg')"

lemma old_tasks_ok:
  assumes "ctl_ok C" "\<not> list_ex is_remote_task (tc_tasks C)" "k \<in> set (tc_tasks C)"
    "\<And>m. map_of (tc_ices C) m \<noteq> None \<Longrightarrow> map_of (tc_ices C') m \<noteq> None"
  shows "task_ok C' k"
proof (rule task_ok_mono)
  show "\<not> is_remote_task k" using assms(2,3) by (auto simp: list_ex_iff)
  show "task_ok C k" using assms(1,3) by (auto simp: ctl_ok_def list_all_iff)
qed (rule assms(4))

lemma CT_Remote_ok:
  assumes "ctl_ok C" "proper_ctl_call (CT_Remote d) C"
  shows "\<exists>C' g'. ctl_call L D (CT_Remote d) (C, g) = Some (C', g') \<and> ctl_ok C'"
proof (cases "contents d")
  case Nil
  let ?C = "C\<lparr>tc_description := Suc (tc_description C)\<rparr>"
  have "task_ok ?C k" if "k \<in> set (tc_tasks C)" for k
    by (rule old_tasks_ok [OF assms(1) _ that]) (use assms(2) in simp_all)
  then have "ctl_ok ?C" using assms(1) by (simp add: ctl_ok_def list_all_iff)
  then show ?thesis using Nil by (simp add: set_remote_sdp_def)
next
  case (Cons c cs)
  let ?C = "C\<lparr>tc_description := Suc (tc_description C)\<rparr>"
  have p: "pointers_ok ?C" "content_groups d \<noteq> []" "ci_name c = ci_name (hd (contents d))"
    "map_of (tc_ices ?C) (ci_name c) = None"
    using assms Cons by (simp_all add: ctl_ok_def)
  obtain C' g' where c: "remote_content L D d c (?C, g) = Some (C', g')" "pointers_ok C'"
    "tc_description C' = tc_description ?C"
    "tc_ices C' = smap_put (ci_name c) (tc_next ?C) (tc_ices ?C)"
    "tc_tasks C' = tc_tasks ?C @ (case GetTransportInfoByName (ci_name c) d of None \<Rightarrow> []
       | Some td \<Rightarrow> [TaskRemoteParameters (tc_next ?C) (ice_ufrag (ti_description td))
           (ice_pwd (ti_description td)) (tc_description ?C) (identity_fingerprint (ti_description td))])"
    by (rule remote_content_first [OF p])
  have new: "alive (tc_next C) C'"
    using c(2,4) by (simp add: alive_put)
  have old: "task_ok C' k" if "k \<in> set (tc_tasks C)" for k
    by (rule old_tasks_ok [OF assms(1) _ that]) (use assms(2) c(4) in simp_all)
  have "task_ok C' k" if k: "k \<in> set (tc_tasks C')" for k
  proof (cases "k \<in> set (tc_tasks C)")
    case True
    then show ?thesis by (rule old)
  next
    case False
    then obtain td where td: "GetTransportInfoByName (ci_name c) d = Some td"
      "k = TaskRemoteParameters (tc_next C) (ice_ufrag (ti_description td))
         (ice_pwd (ti_description td)) (Suc (tc_description C)) (identity_fingerprint (ti_description td))"
      using k c(5) by (auto split: option.splits)
    then have "identity_fingerprint (ti_description td) \<noteq> None" using assms(2) Cons by simp
    then show ?thesis using td(2) new c(3) by simp
  qed
  then have "ctl_ok C'" using c(2) by (simp add: ctl_ok_def list_all_iff)
  moreover have "remote_contents L D d cs (C', g') = Some (C', g')"
    using assms(2) Cons by (intro remote_contents_rest) (auto simp: image_iff)
  ultimately show ?thesis using c(1) Cons by (simp add: set_remote_sdp_def)
qed

lemma each_ice_ok:
  assumes "pointers_ok C"
  shows "\<exists>C'. each_ice ev C = Some C' \<and> ctl_ok C' = ctl_ok C"
  using assms by (auto simp: each_ice_def alive_iff list_all_iff)

lemma post_ices [simp]: "tc_ices (post k C) = tc_ices C"
  by (simp add: post_def)

lemma post_ok: "ctl_ok (post k C) \<longleftrightarrow> ctl_ok C \<and> task_ok C k"
  by (auto simp: post_def ctl_ok_def)


lemma fold_local_content_ok:
  "ctl_ok C \<Longrightarrow>
     (\<And>td. GetTransportInfoByName (ci_name (hd (contents d))) d = Some td \<Longrightarrow>
        map_of (tc_ices C) (ci_name (hd (contents d))) \<noteq> None) \<Longrightarrow>
     ctl_ok (fold (local_content d cert) cs C)"
proof (induction cs arbitrary: C)
  case Nil
  then show ?case by simp
next
  case (Cons c cs)
  have "ctl_ok (local_content d cert c C) \<and> tc_ices (local_content d cert c C) = tc_ices C"
    using Cons.prems by (auto simp: local_content_def post_ok split: option.split)
  then show ?case using Cons by simp
qed

lemma put_object_keys [simp]:
  "List.map fst (put_object n J os) = List.map fst os" "fst ` set (put_object n J os) = fst ` set os"
  "(\<forall>b \<in> set (put_object n J os). fst b < i) = (\<forall>b \<in> set os. fst b < i)"
  by (induction os) (auto simp: put_object_def)

lemma run_send_ok:
  assumes "ctl_ok C"
  shows "\<exists>C' g'. run_send L D name data (C, g) = Some (C', g') \<and> ctl_ok C'"
proof (cases "GetTransportByName name (tc_transports C)")
  case None
  then show ?thesis using assms by (simp add: run_send_def)
next
  case (Some n)
  have p: "pointers_ok C" "\<forall>k \<in> set (tc_tasks C). task_ok C k"
    using assms by (simp_all add: ctl_ok_def list_all_iff)
  have "n \<in> fst ` set (tc_objects C)"
  proof -
    have "(name, n) \<in> set (transports_by_name (tc_transports C))"
      using Some by (simp add: GetTransportByName_def map_of_SomeD)
    moreover have "fst ` set (tc_objects C) = snd ` set (transports_by_name (tc_transports C))"
      using p(1) by (auto simp: pointers_ok_def)
    ultimately show ?thesis by force
  qed
  then obtain J where J: "(n, J) \<in> set (tc_objects C)" by auto
  moreover have "distinct (List.map fst (tc_objects C))" "list_all object_ok (tc_objects C)"
    using p(1) by (simp_all add: pointers_ok_def)
  ultimately have m: "map_of (tc_objects C) n = Some J" "object_ok (n, J)"
    by (simp_all add: list_all_iff)
  then obtain t where t: "media_transport J = DtlsSrtp t" "rtp_packet_transport t = Some n"
    by (auto simp: object_ok_def split: MediaTransport.splits)
  obtain b t' g' where s: "srtp_SendRtpPacket L (dn_packets D) data (int (max (length data) 2048)) 1 t g
      = Some (b, t', g')"
  proof (cases "srtp_SendRtpPacket L (dn_packets D) data (int (max (length data) 2048)) 1 t g")
    case None
    then have False using t(2)
      by (auto simp: srtp_SendRtpPacket_def SendPacket_def transport_for_def Let_def
          split: if_splits prod.splits bool.splits option.splits dest!: outer_protect(1)
          dest: outer_fields(4))
    then show ?thesis ..
  next
    case (Some r)
    then show ?thesis using that by (cases r) auto
  qed
  have o: "rtp_packet_transport t' = Some n"
    using outer_fields(4) [OF outer_Send(1) [OF s]] t(2) by simp
  let ?C = "C\<lparr>tc_objects := put_object n (J\<lparr>media_transport := DtlsSrtp t'\<rparr>) (tc_objects C)\<rparr>"
  have "list_all object_ok (tc_objects ?C)"
    using p(1) o by (auto simp: pointers_ok_def list_all_iff put_object_def object_ok_def)
  then have "pointers_ok ?C" using p(1) by (auto simp: pointers_ok_def)
  then have "ctl_ok ?C" using p(2) by (simp add: ctl_ok_def list_all_iff)
  then show ?thesis using Some m(1) t(1) s by (simp add: run_send_def media_SendRtpPacket_def)
qed

lemma run_task_ok:
  assumes "ctl_ok C" "task_ok C k"
  shows "\<exists>C' g'. run_task L D k (C, g) = Some (C', g') \<and> ctl_ok C'"
proof (cases k)
  case (TaskRemoteParameters n u p j fp)
  then show ?thesis using assms by auto
next
  case (TaskLocalParameters mid u p cert)
  have p: "pointers_ok C" using assms(1) by (simp add: ctl_ok_def)
  then have "tc_dtls_transports C = tc_ices C" by (simp add: pointers_ok_def)
  moreover obtain x where "map_of (tc_ices C) mid = Some x"
    using assms(2) TaskLocalParameters by auto
  moreover have "alive x C"
    using map_of_SomeD [OF calculation(2)] p by (force simp: alive_iff)
  ultimately show ?thesis using assms(1) TaskLocalParameters by simp
next
  case TaskStartGathering
  then show ?thesis using each_ice_ok assms(1) by (fastforce simp: ctl_ok_def)
next
  case (TaskAddCandidate cand)
  then show ?thesis using each_ice_ok assms(1) by (fastforce simp: ctl_ok_def)
next
  case (TaskSendRtp name data)
  then show ?thesis using run_send_ok [OF assms(1)] by simp
qed


lemma on_network_ok:
  assumes "ctl_ok C" "task_ok C k" "\<exists>C'. run C = Some C' \<and> ctl_ok C'"
  shows "\<exists>C'. on_network cur k run C = Some C' \<and> ctl_ok C'"
  using assms by (cases cur) (simp_all add: on_network_def post_ok)

lemma each_ice_ctl_ok: "ctl_ok C \<Longrightarrow> \<exists>C'. each_ice ev C = Some C' \<and> ctl_ok C'"
  using each_ice_ok [of C ev] by (auto simp: ctl_ok_def)

lemma ctl_call_ok:
  assumes "ctl_ok C" "proper_ctl_call c C"
  shows "\<exists>C' g'. ctl_call L D c (C, g) = Some (C', g') \<and> ctl_ok C'"
proof (cases c)
  case (CT_Remote d)
  then show ?thesis using CT_Remote_ok [OF assms(1)] assms(2) by blast
next
  case (CT_Local cur d cert)
  let ?C = "fold (local_content d cert) (contents d) C"
  have "ctl_ok ?C"
  proof (cases "contents d")
    case Nil
    then show ?thesis using assms(1) by simp
  next
    case (Cons x xs)
    then show ?thesis
      using assms CT_Local by (intro fold_local_content_ok) (auto simp del: fold_simps)
  qed
  then obtain C' where "on_network cur TaskStartGathering (each_ice MaybeStartGathering) ?C = Some C'"
    "ctl_ok C'" using on_network_ok each_ice_ctl_ok by (metis task_ok.simps(3))
  then show ?thesis by (simp add: CT_Local set_local_sdp_def)
next
  case (CT_Candidate cur cand)
  obtain C' where "on_network cur (TaskAddCandidate cand) (each_ice (\<lambda>n. AddTransportCandidate n cand)) C
      = Some C'" "ctl_ok C'"
    using on_network_ok [OF assms(1)] each_ice_ctl_ok [OF assms(1)] by (metis task_ok.simps(4))
  then show ?thesis by (simp add: CT_Candidate set_remote_candidate_def)
next
  case (CT_SendRtp name data)
  then show ?thesis using assms(1) by (simp add: send_rtp_packet_def post_ok)
next
  case (CT_Certificate cert)
  then show ?thesis using assms(1) by (simp add: set_certificeate_def ctl_ok_def)
next
  case CT_RunNext
  show ?thesis
  proof (cases "tc_tasks C")
    case Nil
    then show ?thesis using assms(1) CT_RunNext by (simp add: run_next_def)
  next
    case (Cons k ks)
    then have "ctl_ok (C\<lparr>tc_tasks := ks\<rparr>)" "task_ok (C\<lparr>tc_tasks := ks\<rparr>) k"
      using assms(1) by (simp_all add: ctl_ok_def)
    from run_task_ok [OF this] show ?thesis using Cons CT_RunNext by (simp add: run_next_def)
  qed
qed

interpretation ctl_seq: guarded_run "\<lambda>c. ctl_call L (fst c) (snd c)" "ctl_run L"
    "\<lambda>c Cg. proper_ctl_call (snd c) (fst Cg)" "proper_ctl_run L" for L
  by unfold_locales simp_all

lemma ctl_run_ok:
  assumes "ctl_ok C" "proper_ctl_run L cs (C, g)"
  shows "\<exists>C' g'. ctl_run L cs (C, g) = Some (C', g') \<and> ctl_ok C'"
proof -
  have "\<exists>Cg'. ctl_run L cs (C, g) = Some Cg' \<and> ctl_ok (fst Cg')"
    by (rule ctl_seq.run_returns [OF assms(2)]) (use assms(1) ctl_call_ok in \<open>fastforce+\<close>)
  then show ?thesis by auto
qed

text \<open>A mid that has a transport gets another: the one it had is destroyed.\<close>

lemma RegisterTransport_replaces:
  assumes "pointers_ok C" "map_of (tc_ices C) mid = Some old"
  shows "old \<notin> set (Transports (RegisterTransport cb mid (tc_next C) (tc_transports C)))"
proof -
  let ?T = "tc_transports C" and ?n = "tc_next C"
  let ?R = "RegisterTransport cb mid ?n ?T"
  have T: "mid_to_transport ?T = transports_by_name ?T" "stable_mid_to_transport ?T = []"
    "smap_ok (transports_by_name ?T)" "distinct (List.map snd (transports_by_name ?T))"
    "map_of (transports_by_name ?T) mid = Some old"
    using assms by (auto simp: pointers_ok_def)
  have ids: "\<forall>b \<in> set (tc_objects C). fst b < ?n"
    "fst ` set (tc_objects C) = snd ` set (transports_by_name ?T)"
    using assms(1) by (auto simp: pointers_ok_def)
  have only: "b \<in> set (transports_by_name ?T) \<Longrightarrow> snd b = old \<Longrightarrow> fst b = mid" for b
    using T(3-5) smap_in_set_iff [OF T(3), of mid old] unfolding distinct_map
    by (metis inj_onD snd_conv fst_conv)
  have "?n \<notin> fst ` set (tc_objects C)" using ids(1) by auto
  then have n: "?n \<notin> snd ` set (transports_by_name ?T)" using ids(2) by simp
  have "old \<in> snd ` set (transports_by_name ?T)" using map_of_SomeD [OF T(5)] by force
  then have "old \<noteq> ?n" using n by metis
  have "coll_ok ?T" using T by (simp add: coll_ok_def)
  moreover have "may_register mid ?n ?T"
    using n T only by (auto simp: may_register_def smap_set_del)
  ultimately have "owned ?R = used ?R"
    using RegisterTransport_ok [of ?T mid ?n cb] by (simp add: coll_ok_alt)
  also have "used ?R = snd ` set (smap_put mid ?n (transports_by_name ?T))"
    using T(1,2,5) \<open>old \<noteq> ?n\<close>
    by (simp add: used_def RegisterTransport_def SetTransportForMid_def Let_def split: option.split)
  finally have "owned ?R = insert ?n (snd ` {b \<in> set (transports_by_name ?T). fst b \<noteq> mid})"
    using T(3) by (simp add: values_put)
  then have "old \<notin> owned ?R" using \<open>old \<noteq> ?n\<close> only by auto
  then show ?thesis by (simp add: Transports_def owned_def)
qed

section \<open>Properties\<close>


definition demo_remote :: SessionDescription where
  "demo_remote = \<lparr>contents = [parsed_content MEDIA_TYPE_AUDIO ''audio'',
       parsed_content MEDIA_TYPE_VIDEO ''video''],
     transport_infos = [\<lparr>ti_content_name = ''audio'', ti_description = empty_description
        \<lparr>identity_fingerprint := Some \<lparr>fp_algorithm = ''sha-256'', fp_digest = [1]\<rparr>\<rparr>\<rparr>],
     content_groups = [\<lparr>semantics = ''BUNDLE'', content_names = [''audio'', ''video'']\<rparr>]\<rparr>"

definition demo_ctl_calls :: "(dtls_net \<times> CtlCall) list" where
  "demo_ctl_calls = [(demo_dtls, CT_Remote demo_remote), (demo_dtls, CT_RunNext),
     (demo_dtls, CT_Local False demo_remote (Some 1)), (demo_dtls, CT_RunNext), (demo_dtls, CT_RunNext)]"


lemmas ctl_demo_defs = demo_ctl_calls_def demo_remote_def set_remote_sdp_def remote_content_def
  create_transport_def CreateDtlsTransport_def CreateDtlsSrtpTransport_def post_remote_def post_def
  GetTransportInfoByName_def reap_def RegisterTransport_def SetTransportForMid_def Transports_def
  insert_new_def alive_def new_TransportController_def empty_Collection_def parsed_content_def
  ctl_log_def run_next_def set_local_sdp_def local_content_def on_network_def each_ice_def
  log_event_def OnTransportChanged_def


text \<open>A second remote description that begins with the same mid leaves dangling pointers. The
  transport of the first is destroyed, but the map of ICE transports keeps pointing to it, and
  every later candidate, or the start of gathering, uses a transport that is gone.\<close>

theorem controller_second_description_dangles:
  assumes "ctl_ok C" "contents d = c # cs" "ci_name c \<notin> set (List.map ci_name cs)"
    "content_groups d \<noteq> []" "map_of (tc_ices C) (ci_name c) = Some old"
  shows "\<exists>C' g'. ctl_call L D (CT_Remote d) (C, g) = Some (C', g')
    \<and> map_of (tc_ices C') (ci_name c) = Some old \<and> \<not> alive old C'
    \<and> run_task L D TaskStartGathering (C', g') = None
    \<and> run_task L D (TaskAddCandidate cand) (C', g') = None"
proof -
  let ?C = "C\<lparr>tc_description := Suc (tc_description C)\<rparr>" and ?mid = "ci_name c"
  have p: "pointers_ok C" using assms(1) by (simp add: ctl_ok_def)
  obtain t g1 where t: "CreateDtlsSrtpTransport L D (Some (tc_next C)) None g = Some (t, g1)"
    by (rule CreateDtlsSrtpTransport_Some)
  obtain C1 g2 where r: "create_transport L D ?mid (?C, g) = Some (C1, g2)"
    "tc_transports C1 = RegisterTransport OnTransportChanged ?mid (tc_next C) (tc_transports C)"
    "tc_ices C1 = tc_ices C"
    using t by (simp add: create_transport_def Let_def reap_def)
  let ?C2 = "C1\<lparr>tc_ices := insert_new ?mid (tc_next C) (tc_ices C1),
      tc_dtls_transports := insert_new ?mid (tc_next C) (tc_dtls_transports C1)\<rparr>"
  let ?C' = "post_remote d ?mid (tc_next C) ?C2"
  have "remote_content L D d c (?C, g) = Some (?C', g2)"
    using r(1) assms(2,4) by (simp add: remote_content_def)
  moreover have "remote_contents L D d cs (?C', g2) = Some (?C', g2)"
    using assms(2-4) by (intro remote_contents_rest) (auto simp: image_iff)
  ultimately have call: "ctl_call L D (CT_Remote d) (C, g) = Some (?C', g2)"
    using assms(2) by (simp add: set_remote_sdp_def)
  have i: "tc_ices ?C' = tc_ices C" using r(3) assms(5) by (simp add: insert_new_def)
  have dead: "\<not> alive old ?C'"
    using RegisterTransport_replaces [OF p assms(5)] by (simp add: alive_def r(2))
  have "(?mid, old) \<in> set (tc_ices ?C')" using assms(5) i by (simp add: map_of_SomeD)
  then have "\<not> list_all (\<lambda>b. alive (snd b) ?C') (tc_ices ?C')" using dead by (force simp: list_all_iff)
  then have "each_ice ev ?C' = None" for ev by (simp only: each_ice_def if_False)
  then show ?thesis using call i dead assms(5) by auto
qed

theorem controller_second_description_dangles_witness:
  "\<exists>C g. ctl_run demo_lib [(demo_dtls, CT_Remote demo_remote), (demo_dtls, CT_RunNext),
        (demo_dtls, CT_Remote demo_remote)] (new_TransportController, demo_global) = Some (C, g)
     \<and> map_of (tc_ices C) ''audio'' = Some 0 \<and> \<not> alive 0 C"
proof -
  let ?one = "[(demo_dtls, CT_Remote demo_remote), (demo_dtls, CT_RunNext)]"
  have ok: "ctl_ok new_TransportController"
    by (simp add: ctl_ok_def pointers_ok_def new_TransportController_def empty_Collection_def)
  have "proper_ctl_run demo_lib ?one (new_TransportController, demo_global)"
    by (simp add: ctl_demo_defs dtls_demo_defs srtp_demo_defs rtp_demo_defs Let_def
        SetOnDtlsStateChange_def SetActiveResetSrtpParams_def empty_description_def)
  from ctl_run_ok [OF ok this] obtain C g where
    c: "ctl_run demo_lib ?one (new_TransportController, demo_global) = Some (C, g)" "ctl_ok C" by blast
  have "map_option (\<lambda>x. tc_ices (fst x)) (ctl_run demo_lib ?one (new_TransportController, demo_global))
      = Some [(''audio'', 0)]"
    by (simp add: ctl_demo_defs dtls_demo_defs srtp_demo_defs rtp_demo_defs Let_def
        SetOnDtlsStateChange_def SetActiveResetSrtpParams_def empty_description_def)
  then have i: "map_of (tc_ices C) ''audio'' = Some 0" using c(1) by simp
  have d: "contents demo_remote = [parsed_content MEDIA_TYPE_AUDIO ''audio'',
       parsed_content MEDIA_TYPE_VIDEO ''video'']" "content_groups demo_remote \<noteq> []"
    by (simp_all add: demo_remote_def)
  have n: "ci_name (parsed_content MEDIA_TYPE_AUDIO ''audio'') = ''audio''"
    "''audio'' \<notin> set (List.map ci_name [parsed_content MEDIA_TYPE_VIDEO ''video''])"
    by (simp_all add: parsed_content_def)
  from controller_second_description_dangles [OF c(2) d(1) _ d(2), unfolded n(1), OF n(2) i,
      of demo_lib demo_dtls g undefined]
  show ?thesis using c(1) by (auto simp: bind_eq_Some_conv)
qed

end
