(* ===== verification/PeerConnection.thy ===== *)
theory PeerConnection
  imports TransportController
begin

text \<open>
  The peer connection (cp2p_peerconnection.cpp): it makes the offer, reads the answer, gives both
  to the transport controller, numbers the packets of encoded frames and of padding, reports each
  to the transport feedback and sends what the pacer hands back.

  Random strings and numbers, the certificate and its fingerprint are the record \<open>offer_env\<close>; the
  packetizer, the size and the bytes of a packet of libmedia_transfer_protocol are the record
  \<open>rtp_lib\<close>. Objects made by tasks posted to the network thread are missing until the task has
  run; using a missing one is undefined, and the call is then \<open>None\<close>, as it is when an exception
  leaves it.
\<close>

section \<open>Options and environment\<close>

record RTCOfferAnswerOptions =
  send_audio :: bool
  send_video :: bool
  recv_audio :: bool
  recv_video :: bool
  use_rtp_mux :: bool
  use_rtcp_mux :: bool
  dtls_on :: bool

record offer_env =
  oe_cname :: string
  oe_ufrag :: string
  oe_pwd :: string
  oe_certificate :: "nat option"
  oe_fingerprint :: "nat \<Rightarrow> SSLFingerprint option"
  oe_audio_stream :: string
  oe_video_stream :: string
  oe_audio_ssrc :: ssrc
  oe_video_ssrc :: ssrc
  oe_rtx_ssrc :: ssrc

definition GetDirection :: "bool \<Rightarrow> bool \<Rightarrow> RtpTransceiverDirection" where
  "GetDirection send recv =
     (if send \<and> recv then kSendRecv else if send \<and> \<not> recv then kSendOnly
      else if \<not> send \<and> recv then kRecvOnly else kInactive)"

section \<open>The offer\<close>

definition audio_codec :: Codec where
  "audio_codec = \<lparr>codec_id = 111, codec_name = ''opus'', codec_clockrate = 48000, codec_channels = 2,
     feedback_params = [(''transport-cc'', '''')],
     codec_params = [(''minptime'', ''10''), (''useinbandfec'', ''1'')]\<rparr>"

text \<open>A video codec has no channels; its record says 1.\<close>

definition video_codec :: Codec where
  "video_codec = \<lparr>codec_id = 107, codec_name = ''H264'', codec_clockrate = 90000, codec_channels = 1,
     feedback_params = [(''goog-remb'', ''''), (''transport-cc'', ''''), (''ccm'', ''fir''),
       (''nack'', ''''), (''nack'', ''pli'')],
     codec_params = [(''level-asymmetry-allowed'', ''1''), (''packetization-mode'', ''1''),
       (''profile-level-id'', ''42e01f'')]\<rparr>"

definition video_rtx_codec :: Codec where
  "video_rtx_codec = \<lparr>codec_id = 99, codec_name = ''rtx'', codec_clockrate = 90000, codec_channels = 1,
     feedback_params = [], codec_params = [(''apt'', show_int (codec_id video_codec))]\<rparr>"

definition offer_transport :: "offer_env \<Rightarrow> nat \<Rightarrow> string \<Rightarrow> TransportInfo" where
  "offer_transport E cert name =
     \<lparr>ti_content_name = name,
      ti_description = \<lparr>ice_ufrag = oe_ufrag E, ice_pwd = oe_pwd E, ice_mode = ICEMODE_FULL,
        connection_role = CONNECTIONROLE_ACTIVE, identity_fingerprint = oe_fingerprint E cert\<rparr>\<rparr>"

definition offer_content :: "string \<Rightarrow> MediaContentDescription \<Rightarrow> ContentInfo" where
  "offer_content name d = \<lparr>ci_name = name, ci_type = Proto_kRtp, ci_rejected = False,
     ci_bundle_only = False, ci_description = Some d\<rparr>"

definition audio_stream :: "offer_env \<Rightarrow> string \<Rightarrow> StreamParams" where
  "audio_stream E sid = \<lparr>stream_id = oe_audio_stream E, stream_ids = [sid],
     stream_ssrcs = [oe_audio_ssrc E], ssrc_groups = [], stream_cname = oe_cname E\<rparr>"

definition video_streams :: "offer_env \<Rightarrow> string \<Rightarrow> StreamParams list" where
  "video_streams E sid =
     [\<lparr>stream_id = oe_video_stream E, stream_ids = [sid], stream_ssrcs = [oe_video_ssrc E],
       ssrc_groups = [\<lparr>group_semantics = ''FID'', group_ssrcs = [oe_video_ssrc E, oe_rtx_ssrc E]\<rparr>],
       stream_cname = oe_cname E\<rparr>,
      \<lparr>stream_id = oe_video_stream E, stream_ids = [sid], stream_ssrcs = [oe_rtx_ssrc E],
       ssrc_groups = [], stream_cname = oe_cname E\<rparr>]"

definition offer_audio :: "offer_env \<Rightarrow> RTCOfferAnswerOptions \<Rightarrow> string \<Rightarrow> ContentInfo" where
  "offer_audio E opts sid =
     offer_content ''audio''
       \<lparr>media_type = MEDIA_TYPE_AUDIO, rtcp_mux = use_rtcp_mux opts,
        direction = GetDirection (send_audio opts) (recv_audio opts), codecs = [audio_codec],
        send_streams = (if send_audio opts then [audio_stream E sid] else [])\<rparr>"

text \<open>The codecs are only added when video is sent.\<close>

definition offer_video :: "offer_env \<Rightarrow> RTCOfferAnswerOptions \<Rightarrow> string \<Rightarrow> ContentInfo" where
  "offer_video E opts sid =
     offer_content ''video''
       \<lparr>media_type = MEDIA_TYPE_VIDEO, rtcp_mux = use_rtcp_mux opts,
        direction = GetDirection (send_video opts) (recv_video opts),
        codecs = (if send_video opts then [video_codec, video_rtx_codec] else []),
        send_streams = (if send_video opts then video_streams E sid else [])\<rparr>"

definition has_audio :: "RTCOfferAnswerOptions \<Rightarrow> bool" where
  "has_audio opts \<longleftrightarrow> send_audio opts \<or> recv_audio opts"

definition has_video :: "RTCOfferAnswerOptions \<Rightarrow> bool" where
  "has_video opts \<longleftrightarrow> send_video opts \<or> recv_video opts"

definition offer_description ::
    "offer_env \<Rightarrow> nat \<Rightarrow> RTCOfferAnswerOptions \<Rightarrow> string \<Rightarrow> SessionDescription" where
  "offer_description E cert opts sid =
     (let cs = (if has_audio opts then [offer_audio E opts sid] else [])
               @ (if has_video opts then [offer_video E opts sid] else [])
      in \<lparr>contents = cs,
          transport_infos = (if has_audio opts then [offer_transport E cert ''audio''] else [])
            @ (if has_video opts then [offer_transport E cert ''video''] else []),
          content_groups =
            (if use_rtp_mux opts \<and> cs \<noteq> []
             then [\<lparr>semantics = ''BUNDLE'', content_names = List.map ci_name cs\<rparr>] else [])\<rparr>)"

section \<open>Packets\<close>

datatype RtpPacketMediaType = MT_kAudio | MT_kVideo | MT_kRetransmission | MT_kForwardErrorCorrection | MT_kPadding

record RtpPacketToSend =
  pkt_payload_type :: "8 word"
  pkt_timestamp :: "32 word"
  pkt_ssrc :: ssrc
  pkt_sequence_number :: "16 word"
  pkt_transport_seq :: "16 word option"
  pkt_type :: "RtpPacketMediaType option"
  pkt_marker :: bool
  pkt_payload :: "byte list"
  pkt_padding :: nat

record RtpPacketSendInfo =
  si_transport_sequence_number :: "16 word"
  si_rtp_timestamp :: "32 word"
  si_length :: nat
  si_packet_type :: "RtpPacketMediaType option"
  si_media_ssrc :: "ssrc option"
  si_rtp_sequence_number :: "16 word option"

text \<open>\<open>rl_packetize\<close>: payload and marker of the packets of a frame, in order.\<close>

record rtp_lib =
  rl_packetize :: "byte list \<Rightarrow> (byte list \<times> bool) list"
  rl_size :: "RtpPacketToSend \<Rightarrow> nat"
  rl_data :: "RtpPacketToSend \<Rightarrow> byte list"

datatype IceTransportState = STATE_COMPLETED | STATE_FAILED | STATE_OTHER

datatype PcEvent =
    OnAddPacket RtpPacketSendInfo
  | EnqueuePacket "RtpPacketToSend list"
  | OnSentPacketInfo "16 word option"
  | OnNetworkOk bool
  | IncomingRtcpPacket "byte list"
  | OnRttUpdate int int
  | OnReceiverReportBlocks nat int
  | SignalTargetTransferRate nat

record PeerConnection =
  pc_remote :: Remote
  local_desc :: "SessionDescription option"
  pc_controller :: "TransportController option"
  local_audio_ssrc :: ssrc
  local_video_ssrc :: ssrc
  local_video_rtx_ssrc :: ssrc
  video_rtx_pt :: "8 word"
  pc_certificate :: "nat option"
  video_seq :: "16 word"
  audio_seq :: "16 word"
  transprot_seq :: "16 word"
  ice_state :: bool
  has_transport_send :: bool
  rtp_rtcp_ssrc :: "ssrc option"
  pc_log :: "PcEvent list"

text \<open>On the network thread the controller is made at once, otherwise by a task.\<close>

definition new_PeerConnection :: "bool \<Rightarrow> PeerConnection" where
  "new_PeerConnection on_network_thread =
     \<lparr>pc_remote = \<lparr>remote_desc = None, audio_pt = 0, video_pt = 0\<rparr>, local_desc = None,
      pc_controller = (if on_network_thread then Some new_TransportController else None),
      local_audio_ssrc = 0, local_video_ssrc = 0, local_video_rtx_ssrc = 0, video_rtx_pt = 0,
      pc_certificate = None, video_seq = 1000, audio_seq = 1000, transprot_seq = 1000,
      ice_state = False, has_transport_send = False, rtp_rtcp_ssrc = None, pc_log = []\<rparr>"

definition controller_made :: "PeerConnection \<Rightarrow> PeerConnection" where
  "controller_made P = P\<lparr>pc_controller := Some new_TransportController\<rparr>"

text \<open>The destructor first drops the controller.\<close>

definition destroy_PeerConnection :: "PeerConnection \<Rightarrow> PeerConnection" where
  "destroy_PeerConnection P = P\<lparr>pc_controller := None\<rparr>"

definition pc_emit :: "PcEvent list \<Rightarrow> PeerConnection \<Rightarrow> PeerConnection" where
  "pc_emit es P = P\<lparr>pc_log := pc_log P @ es\<rparr>"

section \<open>Descriptions\<close>

text \<open>The task \<open>create_offer\<close> posts makes the sender and the RTP module.\<close>

definition modules_made :: "PeerConnection \<Rightarrow> PeerConnection" where
  "modules_made P = P\<lparr>has_transport_send := True, rtp_rtcp_ssrc := Some (local_video_ssrc P)\<rparr>"

definition create_offer ::
    "bool \<Rightarrow> sdp_text \<Rightarrow> offer_env \<Rightarrow> RTCOfferAnswerOptions \<Rightarrow> string \<Rightarrow> PeerConnection
     \<Rightarrow> (string \<times> PeerConnection) option" where
  "create_offer current X E opts sid P =
     (case pc_controller P of
        None \<Rightarrow> None
      | Some C \<Rightarrow>
          if oe_certificate E = None \<and> (has_audio opts \<or> has_video opts) then None
          else
            (let cert = oe_certificate E;
                 d = offer_description E (case cert of None \<Rightarrow> 0 | Some c \<Rightarrow> c) opts sid;
                 C1 = (if cert = None then C else set_certificeate cert C);
                 P1 = P\<lparr>pc_certificate := cert, local_desc := Some d,
                        local_audio_ssrc :=
                          (if send_audio opts then oe_audio_ssrc E else local_audio_ssrc P),
                        local_video_ssrc :=
                          (if send_video opts then oe_video_ssrc E else local_video_ssrc P),
                        local_video_rtx_ssrc :=
                          (if send_video opts then oe_rtx_ssrc E else local_video_rtx_ssrc P)\<rparr>
             in case (set_local_sdp current (Some d) cert C1, session_ToString X d) of
                  (Some (_, C2), Some text) \<Rightarrow> Some (text, P1\<lparr>pc_controller := Some C2\<rparr>)
                | _ \<Rightarrow> None))"

fun add_candidates_each ::
    "bool \<Rightarrow> IceCandidate list \<Rightarrow> TransportController \<Rightarrow> TransportController option" where
  "add_candidates_each cur [] C = Some C"
| "add_candidates_each cur (c # cs) C =
     Option.bind (set_remote_candidate cur c C) (\<lambda>x. add_candidates_each cur cs (snd x))"

text \<open>-1 for a refused text; the new description replaces the old one before the text is read.\<close>

definition pc_set_remote_sdp ::
    "'w srtp_lib \<Rightarrow> dtls_net \<Rightarrow> sdp_lib \<Rightarrow> bool \<Rightarrow> string \<Rightarrow> PeerConnection \<times> 'w srtp_global
     \<Rightarrow> (int \<times> PeerConnection \<times> 'w srtp_global) option" where
  "pc_set_remote_sdp L D S current sdp Pg =
     (case read_remote_sdp S sdp (pc_remote (fst Pg)) of
        (Some Refused, _, r) \<Rightarrow>
          Some (-1, (fst Pg)\<lparr>pc_remote := r,
                  pc_controller := (if tokenize S (CHR 0x0A) sdp = [] then pc_controller (fst Pg)
                    else map_option (\<lambda>C. C\<lparr>tc_description := Suc (tc_description C)\<rparr>)
                           (pc_controller (fst Pg)))\<rparr>, snd Pg)
      | (Some _, _, r) \<Rightarrow> None
      | (None, cands, r) \<Rightarrow>
          Option.bind (pc_controller (fst Pg)) (\<lambda>C.
            Option.bind (set_remote_sdp L D (remote_desc r)
                           (C\<lparr>tc_description := Suc (tc_description C)\<rparr>, snd Pg)) (\<lambda>(_, C1, g1).
              map_option (\<lambda>C2. (0, (fst Pg)\<lparr>pc_remote := r, pc_controller := Some C2\<rparr>, g1))
                (add_candidates_each current cands C1))))"

section \<open>Media\<close>

text \<open>
  \<open>AddPacketToTransportFeedback\<close>: only audio and video packets report their SSRC and number; for
  the others these fields stay as the library makes them.
\<close>

definition send_info :: "rtp_lib \<Rightarrow> 16 word \<Rightarrow> RtpPacketToSend \<Rightarrow> RtpPacketSendInfo" where
  "send_info R seq p =
     (let media = pkt_type p = Some MT_kAudio \<or> pkt_type p = Some MT_kVideo
      in \<lparr>si_transport_sequence_number = seq, si_rtp_timestamp = pkt_timestamp p,
          si_length = rl_size R p, si_packet_type = pkt_type p,
          si_media_ssrc = (if media then Some (pkt_ssrc p) else None),
          si_rtp_sequence_number = (if media then Some (pkt_sequence_number p) else None)\<rparr>)"

definition AddPacketToTransportFeedback ::
    "rtp_lib \<Rightarrow> 16 word \<Rightarrow> RtpPacketToSend \<Rightarrow> PeerConnection \<Rightarrow> PeerConnection" where
  "AddPacketToTransportFeedback R seq p P = pc_emit [OnAddPacket (send_info R seq p)] P"

definition video_packet ::
    "32 word \<Rightarrow> byte list \<times> bool \<Rightarrow> PeerConnection \<Rightarrow> RtpPacketToSend" where
  "video_packet ts pm P =
     \<lparr>pkt_payload_type = video_pt (pc_remote P), pkt_timestamp = ts, pkt_ssrc = local_video_ssrc P,
      pkt_sequence_number = video_seq P, pkt_transport_seq = Some (transprot_seq P),
      pkt_type = Some MT_kVideo, pkt_marker = snd pm, pkt_payload = fst pm, pkt_padding = 0\<rparr>"

definition take_numbers :: "PeerConnection \<Rightarrow> PeerConnection" where
  "take_numbers P = P\<lparr>transprot_seq := transprot_seq P + 1, video_seq := video_seq P + 1\<rparr>"

fun video_packets ::
    "rtp_lib \<Rightarrow> 32 word \<Rightarrow> (byte list \<times> bool) list \<Rightarrow> PeerConnection
     \<Rightarrow> RtpPacketToSend list \<times> PeerConnection" where
  "video_packets R ts [] P = ([], P)"
| "video_packets R ts (pm # pms) P =
     (let p = video_packet ts pm P;
          P1 = AddPacketToTransportFeedback R (transprot_seq P) p (take_numbers P)
      in case video_packets R ts pms P1 of (ps, P2) \<Rightarrow> (p # ps, P2))"

text \<open>The clock of video is 90 kHz, the frame's timestamp is in milliseconds.\<close>

definition SendVideoEncode ::
    "rtp_lib \<Rightarrow> 32 word \<Rightarrow> byte list \<Rightarrow> PeerConnection \<Rightarrow> PeerConnection option" where
  "SendVideoEncode R timestamp data P =
     (if \<not> has_transport_send P then None
      else case video_packets R (timestamp * 90) (rl_packetize R data) P of
             (ps, P1) \<Rightarrow> Some (pc_emit [EnqueuePacket ps] P1))"

text \<open>The body returns at once.\<close>

definition SendAudioEncode :: "byte list \<Rightarrow> PeerConnection \<Rightarrow> PeerConnection" where
  "SendAudioEncode frame P = P"

text \<open>The packet is reported before its padding is set.\<close>

definition padding_packet :: "32 word \<Rightarrow> PeerConnection \<Rightarrow> RtpPacketToSend" where
  "padding_packet now P =
     \<lparr>pkt_payload_type = video_rtx_pt P, pkt_timestamp = now, pkt_ssrc = local_video_rtx_ssrc P,
      pkt_sequence_number = video_seq P, pkt_transport_seq = Some (transprot_seq P),
      pkt_type = Some MT_kPadding, pkt_marker = False, pkt_payload = [], pkt_padding = 0\<rparr>"

definition GeneratePadding ::
    "rtp_lib \<Rightarrow> 32 word \<Rightarrow> nat \<Rightarrow> PeerConnection \<Rightarrow> (RtpPacketToSend list \<times> PeerConnection) option"
  where
  "GeneratePadding R now bytes P =
     (if \<not> has_transport_send P then None
      else let p = padding_packet now P
           in Some ([p\<lparr>pkt_padding := bytes\<rparr>],
                    AddPacketToTransportFeedback R (transprot_seq P) p (take_numbers P)))"

definition FetchFec :: "RtpPacketToSend list" where
  "FetchFec = []"

text \<open>The private \<open>SendPacket\<close>; only code behind a return calls it.\<close>

definition SendPacketTo ::
    "rtp_lib \<Rightarrow> string \<Rightarrow> RtpPacketToSend \<Rightarrow> PeerConnection \<Rightarrow> PeerConnection option" where
  "SendPacketTo R name p P =
     map_option (\<lambda>C. P\<lparr>pc_controller := Some (snd (send_rtp_packet name (rl_data R p) C))\<rparr>)
       (pc_controller P)"

text \<open>\<open>SendPacket\<close> of the pacer: always to the transport named audio.\<close>

definition pc_SendPacket ::
    "rtp_lib \<Rightarrow> RtpPacketToSend \<Rightarrow> PeerConnection \<Rightarrow> PeerConnection option" where
  "pc_SendPacket R p P =
     (case pc_controller P of
        None \<Rightarrow> None
      | Some C \<Rightarrow>
          if \<not> has_transport_send P then None
          else Some (pc_emit [OnSentPacketInfo (pkt_transport_seq p)]
                 (P\<lparr>pc_controller := Some (snd (send_rtp_packet ''audio'' (rl_data R p) C))\<rparr>)))"

section \<open>What the controller and the feedback report\<close>

definition IceTransportStateChanged_n ::
    "IceTransportState \<Rightarrow> PeerConnection \<Rightarrow> PeerConnection option" where
  "IceTransportStateChanged_n st P =
     (if st = STATE_OTHER then Some P
      else if \<not> has_transport_send P then None
      else Some (pc_emit [OnNetworkOk (st = STATE_COMPLETED)] (P\<lparr>ice_state := (st = STATE_COMPLETED)\<rparr>)))"

definition pc_OnRtcpPacketReceived_n :: "byte list \<Rightarrow> PeerConnection \<Rightarrow> PeerConnection" where
  "pc_OnRtcpPacketReceived_n packet P =
     (if rtp_rtcp_ssrc P = None then P else pc_emit [IncomingRtcpPacket packet] P)"

definition OnNetworkInfo :: "nat \<Rightarrow> int \<Rightarrow> int \<Rightarrow> PeerConnection \<Rightarrow> PeerConnection" where
  "OnNetworkInfo blocks rtt_ms now_ms P =
     (if has_transport_send P
      then pc_emit [OnRttUpdate rtt_ms now_ms, OnReceiverReportBlocks blocks now_ms] P else P)"

definition OnReceivedRtcpReceiverReport :: "nat \<Rightarrow> int \<Rightarrow> int \<Rightarrow> PeerConnection \<Rightarrow> PeerConnection" where
  "OnReceivedRtcpReceiverReport blocks rtt now_ms P = OnNetworkInfo blocks rtt now_ms P"

definition OnTragetTransferRate :: "nat \<Rightarrow> PeerConnection \<Rightarrow> PeerConnection" where
  "OnTragetTransferRate target P = pc_emit [SignalTargetTransferRate target] P"

section \<open>Runs of the media side\<close>

datatype MediaCall = MC_Frame "32 word" "byte list" | MC_Padding "32 word" nat

text \<open>The packets made, in order, and the connection after.\<close>

fun media_run ::
    "rtp_lib \<Rightarrow> MediaCall list \<Rightarrow> PeerConnection \<Rightarrow> (RtpPacketToSend list \<times> PeerConnection) option" where
  "media_run R [] P = Some ([], P)"
| "media_run R (MC_Frame ts data # cs) P =
     Option.bind (SendVideoEncode R ts data P) (\<lambda>P1.
       map_option (\<lambda>(ps, P2). (fst (video_packets R (ts * 90) (rl_packetize R data) P) @ ps, P2))
         (media_run R cs P1))"
| "media_run R (MC_Padding now n # cs) P =
     Option.bind (GeneratePadding R now n P) (\<lambda>(qs, P1).
       map_option (\<lambda>(ps, P2). (qs @ ps, P2)) (media_run R cs P1))"

fun info_of :: "PcEvent \<Rightarrow> RtpPacketSendInfo list" where
  "info_of (OnAddPacket i) = [i]"
| "info_of _ = []"

definition infos :: "PeerConnection \<Rightarrow> RtpPacketSendInfo list" where
  "infos P = concat (List.map info_of (pc_log P))"

text \<open>The numbers of \<open>n\<close> packets, counted from \<open>w\<close>, with the wrap at 16 bits.\<close>

definition numbers :: "16 word \<Rightarrow> nat \<Rightarrow> 16 word list" where
  "numbers w n = List.map (\<lambda>i. w + of_nat i) [0..<n]"

lemma numbers_simps [simp]:
  "numbers w 0 = []" "numbers w (Suc n) = w # numbers (w + 1) n"
  by (simp_all add: numbers_def map_upt_Suc algebra_simps del: upt_Suc)

lemma length_numbers [simp]: "length (numbers w n) = n"
  by (simp add: numbers_def)

lemma numbers_add: "numbers w (m + n) = numbers w m @ numbers (w + of_nat m) n"
  by (induction m arbitrary: w) (simp_all add: algebra_simps)

lemma numbers_distinct:
  assumes "i < j" "j < n" "j - i < 2 ^ 16"
  shows "numbers w n ! i \<noteq> numbers w n ! j"
proof
  assume "numbers w n ! i = numbers w n ! j"
  then have "(of_nat i :: 16 word) = of_nat j" using assms by (simp add: numbers_def)
  then have "(of_nat (j - i) :: 16 word) = 0" using assms(1) by (simp add: of_nat_diff)
  then have "(2 ^ 16 :: nat) dvd j - i" by (simp add: word_of_nat_eq_0_iff)
  then show False using assms by (auto dest: dvd_imp_le)
qed

text \<open>The report of a packet: its kind, and for video its SSRC, its number and its size.\<close>

definition report_matches :: "rtp_lib \<Rightarrow> RtpPacketSendInfo \<Rightarrow> RtpPacketToSend \<Rightarrow> bool" where
  "report_matches R i p \<longleftrightarrow>
     si_packet_type i = pkt_type p
     \<and> (pkt_type p = Some MT_kVideo \<longrightarrow> si_media_ssrc i = Some (pkt_ssrc p)
          \<and> si_rtp_sequence_number i = Some (pkt_sequence_number p) \<and> si_length i = rl_size R p)"

text \<open>What is said of the packets \<open>ps\<close> that a connection in state \<open>P\<close> made on its way to \<open>P'\<close>.\<close>

definition packets_reported ::
    "rtp_lib \<Rightarrow> PeerConnection \<Rightarrow> RtpPacketToSend list \<Rightarrow> PeerConnection \<Rightarrow> bool" where
  "packets_reported R P ps P' \<longleftrightarrow>
     List.map pkt_transport_seq ps = List.map Some (numbers (transprot_seq P) (length ps))
     \<and> List.map pkt_sequence_number ps = numbers (video_seq P) (length ps)
     \<and> (\<exists>us. infos P' = infos P @ us
         \<and> List.map si_transport_sequence_number us = numbers (transprot_seq P) (length ps)
         \<and> list_all2 (report_matches R) us ps)
     \<and> transprot_seq P' = transprot_seq P + of_nat (length ps)
     \<and> video_seq P' = video_seq P + of_nat (length ps)
     \<and> has_transport_send P' = has_transport_send P"

lemma infos_emit [simp]: "infos (pc_emit es P) = infos P @ concat (List.map info_of es)"
  by (simp add: infos_def pc_emit_def)

lemma pc_emit_fields [simp]:
  "transprot_seq (pc_emit es P) = transprot_seq P" "video_seq (pc_emit es P) = video_seq P"
  "has_transport_send (pc_emit es P) = has_transport_send P"
  by (simp_all add: pc_emit_def)

lemma take_numbers_fields [simp]:
  "transprot_seq (take_numbers P) = transprot_seq P + 1" "video_seq (take_numbers P) = video_seq P + 1"
  "has_transport_send (take_numbers P) = has_transport_send P" "infos (take_numbers P) = infos P"
  by (simp_all add: take_numbers_def infos_def)

lemma packets_reported_Nil [simp]: "packets_reported R P [] P"
  by (simp add: packets_reported_def)

lemma packets_reported_send:
  "packets_reported R P ps P' \<Longrightarrow> has_transport_send P' = has_transport_send P"
  by (simp add: packets_reported_def)

lemma packets_reported_append:
  assumes "packets_reported R P ps P1" "packets_reported R P1 qs P2"
  shows "packets_reported R P (ps @ qs) P2"
proof -
  from assms(1) obtain us where i: "infos P1 = infos P @ us"
    "List.map si_transport_sequence_number us = numbers (transprot_seq P) (length ps)"
    "list_all2 (report_matches R) us ps"
    by (auto simp: packets_reported_def)
  from assms(2) obtain js where j: "infos P2 = infos P1 @ js"
    "List.map si_transport_sequence_number js = numbers (transprot_seq P1) (length qs)"
    "list_all2 (report_matches R) js qs"
    by (auto simp: packets_reported_def)
  have "infos P2 = infos P @ us @ js" using i(1) j(1) by simp
  moreover have "list_all2 (report_matches R)
       (us @ js) (ps @ qs)"
    using i(3) j(3) by (rule list_all2_appendI)
  ultimately show ?thesis
    using assms i(2) j(2) unfolding packets_reported_def
    by (auto simp: numbers_add algebra_simps intro!: exI [of _ "us @ js"])
qed

lemma video_packets_reported:
  "video_packets R ts pms P = (ps, P') \<Longrightarrow> packets_reported R P ps P'"
proof (induction pms arbitrary: P ps)
  case Nil
  then show ?case by simp
next
  case (Cons pm pms)
  let ?p = "video_packet ts pm P"
  let ?P1 = "AddPacketToTransportFeedback R (transprot_seq P) ?p (take_numbers P)"
  obtain qs where q: "video_packets R ts pms ?P1 = (qs, P')" "ps = ?p # qs"
    using Cons.prems by (auto simp: Let_def split: prod.splits)
  have "packets_reported R P [?p] ?P1"
    by (simp add: packets_reported_def AddPacketToTransportFeedback_def video_packet_def
        send_info_def report_matches_def Let_def)
  from packets_reported_append [OF this Cons.IH [OF q(1)]] q(2) show ?case by simp
qed

lemma padding_reported:
  "GeneratePadding R now n P = Some (qs, P') \<Longrightarrow> packets_reported R P qs P'"
  by (auto simp: GeneratePadding_def packets_reported_def AddPacketToTransportFeedback_def
      padding_packet_def send_info_def report_matches_def Let_def split: if_splits)

lemma media_run_reported:
  "has_transport_send P \<Longrightarrow> \<exists>ps P'. media_run R cs P = Some (ps, P') \<and> packets_reported R P ps P'"
proof (induction cs arbitrary: P)
  case Nil
  then show ?case by simp
next
  case (Cons c cs)
  have step: "\<exists>qs P1. packets_reported R P qs P1 \<and> has_transport_send P1
      \<and> media_run R (c # cs) P = map_option (\<lambda>(ps, P2). (qs @ ps, P2)) (media_run R cs P1)"
  proof (cases c)
    case (MC_Frame ts data)
    obtain qs P0 where v: "video_packets R (ts * 90) (rl_packetize R data) P = (qs, P0)" by fastforce
    have "packets_reported R P qs (pc_emit [EnqueuePacket qs] P0)"
      using video_packets_reported [OF v] by (simp add: packets_reported_def)
    moreover have "SendVideoEncode R ts data P = Some (pc_emit [EnqueuePacket qs] P0)"
      using v Cons.prems by (simp add: SendVideoEncode_def)
    moreover have "has_transport_send P0"
      using packets_reported_send [OF video_packets_reported [OF v]] Cons.prems by simp
    ultimately show ?thesis using v MC_Frame
      by (intro exI [of _ qs] exI [of _ "pc_emit [EnqueuePacket qs] P0"]) simp
  next
    case (MC_Padding now n)
    obtain qs P1 where g: "GeneratePadding R now n P = Some (qs, P1)"
      using Cons.prems by (auto simp: GeneratePadding_def Let_def)
    from padding_reported [OF g] packets_reported_send [OF padding_reported [OF g]]
    show ?thesis using g MC_Padding Cons.prems
      by (intro exI [of _ qs] exI [of _ P1]) simp
  qed
  then obtain qs P1 where s: "packets_reported R P qs P1" "has_transport_send P1"
    "media_run R (c # cs) P = map_option (\<lambda>(ps, P2). (qs @ ps, P2)) (media_run R cs P1)" by blast
  from Cons.IH [OF s(2)] obtain ps P2 where r: "media_run R cs P1 = Some (ps, P2)"
    "packets_reported R P1 ps P2" by blast
  show ?case using packets_reported_append [OF s(1) r(2)] s(3) r(1) by auto
qed

section \<open>Properties\<close>

text \<open>C5: Every run of encoded frames and padding requests completes once the sender exists, and the
  packets it makes carry consecutive transport numbers and consecutive RTP numbers, both counted
  from the connection's state and wrapping at 16 bits. The transport feedback hears of exactly these
  packets in this order, for video with the packet's own SSRC, number and size, and no transport
  number comes back within 65536 packets.\<close>

theorem media_packets_numbered_and_reported:
  assumes "has_transport_send P"
  shows "\<exists>ps P' us. media_run R cs P = Some (ps, P')
      \<and> List.map pkt_transport_seq ps = List.map Some (numbers (transprot_seq P) (length ps))
      \<and> List.map pkt_sequence_number ps = numbers (video_seq P) (length ps)
      \<and> infos P' = infos P @ us
      \<and> List.map si_transport_sequence_number us = numbers (transprot_seq P) (length ps)
      \<and> list_all2 (report_matches R) us ps
      \<and> (\<forall>i j. i < j \<longrightarrow> j < length ps \<longrightarrow> j - i < 2 ^ 16
           \<longrightarrow> pkt_transport_seq (ps ! i) \<noteq> pkt_transport_seq (ps ! j))"
proof -
  obtain ps P' where r: "media_run R cs P = Some (ps, P')" "packets_reported R P ps P'"
    using media_run_reported [OF assms] by blast
  then obtain us where u: "infos P' = infos P @ us"
    "List.map si_transport_sequence_number us = numbers (transprot_seq P) (length ps)"
    "list_all2 (report_matches R) us ps" by (auto simp: packets_reported_def)
  have m: "List.map pkt_transport_seq ps = List.map Some (numbers (transprot_seq P) (length ps))"
    "List.map pkt_sequence_number ps = numbers (video_seq P) (length ps)"
    using r(2) by (simp_all add: packets_reported_def)
  have at: "pkt_transport_seq (ps ! i) = Some (numbers (transprot_seq P) (length ps) ! i)"
    if "i < length ps" for i
    using m(1) that by (metis length_map length_numbers nth_map)
  have "\<forall>i j. i < j \<longrightarrow> j < length ps \<longrightarrow> j - i < 2 ^ 16
      \<longrightarrow> pkt_transport_seq (ps ! i) \<noteq> pkt_transport_seq (ps ! j)"
    using at numbers_distinct by simp
  with r(1) m u show ?thesis by blast
qed

definition demo_rtp_lib :: rtp_lib where
  "demo_rtp_lib = \<lparr>rl_packetize = (\<lambda>d. [(take 1 d, False), (drop 1 d, True)]),
     rl_size = (\<lambda>p. 12 + length (pkt_payload p) + pkt_padding p), rl_data = pkt_payload\<rparr>"

theorem media_packets_numbered_and_reported_witness:
  "\<exists>ps P'. media_run demo_rtp_lib [MC_Frame 5 [1, 2, 3], MC_Padding 7 100]
       ((modules_made (new_PeerConnection True))\<lparr>transprot_seq := 65535\<rparr>) = Some (ps, P')
     \<and> List.map pkt_transport_seq ps = [Some 65535, Some 0, Some 1]"
proof -
  let ?P = "(modules_made (new_PeerConnection True))\<lparr>transprot_seq := 65535\<rparr>"
  let ?cs = "[MC_Frame 5 [1, 2, 3], MC_Padding 7 100]"
  have "has_transport_send ?P" by (simp add: modules_made_def)
  from media_packets_numbered_and_reported [OF this, of demo_rtp_lib ?cs] obtain ps P' where
    r: "media_run demo_rtp_lib ?cs ?P = Some (ps, P')"
    "List.map pkt_transport_seq ps = List.map Some (numbers (transprot_seq ?P) (length ps))" by blast
  have "map_option (\<lambda>x. length (fst x)) (media_run demo_rtp_lib ?cs ?P) = Some 3"
    by (simp add: demo_rtp_lib_def modules_made_def new_PeerConnection_def SendVideoEncode_def
        GeneratePadding_def AddPacketToTransportFeedback_def take_numbers_def pc_emit_def Let_def)
  then have "length ps = 3" using r(1) by simp
  then have "List.map pkt_transport_seq ps = [Some 65535, Some 0, Some 1]"
    using r(2) by (simp add: numeral_3_eq_3)
  with r(1) show ?thesis by (intro exI conjI)
qed

lemma add_candidates_each_ok:
  "pointers_ok C \<Longrightarrow> \<exists>C'. add_candidates_each cur cs C = Some C' \<and> pointers_ok C'
     \<and> tc_ices C' = tc_ices C \<and> tc_transports C' = tc_transports C"
proof (induction cs arbitrary: C)
  case Nil
  then show ?case by simp
next
  case (Cons c cs)
  have "\<exists>C1. set_remote_candidate cur c C = Some (0, C1) \<and> pointers_ok C1
      \<and> tc_ices C1 = tc_ices C \<and> tc_transports C1 = tc_transports C"
    using Cons.prems
    by (cases cur) (auto simp: set_remote_candidate_def on_network_def each_ice_def post_def
        alive_iff list_all_iff)
  then show ?case using Cons.IH by fastforce
qed

lemma new_transport_by_name:
  assumes "pointers_ok C" "tc_ices C = [(a, n)]"
  shows "GetTransportByName x (tc_transports C) = (if x = a then Some n else None)"
proof -
  have "transports_by_name (tc_transports C) = [(a, n)]"
    using assms by (auto simp: pointers_ok_def)
  then show ?thesis by (auto simp: GetTransportByName_def)
qed


text \<open>A description with a bundle line and a video section only.\<close>

definition demo_video_only :: string where
  "demo_video_only = lines_text [''v=0'', ''a=group:BUNDLE video'',
     ''m=video 9 UDP/TLS/RTP/SAVPF 107'', ''a=mid:video'']"


end
