(* ===== verification/OfferRoundTrip.thy ===== *)
theory OfferRoundTrip
  imports PeerConnection
begin

text \<open>
  What the peer connection writes in an offer (\<open>create_offer\<close>, \<open>SessionDescription::ToString\<close>) and
  what its own parser (\<open>set_remote_sdp\<close>) reads back: the two ends of cp2p_peerconnection.cpp and
  csession_description.cpp. The offer is given here as the list of its lines; each line is then
  either read by the parser, and changes one field of its state, or \<open>inert\<close>.
\<close>

section \<open>The lines of an offer\<close>

definition transport_line_list :: "sdp_text \<Rightarrow> offer_env \<Rightarrow> SSLFingerprint \<Rightarrow> string list" where
  "transport_line_list X E fp =
     [''a=ice-ufrag:'' @ oe_ufrag E, ''a=ice-pwd:'' @ oe_pwd E, ''a=ice-options:trickle'',
      ''a=fingerprint:'' @ fp_algorithm fp @ '' '' @ fingerprint_text X fp,
      ''a=setup:'' @ role_text X CONNECTIONROLE_ACTIVE]"

definition ssrc_line :: "offer_env \<Rightarrow> ssrc \<Rightarrow> string" where
  "ssrc_line E w = ''a=ssrc:'' @ show_nat (unat w) @ '' cname:'' @ oe_cname E"

definition connection_lines :: "string list" where
  "connection_lines = [''c=IN IP4 0.0.0.0'', ''a=rtcp:9 IN IP4 0.0.0.0'']"

definition audio_tail :: "offer_env \<Rightarrow> RTCOfferAnswerOptions \<Rightarrow> string list" where
  "audio_tail E opts =
     [''a=mid:audio'', ''a=sendonly'', ''a=rtpmap:111 opus/48000/2'', ''a=rtcp-fb:111 transport-cc'',
      ''a=fmtp:111 minptime=10;useinbandfec=1'']
     @ (if send_audio opts then [ssrc_line E (oe_audio_ssrc E)] else [])"

definition video_tail :: "offer_env \<Rightarrow> string list" where
  "video_tail E =
     [''a=mid:video'', ''a=sendonly'', ''a=rtpmap:107 H264/90000'', ''a=rtcp-fb:107 goog-remb'',
      ''a=rtcp-fb:107 transport-cc'', ''a=rtcp-fb:107 ccm fir'', ''a=rtcp-fb:107 nack'',
      ''a=rtcp-fb:107 nack pli'',
      ''a=fmtp:107 level-asymmetry-allowed=1;packetization-mode=1;profile-level-id=42e01f'',
      ''a=rtpmap:99 rtx/90000'', ''a=fmtp:99 apt=107'',
      ''a=ssrc-group:FID '' @ show_nat (unat (oe_video_ssrc E)) @ '' '' @ show_nat (unat (oe_rtx_ssrc E)),
      ssrc_line E (oe_video_ssrc E), ssrc_line E (oe_rtx_ssrc E)]"

definition m_audio :: string where
  "m_audio = ''m=audio 9 UDP/TLS/RTP/SAVPF 111''"

definition m_video :: string where
  "m_video = ''m=video 9 UDP/TLS/RTP/SAVPF 107 99''"

definition group_line :: "RTCOfferAnswerOptions \<Rightarrow> string" where
  "group_line opts = ''a=group:BUNDLE'' @ (if has_audio opts then '' audio'' else '''')
     @ (if send_video opts then '' video'' else '''')"

definition offer_lines ::
    "sdp_text \<Rightarrow> offer_env \<Rightarrow> SSLFingerprint \<Rightarrow> RTCOfferAnswerOptions \<Rightarrow> string list" where
  "offer_lines X E fp opts =
     [''v=0'', ''o=- 0 2 IN IP4 127.0.0.1'', ''s=-'', ''t=0 0'']
     @ (if use_rtp_mux opts \<and> (has_audio opts \<or> send_video opts) then [group_line opts] else [])
     @ [''a=msid-semantic: WMS'']
     @ (if has_audio opts
        then m_audio # connection_lines @ transport_line_list X E fp @ audio_tail E opts else [])
     @ (if send_video opts
        then m_video # connection_lines @ transport_line_list X E fp @ video_tail E else [])"

declare show_nat.simps [simp del]

lemma show_nat_step:
  "n < 10 \<Longrightarrow> show_nat n = [digit n]"
  "\<not> n < 10 \<Longrightarrow> show_nat n = show_nat (n div 10) @ [digit (n mod 10)]"
  by (subst show_nat.simps; simp)+

lemma show_int_consts:
  "show_int 111 = ''111''" "show_int 107 = ''107''" "show_int 99 = ''99''"
  "show_int 48000 = ''48000''" "show_int 90000 = ''90000''" "show_int 2 = ''2''"
  by (simp_all add: show_int_def show_nat_step digit_def char_of_def bit_0)

lemma audio_maps_text:
  "BuildRtpMap MEDIA_TYPE_AUDIO [audio_codec] = Some (lines_text [''a=rtpmap:111 opus/48000/2'',
     ''a=rtcp-fb:111 transport-cc'', ''a=fmtp:111 minptime=10;useinbandfec=1''])"
  by (simp add: rtpmap_line_def AddRtcpFbLine_def AddFmtpLine_def show_int_consts Let_def
      audio_codec_def video_codec_def video_rtx_codec_def)

lemma video_maps_text:
  "BuildRtpMap MEDIA_TYPE_VIDEO [video_codec, video_rtx_codec] =
     Some (lines_text [''a=rtpmap:107 H264/90000'', ''a=rtcp-fb:107 goog-remb'',
      ''a=rtcp-fb:107 transport-cc'', ''a=rtcp-fb:107 ccm fir'', ''a=rtcp-fb:107 nack'',
      ''a=rtcp-fb:107 nack pli'',
      ''a=fmtp:107 level-asymmetry-allowed=1;packetization-mode=1;profile-level-id=42e01f'',
      ''a=rtpmap:99 rtx/90000'', ''a=fmtp:99 apt=107''])"
  by (simp add: rtpmap_line_def AddRtcpFbLine_def AddFmtpLine_def show_int_consts Let_def
      audio_codec_def video_codec_def video_rtx_codec_def)

lemma transport_text:
  "oe_fingerprint E cert = Some fp \<Longrightarrow>
     transport_lines X (ti_description (offer_transport E cert n)) = lines_text (transport_line_list X E fp)"
  by (simp add: transport_lines_def offer_transport_def transport_line_list_def)

lemma audio_ssrc_text:
  "BuildSsrc [audio_stream E sid] = lines_text [ssrc_line E (oe_audio_ssrc E)]"
  by (simp add: BuildSsrc_def audio_stream_def ssrc_line_def)

lemma video_ssrc_text:
  "BuildSsrc (video_streams E sid) = lines_text
     [''a=ssrc-group:FID '' @ show_nat (unat (oe_video_ssrc E)) @ '' '' @ show_nat (unat (oe_rtx_ssrc E)),
      ssrc_line E (oe_video_ssrc E), ssrc_line E (oe_rtx_ssrc E)]"
  by (simp add: BuildSsrc_def video_streams_def ssrc_line_def)

lemma audio_text:
  assumes "oe_fingerprint E cert = Some fp"
    "GetTransportInfoByName ''audio'' s = Some (offer_transport E cert ''audio'')"
  shows "content_text X s (offer_audio E opts sid) =
    Some (lines_text (m_audio # connection_lines @ transport_line_list X E fp @ audio_tail E opts))"
proof -
  have "BuildSsrc (if send_audio opts then [audio_stream E sid] else []) =
      lines_text (if send_audio opts then [ssrc_line E (oe_audio_ssrc E)] else [])"
    using audio_ssrc_text [of E sid] by (cases "send_audio opts") (simp_all add: BuildSsrc_def [of "[]"])
  with assms show ?thesis
    by (simp add: content_text_def offer_audio_def offer_content_def audio_maps_text transport_text
        m_audio_def connection_lines_def audio_tail_def audio_codec_def [THEN arg_cong [where f = codec_id]]
        show_int_consts del: BuildRtpMap.simps)
qed

lemma video_text:
  assumes "oe_fingerprint E cert = Some fp" "send_video opts"
    "GetTransportInfoByName ''video'' s = Some (offer_transport E cert ''video'')"
  shows "content_text X s (offer_video E opts sid) =
    Some (lines_text (m_video # connection_lines @ transport_line_list X E fp @ video_tail E))"
  using assms
  by (simp add: content_text_def offer_video_def offer_content_def video_maps_text transport_text
      video_ssrc_text m_video_def connection_lines_def video_tail_def
      audio_codec_def [THEN arg_cong [where f = codec_id]]
      video_codec_def [THEN arg_cong [where f = codec_id]]
      video_rtx_codec_def [THEN arg_cong [where f = codec_id]]
      show_int_consts del: BuildRtpMap.simps)

text \<open>The text of an offer is that of its lines.\<close>

lemma offer_text:
  assumes "oe_fingerprint E cert = Some fp" "send_video opts \<or> \<not> recv_video opts"
  shows "session_ToString X (offer_description E cert opts sid) =
    Some (lines_text (offer_lines X E fp opts))"
proof -
  let ?s = "offer_description E cert opts sid"
  have v: "has_video opts = send_video opts" using assms(2) by (auto simp: has_video_def)
  have a: "has_audio opts \<Longrightarrow> GetTransportInfoByName ''audio'' ?s = Some (offer_transport E cert ''audio'')"
    "has_video opts \<Longrightarrow> GetTransportInfoByName ''video'' ?s = Some (offer_transport E cert ''video'')"
    by (auto simp: GetTransportInfoByName_def offer_description_def offer_transport_def Let_def)
  have c: "contents_text X ?s (contents ?s) = Some
      (lines_text ((if has_audio opts
         then m_audio # connection_lines @ transport_line_list X E fp @ audio_tail E opts else [])
       @ (if send_video opts
         then m_video # connection_lines @ transport_line_list X E fp @ video_tail E else [])))"
  proof -
    have "contents ?s = (if has_audio opts then [offer_audio E opts sid] else [])
        @ (if send_video opts then [offer_video E opts sid] else [])"
      using v by (simp add: offer_description_def Let_def)
    then show ?thesis
      using audio_text [OF assms(1) a(1)] video_text [OF assms(1) _ a(2)] v
      by (cases "has_audio opts"; cases "send_video opts") simp_all
  qed
  have g: "bundle_line ?s = lines_text
      (if use_rtp_mux opts \<and> (has_audio opts \<or> send_video opts) then [group_line opts] else [])"
    using v by (simp add: bundle_line_def GetGroupByName_def offer_description_def Let_def
        offer_audio_def offer_video_def offer_content_def group_line_def)
  show ?thesis by (simp add: session_ToString_def c g offer_lines_def del: lines_text_simps(1))
qed

section \<open>Reading the lines\<close>

definition set_td :: "TransportDescription \<Rightarrow> ParseState \<Rightarrow> ParseState" where
  "set_td td s =
     (if ps_mid s = ''audio'' then s\<lparr>ps_audio := (ps_audio s)\<lparr>ti_description := td\<rparr>\<rparr>
      else s\<lparr>ps_video := (ps_video s)\<lparr>ti_description := td\<rparr>\<rparr>)"

definition cur_td :: "ParseState \<Rightarrow> TransportDescription" where
  "cur_td s = ti_description (if ps_mid s = ''audio'' then ps_audio s else ps_video s)"

lemma set_td_simps [simp]:
  "ps_mid (set_td td s) = ps_mid s" "cur_td (set_td td s) = td" "set_td td (set_td td' s) = set_td td s"
  by (simp_all add: set_td_def cur_td_def)

text \<open>An attribute line of a section: its name decides which branch reads it.\<close>

lemma attribute_line:
  assumes "ps_mid s \<in> {''audio'', ''video''}" "CHR ''='' \<notin> set r" "\<not> prefix ''group:BUNDLE'' r"
    "\<not> prefix ''candidate:'' r" "ParseTransportInfo L (''a='' @ r) (cur_td s) = (None, td)"
  shows "parse_line L (''a='' @ r) s = (None, set_td td s)"
proof -
  have "\<not> begins_with_one_of ''m='' (''a='' @ r)" by (simp add: begins_with_one_of_def)
  moreover have "\<not> contains ''a=group:BUNDLE'' (''a='' @ r)" "\<not> contains ''a=candidate:'' (''a='' @ r)"
    using contains_attribute [OF assms(2), of "''group:BUNDLE''"]
      contains_attribute [OF assms(2), of "''candidate:''"] assms(3,4) by (simp_all del: contains.simps)
  ultimately show ?thesis using assms(1,5)
    by (auto simp: parse_line_def parse_media_line_def ParseCandidates_def set_td_def cur_td_def Let_def
        simp del: contains.simps)
qed

lemma GetAttribute_word:
  "tokenizer_ok L \<Longrightarrow> CHR '':'' \<notin> set a \<Longrightarrow> a \<noteq> [] \<Longrightarrow> CHR '':'' \<notin> set w \<Longrightarrow> w \<noteq> [] \<Longrightarrow>
     GetAttribute L (a @ CHR '':'' # w) = w"
  by (simp add: GetAttribute_def tokenizer_okD tokens_app tokens_word)

lemma ufrag_line:
  assumes "tokenizer_ok L" "ps_mid s \<in> {''audio'', ''video''}"
    "u \<noteq> []" "CHR ''='' \<notin> set u" "CHR '':'' \<notin> set u"
  shows "parse_line L (''a=ice-ufrag:'' @ u) s = (None, set_td ((cur_td s)\<lparr>ice_ufrag := u\<rparr>) s)"
proof -
  have e: "CHR ''='' \<notin> set (''ice-ufrag:'' @ u)" using assms(4) by simp
  have "GetAttribute L (''a=ice-ufrag'' @ CHR '':'' # u) = u"
    using assms by (intro GetAttribute_word) simp_all
  then have "ParseTransportInfo L (''a='' @ ''ice-ufrag:'' @ u) (cur_td s)
      = (None, (cur_td s)\<lparr>ice_ufrag := u\<rparr>)"
    using contains_attribute [OF e, of "''ice-ufrag''"] assms(3)
    by (simp add: ParseTransportInfo_def del: contains.simps)
  from attribute_line [OF assms(2) e _ _ this] show ?thesis by simp
qed

lemma pwd_line:
  assumes "tokenizer_ok L" "ps_mid s \<in> {''audio'', ''video''}"
    "u \<noteq> []" "CHR ''='' \<notin> set u" "CHR '':'' \<notin> set u"
  shows "parse_line L (''a=ice-pwd:'' @ u) s = (None, set_td ((cur_td s)\<lparr>ice_pwd := u\<rparr>) s)"
proof -
  have e: "CHR ''='' \<notin> set (''ice-pwd:'' @ u)" using assms(4) by simp
  have "GetAttribute L (''a=ice-pwd'' @ CHR '':'' # u) = u"
    using assms by (intro GetAttribute_word) simp_all
  then have "ParseTransportInfo L (''a='' @ ''ice-pwd:'' @ u) (cur_td s)
      = (None, (cur_td s)\<lparr>ice_pwd := u\<rparr>)"
    using contains_attribute [OF e, of "''ice-pwd''"] contains_attribute [OF e, of "''ice-ufrag''"] assms(3)
    by (simp add: ParseTransportInfo_def del: contains.simps)
  from attribute_line [OF assms(2) e _ _ this] show ?thesis by simp
qed

lemma fingerprint_line:
  assumes "tokenizer_ok L" "ps_mid s \<in> {''audio'', ''video''}" "t \<noteq> []"
    "CHR ''='' \<notin> set alg \<union> set t" "CHR '' '' \<notin> set alg \<union> set t"
    "fingerprint_from_text L (List.map to_lower alg) t = Some fp"
  shows "parse_line L (''a=fingerprint:'' @ alg @ '' '' @ t) s
    = (None, set_td ((cur_td s)\<lparr>identity_fingerprint := Some fp\<rparr>) s)"
proof -
  have e: "CHR ''='' \<notin> set (''fingerprint:'' @ alg @ '' '' @ t)" using assms(4) by simp
  have "tokens (CHR '' '') ((''a=fingerprint:'' @ alg) @ CHR '' '' # t) = [''a=fingerprint:'' @ alg, t]"
    using assms by (subst tokens_app) (simp_all add: tokens_word)
  then have "ParseTransportInfo L (''a='' @ ''fingerprint:'' @ alg @ '' '' @ t) (cur_td s)
      = (None, (cur_td s)\<lparr>identity_fingerprint := Some fp\<rparr>)"
    using contains_attribute [OF e, of "''ice-pwd''"] contains_attribute [OF e, of "''ice-ufrag''"]
      contains_attribute [OF e, of "''fingerprint''"] assms(1,6)
    by (simp add: ParseTransportInfo_def tokenizer_okD substr_def del: contains.simps)
  from attribute_line [OF assms(2) e _ _ this] show ?thesis by simp
qed

section \<open>What an offer may be made of\<close>

text \<open>
  The random strings and names have none of the characters the format uses; the reader of
  fingerprints takes back what the writer made, with the algorithm's name in lower case.
\<close>

definition free_of :: "string \<Rightarrow> string \<Rightarrow> bool" where
  "free_of cs w \<longleftrightarrow> list_all (\<lambda>c. c \<notin> set cs) w"

definition offer_env_ok :: "sdp_lib \<Rightarrow> sdp_text \<Rightarrow> offer_env \<Rightarrow> SSLFingerprint \<Rightarrow> bool" where
  "offer_env_ok L X E fp \<longleftrightarrow>
     oe_ufrag E \<noteq> [] \<and> free_of (''=:'' @ crlf) (oe_ufrag E)
     \<and> oe_pwd E \<noteq> [] \<and> free_of (''=:'' @ crlf) (oe_pwd E)
     \<and> free_of (''= '' @ crlf) (fp_algorithm fp)
     \<and> fingerprint_text X fp \<noteq> [] \<and> free_of (''= '' @ crlf) (fingerprint_text X fp)
     \<and> free_of (''='' @ crlf) (oe_cname E)
     \<and> free_of (''='' @ crlf) (role_text X CONNECTIONROLE_ACTIVE)
     \<and> fingerprint_from_text L (List.map to_lower (fp_algorithm fp)) (fingerprint_text X fp) = Some fp"

lemma free_ofD: "free_of cs w \<Longrightarrow> c \<in> set cs \<Longrightarrow> c \<notin> set w"
  by (auto simp: free_of_def list_all_iff)

lemma show_nat_digits: "c \<in> set (show_nat n) \<Longrightarrow> is_digit c"
proof (induction n rule: show_nat.induct)
  case (1 n)
  have d: "is_digit (digit k)" if "k < 10" for k using that by (simp add: digit_def is_digit_def)
  show ?case
  proof (cases "n < 10")
    case True
    with "1.prems" d show ?thesis by (simp add: show_nat_step)
  next
    case False
    then have "c \<in> set (show_nat (n div 10)) \<or> c = digit (n mod 10)"
      using "1.prems" by (auto simp: show_nat_step)
    then show ?thesis using "1.IH" False d by auto
  qed
qed

lemma show_nat_free: "free_of (''= '' @ crlf) (show_nat n)"
  by (auto simp: free_of_def list_all_iff crlf_def is_digit_def dest!: show_nat_digits)

lemma crlf_chars: "CHR 0x0D \<in> set crlf" "CHR 0x0A \<in> set crlf"
  by (simp_all add: crlf_def)

lemma offer_env_chars:
  assumes "offer_env_ok L X E fp" "c \<in> set ''='' \<union> set crlf"
  shows "c \<notin> set (oe_ufrag E)" "c \<notin> set (oe_pwd E)" "c \<notin> set (fp_algorithm fp)"
    "c \<notin> set (fingerprint_text X fp)" "c \<notin> set (oe_cname E)"
    "c \<notin> set (role_text X CONNECTIONROLE_ACTIVE)" "c \<notin> set (show_nat n)"
proof -
  note env = assms(1) [unfolded offer_env_ok_def]
  have c: "c \<in> set (''=:'' @ crlf)" "c \<in> set (''= '' @ crlf)" "c \<in> set (''='' @ crlf)"
    using assms(2) by auto
  show "c \<notin> set (oe_ufrag E)" "c \<notin> set (oe_pwd E)" using env free_ofD [OF _ c(1)] by blast+
  show "c \<notin> set (fp_algorithm fp)" "c \<notin> set (fingerprint_text X fp)"
    using env free_ofD [OF _ c(2)] by blast+
  show "c \<notin> set (oe_cname E)" "c \<notin> set (role_text X CONNECTIONROLE_ACTIVE)"
    using env free_ofD [OF _ c(3)] by blast+
  show "c \<notin> set (show_nat n)" using show_nat_free free_ofD [OF _ c(2)] by blast
qed

lemma ssrc_line_inert: "offer_env_ok L X E fp \<Longrightarrow> inert (ssrc_line E w)"
proof -
  assume e: "offer_env_ok L X E fp"
  have "inert (''a='' @ ''ssrc:'' @ show_nat (unat w) @ '' cname:'' @ oe_cname E)"
    by (rule inert_attribute) (use offer_env_chars [OF e, of "CHR ''=''"] in simp_all)
  then show ?thesis by (simp add: ssrc_line_def)
qed

lemma group_ssrc_line_inert:
  "inert (''a=ssrc-group:FID '' @ show_nat m @ '' '' @ show_nat n)"
proof -
  have "inert (''a='' @ ''ssrc-group:FID '' @ show_nat m @ '' '' @ show_nat n)"
    by (rule inert_attribute)
      (use free_ofD [OF show_nat_free [of m], of "CHR ''=''"]
         free_ofD [OF show_nat_free [of n], of "CHR ''=''"] in simp_all)
  then show ?thesis by simp
qed

lemma setup_line_inert:
  "offer_env_ok L X E fp \<Longrightarrow> inert (''a=setup:'' @ role_text X CONNECTIONROLE_ACTIVE)"
proof -
  assume e: "offer_env_ok L X E fp"
  have "inert (''a='' @ ''setup:'' @ role_text X CONNECTIONROLE_ACTIVE)"
    by (rule inert_attribute) (use offer_env_chars [OF e, of "CHR ''=''"] in simp_all)
  then show ?thesis by simp
qed

lemma fixed_lines_inert:
  "list_all inert connection_lines"
  "list_all inert [''v=0'', ''o=- 0 2 IN IP4 127.0.0.1'', ''s=-'', ''t=0 0'']"
  "inert ''a=msid-semantic: WMS''" "inert ''a=ice-options:trickle''"
  "list_all inert [''a=mid:audio'', ''a=sendonly'', ''a=rtpmap:111 opus/48000/2'',
     ''a=rtcp-fb:111 transport-cc'', ''a=fmtp:111 minptime=10;useinbandfec=1'']"
  "list_all inert [''a=mid:video'', ''a=sendonly'', ''a=rtpmap:107 H264/90000'',
     ''a=rtcp-fb:107 goog-remb'', ''a=rtcp-fb:107 transport-cc'', ''a=rtcp-fb:107 ccm fir'',
     ''a=rtcp-fb:107 nack'', ''a=rtcp-fb:107 nack pli'',
     ''a=fmtp:107 level-asymmetry-allowed=1;packetization-mode=1;profile-level-id=42e01f'',
     ''a=rtpmap:99 rtx/90000'', ''a=fmtp:99 apt=107'']"
  by (simp_all add: inert_def begins_with_one_of_def connection_lines_def)

lemma tails_inert:
  assumes "offer_env_ok L X E fp"
  shows "list_all inert (audio_tail E opts)" "list_all inert (video_tail E)"
  using fixed_lines_inert(5,6) ssrc_line_inert [OF assms] group_ssrc_line_inert
  by (simp_all add: audio_tail_def video_tail_def del: append.simps)

lemma transport_lines_read:
  assumes "tokenizer_ok L" "offer_env_ok L X E fp" "ps_mid s \<in> {''audio'', ''video''}"
  shows "parse_lines L (transport_line_list X E fp) s =
    (None, set_td ((cur_td s)\<lparr>ice_ufrag := oe_ufrag E, ice_pwd := oe_pwd E,
       identity_fingerprint := Some fp\<rparr>) s)"
proof -
  note env = assms(2) [unfolded offer_env_ok_def]
  have u: "parse_line L (''a=ice-ufrag:'' @ oe_ufrag E) s
      = (None, set_td ((cur_td s)\<lparr>ice_ufrag := oe_ufrag E\<rparr>) s)"
    using env by (intro ufrag_line [OF assms(1,3)]) (auto dest: free_ofD)
  have p: "parse_line L (''a=ice-pwd:'' @ oe_pwd E) s'
      = (None, set_td ((cur_td s')\<lparr>ice_pwd := oe_pwd E\<rparr>) s')" if "ps_mid s' = ps_mid s" for s'
    using env assms(3) that by (intro pwd_line [OF assms(1)]) (auto dest: free_ofD)
  have f: "parse_line L (''a=fingerprint:'' @ fp_algorithm fp @ '' '' @ fingerprint_text X fp) s'
      = (None, set_td ((cur_td s')\<lparr>identity_fingerprint := Some fp\<rparr>) s')" if "ps_mid s' = ps_mid s" for s'
    using env assms(3) that by (intro fingerprint_line [OF assms(1)]) (auto dest: free_ofD)
  show ?thesis
    by (simp add: transport_line_list_def u p f parse_line_inert fixed_lines_inert(4)
        setup_line_inert [OF assms(2)] del: append.simps)
qed

lemma media_lines_read:
  assumes "tokenizer_ok L"
  shows "parse_line L m_audio s = (None, s\<lparr>ps_mid := ''audio'',
      ps_audio := (ps_audio s)\<lparr>ti_content_name := ''audio''\<rparr>, ps_audio_name := ''audio'',
      ps_audio_pt := 111\<rparr>)"
    "parse_line L m_video s = (None, s\<lparr>ps_mid := ''video'',
      ps_video := (ps_video s)\<lparr>ti_content_name := ''video''\<rparr>, ps_video_name := ''video'',
      ps_video_pt := 107\<rparr>)"
proof -
  have t: "tokens (CHR '' '') m_audio = [''m=audio'', ''9'', ''UDP/TLS/RTP/SAVPF'', ''111'']"
    "tokens (CHR '' '') m_video = [''m=video'', ''9'', ''UDP/TLS/RTP/SAVPF'', ''107'', ''99'']"
    by (simp_all add: tokens_def m_audio_def m_video_def)
  have n: "atoi ''111'' = 111" "atoi ''107'' = 107"
    by (simp_all add: atoi_def is_digit_def digits_value_def)
  have i: "\<not> contains ''a=group:BUNDLE'' m_audio" "\<not> contains ''a=candidate:'' m_audio"
    "\<not> contains ''a=ice-ufrag'' m_audio" "\<not> contains ''a=ice-pwd'' m_audio"
    "\<not> contains ''a=fingerprint'' m_audio" "begins_with_one_of ''m='' m_audio"
    "\<not> contains ''a=group:BUNDLE'' m_video" "\<not> contains ''a=candidate:'' m_video"
    "\<not> contains ''a=ice-ufrag'' m_video" "\<not> contains ''a=ice-pwd'' m_video"
    "\<not> contains ''a=fingerprint'' m_video" "begins_with_one_of ''m='' m_video"
    by (simp_all add: m_audio_def m_video_def begins_with_one_of_def)
  show "parse_line L m_audio s = (None, s\<lparr>ps_mid := ''audio'',
      ps_audio := (ps_audio s)\<lparr>ti_content_name := ''audio''\<rparr>, ps_audio_name := ''audio'',
      ps_audio_pt := 111\<rparr>)"
    by (simp add: parse_line_def i parse_m_line_def tokenizer_okD [OF assms] t n substr_def
        parse_media_line_def ParseCandidates_def ParseTransportInfo_def Let_def)
  show "parse_line L m_video s = (None, s\<lparr>ps_mid := ''video'',
      ps_video := (ps_video s)\<lparr>ti_content_name := ''video''\<rparr>, ps_video_name := ''video'',
      ps_video_pt := 107\<rparr>)"
    by (simp add: parse_line_def i parse_m_line_def tokenizer_okD [OF assms] t n substr_def
        parse_media_line_def ParseCandidates_def ParseTransportInfo_def Let_def)
qed

definition read_td :: "offer_env \<Rightarrow> SSLFingerprint \<Rightarrow> TransportDescription" where
  "read_td E fp = empty_description\<lparr>ice_ufrag := oe_ufrag E, ice_pwd := oe_pwd E,
     identity_fingerprint := Some fp\<rparr>"

lemma audio_section_read:
  assumes "tokenizer_ok L" "offer_env_ok L X E fp" "ti_description (ps_audio s) = empty_description"
  shows "parse_lines L (m_audio # connection_lines @ transport_line_list X E fp @ audio_tail E opts) s =
    (None, s\<lparr>ps_mid := ''audio'', ps_audio := \<lparr>ti_content_name = ''audio'', ti_description = read_td E fp\<rparr>,
       ps_audio_name := ''audio'', ps_audio_pt := 111\<rparr>)"
  using assms(3)
  by (simp add: media_lines_read [OF assms(1)] parse_lines_append parse_lines_inert fixed_lines_inert(1)
      transport_lines_read [OF assms(1,2)] tails_inert [OF assms(2)] set_td_def cur_td_def read_td_def)

lemma video_section_read:
  assumes "tokenizer_ok L" "offer_env_ok L X E fp" "ti_description (ps_video s) = empty_description"
  shows "parse_lines L (m_video # connection_lines @ transport_line_list X E fp @ video_tail E) s =
    (None, s\<lparr>ps_mid := ''video'', ps_video := \<lparr>ti_content_name = ''video'', ti_description = read_td E fp\<rparr>,
       ps_video_name := ''video'', ps_video_pt := 107\<rparr>)"
  using assms(3)
  by (simp add: media_lines_read [OF assms(1)] parse_lines_append parse_lines_inert fixed_lines_inert(1)
      transport_lines_read [OF assms(1,2)] tails_inert [OF assms(2)] set_td_def cur_td_def read_td_def)

definition offer_names :: "RTCOfferAnswerOptions \<Rightarrow> string list" where
  "offer_names opts = (if has_audio opts then [''audio''] else [])
     @ (if send_video opts then [''video''] else [])"

lemma group_line_read:
  assumes "tokenizer_ok L" "has_audio opts \<or> send_video opts" "ps_mid s = ''''"
  shows "parse_line L (group_line opts) s =
    (None, s\<lparr>ps_groups := ps_groups s @ [\<lparr>semantics = ''BUNDLE'', content_names = offer_names opts\<rparr>]\<rparr>)"
proof -
  have "contains ''a=group:BUNDLE'' (group_line opts)"
    using contains_app [of "''a=group:BUNDLE''" "''''"] by (simp add: group_line_def del: contains.simps append_Cons)
  moreover have "tokens (CHR '' '') (group_line opts) = ''a=group:BUNDLE'' # offer_names opts"
    by (simp add: group_line_def offer_names_def tokens_def)
  ultimately show ?thesis using assms
    by (auto simp: parse_line_def parse_group_line_def parse_media_line_def tokenizer_okD offer_names_def)
qed

lemma offer_lines_plain:
  assumes "offer_env_ok L X E fp" "l \<in> set (offer_lines X E fp opts)"
  shows "plain_line l"
proof -
  have c: "CHR 0x0A \<in> set ''='' \<union> set crlf" "CHR 0x0D \<in> set ''='' \<union> set crlf"
    by (simp_all add: crlf_def)
  note w = offer_env_chars [OF assms(1) c(1)] offer_env_chars [OF assms(1) c(2)]
  have t: "list_all plain_line (transport_line_list X E fp)"
    by (simp add: transport_line_list_def plain_line_def w)
  have s: "plain_line (ssrc_line E x)" for x by (simp add: ssrc_line_def plain_line_def w)
  have a: "list_all plain_line (audio_tail E opts)" "list_all plain_line (video_tail E)"
    using s by (simp_all add: audio_tail_def video_tail_def) (simp_all add: plain_line_def w)
  have r: "list_all plain_line (m_audio # m_video # group_line opts # connection_lines)"
    by (simp add: plain_line_def m_audio_def m_video_def group_line_def connection_lines_def)
  have "list_all plain_line (offer_lines X E fp opts)"
    using t a r by (simp add: offer_lines_def) (simp add: plain_line_def)
  then show ?thesis using assms(2) by (simp add: list_all_iff)
qed

lemma offer_lines_read:
  assumes "tokenizer_ok L" "offer_env_ok L X E fp"
  shows "parse_lines L (offer_lines X E fp opts) (start_parse r) = (None,
    \<lparr>ps_mid = (if send_video opts then ''video'' else if has_audio opts then ''audio'' else ''''),
     ps_audio = (if has_audio opts
       then \<lparr>ti_content_name = ''audio'', ti_description = read_td E fp\<rparr> else empty_info),
     ps_video = (if send_video opts
       then \<lparr>ti_content_name = ''video'', ti_description = read_td E fp\<rparr> else empty_info),
     ps_audio_name = (if has_audio opts then ''audio'' else ''''),
     ps_video_name = (if send_video opts then ''video'' else ''''), ps_candidates = [],
     ps_groups = (if use_rtp_mux opts \<and> (has_audio opts \<or> send_video opts)
       then [\<lparr>semantics = ''BUNDLE'', content_names = offer_names opts\<rparr>] else []),
     ps_audio_pt = (if has_audio opts then 111 else audio_pt r),
     ps_video_pt = (if send_video opts then 107 else video_pt r)\<rparr>)"
proof -
  let ?g = "if use_rtp_mux opts \<and> (has_audio opts \<or> send_video opts)
    then [\<lparr>semantics = ''BUNDLE'', content_names = offer_names opts\<rparr>] else []"
  have s: "ps_mid (start_parse r) = ''''" "ps_groups (start_parse r) = []" by (simp_all add: start_parse_def)
  have "parse_lines L (if use_rtp_mux opts \<and> (has_audio opts \<or> send_video opts) then [group_line opts] else [])
      (start_parse r) = (None, (start_parse r)\<lparr>ps_groups := ?g\<rparr>)"
    using group_line_read [OF assms(1) _ s(1)] by (simp add: s(2) start_parse_def)
  moreover have e: "ti_description empty_info = empty_description" by (simp add: empty_info_def)
  moreover have "parse_lines L [''a=msid-semantic: WMS''] s = (None, s)" for s
    by (rule parse_lines_inert) (simp add: fixed_lines_inert(3))
  ultimately show ?thesis
    using audio_section_read [OF assms] video_section_read [OF assms]
    by (cases "has_audio opts"; cases "send_video opts")
      (simp_all add: offer_lines_def parse_lines_append parse_lines_inert [OF fixed_lines_inert(2)]
        start_parse_def del: append.simps parse_lines.simps(2))
qed

section \<open>Properties\<close>

text \<open>C4: An offer is read back by the parser of the same code. Whatever media are asked for, the text
  of an offer with all its random parts in the format's alphabet is accepted; what comes out has the
  offer's bundle group, its payload types, and under each offered content's name its ICE user
  fragment, password and fingerprint, and no candidates. The connection role does not survive. An
  offer that only receives video is excepted: its media line has no payload type.\<close>

theorem offer_read_back:
  assumes "create_offer cur X E opts sid P = Some (sdp, P')" "oe_certificate E = Some cert"
    "oe_fingerprint E cert = Some fp" "tokenizer_ok L" "offer_env_ok L X E fp"
    "send_video opts \<or> \<not> recv_video opts"
  shows "read_remote_sdp L sdp r = (None, [],
    \<lparr>remote_desc = Some
       \<lparr>contents = [parsed_content MEDIA_TYPE_AUDIO (if has_audio opts then ''audio'' else ''''),
          parsed_content MEDIA_TYPE_VIDEO (if has_video opts then ''video'' else '''')],
        transport_infos =
         [if has_audio opts then \<lparr>ti_content_name = ''audio'', ti_description =
            (ti_description (offer_transport E cert ''audio''))\<lparr>connection_role := CONNECTIONROLE_NONE\<rparr>\<rparr>
          else empty_info,
          if has_video opts then \<lparr>ti_content_name = ''video'', ti_description =
            (ti_description (offer_transport E cert ''video''))\<lparr>connection_role := CONNECTIONROLE_NONE\<rparr>\<rparr>
          else empty_info],
        content_groups = content_groups (offer_description E cert opts sid)\<rparr>,
     audio_pt = (if has_audio opts then 111 else audio_pt r),
     video_pt = (if has_video opts then 107 else video_pt r)\<rparr>)"
proof -
  have v: "has_video opts = send_video opts" using assms(6) by (auto simp: has_video_def)
  have "session_ToString X (offer_description E cert opts sid) = Some sdp"
    using assms(1,2) by (auto simp: create_offer_def Let_def split: option.splits if_splits)
  then have t: "sdp = lines_text (offer_lines X E fp opts)"
    using offer_text [OF assms(3,6)] by simp
  have "offer_lines X E fp opts \<noteq> []" by (simp add: offer_lines_def)
  note f = sdp_fields_lines [OF assms(4) this, OF offer_lines_plain [OF assms(5)], folded t]
  have g: "content_groups (offer_description E cert opts sid) =
      (if use_rtp_mux opts \<and> (has_audio opts \<or> send_video opts)
       then [\<lparr>semantics = ''BUNDLE'', content_names = offer_names opts\<rparr>] else [])"
    using v by (simp add: offer_description_def offer_names_def Let_def offer_audio_def offer_video_def
        offer_content_def)
  have d: "(ti_description (offer_transport E cert n))\<lparr>connection_role := CONNECTIONROLE_NONE\<rparr>
      = read_td E fp" for n
    using assms(3) by (simp add: offer_transport_def read_td_def empty_description_def)
  show ?thesis
    by (simp add: read_remote_sdp_def f offer_lines_read [OF assms(4,5)] finish_parse_def v g d)
qed

definition demo_offer_env :: offer_env where
  "demo_offer_env = \<lparr>oe_cname = ''cn'', oe_ufrag = ''uf+1'', oe_pwd = ''pw/2'', oe_certificate = Some 1,
     oe_fingerprint = (\<lambda>c. Some \<lparr>fp_algorithm = ''sha-256'', fp_digest = [0x41, 0x3A, 0x42]\<rparr>),
     oe_audio_stream = ''as'', oe_video_stream = ''vs'', oe_audio_ssrc = 11, oe_video_ssrc = 22,
     oe_rtx_ssrc = 33\<rparr>"

definition demo_offer_text :: sdp_text where
  "demo_offer_text = \<lparr>role_text = (\<lambda>r. ''active''),
     fingerprint_text = (\<lambda>fp. List.map (\<lambda>b. char_of (unat b)) (fp_digest fp))\<rparr>"

definition demo_options :: RTCOfferAnswerOptions where
  "demo_options = \<lparr>send_audio = True, send_video = True, recv_audio = False, recv_video = False,
     use_rtp_mux = True, use_rtcp_mux = True, dtls_on = True\<rparr>"

theorem offer_read_back_witness:
  "\<exists>sdp P' d. create_offer False demo_offer_text demo_offer_env demo_options ''s''
        (new_PeerConnection True) = Some (sdp, P')
     \<and> read_remote_sdp demo_sdp_lib sdp \<lparr>remote_desc = None, audio_pt = 0, video_pt = 0\<rparr>
        = (None, [], \<lparr>remote_desc = Some d, audio_pt = 111, video_pt = 107\<rparr>)
     \<and> content_groups d = [\<lparr>semantics = ''BUNDLE'', content_names = [''audio'', ''video'']\<rparr>]"
proof -
  let ?fp = "\<lparr>fp_algorithm = ''sha-256'', fp_digest = [0x41, 0x3A, 0x42]\<rparr>"
  have o: "send_video demo_options" "has_audio demo_options" "has_video demo_options"
    by (simp_all add: demo_options_def has_audio_def has_video_def)
  have c: "oe_certificate demo_offer_env = Some 1" "oe_fingerprint demo_offer_env 1 = Some ?fp"
    by (simp_all add: demo_offer_env_def)
  have t: "tokenizer_ok demo_sdp_lib" by (simp add: tokenizer_ok_def demo_sdp_lib_def)
  have ch: "char_of (65::nat) = CHR ''A''" "char_of (58::nat) = CHR '':''" "char_of (66::nat) = CHR ''B''"
    by (simp_all add: char_of_def bit_0)
  have e: "offer_env_ok demo_sdp_lib demo_offer_text demo_offer_env ?fp"
    by (simp add: offer_env_ok_def demo_offer_env_def demo_offer_text_def demo_sdp_lib_def
        free_of_def crlf_def to_lower_def ch)
  have "\<exists>sdp P'. create_offer False demo_offer_text demo_offer_env demo_options ''s'' (new_PeerConnection True)
      = Some (sdp, P')"
    using offer_text [OF c(2), of demo_options demo_offer_text "''s''"] o(1)
    by (simp add: create_offer_def new_PeerConnection_def c(1) set_local_sdp_def on_network_def Let_def)
  then obtain sdp P' where "create_offer False demo_offer_text demo_offer_env demo_options ''s''
      (new_PeerConnection True) = Some (sdp, P')" by blast
  moreover have "content_groups (offer_description demo_offer_env 1 demo_options ''s'')
      = [\<lparr>semantics = ''BUNDLE'', content_names = [''audio'', ''video'']\<rparr>]"
    by (simp add: offer_description_def o Let_def offer_audio_def offer_video_def offer_content_def)
      (simp add: demo_options_def)
  ultimately show ?thesis
    using offer_read_back [OF _ c t e, of False demo_options "''s''" "new_PeerConnection True"] o
    by simp
qed

end
