(* ===== verification/UnhandledPackets.thy ===== *)
theory UnhandledPackets
  imports Prelude
begin

text \<open>
  The buffer of packets whose stream is not known yet (engine/unhandled_packets_buffer.cpp): at
  most 50 packets, kept in a vector that is overwritten in a circle once it is full, and handed
  to a consumer, with those of other streams kept, when a stream appears.

  The specification is a queue that keeps the last 50 packets in order of arrival.
\<close>

section \<open>State and operations\<close>

record PacketWithMetadata =
  pk_ssrc :: ssrc
  packet_time_us :: int
  pk_packet :: "byte list"

record UnhandledPacketsBuffer =
  insert_pos :: nat
  pk_buffer :: "PacketWithMetadata list"

definition kMaxStashedPackets :: nat where
  "kMaxStashedPackets = 50"

definition new_UnhandledPacketsBuffer :: UnhandledPacketsBuffer where
  "new_UnhandledPacketsBuffer = \<lparr>insert_pos = 0, pk_buffer = []\<rparr>"

definition AddPacket :: "PacketWithMetadata \<Rightarrow> UnhandledPacketsBuffer \<Rightarrow> UnhandledPacketsBuffer" where
  "AddPacket p b =
     b\<lparr>pk_buffer := (if length (pk_buffer b) < kMaxStashedPackets then pk_buffer b @ [p]
                     else (pk_buffer b)[insert_pos b := p]),
       insert_pos := (insert_pos b + 1) mod kMaxStashedPackets\<rparr>"

text \<open>The packets in the order the loop visits them, then the consumed ones and the rest.\<close>

definition visit_order :: "UnhandledPacketsBuffer \<Rightarrow> PacketWithMetadata list" where
  "visit_order b =
     (let start = (if length (pk_buffer b) < kMaxStashedPackets then 0 else insert_pos b)
      in List.map (\<lambda>i. pk_buffer b ! ((i + start) mod kMaxStashedPackets)) [0..<length (pk_buffer b)])"

definition BackfillPackets ::
    "ssrc list \<Rightarrow> UnhandledPacketsBuffer \<Rightarrow> PacketWithMetadata list \<times> UnhandledPacketsBuffer" where
  "BackfillPackets ssrcs b =
     (filter (\<lambda>p. pk_ssrc p \<in> set ssrcs) (visit_order b),
      b\<lparr>insert_pos := 0,
        pk_buffer := filter (\<lambda>p. pk_ssrc p \<notin> set ssrcs) (visit_order b)\<rparr>)"

section \<open>The queue it stands for\<close>

definition queue_add :: "PacketWithMetadata \<Rightarrow> PacketWithMetadata list \<Rightarrow> PacketWithMetadata list" where
  "queue_add p q = drop (length (q @ [p]) - kMaxStashedPackets) (q @ [p])"

definition queue_take ::
    "ssrc list \<Rightarrow> PacketWithMetadata list \<Rightarrow> PacketWithMetadata list \<times> PacketWithMetadata list" where
  "queue_take ssrcs q =
     (filter (\<lambda>p. pk_ssrc p \<in> set ssrcs) q, filter (\<lambda>p. pk_ssrc p \<notin> set ssrcs) q)"

text \<open>The position is the number of packets until the buffer is full, then the oldest one's.\<close>

definition stash_ok :: "UnhandledPacketsBuffer \<Rightarrow> bool" where
  "stash_ok b \<longleftrightarrow> length (pk_buffer b) \<le> kMaxStashedPackets \<and> insert_pos b < kMaxStashedPackets
     \<and> (length (pk_buffer b) < kMaxStashedPackets \<longrightarrow> insert_pos b = length (pk_buffer b))"

definition stash_queue :: "UnhandledPacketsBuffer \<Rightarrow> PacketWithMetadata list" where
  "stash_queue b =
     (if length (pk_buffer b) < kMaxStashedPackets then pk_buffer b
      else drop (insert_pos b) (pk_buffer b) @ take (insert_pos b) (pk_buffer b))"

lemma kMax_pos [simp]: "0 < kMaxStashedPackets"
  by (simp add: kMaxStashedPackets_def)

lemma visit_order_queue:
  assumes "length (pk_buffer b) \<le> kMaxStashedPackets" "insert_pos b < kMaxStashedPackets"
  shows "visit_order b = stash_queue b"
proof (cases "length (pk_buffer b) < kMaxStashedPackets")
  case True
  then show ?thesis
    by (auto simp: visit_order_def stash_queue_def intro: nth_equalityI)
next
  case False
  then have n: "length (pk_buffer b) = kMaxStashedPackets" using assms(1) by simp
  have "stash_queue b = rotate (insert_pos b) (pk_buffer b)"
    using n assms(2) by (simp add: stash_queue_def rotate_drop_take)
  also have "\<dots> = List.map (\<lambda>i. pk_buffer b ! ((i + insert_pos b) mod kMaxStashedPackets))
      [0..<length (pk_buffer b)]"
    by (rule nth_equalityI) (simp_all add: nth_rotate n add.commute)
  finally show ?thesis using n by (simp add: visit_order_def)
qed

lemma drop_update_last:
  "k < length xs \<Longrightarrow> drop (k + 1) (xs[k := p]) = drop (k + 1) xs"
  by simp

lemma AddPacket_queue:
  assumes "stash_ok b"
  shows "stash_ok (AddPacket p b) \<and> stash_queue (AddPacket p b) = queue_add p (stash_queue b)"
proof (cases "length (pk_buffer b) < kMaxStashedPackets")
  case True
  then have i: "insert_pos b = length (pk_buffer b)" using assms by (simp add: stash_ok_def)
  show ?thesis
  proof (cases "length (pk_buffer b) + 1 = kMaxStashedPackets")
    case full: True
    then show ?thesis using True i
      by (auto simp: stash_ok_def AddPacket_def stash_queue_def queue_add_def)
  next
    case False
    then have "length (pk_buffer b) + 1 < kMaxStashedPackets" using True by simp
    then show ?thesis using True i
      by (auto simp: stash_ok_def AddPacket_def stash_queue_def queue_add_def)
  qed
next
  case False
  then have n: "length (pk_buffer b) = kMaxStashedPackets" and k: "insert_pos b < kMaxStashedPackets"
    using assms by (auto simp: stash_ok_def)
  let ?k = "insert_pos b" and ?xs = "pk_buffer b"
  have q: "queue_add p (stash_queue b) = drop (Suc ?k) ?xs @ take ?k ?xs @ [p]"
    using n k by (simp add: queue_add_def stash_queue_def Cons_nth_drop_Suc [symmetric])
  have b': "pk_buffer (AddPacket p b) = ?xs[?k := p]"
    "insert_pos (AddPacket p b) = Suc ?k mod kMaxStashedPackets"
    using n by (simp_all add: AddPacket_def)
  show ?thesis
  proof (cases "Suc ?k = kMaxStashedPackets")
    case True
    then have "?xs[?k := p] = take ?k ?xs @ [p]"
      using n by (simp add: upd_conv_take_nth_drop)
    then show ?thesis using b' True n q by (simp add: stash_ok_def stash_queue_def)
  next
    case f: False
    then have "Suc ?k mod kMaxStashedPackets = Suc ?k" using k by simp
    moreover have "take (Suc ?k) (?xs[?k := p]) = take ?k ?xs @ [p]"
      using n k by (simp add: take_Suc_conv_app_nth)
    ultimately show ?thesis using b' f n k q
      by (simp add: stash_ok_def stash_queue_def)
  qed
qed

lemma BackfillPackets_queue:
  assumes "stash_ok b"
  shows "fst (BackfillPackets ssrcs b) = fst (queue_take ssrcs (stash_queue b))"
    "pk_buffer (snd (BackfillPackets ssrcs b)) = snd (queue_take ssrcs (stash_queue b))"
  using assms visit_order_queue [of b]
  by (simp_all add: BackfillPackets_def queue_take_def stash_ok_def)

lemma BackfillPackets_ok:
  assumes "stash_ok b"
    "length (snd (queue_take ssrcs (stash_queue b))) \<in> {0, kMaxStashedPackets}"
  shows "stash_ok (snd (BackfillPackets ssrcs b))
    \<and> stash_queue (snd (BackfillPackets ssrcs b)) = snd (queue_take ssrcs (stash_queue b))"
proof -
  let ?b = "snd (BackfillPackets ssrcs b)"
  have "pk_buffer ?b = snd (queue_take ssrcs (stash_queue b))" "insert_pos ?b = 0"
    using BackfillPackets_queue(2) [OF assms(1)] by (simp_all add: BackfillPackets_def)
  then show ?thesis using assms(2) by (auto simp: stash_ok_def stash_queue_def)
qed

section \<open>Runs\<close>

datatype StashCall = StashAdd PacketWithMetadata | StashBackfill "ssrc list"

fun stash_run ::
    "StashCall list \<Rightarrow> UnhandledPacketsBuffer \<Rightarrow> PacketWithMetadata list list \<times> UnhandledPacketsBuffer"
  where
  "stash_run [] b = ([], b)"
| "stash_run (StashAdd p # cs) b = stash_run cs (AddPacket p b)"
| "stash_run (StashBackfill ss # cs) b =
     (case BackfillPackets ss b of (out, b1) \<Rightarrow>
        case stash_run cs b1 of (outs, b2) \<Rightarrow> (out # outs, b2))"

fun queue_run ::
    "StashCall list \<Rightarrow> PacketWithMetadata list \<Rightarrow> PacketWithMetadata list list \<times> PacketWithMetadata list"
  where
  "queue_run [] q = ([], q)"
| "queue_run (StashAdd p # cs) q = queue_run cs (queue_add p q)"
| "queue_run (StashBackfill ss # cs) q =
     (case queue_take ss q of (out, q1) \<Rightarrow>
        case queue_run cs q1 of (outs, q2) \<Rightarrow> (out # outs, q2))"

text \<open>Every backfill takes all packets, or none of a full buffer.\<close>

fun whole_takes :: "StashCall list \<Rightarrow> PacketWithMetadata list \<Rightarrow> bool" where
  "whole_takes [] q \<longleftrightarrow> True"
| "whole_takes (StashAdd p # cs) q \<longleftrightarrow> whole_takes cs (queue_add p q)"
| "whole_takes (StashBackfill ss # cs) q \<longleftrightarrow>
     length (snd (queue_take ss q)) \<in> {0, kMaxStashedPackets} \<and> whole_takes cs (snd (queue_take ss q))"

lemma stash_run_queue:
  "stash_ok b \<Longrightarrow> whole_takes cs (stash_queue b) \<Longrightarrow>
     fst (stash_run cs b) = fst (queue_run cs (stash_queue b))
     \<and> stash_queue (snd (stash_run cs b)) = snd (queue_run cs (stash_queue b))
     \<and> stash_ok (snd (stash_run cs b))"
proof (induction cs arbitrary: b)
  case Nil
  then show ?case by simp
next
  case (Cons c cs)
  show ?case
  proof (cases c)
    case (StashAdd p)
    with Cons AddPacket_queue [OF Cons.prems(1), of p] show ?thesis by simp
  next
    case (StashBackfill ss)
    then have w: "length (snd (queue_take ss (stash_queue b))) \<in> {0, kMaxStashedPackets}"
      "whole_takes cs (snd (queue_take ss (stash_queue b)))" using Cons.prems(2) by simp_all
    note ok = BackfillPackets_ok [OF Cons.prems(1) w(1)]
    have "whole_takes cs (stash_queue (snd (BackfillPackets ss b)))" using ok w(2) by simp
    from Cons.IH [OF conjunct1 [OF ok] this] ok BackfillPackets_queue(1) [OF Cons.prems(1), of ss]
    show ?thesis by (simp add: StashBackfill case_prod_beta)
  qed
qed

section \<open>Properties\<close>

text \<open>C16: The buffer is the queue of the last 50 packets. Over any sequence of packets and
  backfills in which every backfill takes everything, or nothing of a full buffer, the consumer
  gets exactly the packets of its streams in order of arrival, the others are kept in order, and
  when the buffer overflows it is always the oldest packet that is lost.\<close>

theorem stash_refines_queue:
  assumes "whole_takes cs []"
  shows "fst (stash_run cs new_UnhandledPacketsBuffer) = fst (queue_run cs [])
    \<and> stash_queue (snd (stash_run cs new_UnhandledPacketsBuffer)) = snd (queue_run cs [])
    \<and> length (pk_buffer (snd (stash_run cs new_UnhandledPacketsBuffer))) \<le> kMaxStashedPackets"
proof -
  have "stash_ok new_UnhandledPacketsBuffer" "stash_queue new_UnhandledPacketsBuffer = []"
    by (simp_all add: stash_ok_def stash_queue_def new_UnhandledPacketsBuffer_def)
  with stash_run_queue [of new_UnhandledPacketsBuffer cs] assms show ?thesis
    by (simp add: stash_ok_def)
qed

definition demo_packet :: "nat \<Rightarrow> PacketWithMetadata" where
  "demo_packet n = \<lparr>pk_ssrc = of_nat (n mod 2), packet_time_us = int n, pk_packet = []\<rparr>"

theorem stash_refines_queue_witness:
  "fst (stash_run [StashAdd (demo_packet 0), StashAdd (demo_packet 1), StashBackfill [0, 1]]
          new_UnhandledPacketsBuffer) = [[demo_packet 0, demo_packet 1]]"
proof -
  let ?cs = "[StashAdd (demo_packet 0), StashAdd (demo_packet 1), StashBackfill [0, 1]]"
  have "whole_takes ?cs []"
    by (simp add: queue_add_def queue_take_def demo_packet_def kMaxStashedPackets_def)
  from stash_refines_queue [OF this] show ?thesis
    by (simp add: queue_add_def queue_take_def demo_packet_def kMaxStashedPackets_def)
qed

text \<open>After a backfill that left some packets but not all, the circle is out of step. When the
  buffer fills up again, the next packet overwrites the one at position 50 minus the number left,
  which was newer, and the oldest packet of all survives, no longer first in the order in which
  packets are handed over.\<close>

theorem stash_overwrites_newer_packet:
  assumes "pk_buffer b = left" "insert_pos b = 0" "left \<noteq> []"
    "length left + length late = kMaxStashedPackets" "late \<noteq> []"
  shows "pk_buffer (fold AddPacket (late @ [p]) b) = (left @ late)[length late := p]
    \<and> hd (pk_buffer (fold AddPacket (late @ [p]) b)) = hd left
    \<and> visit_order (fold AddPacket (late @ [p]) b)
        = drop (length late + 1) (left @ late) @ take (length late) (left @ late) @ [p]"
proof -
  have fill: "length (pk_buffer b) + length ms \<le> kMaxStashedPackets \<Longrightarrow>
      insert_pos b + length ms < kMaxStashedPackets \<Longrightarrow>
      pk_buffer (fold AddPacket ms b) = pk_buffer b @ ms
      \<and> insert_pos (fold AddPacket ms b) = insert_pos b + length ms" for ms b
  proof (induction ms arbitrary: b)
    case Nil
    then show ?case by simp
  next
    case (Cons m ms)
    have "pk_buffer (AddPacket m b) = pk_buffer b @ [m]" "insert_pos (AddPacket m b) = insert_pos b + 1"
      using Cons.prems by (simp_all add: AddPacket_def)
    then show ?case using Cons.IH [of "AddPacket m b"] Cons.prems by simp
  qed
  let ?b = "fold AddPacket late b" and ?k = "length late"
  have k: "?k < kMaxStashedPackets" "0 < ?k" using assms(3-5) by (cases left; simp)+
  have f: "pk_buffer ?b = left @ late" "insert_pos ?b = ?k"
    using fill [of b late] assms k by simp_all
  have full: "length (left @ late) = kMaxStashedPackets" using assms(4) by simp
  let ?c = "AddPacket p ?b"
  have c: "pk_buffer ?c = (left @ late)[?k := p]" "insert_pos ?c = (?k + 1) mod kMaxStashedPackets"
    using f full by (simp_all add: AddPacket_def)
  have hd: "hd ((left @ late)[?k := p]) = hd left"
    using k(2) assms(3) by (cases left; cases ?k) simp_all
  have "visit_order ?c = stash_queue ?c" using c full by (intro visit_order_queue) simp_all
  also have "\<dots> = drop (?k + 1) (left @ late) @ take ?k (left @ late) @ [p]"
  proof (cases "?k + 1 = kMaxStashedPackets")
    case True
    then show ?thesis using c full by (simp add: stash_queue_def upd_conv_take_nth_drop)
  next
    case False
    then have "(?k + 1) mod kMaxStashedPackets = ?k + 1" using k(1) by simp
    then show ?thesis using c full k(1) False
      by (simp add: stash_queue_def take_Suc_conv_app_nth)
  qed
  finally show ?thesis using c hd by simp
qed

theorem stash_overwrites_newer_packet_witness:
  "hd (pk_buffer (fold AddPacket (replicate 49 (demo_packet 1) @ [demo_packet 3])
     \<lparr>insert_pos = 0, pk_buffer = [demo_packet 2]\<rparr>)) = demo_packet 2"
  using stash_overwrites_newer_packet [of "\<lparr>insert_pos = 0, pk_buffer = [demo_packet 2]\<rparr>"
      "[demo_packet 2]" "replicate 49 (demo_packet 1)" "demo_packet 3"]
  by (simp add: kMaxStashedPackets_def)

end
