(* ===== verification/RtpConfig.thy ===== *)
theory RtpConfig
  imports SessionDescription
begin

text \<open>
  The configuration of an RTP stream (rtp_config.cc) and the layers of a simulcast description
  (simulcast_description.cc). The checks of \<open>RTC_DCHECK\<close> are absent from a release build: an
  element that is not there is then read, and the call is \<open>None\<close>.

  The fixed buffers of \<open>SimpleStringBuilder\<close> and the text of an RTP extension are of rtc_base and
  libmedia_transfer_protocol: they are the record \<open>text_lib\<close>.
\<close>

section \<open>Configuration\<close>

text \<open>The modes the program uses.\<close>

datatype RtcpMode = kCompound | kReducedSize

record UlpfecConfig =
  ulpfec_payload_type :: int
  red_payload_type :: int
  red_rtx_payload_type :: int

record Flexfec =
  flexfec_payload_type :: int
  flexfec_ssrc :: ssrc
  protected_media_ssrcs :: "ssrc list"

record Rtx =
  rtx_ssrcs :: "ssrc list"
  rtx_payload_type :: int

record 'e RtpConfig =
  rc_ssrcs :: "ssrc list"
  rc_rids :: "string list"
  rc_mid :: string
  rc_rtcp_mode :: RtcpMode
  rc_max_packet_size :: nat
  rc_extmap_allow_mixed :: bool
  rc_extensions :: "'e list"
  rc_payload_name :: string
  rc_payload_type :: int
  rc_raw_payload :: bool
  rc_lntf_enabled :: bool
  rc_rtp_history_ms :: int
  rc_ulpfec :: UlpfecConfig
  rc_flexfec :: Flexfec
  rc_rtx :: Rtx
  rc_c_name :: string

definition default_UlpfecConfig :: UlpfecConfig where
  "default_UlpfecConfig = \<lparr>ulpfec_payload_type = -1, red_payload_type = -1, red_rtx_payload_type = -1\<rparr>"

definition default_RtpConfig :: "'e RtpConfig" where
  "default_RtpConfig = \<lparr>rc_ssrcs = [], rc_rids = [], rc_mid = '''', rc_rtcp_mode = kCompound,
     rc_max_packet_size = 1500 - 40, rc_extmap_allow_mixed = False, rc_extensions = [],
     rc_payload_name = '''', rc_payload_type = -1, rc_raw_payload = False, rc_lntf_enabled = False,
     rc_rtp_history_ms = 0, rc_ulpfec = default_UlpfecConfig,
     rc_flexfec = \<lparr>flexfec_payload_type = -1, flexfec_ssrc = 0, protected_media_ssrcs = []\<rparr>,
     rc_rtx = \<lparr>rtx_ssrcs = [], rtx_payload_type = -1\<rparr>, rc_c_name = ''''\<rparr>"

definition UlpfecConfig_eq :: "UlpfecConfig \<Rightarrow> UlpfecConfig \<Rightarrow> bool" where
  "UlpfecConfig_eq a b \<longleftrightarrow> ulpfec_payload_type a = ulpfec_payload_type b
     \<and> red_payload_type a = red_payload_type b \<and> red_rtx_payload_type a = red_rtx_payload_type b"

section \<open>Associated streams\<close>

text \<open>The first position of the SSRC decides; 0 when it is not there.\<close>

fun FindAssociatedSsrc :: "ssrc \<Rightarrow> ssrc list \<Rightarrow> ssrc list \<Rightarrow> ssrc option" where
  "FindAssociatedSsrc x [] as = Some 0"
| "FindAssociatedSsrc x (s # ss) as =
     (if s = x then (case as of [] \<Rightarrow> None | a # _ \<Rightarrow> Some a) else FindAssociatedSsrc x ss (drop 1 as))"

definition IsMediaSsrc :: "'e RtpConfig \<Rightarrow> ssrc \<Rightarrow> bool" where
  "IsMediaSsrc c x \<longleftrightarrow> x \<in> set (rc_ssrcs c)"

definition IsRtxSsrc :: "'e RtpConfig \<Rightarrow> ssrc \<Rightarrow> bool" where
  "IsRtxSsrc c x \<longleftrightarrow> x \<in> set (rtx_ssrcs (rc_rtx c))"

definition IsFlexfecSsrc :: "'e RtpConfig \<Rightarrow> ssrc \<Rightarrow> bool" where
  "IsFlexfecSsrc c x \<longleftrightarrow> flexfec_payload_type (rc_flexfec c) \<noteq> -1 \<and> x = flexfec_ssrc (rc_flexfec c)"

definition GetRtxSsrcAssociatedWithMediaSsrc :: "'e RtpConfig \<Rightarrow> ssrc \<Rightarrow> ssrc option option" where
  "GetRtxSsrcAssociatedWithMediaSsrc c x =
     (if rtx_ssrcs (rc_rtx c) = [] then Some None
      else map_option Some (FindAssociatedSsrc x (rc_ssrcs c) (rtx_ssrcs (rc_rtx c))))"

definition GetMediaSsrcAssociatedWithRtxSsrc :: "'e RtpConfig \<Rightarrow> ssrc \<Rightarrow> ssrc option" where
  "GetMediaSsrcAssociatedWithRtxSsrc c x = FindAssociatedSsrc x (rtx_ssrcs (rc_rtx c)) (rc_ssrcs c)"

definition GetMediaSsrcAssociatedWithFlexfecSsrc :: "'e RtpConfig \<Rightarrow> ssrc \<Rightarrow> ssrc option" where
  "GetMediaSsrcAssociatedWithFlexfecSsrc c x =
     (case protected_media_ssrcs (rc_flexfec c) of [] \<Rightarrow> None | m # _ \<Rightarrow> Some m)"

fun rid_at :: "ssrc \<Rightarrow> ssrc list \<Rightarrow> string list \<Rightarrow> string option" where
  "rid_at x (s # ss) (r # rs) = (if s = x then Some r else rid_at x ss rs)"
| "rid_at x ss rs = None"

definition GetRidForSsrc :: "'e RtpConfig \<Rightarrow> ssrc \<Rightarrow> string option" where
  "GetRidForSsrc c x = rid_at x (rc_ssrcs c) (rc_rids c)"

section \<open>Texts\<close>

record 'e text_lib =
  builder :: "nat \<Rightarrow> string \<Rightarrow> string"
  extension_text :: "'e \<Rightarrow> string"

definition comma_list :: "string list \<Rightarrow> string" where
  "comma_list ws = concat (List.map (\<lambda>i. ws ! i @ (if i \<noteq> length ws - 1 then '', '' else ''''))
     [0..<length ws])"

definition show_bool :: "bool \<Rightarrow> string" where
  "show_bool b = (if b then ''true'' else ''false'')"

definition LntfConfig_ToString :: "bool \<Rightarrow> string" where
  "LntfConfig_ToString enabled = (if enabled then ''{enabled: true}'' else ''{enabled: false}'')"

definition NackConfig_ToString :: "'e text_lib \<Rightarrow> int \<Rightarrow> string" where
  "NackConfig_ToString X ms = builder X 1024 (''{rtp_history_ms: '' @ show_int ms @ ''}'')"

definition UlpfecConfig_ToString :: "'e text_lib \<Rightarrow> UlpfecConfig \<Rightarrow> string" where
  "UlpfecConfig_ToString X u = builder X 1024
     (''{ulpfec_payload_type: '' @ show_int (ulpfec_payload_type u)
      @ '', red_payload_type: '' @ show_int (red_payload_type u)
      @ '', red_rtx_payload_type: '' @ show_int (red_rtx_payload_type u) @ ''}'')"

definition Rtx_ToString :: "'e text_lib \<Rightarrow> Rtx \<Rightarrow> string" where
  "Rtx_ToString X r = builder X 1024
     (''{ssrcs: ['' @ comma_list (List.map (\<lambda>w. show_nat (unat w)) (rtx_ssrcs r)) @ '']''
      @ '', payload_type: '' @ show_int (rtx_payload_type r) @ ''}'')"

definition RtpConfig_ToString :: "'e text_lib \<Rightarrow> 'e RtpConfig \<Rightarrow> string" where
  "RtpConfig_ToString X c = builder X (2 * 1024)
     (''{ssrcs: ['' @ comma_list (List.map (\<lambda>w. show_nat (unat w)) (rc_ssrcs c))
      @ ''], rids: ['' @ comma_list (rc_rids c)
      @ ''], mid: '' @ [CHR 0x27] @ rc_mid c @ [CHR 0x27]
      @ '', rtcp_mode: '' @ (if rc_rtcp_mode c = kCompound then ''RtcpMode::kCompound''
                              else ''RtcpMode::kReducedSize'')
      @ '', max_packet_size: '' @ show_nat (rc_max_packet_size c)
      @ '', extmap-allow-mixed: '' @ show_bool (rc_extmap_allow_mixed c)
      @ '', extensions: ['' @ comma_list (List.map (extension_text X) (rc_extensions c)) @ '']''
      @ '', lntf: '' @ LntfConfig_ToString (rc_lntf_enabled c)
      @ '', nack: {rtp_history_ms: '' @ show_int (rc_rtp_history_ms c) @ ''}''
      @ '', ulpfec: '' @ UlpfecConfig_ToString X (rc_ulpfec c)
      @ '', payload_name: '' @ rc_payload_name c
      @ '', payload_type: '' @ show_int (rc_payload_type c)
      @ '', raw_payload: '' @ show_bool (rc_raw_payload c)
      @ '', flexfec: {payload_type: '' @ show_int (flexfec_payload_type (rc_flexfec c))
      @ '', ssrc: '' @ show_nat (unat (flexfec_ssrc (rc_flexfec c)))
      @ '', protected_media_ssrcs: ['' @ comma_list (List.map (\<lambda>w. show_nat (unat w))
            (protected_media_ssrcs (rc_flexfec c))) @ '']}''
      @ '', rtx: '' @ Rtx_ToString X (rc_rtx c) @ '', c_name: '' @ rc_c_name c @ ''}'')"

section \<open>Simulcast layers\<close>

record SimulcastLayer =
  layer_rid :: string
  is_paused :: bool

type_synonym SimulcastLayerList = "SimulcastLayer list list"

record SimulcastDescription =
  send_layers :: SimulcastLayerList
  receive_layers :: SimulcastLayerList

definition AddLayer :: "SimulcastLayer \<Rightarrow> SimulcastLayerList \<Rightarrow> SimulcastLayerList" where
  "AddLayer l ls = ls @ [[l]]"

definition AddLayerWithAlternatives ::
    "SimulcastLayer list \<Rightarrow> SimulcastLayerList \<Rightarrow> SimulcastLayerList" where
  "AddLayerWithAlternatives rids ls = ls @ [rids]"

definition layers_at :: "SimulcastLayerList \<Rightarrow> nat \<Rightarrow> SimulcastLayer list option" where
  "layers_at ls i = (if i < length ls then Some (ls ! i) else None)"

definition SimulcastDescription_empty :: "SimulcastDescription \<Rightarrow> bool" where
  "SimulcastDescription_empty d \<longleftrightarrow> send_layers d = [] \<and> receive_layers d = []"

definition GetAllLayers :: "SimulcastLayerList \<Rightarrow> SimulcastLayer list" where
  "GetAllLayers ls = foldl (\<lambda>result g. foldl (\<lambda>r l. r @ [l]) result g) [] ls"

lemma GetAllLayers_concat: "GetAllLayers ls = concat ls"
proof -
  have "foldl (\<lambda>r l. r @ [l]) acc g = acc @ g" for acc and g :: "SimulcastLayer list"
    by (induction g arbitrary: acc) auto
  then have "foldl (\<lambda>result g. foldl (\<lambda>r l. r @ [l]) result g) acc ls = acc @ concat ls" for acc
    by (induction ls arbitrary: acc) auto
  then show ?thesis by (simp add: GetAllLayers_def)
qed

section \<open>Properties\<close>

lemma FindAssociatedSsrc_nth:
  "distinct ss \<Longrightarrow> i < length ss \<Longrightarrow> i < length as \<Longrightarrow> FindAssociatedSsrc (ss ! i) ss as = Some (as ! i)"
proof (induction ss arbitrary: as i)
  case Nil
  then show ?case by simp
next
  case (Cons s ss)
  then show ?case by (cases i; cases as) auto
qed

text \<open>The association of media and RTX streams is one to one. In a configuration with as many RTX
  streams as media streams, each kind without repetition, a media SSRC has an RTX SSRC that leads
  back to it, and an RTX SSRC has a media SSRC that leads back to it.\<close>

theorem rtx_association_inverse:
  assumes "distinct (rc_ssrcs c)" "distinct (rtx_ssrcs (rc_rtx c))"
    "length (rtx_ssrcs (rc_rtx c)) = length (rc_ssrcs c)"
  shows "(\<forall>x y. IsMediaSsrc c x \<and> GetRtxSsrcAssociatedWithMediaSsrc c x = Some (Some y)
         \<longleftrightarrow> IsRtxSsrc c y \<and> GetMediaSsrcAssociatedWithRtxSsrc c y = Some x)
    \<and> (\<forall>x. IsMediaSsrc c x \<longrightarrow> (\<exists>y. GetRtxSsrcAssociatedWithMediaSsrc c x = Some (Some y)))
    \<and> (\<forall>y. IsRtxSsrc c y \<longrightarrow> (\<exists>x. GetMediaSsrcAssociatedWithRtxSsrc c y = Some x))"
proof -
  let ?m = "rc_ssrcs c" and ?r = "rtx_ssrcs (rc_rtx c)"
  have m: "GetRtxSsrcAssociatedWithMediaSsrc c (?m ! i) = Some (Some (?r ! i))" if "i < length ?m" for i
    using FindAssociatedSsrc_nth [OF assms(1) that, of ?r] that assms(3)
    by (auto simp: GetRtxSsrcAssociatedWithMediaSsrc_def)
  have r: "GetMediaSsrcAssociatedWithRtxSsrc c (?r ! i) = Some (?m ! i)" if "i < length ?m" for i
    using FindAssociatedSsrc_nth [OF assms(2), of i ?m] that assms(3)
    by (simp add: GetMediaSsrcAssociatedWithRtxSsrc_def)
  have "IsMediaSsrc c x \<longleftrightarrow> (\<exists>i < length ?m. x = ?m ! i)" "IsRtxSsrc c x \<longleftrightarrow> (\<exists>i < length ?m. x = ?r ! i)" for x
    using assms(3) by (auto simp: IsMediaSsrc_def IsRtxSsrc_def in_set_conv_nth)
  then show ?thesis using m r by auto
qed

theorem rtx_association_inverse_witness:
  "\<exists>y. GetRtxSsrcAssociatedWithMediaSsrc (default_RtpConfig\<lparr>rc_ssrcs := [1, 2],
       rc_rtx := \<lparr>rtx_ssrcs = [11, 12], rtx_payload_type = 99\<rparr>\<rparr> :: nat RtpConfig) 2 = Some (Some y)"
proof -
  let ?c = "default_RtpConfig\<lparr>rc_ssrcs := [1, 2],
       rc_rtx := \<lparr>rtx_ssrcs = [11, 12], rtx_payload_type = 99\<rparr>\<rparr> :: nat RtpConfig"
  have "IsMediaSsrc ?c 2" by (simp add: IsMediaSsrc_def)
  then show ?thesis using rtx_association_inverse [of ?c] by simp
qed

section \<open>Layers that are added\<close>

lemma GetAllLayers_add:
  "GetAllLayers (AddLayer l ls) = GetAllLayers ls @ [l]"
  "GetAllLayers (AddLayerWithAlternatives rids ls) = GetAllLayers ls @ rids"
  by (simp_all add: GetAllLayers_concat AddLayer_def AddLayerWithAlternatives_def)

lemma layers_at_add:
  "layers_at (AddLayerWithAlternatives rids ls) i = (if i = length ls then Some rids else layers_at ls i)"
  by (simp add: layers_at_def AddLayerWithAlternatives_def nth_append)

lemma UlpfecConfig_eq_iff: "UlpfecConfig_eq a b \<longleftrightarrow> a = b"
  unfolding UlpfecConfig_eq_def by auto

end
