(* ===== verification/MediaEngine.thy ===== *)
theory MediaEngine
  imports SessionDescription Complex_Main "HOL-Library.Multiset" "HOL-Library.Product_Lexorder"
begin

text \<open>
  The parameters of RTP senders and the header extensions (engine/media_engine.cpp,
  engine/webrtc_media_engine.cpp): which changes of parameters are allowed, which extension lists
  are valid, and which extensions are kept.

  A C++ \<open>double\<close> is a \<open>dbl\<close>, with the comparison of IEEE 754: comparing with not-a-number is
  false. \<open>std::sort\<close> may order equal elements in any way: it is a parameter that returns some
  sorted permutation. The URIs of the extensions are constants of libmedia_transfer_protocol, and
  so are the defaults of an encoding.
\<close>

section \<open>Parameters of a sender\<close>

datatype dbl = NaN | NegInf | PosInf | Fin rat

fun dbl_less :: "dbl \<Rightarrow> dbl \<Rightarrow> bool" where
  "dbl_less NaN y = False"
| "dbl_less x NaN = False"
| "dbl_less x NegInf = False"
| "dbl_less NegInf y = True"
| "dbl_less PosInf y = False"
| "dbl_less x PosInf = True"
| "dbl_less (Fin a) (Fin b) = (a < b)"

definition dbl_le :: "dbl \<Rightarrow> dbl \<Rightarrow> bool" where
  "dbl_le x y \<longleftrightarrow> dbl_less x y \<or> (x = y \<and> x \<noteq> NaN)"

datatype Priority = kVeryLow | kLow | kMedium | kHigh

datatype DegradationPreference = DISABLED | MAINTAIN_FRAMERATE | MAINTAIN_RESOLUTION | BALANCED

record RtpEncodingParameters =
  enc_ssrc :: "ssrc option"
  enc_rid :: string
  bitrate_priority :: dbl
  scale_resolution_down_by :: "dbl option"
  enc_max_framerate :: "dbl option"
  min_bitrate_bps :: "int option"
  max_bitrate_bps :: "int option"
  num_temporal_layers :: "int option"
  enc_active :: bool
  enc_scalability_mode :: "string option"
  network_priority :: Priority

record RtpExtension =
  uri :: string
  ext_id :: int
  ext_encrypt :: bool

record ('r, 'c) RtpParameters =
  encodings :: "RtpEncodingParameters list"
  rtcp :: 'r
  header_extensions :: "RtpExtension list"
  param_codecs :: "'c list"
  degradation_preference :: "DegradationPreference option"

definition CreateRtpParametersWithOneEncoding ::
    "RtpEncodingParameters \<Rightarrow> 'r \<Rightarrow> ('r, 'c) RtpParameters" where
  "CreateRtpParametersWithOneEncoding dflt r =
     \<lparr>encodings = [dflt], rtcp = r, header_extensions = [],
       param_codecs = [], degradation_preference = None\<rparr>"

text \<open>\<open>None\<close>: there are more RIDs than primary SSRCs, and one is written past the end.\<close>

definition CreateRtpParametersWithEncodings ::
    "RtpEncodingParameters \<Rightarrow> (string \<Rightarrow> 'r) \<Rightarrow> ssrc list \<Rightarrow> string list \<Rightarrow> string
     \<Rightarrow> ('r, 'c) RtpParameters option" where
  "CreateRtpParametersWithEncodings dflt with_cname primary_ssrcs rids cname =
     (if length rids > length primary_ssrcs then None
      else let es = List.map (\<lambda>x. dflt\<lparr>enc_ssrc := Some x\<rparr>) primary_ssrcs;
               es1 = List.map (\<lambda>(e, r). e\<lparr>enc_rid := r\<rparr>) (zip es rids) @ drop (length rids) es
           in Some \<lparr>encodings = es1, rtcp = with_cname cname, header_extensions = [],
       param_codecs = [], degradation_preference = None\<rparr>)"

text \<open>The first broken rule of an encoding; \<open>k\<close> is \<open>kMaxTemporalStreams\<close>.\<close>

definition encoding_fault :: "int \<Rightarrow> RtpEncodingParameters \<Rightarrow> RTCError option" where
  "encoding_fault k e =
     (if dbl_le (bitrate_priority e) (Fin 0)
      then Some (RTCErr INVALID_RANGE ''Attempted to set RtpParameters bitrate_priority to an invalid number. bitrate_priority must be > 0.'')
      else if (case scale_resolution_down_by e of None \<Rightarrow> False | Some s \<Rightarrow> dbl_less s (Fin 1))
      then Some (RTCErr INVALID_RANGE ''Attempted to set RtpParameters scale_resolution_down_by to an invalid value. scale_resolution_down_by must be >= 1.0'')
      else if (case enc_max_framerate e of None \<Rightarrow> False | Some f \<Rightarrow> dbl_less f (Fin 0))
      then Some (RTCErr INVALID_RANGE ''Attempted to set RtpParameters max_framerate to an invalid value. max_framerate must be >= 0.0'')
      else if (case (min_bitrate_bps e, max_bitrate_bps e) of (Some a, Some b) \<Rightarrow> b < a | _ \<Rightarrow> False)
      then Some (RTCErr INVALID_RANGE ''Attempted to set RtpParameters min bitrate larger than max bitrate.'')
      else if (case num_temporal_layers e of None \<Rightarrow> False | Some n \<Rightarrow> n < 1 \<or> n > k)
      then Some (RTCErr INVALID_RANGE ''Attempted to set RtpParameters num_temporal_layers to an invalid number.'')
      else None)"

fun check_encodings :: "int \<Rightarrow> RtpEncodingParameters list \<Rightarrow> RTCError" where
  "check_encodings k [] = OK"
| "check_encodings k (e # es) =
     (case encoding_fault k e of Some err \<Rightarrow> err | None \<Rightarrow> check_encodings k es)"

definition CheckRtpParametersValues :: "int \<Rightarrow> ('r, 'c) RtpParameters \<Rightarrow> RTCError" where
  "CheckRtpParametersValues k p = check_encodings k (encodings p)"

definition CheckRtpParametersInvalidModificationAndValues ::
    "int \<Rightarrow> ('r, 'c) RtpParameters \<Rightarrow> ('r, 'c) RtpParameters \<Rightarrow> RTCError" where
  "CheckRtpParametersInvalidModificationAndValues k old p =
     (if length (encodings p) \<noteq> length (encodings old)
      then RTCErr INVALID_MODIFICATION ''Attempted to set RtpParameters with different encoding count''
      else if rtcp p \<noteq> rtcp old
      then RTCErr INVALID_MODIFICATION ''Attempted to set RtpParameters with modified RTCP parameters''
      else if header_extensions p \<noteq> header_extensions old
      then RTCErr INVALID_MODIFICATION ''Attempted to set RtpParameters with modified header extensions''
      else if \<not> list_all2 (\<lambda>a b. enc_rid a = enc_rid b) (encodings old) (encodings p)
      then RTCErr INVALID_MODIFICATION ''Attempted to change RID values in the encodings.''
      else if \<not> list_all2 (\<lambda>a b. enc_ssrc a = enc_ssrc b) (encodings old) (encodings p)
      then RTCErr INVALID_MODIFICATION ''Attempted to set RtpParameters with modified SSRC''
      else CheckRtpParametersValues k p)"

text \<open>The default extensions: those that are not stopped, with their preferred number.\<close>

definition GetDefaultEnabledRtpHeaderExtensions ::
    "(string \<times> int option \<times> bool) list \<Rightarrow> (string \<times> int) list option" where
  "GetDefaultEnabledRtpHeaderExtensions entries =
     those (List.map (\<lambda>(u, i, stopped). map_option (\<lambda>n. (u, n)) i)
       (filter (\<lambda>(u, i, stopped). \<not> stopped) entries))"

text \<open>
  \<open>CreateMediaEngine\<close> makes the video engine only; the voice engine is a null pointer, which
  \<open>Init\<close> uses.
\<close>

record ('a, 'v) CompositeMediaEngine =
  voice_engine :: "'a option"
  video_engine :: "'v option"

definition CreateMediaEngine :: "'v \<Rightarrow> ('a, 'v) CompositeMediaEngine" where
  "CreateMediaEngine video = \<lparr>voice_engine = None, video_engine = Some video\<rparr>"

definition composite_Init :: "('a \<Rightarrow> 'a) \<Rightarrow> ('a, 'v) CompositeMediaEngine
    \<Rightarrow> (bool \<times> ('a, 'v) CompositeMediaEngine) option" where
  "composite_Init voice_Init e =
     map_option (\<lambda>v. (True, e\<lparr>voice_engine := Some (voice_Init v)\<rparr>)) (voice_engine e)"

lemma created_engine_cannot_be_initialised: "composite_Init f (CreateMediaEngine v) = None"
  by (simp add: composite_Init_def CreateMediaEngine_def)

section \<open>Header extensions\<close>

text \<open>The flags \<open>id_used\<close>, indexed by the number; the numbers allowed are \<open>lo\<close> to \<open>hi\<close>.\<close>

fun validate_from :: "int \<Rightarrow> int \<Rightarrow> bool list \<Rightarrow> RtpExtension list \<Rightarrow> bool" where
  "validate_from lo hi used [] = True"
| "validate_from lo hi used (e # es) =
     (if ext_id e < lo \<or> ext_id e > hi then False
      else if used ! nat (ext_id e) then False
      else validate_from lo hi (used[nat (ext_id e) := True]) es)"

definition ValidateRtpExtensions :: "int \<Rightarrow> int \<Rightarrow> RtpExtension list \<Rightarrow> bool" where
  "ValidateRtpExtensions lo hi es = validate_from lo hi (replicate (nat (1 + hi)) False) es"

fun erase_first :: "string \<Rightarrow> RtpExtension list \<Rightarrow> RtpExtension list" where
  "erase_first u [] = []"
| "erase_first u (e # es) = (if uri e = u then es else e # erase_first u es)"

fun discard_from :: "bool \<Rightarrow> string list \<Rightarrow> RtpExtension list \<Rightarrow> RtpExtension list" where
  "discard_from found [] es = es"
| "discard_from found (u # us) es =
     (if u \<in> uri ` set es
      then discard_from True us (if found then erase_first u es else es)
      else discard_from found us es)"

definition DiscardRedundantExtensions :: "RtpExtension list \<Rightarrow> string list \<Rightarrow> RtpExtension list" where
  "DiscardRedundantExtensions es prios = discard_from False prios es"

text \<open>The order: encrypted ones first, then by URI.\<close>

definition ext_less :: "RtpExtension \<Rightarrow> RtpExtension \<Rightarrow> bool" where
  "ext_less a b \<longleftrightarrow>
     (if ext_encrypt a = ext_encrypt b then uri a < uri b else ext_encrypt a \<and> \<not> ext_encrypt b)"

definition same_ext :: "RtpExtension \<Rightarrow> RtpExtension \<Rightarrow> bool" where
  "same_ext a b \<longleftrightarrow> uri a = uri b \<and> ext_encrypt a = ext_encrypt b"

text \<open>\<open>std::unique\<close>: an element equal to the last one kept goes.\<close>

fun unique_from :: "RtpExtension \<Rightarrow> RtpExtension list \<Rightarrow> RtpExtension list" where
  "unique_from l [] = [l]"
| "unique_from l (e # es) = (if same_ext l e then unique_from l es else l # unique_from e es)"

fun unique_exts :: "RtpExtension list \<Rightarrow> RtpExtension list" where
  "unique_exts [] = []"
| "unique_exts (e # es) = unique_from e es"

record ext_uris =
  kAbsSendTimeUri :: string
  kTimestampOffsetUri :: string

definition FilterRtpExtensions ::
    "ext_uris \<Rightarrow> (RtpExtension list \<Rightarrow> RtpExtension list) \<Rightarrow> RtpExtension list
     \<Rightarrow> (string \<Rightarrow> bool) \<Rightarrow> bool \<Rightarrow> RtpExtension list" where
  "FilterRtpExtensions U std_sort extensions supported filter_redundant_extensions =
     (let result = std_sort (filter (\<lambda>e. supported (uri e)) extensions)
      in if filter_redundant_extensions
         then DiscardRedundantExtensions (unique_exts result) [kAbsSendTimeUri U, kTimestampOffsetUri U]
         else result)"

section \<open>Bitrates of a codec\<close>

record BitrateConstraints =
  bc_min_bitrate_bps :: int
  bc_start_bitrate_bps :: int
  bc_max_bitrate_bps :: int

text \<open>The product with 1000 is of type \<open>int\<close>, where going beyond 32 bits is undefined.\<close>

definition times1000 :: "int \<Rightarrow> int option" where
  "times1000 k = (if k * 1000 < 2 ^ 31 then Some (k * 1000) else None)"

definition bitrate_param :: "int option \<Rightarrow> int \<Rightarrow> int option" where
  "bitrate_param v dflt =
     (case v of None \<Rightarrow> Some dflt | Some k \<Rightarrow> if k > 0 then times1000 k else Some dflt)"

text \<open>The three parameters are those of the codec, when it has them and they are numbers.\<close>

definition GetBitrateConfigForCodec ::
    "int option \<Rightarrow> int option \<Rightarrow> int option \<Rightarrow> BitrateConstraints option" where
  "GetBitrateConfigForCodec p_min p_start p_max =
     (case (bitrate_param p_min 0, bitrate_param p_start (-1), bitrate_param p_max (-1)) of
        (Some a, Some b, Some c) \<Rightarrow>
          Some \<lparr>bc_min_bitrate_bps = a, bc_start_bitrate_bps = b, bc_max_bitrate_bps = c\<rparr>
      | _ \<Rightarrow> None)"

section \<open>What a sort may do\<close>

definition std_sort_ok :: "(RtpExtension list \<Rightarrow> RtpExtension list) \<Rightarrow> bool" where
  "std_sort_ok srt \<longleftrightarrow>
     (\<forall>es. mset (srt es) = mset es \<and> sorted_wrt (\<lambda>a b. \<not> ext_less b a) (srt es))"

definition ext_key :: "RtpExtension \<Rightarrow> bool \<times> string" where
  "ext_key e = (\<not> ext_encrypt e, uri e)"

lemma ext_less_key: "\<not> ext_less b a \<longleftrightarrow> ext_key a \<le> ext_key b"
  by (auto simp: ext_less_def ext_key_def less_eq_prod_def)

lemma same_ext_key: "same_ext a b \<longleftrightarrow> ext_key a = ext_key b"
  by (auto simp: same_ext_def ext_key_def)

lemma stable_sort_ok: "std_sort_ok (sort_key ext_key)"
  by (auto simp: std_sort_ok_def ext_less_key sorted_wrt_map [symmetric] sorted_sort_key)

lemma std_sort_keys:
  assumes "std_sort_ok srt"
  shows "List.map ext_key (srt es) = sort (List.map ext_key es)"
proof (rule properties_for_sort [symmetric])
  show "mset (List.map ext_key (srt es)) = mset (List.map ext_key es)"
    using assms by (simp add: std_sort_ok_def)
  show "sorted (List.map ext_key (srt es))"
    using assms by (simp add: std_sort_ok_def ext_less_key sorted_map)
qed

section \<open>The filter on keys\<close>

text \<open>What remains after a sort depends on the keys only; here is the filter on keys.\<close>

fun erase_key :: "string \<Rightarrow> (bool \<times> string) list \<Rightarrow> (bool \<times> string) list" where
  "erase_key u [] = []"
| "erase_key u (k # ks) = (if snd k = u then ks else k # erase_key u ks)"

fun discard_keys :: "bool \<Rightarrow> string list \<Rightarrow> (bool \<times> string) list \<Rightarrow> (bool \<times> string) list" where
  "discard_keys found [] ks = ks"
| "discard_keys found (u # us) ks =
     (if u \<in> snd ` set ks then discard_keys True us (if found then erase_key u ks else ks)
      else discard_keys found us ks)"

definition filter_keys :: "ext_uris \<Rightarrow> bool \<Rightarrow> (bool \<times> string) list \<Rightarrow> (bool \<times> string) list" where
  "filter_keys U redundant ks =
     (if redundant
      then discard_keys False [kAbsSendTimeUri U, kTimestampOffsetUri U] (remdups_adj (sort ks))
      else sort ks)"

lemma map_unique: "List.map ext_key (unique_exts es) = remdups_adj (List.map ext_key es)"
proof -
  have "List.map ext_key (unique_from l xs) = remdups_adj (ext_key l # List.map ext_key xs)" for l xs
    by (induction xs arbitrary: l) (auto simp: same_ext_key)
  then show ?thesis by (cases es) simp_all
qed

lemma map_erase: "List.map ext_key (erase_first u es) = erase_key u (List.map ext_key es)"
  by (induction es) (auto simp: ext_key_def)

lemma map_discard: "List.map ext_key (discard_from f us es) = discard_keys f us (List.map ext_key es)"
proof (induction us arbitrary: f es)
  case Nil
  then show ?case by simp
next
  case (Cons u us)
  have "u \<in> uri ` set es \<longleftrightarrow> u \<in> snd ` set (List.map ext_key es)" by (force simp: ext_key_def)
  then show ?case using Cons by (simp add: map_erase)
qed

lemma filter_keys_correct:
  assumes "std_sort_ok srt"
  shows "List.map ext_key (FilterRtpExtensions U srt es supp red) =
    filter_keys U red (List.map ext_key (filter (\<lambda>e. supp (uri e)) es))"
  by (simp add: FilterRtpExtensions_def filter_keys_def DiscardRedundantExtensions_def map_discard map_unique
      Let_def std_sort_keys [OF assms] del: discard_keys.simps discard_from.simps)

lemma set_unique: "set (unique_exts es) \<subseteq> set es"
proof -
  have "set (unique_from l xs) \<subseteq> insert l (set xs)" for l xs
    by (induction xs arbitrary: l) auto
  then show ?thesis by (cases es) simp_all
qed

lemma set_discard: "set (discard_from f us es) \<subseteq> set es"
proof -
  have e: "set (erase_first u es) \<subseteq> set es" for u es by (induction es) auto
  show ?thesis
  proof (induction us arbitrary: f es)
    case Nil
    then show ?case by simp
  next
    case (Cons u us)
    then have "set (discard_from f us xs) \<subseteq> set es" if "set xs \<subseteq> set es" for f xs
      using that by (meson subset_trans)
    then show ?case using e by simp
  qed
qed

lemma set_filter_exts:
  assumes "std_sort_ok srt"
  shows "set (FilterRtpExtensions U srt es supp red) \<subseteq> {e \<in> set es. supp (uri e)}"
proof -
  have s: "set (srt xs) = set xs" for xs
    using assms by (metis std_sort_ok_def set_mset_mset)
  show ?thesis
  proof (cases red)
    case False
    then show ?thesis by (auto simp: FilterRtpExtensions_def s)
  next
    case True
    let ?r = "srt (filter (\<lambda>e. supp (uri e)) es)"
    have "set (FilterRtpExtensions U srt es supp red) \<subseteq> set (unique_exts ?r)"
      using True set_discard by (simp add: FilterRtpExtensions_def DiscardRedundantExtensions_def Let_def
          del: discard_from.simps)
    also have "\<dots> \<subseteq> set ?r" by (rule set_unique)
    finally show ?thesis by (auto simp: s)
  qed
qed

section \<open>Properties\<close>

text \<open>C31: The extensions kept do not depend on the order they were given in, nor on how the sort
  orders equal elements. For two permutations of one list and any two correct sorts, the results
  have the same URIs and encryption flags in the same order, all supported and all from the list;
  and when no supported extension occurs twice with one flag, they are the same lists.\<close>

theorem filter_order_independent:
  assumes "std_sort_ok srt" "std_sort_ok srt'" "mset es = mset es'"
  shows "List.map ext_key (FilterRtpExtensions U srt es supp red)
      = List.map ext_key (FilterRtpExtensions U srt' es' supp red)
    \<and> set (FilterRtpExtensions U srt es supp red) \<subseteq> {e \<in> set es. supp (uri e)}
    \<and> (inj_on ext_key {e \<in> set es. supp (uri e)} \<longrightarrow>
        FilterRtpExtensions U srt es supp red = FilterRtpExtensions U srt' es' supp red)"
proof -
  let ?f = "filter (\<lambda>e. supp (uri e))"
  let ?A = "FilterRtpExtensions U srt es supp red" and ?B = "FilterRtpExtensions U srt' es' supp red"
  have "mset (?f es) = mset (?f es')" using assms(3) by (simp add: mset_filter)
  then have "sort (List.map ext_key (?f es)) = sort (List.map ext_key (?f es'))"
    by (intro properties_for_sort) simp_all
  then have k: "List.map ext_key ?A = List.map ext_key ?B"
    by (simp add: filter_keys_correct [OF assms(1)] filter_keys_correct [OF assms(2)] filter_keys_def)
  have "set es = set es'" using assms(3) by (metis set_mset_mset)
  then have s: "set ?A \<subseteq> {e \<in> set es. supp (uri e)}" "set ?B \<subseteq> {e \<in> set es. supp (uri e)}"
    using set_filter_exts [OF assms(1)] set_filter_exts [OF assms(2)] by blast+
  have "?A = ?B" if "inj_on ext_key {e \<in> set es. supp (uri e)}"
    using k s by (intro map_inj_on [OF k] inj_on_subset [OF that]) blast
  with k s(1) show ?thesis by blast
qed

theorem filter_order_independent_witness:
  "FilterRtpExtensions \<lparr>kAbsSendTimeUri = ''abs'', kTimestampOffsetUri = ''toffset''\<rparr> (sort_key ext_key)
     [\<lparr>uri = ''b'', ext_id = 1, ext_encrypt = False\<rparr>, \<lparr>uri = ''a'', ext_id = 2, ext_encrypt = False\<rparr>]
     (\<lambda>u. True) True
   = FilterRtpExtensions \<lparr>kAbsSendTimeUri = ''abs'', kTimestampOffsetUri = ''toffset''\<rparr> (sort_key ext_key)
     [\<lparr>uri = ''a'', ext_id = 2, ext_encrypt = False\<rparr>, \<lparr>uri = ''b'', ext_id = 1, ext_encrypt = False\<rparr>]
     (\<lambda>u. True) True"
  by (intro filter_order_independent [OF stable_sort_ok stable_sort_ok, THEN conjunct2, THEN conjunct2, rule_format])
    (auto simp: inj_on_def ext_key_def)

lemma sorted_unique_distinct: "distinct (remdups_adj (sort ks))" for ks :: "'a::linorder list"
proof -
  have "sorted xs \<Longrightarrow> distinct (remdups_adj xs)" for xs :: "'a list"
    by (induction xs rule: remdups_adj.induct) auto
  then show ?thesis by simp
qed

lemma erase_key_gone:
  "distinct ks \<Longrightarrow> \<forall>k \<in> set ks. fst k \<Longrightarrow> u \<notin> snd ` set (erase_key u ks)"
proof (induction ks)
  case Nil
  then show ?case by simp
next
  case (Cons k ks)
  show ?case
  proof (cases "snd k = u")
    case True
    have "snd k' \<noteq> u" if "k' \<in> set ks" for k'
    proof
      assume "snd k' = u"
      moreover have "fst k'" "fst k" using Cons.prems(2) that by simp_all
      ultimately have "k' = k" using True by (simp add: prod_eq_iff)
      then show False using Cons.prems(1) that by simp
    qed
    then have "u \<notin> snd ` set ks" by (metis imageE)
    then show ?thesis using True by simp
  next
    case False
    then show ?thesis using Cons by auto
  qed
qed

text \<open>A redundant bandwidth extension is dropped. When no supported extension is encrypted and
  redundant extensions are filtered, no extension occurs twice in the result, and the transmission
  time offset is not in it beside the absolute send time.\<close>

theorem filter_drops_redundant:
  assumes "std_sort_ok srt" "kAbsSendTimeUri U \<noteq> kTimestampOffsetUri U"
    "\<forall>e \<in> set es. supp (uri e) \<longrightarrow> \<not> ext_encrypt e"
  shows "distinct (List.map uri (FilterRtpExtensions U srt es supp True))
    \<and> \<not> (kAbsSendTimeUri U \<in> uri ` set (FilterRtpExtensions U srt es supp True)
         \<and> kTimestampOffsetUri U \<in> uri ` set (FilterRtpExtensions U srt es supp True))"
proof -
  let ?F = "FilterRtpExtensions U srt es supp True"
  let ?a = "kAbsSendTimeUri U" and ?t = "kTimestampOffsetUri U"
  let ?ks = "remdups_adj (sort (List.map ext_key (filter (\<lambda>e. supp (uri e)) es)))"
  have k: "List.map ext_key ?F = discard_keys False [?a, ?t] ?ks"
    by (simp add: filter_keys_correct [OF assms(1)] filter_keys_def)
  have d: "distinct ?ks" by (rule sorted_unique_distinct)
  have p: "\<forall>k \<in> set ?ks. fst k" using assms(3) by (auto simp: ext_key_def)
  have "set (erase_key u ks) \<subseteq> set ks" for u ks by (induction ks) auto
  then have e: "distinct (erase_key u ks)" if "distinct ks" for u ks
    using that by (induction ks) auto
  have dk: "distinct (List.map ext_key ?F)"
    unfolding k using d e by simp
  have "\<forall>e \<in> set ?F. \<not> ext_encrypt e" using set_filter_exts [OF assms(1)] assms(3) by fastforce
  then have "inj_on uri (set ?F)" if "inj_on ext_key (set ?F)"
    using that by (auto simp: inj_on_def ext_key_def)
  then have "distinct (List.map uri ?F)" using dk by (simp add: distinct_map)
  moreover have "snd ` set (List.map ext_key ?F) = uri ` set ?F" by (force simp: ext_key_def)
  moreover have "\<not> (?a \<in> snd ` set (discard_keys False [?a, ?t] ?ks)
      \<and> ?t \<in> snd ` set (discard_keys False [?a, ?t] ?ks))"
    using erase_key_gone [OF d p, of ?t] assms(2) by (auto split: if_splits)
  ultimately show ?thesis by (simp add: k)
qed

definition demo_uris :: ext_uris where
  "demo_uris = \<lparr>kAbsSendTimeUri = ''abs'', kTimestampOffsetUri = ''toffset''\<rparr>"

theorem filter_drops_redundant_witness:
  "\<not> (''abs'' \<in> uri ` set (FilterRtpExtensions demo_uris (sort_key ext_key)
        [\<lparr>uri = ''toffset'', ext_id = 1, ext_encrypt = False\<rparr>,
         \<lparr>uri = ''abs'', ext_id = 2, ext_encrypt = False\<rparr>] (\<lambda>u. True) True)
     \<and> ''toffset'' \<in> uri ` set (FilterRtpExtensions demo_uris (sort_key ext_key)
        [\<lparr>uri = ''toffset'', ext_id = 1, ext_encrypt = False\<rparr>,
         \<lparr>uri = ''abs'', ext_id = 2, ext_encrypt = False\<rparr>] (\<lambda>u. True) True))"
  using filter_drops_redundant [OF stable_sort_ok, of demo_uris
      "[\<lparr>uri = ''toffset'', ext_id = 1, ext_encrypt = False\<rparr>,
        \<lparr>uri = ''abs'', ext_id = 2, ext_encrypt = False\<rparr>]" "\<lambda>u. True"]
  by (simp add: demo_uris_def)

text \<open>
  Without the restriction both can remain: an encrypted and a plain offset are two extensions, and
  only the first is erased.
\<close>

lemma filter_keeps_second_offset:
  "List.map uri (FilterRtpExtensions demo_uris (sort_key ext_key)
     [\<lparr>uri = ''toffset'', ext_id = 1, ext_encrypt = False\<rparr>,
      \<lparr>uri = ''toffset'', ext_id = 3, ext_encrypt = True\<rparr>,
      \<lparr>uri = ''abs'', ext_id = 2, ext_encrypt = False\<rparr>] (\<lambda>u. True) True) = [''abs'', ''toffset'']"
  by (simp add: FilterRtpExtensions_def demo_uris_def DiscardRedundantExtensions_def same_ext_def
      ext_key_def Let_def)

lemma validate_from_iff:
  "length used = nat (1 + hi) \<Longrightarrow> 0 \<le> lo \<Longrightarrow>
     validate_from lo hi used es \<longleftrightarrow> (\<forall>e \<in> set es. lo \<le> ext_id e \<and> ext_id e \<le> hi
       \<and> \<not> used ! nat (ext_id e)) \<and> distinct (List.map ext_id es)"
proof (induction es arbitrary: used)
  case Nil
  then show ?case by simp
next
  case (Cons e es)
  have IH: "validate_from lo hi (used[nat (ext_id e) := True]) es \<longleftrightarrow>
      (\<forall>x \<in> set es. lo \<le> ext_id x \<and> ext_id x \<le> hi \<and> \<not> used[nat (ext_id e) := True] ! nat (ext_id x))
      \<and> distinct (List.map ext_id es)"
    using Cons by simp
  have upd: "used[nat (ext_id e) := True] ! nat (ext_id x) \<longleftrightarrow> used ! nat (ext_id x) \<or> ext_id x = ext_id e"
    if "lo \<le> ext_id x" "ext_id x \<le> hi" "lo \<le> ext_id e" "ext_id e \<le> hi" for x
    using that Cons.prems by (auto simp: nth_list_update nat_eq_iff2 eq_nat_nat_iff)
  show ?case
  proof (cases "lo \<le> ext_id e \<and> ext_id e \<le> hi \<and> \<not> used ! nat (ext_id e)")
    case False
    then show ?thesis by auto
  next
    case True
    then have "validate_from lo hi used (e # es) = validate_from lo hi (used[nat (ext_id e) := True]) es"
      by simp
    then show ?thesis using IH upd True by (auto simp: image_iff)
  qed
qed

text \<open>C32: A list of extensions is valid exactly when every number is within the allowed range and no
  number occurs twice: the scan with its array of flags decides this.\<close>

theorem validate_extensions_iff:
  assumes "0 \<le> lo"
  shows "ValidateRtpExtensions lo hi es \<longleftrightarrow>
    (\<forall>e \<in> set es. lo \<le> ext_id e \<and> ext_id e \<le> hi) \<and> distinct (List.map ext_id es)"
proof -
  have "\<not> replicate (nat (1 + hi)) False ! nat (ext_id e)" if "lo \<le> ext_id e" "ext_id e \<le> hi" for e
    using that assms by (simp add: nat_less_iff)
  then show ?thesis
    using validate_from_iff [of "replicate (nat (1 + hi)) False" hi lo es] assms
    by (auto simp: ValidateRtpExtensions_def)
qed

theorem validate_extensions_iff_witness:
  "\<not> ValidateRtpExtensions 1 14 [\<lparr>uri = ''a'', ext_id = 3, ext_encrypt = False\<rparr>,
     \<lparr>uri = ''b'', ext_id = 3, ext_encrypt = False\<rparr>]"
  by (simp add: validate_extensions_iff [of 1])

text \<open>The rules an encoding keeps, with not-a-number passing every comparison.\<close>

definition valid_encoding :: "int \<Rightarrow> RtpEncodingParameters \<Rightarrow> bool" where
  "valid_encoding k e \<longleftrightarrow> \<not> dbl_le (bitrate_priority e) (Fin 0)
     \<and> (\<forall>s. scale_resolution_down_by e = Some s \<longrightarrow> \<not> dbl_less s (Fin 1))
     \<and> (\<forall>f. enc_max_framerate e = Some f \<longrightarrow> \<not> dbl_less f (Fin 0))
     \<and> (\<forall>a b. min_bitrate_bps e = Some a \<longrightarrow> max_bitrate_bps e = Some b \<longrightarrow> a \<le> b)
     \<and> (\<forall>n. num_temporal_layers e = Some n \<longrightarrow> 1 \<le> n \<and> n \<le> k)"

lemma encoding_fault_iff: "encoding_fault k e = None \<longleftrightarrow> valid_encoding k e"
  by (auto simp: encoding_fault_def valid_encoding_def not_less split: option.split)

lemma encoding_fault_kind: "encoding_fault k e = Some err \<Longrightarrow> \<exists>t. err = RTCErr INVALID_RANGE t"
  by (auto simp: encoding_fault_def split: if_splits)

lemma check_encodings_iff:
  "check_encodings k es = OK \<longleftrightarrow> (\<forall>e \<in> set es. valid_encoding k e)"
  "check_encodings k es = OK \<or> (\<exists>t. check_encodings k es = RTCErr INVALID_RANGE t)"
  using encoding_fault_kind
  by (induction es) (auto simp: encoding_fault_iff [symmetric] split: option.split)

definition same_identity :: "('r, 'c) RtpParameters \<Rightarrow> ('r, 'c) RtpParameters \<Rightarrow> bool" where
  "same_identity old p \<longleftrightarrow> rtcp p = rtcp old \<and> header_extensions p = header_extensions old
     \<and> List.map enc_rid (encodings p) = List.map enc_rid (encodings old)
     \<and> List.map enc_ssrc (encodings p) = List.map enc_ssrc (encodings old)"

lemma list_all2_map_eq: "list_all2 (\<lambda>a b. f a = f b) xs ys \<longleftrightarrow> List.map f xs = List.map f ys"
  by (induction xs arbitrary: ys) (auto simp: list_all2_Cons1 Cons_eq_map_conv)

text \<open>C33: New parameters of a sender are accepted exactly when they keep the identity of the old ones
  (count, RIDs and SSRCs of the encodings, RTCP and header extensions) and every encoding keeps
  its rules; a change of identity is reported as an invalid modification, whatever the values are,
  and otherwise the values decide and are reported as out of range.\<close>

theorem parameter_change_accepted_iff:
  "CheckRtpParametersInvalidModificationAndValues k old p =
     (if same_identity old p then CheckRtpParametersValues k p
      else RTCErr INVALID_MODIFICATION
        (if length (encodings p) \<noteq> length (encodings old)
         then ''Attempted to set RtpParameters with different encoding count''
         else if rtcp p \<noteq> rtcp old
         then ''Attempted to set RtpParameters with modified RTCP parameters''
         else if header_extensions p \<noteq> header_extensions old
         then ''Attempted to set RtpParameters with modified header extensions''
         else if List.map enc_rid (encodings p) \<noteq> List.map enc_rid (encodings old)
         then ''Attempted to change RID values in the encodings.''
         else ''Attempted to set RtpParameters with modified SSRC''))
   \<and> (CheckRtpParametersInvalidModificationAndValues k old p = OK \<longleftrightarrow>
        same_identity old p \<and> (\<forall>e \<in> set (encodings p). valid_encoding k e))
   \<and> (CheckRtpParametersValues k p = OK \<or> (\<exists>t. CheckRtpParametersValues k p = RTCErr INVALID_RANGE t))"
proof -
  have l: "length (encodings p) = length (encodings old)" if "same_identity old p"
    using that unfolding same_identity_def by (metis length_map)
  have v: "CheckRtpParametersValues k p = OK \<longleftrightarrow> (\<forall>e \<in> set (encodings p). valid_encoding k e)"
    "CheckRtpParametersValues k p = OK \<or> (\<exists>t. CheckRtpParametersValues k p = RTCErr INVALID_RANGE t)"
    using check_encodings_iff by (auto simp: CheckRtpParametersValues_def)
  show ?thesis
  proof (cases "same_identity old p")
    case True
    then show ?thesis using l v
      by (simp add: CheckRtpParametersInvalidModificationAndValues_def list_all2_map_eq same_identity_def)
  next
    case False
    then show ?thesis using v(2)
      by (auto simp: CheckRtpParametersInvalidModificationAndValues_def list_all2_map_eq same_identity_def)
  qed
qed

definition demo_encoding :: RtpEncodingParameters where
  "demo_encoding = \<lparr>enc_ssrc = Some 7, enc_rid = ''h'', bitrate_priority = Fin 1,
     scale_resolution_down_by = None, enc_max_framerate = None, min_bitrate_bps = None,
     max_bitrate_bps = None, num_temporal_layers = Some 3, enc_active = True,
     enc_scalability_mode = None, network_priority = kLow\<rparr>"

definition demo_parameters :: "(nat, nat) RtpParameters" where
  "demo_parameters = \<lparr>encodings = [demo_encoding], rtcp = 0, header_extensions = [],
       param_codecs = [], degradation_preference = None\<rparr>"

theorem parameter_change_accepted_iff_witness:
  "CheckRtpParametersInvalidModificationAndValues 4 demo_parameters
     (demo_parameters\<lparr>encodings := [demo_encoding\<lparr>bitrate_priority := Fin 2\<rparr>]\<rparr>) = OK
   \<and> CheckRtpParametersInvalidModificationAndValues 4 demo_parameters
     (demo_parameters\<lparr>encodings := [demo_encoding\<lparr>enc_ssrc := None\<rparr>]\<rparr>)
     = RTCErr INVALID_MODIFICATION ''Attempted to set RtpParameters with modified SSRC''"
proof
  show "CheckRtpParametersInvalidModificationAndValues 4 demo_parameters
     (demo_parameters\<lparr>encodings := [demo_encoding\<lparr>bitrate_priority := Fin 2\<rparr>]\<rparr>) = OK"
    by (rule parameter_change_accepted_iff [THEN conjunct2, THEN conjunct1, THEN iffD2])
      (simp add: demo_parameters_def demo_encoding_def same_identity_def valid_encoding_def dbl_le_def)
  show "CheckRtpParametersInvalidModificationAndValues 4 demo_parameters
     (demo_parameters\<lparr>encodings := [demo_encoding\<lparr>enc_ssrc := None\<rparr>]\<rparr>)
     = RTCErr INVALID_MODIFICATION ''Attempted to set RtpParameters with modified SSRC''"
    unfolding parameter_change_accepted_iff [THEN conjunct1]
    by (simp add: demo_parameters_def demo_encoding_def same_identity_def)
qed

text \<open>Not-a-number passes every rule.\<close>

lemma nan_priority_accepted: "valid_encoding 4 (demo_encoding\<lparr>bitrate_priority := NaN\<rparr>)"
  by (simp add: demo_encoding_def valid_encoding_def dbl_le_def)

end
