(* ===== verification/Simulcast.thy ===== *)
theory Simulcast
  imports SdpParser MediaEngine Complex_Main "HOL-Library.Signed_Division"
begin

text \<open>
  The configuration of simulcast layers (engine/simulcast.cpp): how many layers a resolution
  allows, the size and the bitrates of each layer, screen sharing, and the boost of the top layer.

  Bitrates are whole bits per second. \<open>int\<close> products are checked for overflow, which is undefined;
  \<open>RTC_CHECK\<close> that fails and an element that is not there end the call with \<open>None\<close> too. A \<open>float\<close>
  is the rational number it stands for, rounded to 24 bits after each operation. The field
  trials, the experiments, \<open>DataRate * double\<close>, the shares of temporal layers and the constants of
  libmedia_codec and libmedia_transfer_protocol are the record \<open>simulcast_env\<close>.
\<close>

section \<open>Numbers\<close>

definition imul :: "int \<Rightarrow> int \<Rightarrow> int option" where
  "imul a b = (if - (2 ^ 31) \<le> a * b \<and> a * b < 2 ^ 31 then Some (a * b) else None)"

definition iadd :: "int \<Rightarrow> int \<Rightarrow> int option" where
  "iadd a b = (if - (2 ^ 31) \<le> a + b \<and> a + b < 2 ^ 31 then Some (a + b) else None)"

text \<open>To the nearest integer, to the even one of two.\<close>

definition round_even :: "rat \<Rightarrow> int" where
  "round_even y =
     (let f = \<lfloor>y\<rfloor>; r = y - of_int f
      in if r < 1 / 2 then f else if r > 1 / 2 then f + 1 else if even f then f else f + 1)"

text \<open>
  The shift that brings a number to 24 bits, upwards (at most 149, where the numbers of a float
  end) and downwards (at most 104).
\<close>

fun f32_up :: "nat \<Rightarrow> rat \<Rightarrow> nat" where
  "f32_up 0 x = 0"
| "f32_up (Suc n) x = (if x < 2 ^ 23 then Suc (f32_up n (2 * x)) else 0)"

fun f32_down :: "nat \<Rightarrow> rat \<Rightarrow> nat" where
  "f32_down 0 x = 0"
| "f32_down (Suc n) x = (if x < 2 ^ 24 then 0 else Suc (f32_down n (x / 2)))"

definition f32 :: "rat \<Rightarrow> rat" where
  "f32 x = (let u = f32_up 149 x; d = f32_down 104 x
            in of_int (round_even (x * 2 ^ u / 2 ^ d)) * 2 ^ d / 2 ^ u)"

text \<open>The shifts are enough for every number of the format.\<close>

lemma f32_up_enough: "2 ^ 23 \<le> x * 2 ^ n \<Longrightarrow> 2 ^ 23 \<le> x * 2 ^ f32_up n x"
proof (induction n arbitrary: x)
  case (Suc n)
  then have "2 ^ 23 \<le> (2 * x) * 2 ^ n" by (simp only: power_Suc mult_ac)
  from Suc.IH [OF this] have "2 ^ 23 \<le> x * 2 ^ Suc (f32_up n (2 * x))" by (simp only: power_Suc mult_ac)
  then show ?case by (cases "x < 2 ^ 23") (simp_all only: f32_up.simps if_True, simp)
qed simp

lemma f32_down_enough: "x < 2 ^ 24 * 2 ^ n \<Longrightarrow> x / 2 ^ f32_down n x < 2 ^ 24"
proof (induction n arbitrary: x)
  case (Suc n)
  then have "x / 2 < 2 ^ 24 * 2 ^ n" by simp
  from Suc.IH [OF this] show ?case by (simp add: field_simps)
qed simp

definition trunc :: "rat \<Rightarrow> int" where
  "trunc x = (if x < 0 then - \<lfloor>- x\<rfloor> else \<lfloor>x\<rfloor>)"

section \<open>Environment\<close>

record VideoStream =
  vs_width :: int
  vs_height :: int
  vs_max_framerate :: int
  vs_min_bitrate_bps :: int
  vs_target_bitrate_bps :: int
  vs_max_bitrate_bps :: int
  vs_scale_resolution_down_by :: dbl
  vs_max_qp :: int
  vs_num_temporal_layers :: "int option"
  vs_bitrate_priority :: "dbl option"
  vs_scalability_mode :: "string option"
  vs_active :: bool

record simulcast_env =
  trial :: "string \<Rightarrow> string"
  trial_max_ratio :: "string \<Rightarrow> rat option"
  base2_exponent :: "nat option"
  base_heavy_tl3 :: bool
  temporal_share :: "int \<Rightarrow> nat \<Rightarrow> bool \<Rightarrow> rat"
  scale_rate :: "int \<Rightarrow> rat \<Rightarrow> int"
  kMaxSimulcastStreams :: nat
  kMaxTemporalStreams :: int
  kDefaultMinVideoBitrateBps :: int
  kDefaultVideoMaxFramerate :: int
  default_VideoStream :: VideoStream

definition Interpolate :: "simulcast_env \<Rightarrow> int \<Rightarrow> int \<Rightarrow> rat \<Rightarrow> int" where
  "Interpolate E a b rate = scale_rate E a (1 - rate) + scale_rate E b rate"

definition EnableLowresBitrateInterpolation :: "simulcast_env \<Rightarrow> bool" where
  "EnableLowresBitrateInterpolation E \<longleftrightarrow>
     prefix ''Enabled'' (trial E ''WebRTC-LowresSimulcastBitrateInterpolation'')"

section \<open>Formats\<close>

record SimulcastFormat =
  sf_width :: int
  sf_height :: int
  sf_max_layers :: nat
  sf_max_bitrate :: int
  sf_target_bitrate :: int
  sf_min_bitrate :: int

definition sformat :: "int \<Rightarrow> int \<Rightarrow> nat \<Rightarrow> int \<Rightarrow> int \<Rightarrow> int \<Rightarrow> SimulcastFormat" where
  "sformat w h n mx tg mn = \<lparr>sf_width = w, sf_height = h, sf_max_layers = n,
     sf_max_bitrate = 1000 * mx, sf_target_bitrate = 1000 * tg, sf_min_bitrate = 1000 * mn\<rparr>"

definition kSimulcastFormats :: "SimulcastFormat list" where
  "kSimulcastFormats =
     [sformat 1920 1080 3 5000 4000 800, sformat 1280 720 3 2500 2500 600,
      sformat 960 540 3 1200 1200 350, sformat 640 360 2 700 500 150,
      sformat 480 270 2 450 350 150, sformat 320 180 1 200 150 30, sformat 0 0 1 0 0 30]"

text \<open>Without interpolation the last format has the bitrates of the one before.\<close>

definition GetSimulcastFormats :: "bool \<Rightarrow> SimulcastFormat list" where
  "GetSimulcastFormats lowres =
     (let formats = kSimulcastFormats; n = length formats
      in if \<not> lowres
         then formats[n - 1 := (formats ! (n - 1))
                \<lparr>sf_max_bitrate := sf_max_bitrate (formats ! (n - 2)),
                 sf_target_bitrate := sf_target_bitrate (formats ! (n - 2)),
                 sf_min_bitrate := sf_min_bitrate (formats ! (n - 2))\<rparr>]
         else formats)"

text \<open>\<open>sscanf\<close> with the format %d: white space, a sign, and at least one digit.\<close>

definition scan_int :: "string \<Rightarrow> int option" where
  "scan_int s =
     (let t = dropWhile (\<lambda>c. c \<in> set [CHR 0x20, CHR 0x09, CHR 0x0A, CHR 0x0B, CHR 0x0C, CHR 0x0D]) s;
          r = (case t of [] \<Rightarrow> [] | c # cs \<Rightarrow> if c = CHR ''-'' \<or> c = CHR ''+'' then cs else t)
      in if takeWhile is_digit r = [] then None else Some (atoi s))"

definition DefaultNumberOfTemporalLayers :: "simulcast_env \<Rightarrow> nat \<Rightarrow> bool \<Rightarrow> int option" where
  "DefaultNumberOfTemporalLayers E simulcast_id screenshare =
     (if simulcast_id \<ge> kMaxSimulcastStreams E then None
      else
        (let default_num = (if screenshare then 2 else 3);
             group_name = (if screenshare then trial E ''WebRTC-VP8ScreenshareTemporalLayers''
                           else trial E ''WebRTC-VP8ConferenceTemporalLayers'')
         in if group_name = '''' then Some default_num
            else case scan_int group_name of
                   Some n \<Rightarrow> if n > 0 \<and> n \<le> kMaxTemporalStreams E then Some n else Some default_num
                 | None \<Rightarrow> Some default_num))"

text \<open>The first format with no more pixels; \<open>None\<close> when there is none.\<close>

fun format_index :: "int \<Rightarrow> SimulcastFormat list \<Rightarrow> nat option" where
  "format_index pixels [] = None"
| "format_index pixels (f # fs) =
     (if pixels \<ge> sf_width f * sf_height f then Some 0 else map_option Suc (format_index pixels fs))"

text \<open>Outer \<open>None\<close>: the product overflows; inner \<open>None\<close>: -1.\<close>

definition FindSimulcastFormatIndex :: "int \<Rightarrow> int \<Rightarrow> bool \<Rightarrow> nat option option" where
  "FindSimulcastFormatIndex width height lowres =
     map_option (\<lambda>p. format_index p (GetSimulcastFormats lowres)) (imul width height)"

definition NormalizeSimulcastSize :: "simulcast_env \<Rightarrow> int \<Rightarrow> nat \<Rightarrow> int option" where
  "NormalizeSimulcastSize E sz layers =
     (case (case base2_exponent E of
              Some x \<Rightarrow> if sz > 2 ^ x then Some x else if layers = 0 then None else Some (layers - 1)
            | None \<Rightarrow> if layers = 0 then None else Some (layers - 1)) of
        None \<Rightarrow> None
      | Some e \<Rightarrow> if e < 32 then Some (push_bit e (drop_bit e sz)) else None)"

definition roundup_rate :: "rat option \<Rightarrow> rat" where
  "roundup_rate r = (case r of None \<Rightarrow> 1 / 10 | Some x \<Rightarrow> x)"

definition InterpolateSimulcastFormat ::
    "simulcast_env \<Rightarrow> int \<Rightarrow> int \<Rightarrow> rat option \<Rightarrow> bool \<Rightarrow> SimulcastFormat option" where
  "InterpolateSimulcastFormat E width height max_roundup_rate lowres =
     (let formats = GetSimulcastFormats lowres in
      case FindSimulcastFormatIndex width height lowres of
        Some (Some index) \<Rightarrow>
          if index = 0 then Some (formats ! 0)
          else
            (let up = formats ! (index - 1); down = formats ! index;
                 total_pixels_up = sf_width up * sf_height up;
                 total_pixels_down = sf_width down * sf_height down;
                 rate = f32 (of_int (total_pixels_up - width * height)
                             / of_int (total_pixels_up - total_pixels_down))
             in Some \<lparr>sf_width = width, sf_height = height,
                  sf_max_layers = (if rate < roundup_rate max_roundup_rate then sf_max_layers up
                                   else sf_max_layers down),
                  sf_max_bitrate = Interpolate E (sf_max_bitrate up) (sf_max_bitrate down) rate,
                  sf_target_bitrate = Interpolate E (sf_target_bitrate up) (sf_target_bitrate down) rate,
                  sf_min_bitrate = Interpolate E (sf_min_bitrate up) (sf_min_bitrate down) rate\<rparr>)
      | _ \<Rightarrow> None)"

section \<open>Layers\<close>

fun sum_targets :: "VideoStream list \<Rightarrow> int \<Rightarrow> int option" where
  "sum_targets [] acc = Some acc"
| "sum_targets (l # ls) acc = Option.bind (iadd acc (vs_target_bitrate_bps l)) (sum_targets ls)"

text \<open>The targets of all layers but the last, and the maximum of the last.\<close>

definition GetTotalMaxBitrate :: "VideoStream list \<Rightarrow> int option" where
  "GetTotalMaxBitrate layers =
     (if layers = [] then Some 0
      else Option.bind (sum_targets (butlast layers) 0) (\<lambda>t. iadd t (vs_max_bitrate_bps (last layers))))"

definition BoostMaxSimulcastLayer :: "int \<Rightarrow> VideoStream list \<Rightarrow> VideoStream list option" where
  "BoostMaxSimulcastLayer max_bitrate layers =
     (if layers = [] then Some layers
      else Option.bind (GetTotalMaxBitrate layers) (\<lambda>tot0.
        if tot0 < max_bitrate
        then map_option (\<lambda>b. butlast layers @ [(last layers)\<lparr>vs_max_bitrate_bps := b\<rparr>])
               (iadd (vs_max_bitrate_bps (last layers)) (max_bitrate - tot0))
        else Some layers))"

definition LimitSimulcastLayerCount ::
    "simulcast_env \<Rightarrow> int \<Rightarrow> int \<Rightarrow> nat \<Rightarrow> nat \<Rightarrow> nat option" where
  "LimitSimulcastLayerCount E width height need_layers layer_count =
     (if \<not> prefix ''Disabled'' (trial E ''WebRTC-LegacySimulcastLayerLimit'')
      then map_option (\<lambda>f.
             let adaptive_layer_count = max need_layers (sf_max_layers f)
             in if layer_count > adaptive_layer_count then adaptive_layer_count else layer_count)
           (InterpolateSimulcastFormat E width height
              (trial_max_ratio E (trial E ''WebRTC-SimulcastLayerLimitRoundUp''))
              (EnableLowresBitrateInterpolation E))
      else Some layer_count)"

definition rate_factor :: "simulcast_env \<Rightarrow> bool \<Rightarrow> int \<Rightarrow> rat" where
  "rate_factor E base_heavy n =
     (if n = 3 then (if base_heavy then f32 (4 / 6) else 1)
      else f32 (temporal_share E 3 0 False / temporal_share E n 0 False))"

text \<open>One layer of the loop of \<open>GetNormalSimulcastLayers\<close>.\<close>

definition normal_layer ::
    "simulcast_env \<Rightarrow> int \<Rightarrow> bool \<Rightarrow> bool \<Rightarrow> nat \<Rightarrow> int \<Rightarrow> int \<Rightarrow> VideoStream option" where
  "normal_layer E max_qp temporal base_heavy s width height =
     (case (InterpolateSimulcastFormat E width height None (EnableLowresBitrateInterpolation E),
            DefaultNumberOfTemporalLayers E s False) of
        (Some f, Some n) \<Rightarrow>
          (let factor = (if s = 0 then rate_factor E base_heavy n else 1);
               mx = (if s = 0 then trunc (f32 (of_int (sf_max_bitrate f) * factor)) else sf_max_bitrate f);
               tg = (if s = 0 then trunc (f32 (of_int (sf_target_bitrate f) * factor))
                     else sf_target_bitrate f);
               mn = sf_min_bitrate f
           in Some ((default_VideoStream E)\<lparr>vs_width := width, vs_height := height, vs_max_qp := max_qp,
                vs_num_temporal_layers := Some (if temporal then n else 1),
                vs_min_bitrate_bps := mn, vs_max_bitrate_bps := max mn mx,
                vs_target_bitrate_bps := max mn tg, vs_max_framerate := kDefaultVideoMaxFramerate E\<rparr>))
      | _ \<Rightarrow> None)"

text \<open>From the top layer down, each of half the size.\<close>

fun normal_layers ::
    "simulcast_env \<Rightarrow> int \<Rightarrow> bool \<Rightarrow> bool \<Rightarrow> nat \<Rightarrow> int \<Rightarrow> int \<Rightarrow> VideoStream list option" where
  "normal_layers E max_qp temporal base_heavy 0 width height =
     map_option (\<lambda>l. [l]) (normal_layer E max_qp temporal base_heavy 0 width height)"
| "normal_layers E max_qp temporal base_heavy (Suc s) width height =
     Option.bind (normal_layer E max_qp temporal base_heavy (Suc s) width height) (\<lambda>l.
       map_option (\<lambda>ls. ls @ [l])
         (normal_layers E max_qp temporal base_heavy s (width sdiv 2) (height sdiv 2)))"

definition with_priority :: "dbl \<Rightarrow> VideoStream list \<Rightarrow> VideoStream list" where
  "with_priority p layers =
     (case layers of [] \<Rightarrow> [] | l # ls \<Rightarrow> l\<lparr>vs_bitrate_priority := Some p\<rparr> # ls)"

definition GetNormalSimulcastLayers ::
    "simulcast_env \<Rightarrow> nat \<Rightarrow> int \<Rightarrow> int \<Rightarrow> dbl \<Rightarrow> int \<Rightarrow> bool \<Rightarrow> bool \<Rightarrow> VideoStream list option" where
  "GetNormalSimulcastLayers E layer_count width height prio max_qp temporal base_heavy =
     (case (NormalizeSimulcastSize E width layer_count, NormalizeSimulcastSize E height layer_count) of
        (Some w, Some h) \<Rightarrow>
          if layer_count = 0 then None
          else map_option (with_priority prio)
                 (normal_layers E max_qp temporal base_heavy (layer_count - 1) w h)
      | _ \<Rightarrow> None)"

definition screen_base ::
    "simulcast_env \<Rightarrow> int \<Rightarrow> int \<Rightarrow> int \<Rightarrow> bool \<Rightarrow> VideoStream" where
  "screen_base E width height max_qp temporal =
     (default_VideoStream E)\<lparr>vs_width := width, vs_height := height, vs_max_qp := max_qp,
        vs_max_framerate := 5, vs_min_bitrate_bps := kDefaultMinVideoBitrateBps E,
        vs_target_bitrate_bps := 200 * 1000, vs_max_bitrate_bps := 1000 * 1000,
        vs_num_temporal_layers := Some (if temporal then 2 else 1)\<rparr>"

definition screen_top ::
    "simulcast_env \<Rightarrow> int \<Rightarrow> int \<Rightarrow> int \<Rightarrow> bool \<Rightarrow> bool \<Rightarrow> VideoStream option" where
  "screen_top E width height max_qp temporal base_heavy =
     map_option (\<lambda>n.
       let boosted = temporal \<and> (n \<noteq> 3 \<or> base_heavy);
           max_bitrate =
             (if \<not> temporal then trunc (f32 (1250 * 1000 * temporal_share E n 0 base_heavy))
              else if boosted then 1250 * 1000
              else 2 * ((200 * 1000 * 10) div 4))
       in (default_VideoStream E)\<lparr>vs_width := width, vs_height := height, vs_max_qp := max_qp,
            vs_max_framerate := kDefaultVideoMaxFramerate E,
            vs_num_temporal_layers := Some (if temporal then n else 1),
            vs_min_bitrate_bps := (if boosted then 600 * 1000 else 200 * 1000 * 2),
            vs_target_bitrate_bps := max_bitrate, vs_max_bitrate_bps := max_bitrate\<rparr>)
       (DefaultNumberOfTemporalLayers E 1 True)"

definition GetScreenshareLayers ::
    "simulcast_env \<Rightarrow> nat \<Rightarrow> int \<Rightarrow> int \<Rightarrow> dbl \<Rightarrow> int \<Rightarrow> bool \<Rightarrow> bool \<Rightarrow> VideoStream list option" where
  "GetScreenshareLayers E max_layers width height prio max_qp temporal base_heavy =
     (let base = screen_base E width height max_qp temporal in
      if max_layers = 0 then None
      else if max_layers = 1 then Some (with_priority prio [base])
      else map_option (\<lambda>top. with_priority prio [base, top])
             (screen_top E width height max_qp temporal base_heavy))"

definition GetSimulcastConfig ::
    "simulcast_env \<Rightarrow> nat \<Rightarrow> nat \<Rightarrow> int \<Rightarrow> int \<Rightarrow> dbl \<Rightarrow> int \<Rightarrow> bool \<Rightarrow> bool
     \<Rightarrow> VideoStream list option" where
  "GetSimulcastConfig E min_layers max_layers width height prio max_qp screenshare temporal =
     (if screenshare
      then GetScreenshareLayers E max_layers width height prio max_qp temporal (base_heavy_tl3 E)
      else Option.bind (LimitSimulcastLayerCount E width height min_layers max_layers) (\<lambda>n.
             GetNormalSimulcastLayers E n width height prio max_qp temporal (base_heavy_tl3 E)))"

section \<open>Rounding\<close>

lemma round_even_int [simp]: "round_even (of_int n) = n"
  by (simp add: round_even_def)

lemma round_even_bounds: "\<lfloor>y\<rfloor> \<le> round_even y" "round_even y \<le> \<lfloor>y\<rfloor> + 1"
  by (simp_all add: round_even_def Let_def)

lemma round_even_le_int: "y \<le> of_int n \<Longrightarrow> round_even y \<le> n"
proof (cases "y = of_int n")
  case False
  assume "y \<le> of_int n"
  with False have "y < of_int n" by simp
  then have "\<lfloor>y\<rfloor> < n" by (simp only: floor_less_iff)
  then show ?thesis using round_even_bounds(2) [of y] by linarith
qed simp

lemma round_even_nonneg: "0 \<le> y \<Longrightarrow> 0 \<le> round_even y"
  using round_even_bounds(1) [of y] by (meson dual_order.trans zero_le_floor)

lemma f32_down_small: "x < 2 ^ 24 \<Longrightarrow> f32_down n x = 0"
  by (cases n) simp_all

lemma f32_unit: "0 \<le> x \<Longrightarrow> x \<le> 1 \<Longrightarrow> 0 \<le> f32 x \<and> f32 x \<le> 1"
proof -
  assume x: "0 \<le> x" "x \<le> 1"
  let ?u = "f32_up 149 x"
  have "f32_down 104 x = 0" using x by (intro f32_down_small) simp
  then have f: "f32 x = of_int (round_even (x * 2 ^ ?u)) / 2 ^ ?u" by (simp add: f32_def Let_def)
  have "x * 2 ^ ?u \<le> of_int (2 ^ ?u)" using x(2) by (simp add: mult_le_cancel_right1)
  then have "round_even (x * 2 ^ ?u) \<le> 2 ^ ?u" by (rule round_even_le_int)
  then have "of_int (round_even (x * 2 ^ ?u)) \<le> (2 ^ ?u :: rat)"
    by (metis of_int_le_iff of_int_numeral of_int_power)
  moreover have "0 \<le> round_even (x * 2 ^ ?u)" using x(1) by (intro round_even_nonneg) simp
  ultimately show ?thesis by (simp add: f divide_le_eq)
qed

lemma f32_int: "0 \<le> b \<Longrightarrow> b < 2 ^ 24 \<Longrightarrow> f32 (of_int b) = of_int b"
proof -
  assume b: "0 \<le> b" "b < 2 ^ 24"
  let ?u = "f32_up 149 (of_int b)"
  have "(of_int b :: rat) < of_int (2 ^ 24)" using b(2) by (simp only: of_int_less_iff)
  then have d: "f32_down 104 (of_int b) = 0" by (intro f32_down_small) simp
  have "(of_int b :: rat) * 2 ^ ?u = of_int (b * 2 ^ ?u)" by simp
  then have "round_even (of_int b * 2 ^ ?u) = b * 2 ^ ?u" by (simp only: round_even_int)
  then show ?thesis by (simp add: f32_def d Let_def)
qed

section \<open>Formats and interpolation\<close>

text \<open>\<open>DataRate * double\<close> is monotone and keeps a rate not negative; a share of it is not more.\<close>

definition rates_ok :: "simulcast_env \<Rightarrow> bool" where
  "rates_ok E \<longleftrightarrow>
     (\<forall>a r. 0 \<le> a \<longrightarrow> 0 \<le> r \<longrightarrow> r \<le> 1 \<longrightarrow> 0 \<le> scale_rate E a r \<and> scale_rate E a r \<le> a)
     \<and> (\<forall>a b r. a \<le> b \<longrightarrow> 0 \<le> r \<longrightarrow> scale_rate E a r \<le> scale_rate E b r)"

definition format_ok :: "SimulcastFormat \<Rightarrow> bool" where
  "format_ok f \<longleftrightarrow> 0 \<le> sf_min_bitrate f \<and> 0 \<le> sf_target_bitrate f
     \<and> sf_target_bitrate f \<le> sf_max_bitrate f \<and> sf_max_bitrate f \<le> 5000000
     \<and> sf_min_bitrate f \<le> 5000000
     \<and> 1 \<le> sf_max_layers f \<and> sf_max_layers f \<le> 3"

lemma formats_ok: "list_all format_ok (GetSimulcastFormats lowres)"
  by (simp add: GetSimulcastFormats_def kSimulcastFormats_def sformat_def format_ok_def Let_def)

lemma format_nth_ok: "i < length (GetSimulcastFormats lowres) \<Longrightarrow> format_ok (GetSimulcastFormats lowres ! i)"
  using formats_ok [of lowres] by (simp add: list_all_length)

lemma format_sizes:
  "List.map (\<lambda>f. sf_width f * sf_height f) (GetSimulcastFormats lowres) =
     [2073600, 921600, 518400, 230400, 129600, 57600, 0]"
  by (simp add: GetSimulcastFormats_def kSimulcastFormats_def sformat_def Let_def)

lemma format_index_found:
  "format_index p fs = Some i \<longleftrightarrow> i < length fs \<and> sf_width (fs ! i) * sf_height (fs ! i) \<le> p
     \<and> (\<forall>j < i. p < sf_width (fs ! j) * sf_height (fs ! j))"
proof (induction fs arbitrary: i)
  case Nil
  then show ?case by simp
next
  case (Cons f fs)
  then show ?case
    by (cases i) (auto simp: not_le less_Suc_eq_0_disj)
qed

lemma format_index_total: "0 \<le> p \<Longrightarrow> \<exists>i < 7. format_index p (GetSimulcastFormats lowres) = Some i"
proof -
  assume p: "0 \<le> p"
  have *: "\<exists>i < length fs. format_index p fs = Some i" if "\<exists>f \<in> set fs. sf_width f * sf_height f \<le> p" for fs
    using that by (induction fs) auto
  have l: "length (GetSimulcastFormats lowres) = 7" by (simp add: GetSimulcastFormats_def kSimulcastFormats_def Let_def)
  have "List.map (\<lambda>f. sf_width f * sf_height f) (GetSimulcastFormats lowres) ! 6 = 0"
    by (simp only: format_sizes) simp
  then have "sf_width (GetSimulcastFormats lowres ! 6) * sf_height (GetSimulcastFormats lowres ! 6) \<le> p"
    using l p by auto
  moreover have "GetSimulcastFormats lowres ! 6 \<in> set (GetSimulcastFormats lowres)" using l by simp
  ultimately have "\<exists>f \<in> set (GetSimulcastFormats lowres). sf_width f * sf_height f \<le> p" by blast
  from * [OF this] show ?thesis using l by simp
qed

lemma scale_sum_bounds:
  assumes "rates_ok E" "0 \<le> r" "r \<le> 1" "0 \<le> a" "0 \<le> b" "a \<le> k" "b \<le> k"
  shows "0 \<le> Interpolate E a b r" "Interpolate E a b r \<le> 2 * k"
proof -
  have "0 \<le> scale_rate E a (1 - r) \<and> scale_rate E a (1 - r) \<le> a"
    "0 \<le> scale_rate E b r \<and> scale_rate E b r \<le> b"
    using assms by (simp_all add: rates_ok_def)
  then show "0 \<le> Interpolate E a b r" "Interpolate E a b r \<le> 2 * k"
    using assms(6,7) by (simp_all add: Interpolate_def)
qed

lemma Interpolate_mono:
  assumes "rates_ok E" "0 \<le> r" "r \<le> 1" "a \<le> a'" "b \<le> b'"
  shows "Interpolate E a b r \<le> Interpolate E a' b' r"
  using assms by (auto simp: rates_ok_def Interpolate_def intro!: add_mono)

lemma ratio_unit: "d \<le> p \<Longrightarrow> p < u \<Longrightarrow>
    0 \<le> (of_int (u - p) / of_int (u - d) :: rat) \<and> (of_int (u - p) / of_int (u - d) :: rat) \<le> 1"
proof -
  assume "d \<le> p" "p < u"
  then have "(0::rat) \<le> of_int (u - p)" "(of_int (u - p) :: rat) \<le> of_int (u - d)" "(0::rat) < of_int (u - d)"
    by (simp_all only: of_int_0_le_iff of_int_le_iff of_int_0_less_iff)
  then show ?thesis by (simp add: divide_le_eq del: of_int_diff)
qed

text \<open>An interpolated format, and the one at the top of the table, is in order.\<close>

lemma interpolated_ok:
  assumes "rates_ok E" "0 \<le> w * h" "w * h < 2 ^ 31"
  shows "\<exists>f. InterpolateSimulcastFormat E w h r lowres = Some f
    \<and> 0 \<le> sf_min_bitrate f \<and> 0 \<le> sf_target_bitrate f \<and> sf_target_bitrate f \<le> sf_max_bitrate f
    \<and> sf_max_bitrate f < 2 ^ 24 \<and> sf_min_bitrate f < 2 ^ 24 \<and> 1 \<le> sf_max_layers f \<and> sf_max_layers f \<le> 3"
proof -
  let ?F = "GetSimulcastFormats lowres" and ?p = "w * h"
  obtain i where i: "i < 7" "format_index ?p ?F = Some i" using format_index_total [OF assms(2)] by blast
  have l: "length ?F = 7" by (simp add: GetSimulcastFormats_def kSimulcastFormats_def Let_def)
  have x: "FindSimulcastFormatIndex w h lowres = Some (Some i)"
    using assms i(2) by (simp add: FindSimulcastFormatIndex_def imul_def)
  note ok = format_nth_ok [of _ lowres, unfolded l format_ok_def]
  show ?thesis
  proof (cases "i = 0")
    case True
    then show ?thesis using ok [of 0] x by (auto simp: InterpolateSimulcastFormat_def Let_def)
  next
    case False
    let ?up = "?F ! (i - 1)" and ?down = "?F ! i"
    let ?u = "sf_width ?up * sf_height ?up" and ?d = "sf_width ?down * sf_height ?down"
    let ?r = "f32 (of_int (?u - ?p) / of_int (?u - ?d))"
    have b: "?d \<le> ?p" "?p < ?u" using i(2) False by (auto simp: format_index_found)
    then have r: "0 \<le> ?r" "?r \<le> 1" using f32_unit ratio_unit by blast+
    have k: "i - 1 < 7" using i(1) by simp
    note o1 = ok [OF k] and o2 = ok [OF i(1)]
    have n: "Interpolate E (sf_min_bitrate ?up) (sf_min_bitrate ?down) ?r \<le> 2 * 5000000"
      by (rule scale_sum_bounds(2) [OF assms(1) r]) (use o1 o2 in simp_all)
    have m: "0 \<le> Interpolate E (sf_min_bitrate ?up) (sf_min_bitrate ?down) ?r"
      "0 \<le> Interpolate E (sf_target_bitrate ?up) (sf_target_bitrate ?down) ?r"
      using scale_sum_bounds(1) [OF assms(1) r] o1 o2 by (metis order_refl max.cobounded1 max.cobounded2)+
    have t: "Interpolate E (sf_target_bitrate ?up) (sf_target_bitrate ?down) ?r
        \<le> Interpolate E (sf_max_bitrate ?up) (sf_max_bitrate ?down) ?r"
      by (rule Interpolate_mono [OF assms(1) r]) (use o1 o2 in simp_all)
    have "Interpolate E (sf_max_bitrate ?up) (sf_max_bitrate ?down) ?r \<le> 2 * 5000000"
      by (rule scale_sum_bounds(2) [OF assms(1) r]) (use o1 o2 in simp_all)
    then show ?thesis using x False m n t o1 o2 by (simp add: InterpolateSimulcastFormat_def Let_def)
  qed
qed

section \<open>Layers in order\<close>

definition layer_ok :: "VideoStream \<Rightarrow> bool" where
  "layer_ok l \<longleftrightarrow> 0 \<le> vs_min_bitrate_bps l \<and> vs_min_bitrate_bps l \<le> vs_target_bitrate_bps l
     \<and> vs_min_bitrate_bps l \<le> vs_max_bitrate_bps l"

definition rates_below :: "VideoStream \<Rightarrow> bool" where
  "rates_below l \<longleftrightarrow> vs_target_bitrate_bps l \<le> vs_max_bitrate_bps l \<and> vs_max_bitrate_bps l < 2 ^ 24"

definition default_rates :: "simulcast_env \<Rightarrow> bool \<Rightarrow> bool" where
  "default_rates E base_heavy \<longleftrightarrow>
     \<not> base_heavy \<and> trial E ''WebRTC-VP8ConferenceTemporalLayers'' = ''''"

lemma temporal_layers_total:
  "s < kMaxSimulcastStreams E \<Longrightarrow> \<exists>n. DefaultNumberOfTemporalLayers E s b = Some n"
  by (auto simp: DefaultNumberOfTemporalLayers_def Let_def split: option.split)

lemma normal_layer_ok:
  assumes "rates_ok E" "0 \<le> w * h" "w * h < 2 ^ 31" "s < kMaxSimulcastStreams E"
  shows "\<exists>l. normal_layer E q tls bh s w h = Some l \<and> vs_width l = w \<and> vs_height l = h \<and> layer_ok l
    \<and> (default_rates E bh \<longrightarrow> rates_below l)"
proof -
  obtain f where f: "InterpolateSimulcastFormat E w h None (EnableLowresBitrateInterpolation E) = Some f"
    "0 \<le> sf_min_bitrate f" "0 \<le> sf_target_bitrate f" "sf_target_bitrate f \<le> sf_max_bitrate f"
    "sf_max_bitrate f < 2 ^ 24" "sf_min_bitrate f < 2 ^ 24"
    using interpolated_ok [OF assms(1-3)] by blast
  obtain n where n: "DefaultNumberOfTemporalLayers E s False = Some n"
    using temporal_layers_total [OF assms(4)] by blast
  have d: "n = 3" if "default_rates E bh"
    using n that by (auto simp: DefaultNumberOfTemporalLayers_def default_rates_def split: if_splits)
  have i: "trunc (f32 (of_int b)) = b" if "0 \<le> b" "b < 2 ^ 24" for b
    using f32_int [OF that] that(1) by (simp add: trunc_def)
  show ?thesis using f n d i [of "sf_max_bitrate f"] i [of "sf_target_bitrate f"]
    by (auto simp: normal_layer_def layer_ok_def rates_below_def Let_def rate_factor_def default_rates_def)
qed

lemma half_twice: "0 \<le> w \<Longrightarrow> (w sdiv 2) div 2 ^ k = w div 2 ^ Suc k" for w :: int
  by (simp add: signed_divide_int_def sgn_if zdiv_zmult2_eq)

lemma normal_layers_ok:
  assumes "rates_ok E" "0 \<le> w" "0 \<le> h" "w * h < 2 ^ 31" "s < kMaxSimulcastStreams E"
  shows "\<exists>ls. normal_layers E q tls bh s w h = Some ls \<and> length ls = Suc s
    \<and> (\<forall>k \<le> s. vs_width (ls ! k) = w div 2 ^ (s - k) \<and> vs_height (ls ! k) = h div 2 ^ (s - k)
         \<and> layer_ok (ls ! k)
         \<and> (default_rates E bh \<longrightarrow> rates_below (ls ! k)))"
  using assms(2-)
proof (induction s arbitrary: w h)
  case 0
  obtain l where "normal_layer E q tls bh 0 w h = Some l" "vs_width l = w" "vs_height l = h" "layer_ok l"
    "default_rates E bh \<longrightarrow> rates_below l"
    using normal_layer_ok [OF assms(1), of w h 0 q tls bh] 0 by auto
  then show ?case by simp
next
  case (Suc s)
  obtain l where l: "normal_layer E q tls bh (Suc s) w h = Some l" "vs_width l = w" "vs_height l = h"
    "layer_ok l" "default_rates E bh \<longrightarrow> rates_below l"
    using normal_layer_ok [OF assms(1), of w h "Suc s" q tls bh] Suc.prems by auto
  have half: "w sdiv 2 = w div 2" "h sdiv 2 = h div 2"
    using half_twice [of w 0] half_twice [of h 0] Suc.prems by simp_all
  have "(w div 2) * (h div 2) \<le> w * h" using Suc.prems by (intro mult_mono) auto
  then obtain ls where ls: "normal_layers E q tls bh s (w sdiv 2) (h sdiv 2) = Some ls" "length ls = Suc s"
    "\<forall>k \<le> s. vs_width (ls ! k) = (w sdiv 2) div 2 ^ (s - k) \<and> vs_height (ls ! k) = (h sdiv 2) div 2 ^ (s - k)
       \<and> layer_ok (ls ! k)
       \<and> (default_rates E bh \<longrightarrow> rates_below (ls ! k))"
    using Suc.IH [of "w sdiv 2" "h sdiv 2"] Suc.prems by (auto simp: half)
  have k: "vs_width ((ls @ [l]) ! k) = w div 2 ^ (Suc s - k) \<and> vs_height ((ls @ [l]) ! k) = h div 2 ^ (Suc s - k)
       \<and> layer_ok ((ls @ [l]) ! k)
       \<and> (default_rates E bh \<longrightarrow> rates_below ((ls @ [l]) ! k))"
    if "k \<le> Suc s" for k
  proof (cases "k = Suc s")
    case True
    then show ?thesis using l ls(2) by (simp add: nth_append)
  next
    case False
    then have "k \<le> s" "Suc s - k = Suc (s - k)" using that by auto
    then show ?thesis using ls(2,3) Suc.prems half_twice by (simp add: nth_append)
  qed
  show ?case using l(1) ls(1,2) k by (intro exI [of _ "ls @ [l]"]) simp
qed

lemma normalized_size:
  "base2_exponent E = None \<Longrightarrow> 1 \<le> n \<Longrightarrow> n \<le> 32 \<Longrightarrow>
     NormalizeSimulcastSize E w n = Some (w div 2 ^ (n - 1) * 2 ^ (n - 1))"
  by (simp add: NormalizeSimulcastSize_def push_bit_eq_mult drop_bit_eq_div)

lemma multiple_chain:
  fixes q :: int
  assumes "k < n"
  shows "(q * 2 ^ (n - 1)) div 2 ^ (n - 1 - k) * 2 ^ (n - 1 - k) = q * 2 ^ (n - 1)"
proof -
  have "n - 1 = (n - 1 - k) + k" using assms by simp
  then have "q * 2 ^ (n - 1) = (q * 2 ^ k) * 2 ^ (n - 1 - k)"
    by (metis (no_types, lifting) mult.assoc mult.commute power_add)
  then show ?thesis by (metis nonzero_mult_div_cancel_right power_not_zero zero_neq_numeral)
qed

lemma with_priority_simps [simp]:
  "length (with_priority p ls) = length ls"
  "k < length ls \<Longrightarrow> vs_width (with_priority p ls ! k) = vs_width (ls ! k)"
  "k < length ls \<Longrightarrow> vs_height (with_priority p ls ! k) = vs_height (ls ! k)"
  "k < length ls \<Longrightarrow> layer_ok (with_priority p ls ! k) = layer_ok (ls ! k)"
  "k < length ls \<Longrightarrow> vs_target_bitrate_bps (with_priority p ls ! k) = vs_target_bitrate_bps (ls ! k)"
  "k < length ls \<Longrightarrow> vs_max_bitrate_bps (with_priority p ls ! k) = vs_max_bitrate_bps (ls ! k)"
  "k < length ls \<Longrightarrow> rates_below (with_priority p ls ! k) = rates_below (ls ! k)"
  by (cases ls; cases k; simp add: with_priority_def layer_ok_def rates_below_def)+

lemma normal_simulcast_ok:
  assumes "rates_ok E" "base2_exponent E = None" "1 \<le> n" "n \<le> kMaxSimulcastStreams E" "n \<le> 32"
    "0 \<le> w" "0 \<le> h" "w * h < 2 ^ 31"
  shows "\<exists>ls. GetNormalSimulcastLayers E n w h p q tls bh = Some ls \<and> length ls = n
    \<and> (\<forall>k < n. vs_width (ls ! k) * 2 ^ (n - 1 - k) = w div 2 ^ (n - 1) * 2 ^ (n - 1)
         \<and> vs_height (ls ! k) * 2 ^ (n - 1 - k) = h div 2 ^ (n - 1) * 2 ^ (n - 1)
         \<and> layer_ok (ls ! k)
         \<and> (default_rates E bh \<longrightarrow> rates_below (ls ! k)))"
proof -
  let ?w = "w div 2 ^ (n - 1) * 2 ^ (n - 1)" and ?h = "h div 2 ^ (n - 1) * 2 ^ (n - 1)"
  have s: "0 \<le> ?w" "?w \<le> w" "0 \<le> ?h" "?h \<le> h"
    using assms(6,7) by (simp_all add: pos_imp_zdiv_nonneg_iff minus_mod_eq_div_mult [symmetric] zmod_le_nonneg_dividend)
  then have "?w * ?h \<le> w * h" by (intro mult_mono) simp_all
  then have "?w * ?h < 2 ^ 31" using assms(8) by linarith
  moreover have "n - 1 < kMaxSimulcastStreams E" using assms(3,4) by simp
  ultimately obtain ls where ls: "normal_layers E q tls bh (n - 1) ?w ?h = Some ls" "length ls = Suc (n - 1)"
    "\<forall>k \<le> n - 1. vs_width (ls ! k) = ?w div 2 ^ (n - 1 - k) \<and> vs_height (ls ! k) = ?h div 2 ^ (n - 1 - k)
       \<and> layer_ok (ls ! k)
       \<and> (default_rates E bh \<longrightarrow> rates_below (ls ! k))"
    using normal_layers_ok [OF assms(1) s(1,3), of "n - 1" q tls bh] by blast
  have "GetNormalSimulcastLayers E n w h p q tls bh = Some (with_priority p ls)"
    using ls(1) assms(2,3,5) by (simp add: GetNormalSimulcastLayers_def normalized_size)
  then show ?thesis using ls(2,3) assms(3) multiple_chain
    by (intro exI [of _ "with_priority p ls"]) auto
qed

lemma limit_count_ok:
  assumes "rates_ok E" "0 \<le> w * h" "w * h < 2 ^ 31" "need \<le> cnt" "1 \<le> cnt"
  shows "\<exists>m. LimitSimulcastLayerCount E w h need cnt = Some m \<and> need \<le> m \<and> m \<le> cnt \<and> 1 \<le> m"
proof -
  let ?r = "trial_max_ratio E (trial E ''WebRTC-SimulcastLayerLimitRoundUp'')"
  obtain f where "InterpolateSimulcastFormat E w h ?r (EnableLowresBitrateInterpolation E) = Some f"
    "1 \<le> sf_max_layers f" using interpolated_ok [OF assms(1-3)] by blast
  then show ?thesis using assms(4,5) by (auto simp: LimitSimulcastLayerCount_def Let_def)
qed

lemma simulcast_config_ok:
  assumes "rates_ok E" "base2_exponent E = None" "need \<le> cnt" "1 \<le> cnt"
    "cnt \<le> kMaxSimulcastStreams E" "cnt \<le> 32" "0 \<le> w" "0 \<le> h" "w * h < 2 ^ 31"
  shows "\<exists>ls. GetSimulcastConfig E need cnt w h p q False tls = Some ls
    \<and> need \<le> length ls \<and> 1 \<le> length ls \<and> length ls \<le> cnt
    \<and> (\<forall>k < length ls.
         vs_width (ls ! k) * 2 ^ (length ls - 1 - k) = w div 2 ^ (length ls - 1) * 2 ^ (length ls - 1)
         \<and> vs_height (ls ! k) * 2 ^ (length ls - 1 - k) = h div 2 ^ (length ls - 1) * 2 ^ (length ls - 1)
         \<and> layer_ok (ls ! k)
         \<and> (default_rates E (base_heavy_tl3 E)
              \<longrightarrow> rates_below (ls ! k)))"
proof -
  have "0 \<le> w * h" using assms(7,8) by simp
  then obtain m where m: "LimitSimulcastLayerCount E w h need cnt = Some m" "need \<le> m" "m \<le> cnt" "1 \<le> m"
    using limit_count_ok [OF assms(1) _ assms(9) assms(3,4)] by blast
  have c: "m \<le> kMaxSimulcastStreams E" "m \<le> 32" using m(3) assms(5,6) by simp_all
  obtain ls where "GetNormalSimulcastLayers E m w h p q tls (base_heavy_tl3 E) = Some ls" "length ls = m"
    "\<forall>k < m. vs_width (ls ! k) * 2 ^ (m - 1 - k) = w div 2 ^ (m - 1) * 2 ^ (m - 1)
         \<and> vs_height (ls ! k) * 2 ^ (m - 1 - k) = h div 2 ^ (m - 1) * 2 ^ (m - 1) \<and> layer_ok (ls ! k)
         \<and> (default_rates E (base_heavy_tl3 E)
              \<longrightarrow> rates_below (ls ! k))"
    using normal_simulcast_ok [OF assms(1,2) m(4) c assms(7-9), of p q tls "base_heavy_tl3 E"] by blast
  then show ?thesis using m by (auto simp: GetSimulcastConfig_def)
qed

section \<open>Properties\<close>


definition demo_stream :: VideoStream where
  "demo_stream = \<lparr>vs_width = 0, vs_height = 0, vs_max_framerate = -1, vs_min_bitrate_bps = -1,
     vs_target_bitrate_bps = -1, vs_max_bitrate_bps = -1, vs_scale_resolution_down_by = Fin (-1),
     vs_max_qp = -1, vs_num_temporal_layers = None, vs_bitrate_priority = None,
     vs_scalability_mode = None, vs_active = True\<rparr>"

definition demo_simulcast :: simulcast_env where
  "demo_simulcast = \<lparr>trial = (\<lambda>n. ''''), trial_max_ratio = (\<lambda>s. None), base2_exponent = None,
     base_heavy_tl3 = False, temporal_share = (\<lambda>n i b. 1), scale_rate = (\<lambda>a r. \<lfloor>of_int a * r\<rfloor>),
     kMaxSimulcastStreams = 3, kMaxTemporalStreams = 4, kDefaultMinVideoBitrateBps = 30000,
     kDefaultVideoMaxFramerate = 60, default_VideoStream = demo_stream\<rparr>"

lemma demo_rates: "rates_ok demo_simulcast"
proof -
  have "of_int a * r \<le> of_int a" if "0 \<le> a" "0 \<le> r" "r \<le> 1" for a :: int and r :: rat
    using that by (simp add: mult_left_le)
  then have "\<lfloor>of_int a * r\<rfloor> \<le> a" if "0 \<le> a" "0 \<le> r" "r \<le> 1" for a :: int and r :: rat
    using that by (metis floor_mono floor_of_int)
  moreover have "\<lfloor>of_int a * r\<rfloor> \<le> \<lfloor>of_int b * r\<rfloor>" if "a \<le> b" "0 \<le> r" for a b :: int and r :: rat
    using that by (intro floor_mono mult_right_mono) simp_all
  ultimately show ?thesis by (simp add: rates_ok_def demo_simulcast_def)
qed


text \<open>The boost spends what is left, exactly. With at least one layer and sums within an int, the
  total maximum of the boosted layers is the larger of the old total and the bitrate allowed, and
  only the maximum of the last layer has changed.\<close>

theorem boost_reaches_max:
  assumes "layers \<noteq> []" "GetTotalMaxBitrate layers = Some tot0"
    "BoostMaxSimulcastLayer b layers = Some layers'" "- (2 ^ 31) \<le> b" "b < 2 ^ 31"
  shows "GetTotalMaxBitrate layers' = Some (max b tot0) \<and> butlast layers' = butlast layers
    \<and> length layers' = length layers
    \<and> (last layers')\<lparr>vs_max_bitrate_bps := vs_max_bitrate_bps (last layers)\<rparr> = last layers"
proof (cases "tot0 < b")
  case False
  then show ?thesis using assms by (auto simp: BoostMaxSimulcastLayer_def max_def split: if_splits)
next
  case True
  let ?l = "last layers"
  obtain t where t: "sum_targets (butlast layers) 0 = Some t" "iadd t (vs_max_bitrate_bps ?l) = Some tot0"
    using assms(1,2) by (auto simp: GetTotalMaxBitrate_def bind_eq_Some_conv)
  then have tot: "tot0 = t + vs_max_bitrate_bps ?l" by (auto simp: iadd_def split: if_splits)
  obtain m where m: "iadd (vs_max_bitrate_bps ?l) (b - tot0) = Some m"
    "layers' = butlast layers @ [?l\<lparr>vs_max_bitrate_bps := m\<rparr>]"
    using assms(1-3) True by (auto simp: BoostMaxSimulcastLayer_def)
  then have "m = vs_max_bitrate_bps ?l + (b - tot0)" by (auto simp: iadd_def split: if_splits)
  then have "iadd t m = Some b" using tot assms(4,5) by (simp add: iadd_def)
  then have "GetTotalMaxBitrate layers' = Some b" using t(1) m(2) by (simp add: GetTotalMaxBitrate_def)
  then show ?thesis using True m(2) assms(1) by (cases layers rule: rev_cases) (simp_all add: max_def)
qed

theorem boost_reaches_max_witness:
  "\<exists>ls'. BoostMaxSimulcastLayer 5000 [demo_stream\<lparr>vs_target_bitrate_bps := 1000\<rparr>,
        demo_stream\<lparr>vs_max_bitrate_bps := 3000\<rparr>] = Some ls' \<and> GetTotalMaxBitrate ls' = Some 5000"
proof -
  let ?ls = "[demo_stream\<lparr>vs_target_bitrate_bps := 1000\<rparr>, demo_stream\<lparr>vs_max_bitrate_bps := 3000\<rparr>]"
  have t: "GetTotalMaxBitrate ?ls = Some 4000" by (simp add: GetTotalMaxBitrate_def iadd_def)
  obtain ls' where b: "BoostMaxSimulcastLayer 5000 ?ls = Some ls'"
    by (simp add: BoostMaxSimulcastLayer_def t) (simp add: iadd_def)
  show ?thesis using boost_reaches_max [OF _ t b] b by simp
qed

end
