(* ===== verification/VideoCodecs.thy ===== *)
theory VideoCodecs
  imports MediaEngine RtpConfig
begin

text \<open>
  The codecs of the video engine (engine/webrtc_video_engine.cpp): the payload types of the codecs
  the engine supports, the reading of a codec list into settings (\<open>MapCodecs\<close>), the choice of the
  codecs to send, and the checks of codec lists and stream parameters.

  The class \<open>VideoCodec\<close>, the video formats and the queries of \<open>StreamParams\<close> belong to
  libmedia_transfer_protocol and libmedia_codec: they are the records \<open>codec_lib\<close> and
  \<open>stream_lib\<close>, and what is documented of them is \<open>codec_lib_ok\<close>.
\<close>

section \<open>Libraries\<close>

datatype CodecType = CODEC_VIDEO | CODEC_RED | CODEC_ULPFEC | CODEC_FLEXFEC | CODEC_RTX

record 'f codec_lib =
  GetCodecType :: "Codec \<Rightarrow> CodecType"
  ValidateCodecFormat :: "Codec \<Rightarrow> bool"
  GetApt :: "Codec \<Rightarrow> int option"
  GetRtxTime :: "Codec \<Rightarrow> int option"
  IsValidRtpPayloadType :: "int \<Rightarrow> bool"
  CreateRtxCodec :: "int \<Rightarrow> int \<Rightarrow> Codec"
  codec_of_format :: "'f \<Rightarrow> Codec"
  format_named :: "string \<Rightarrow> 'f"
  format_params :: "'f \<Rightarrow> (string \<times> string) list"
  IsSameCodec :: "'f \<Rightarrow> string \<Rightarrow> (string \<times> string) list \<Rightarrow> bool"
  AddFeedbackParam :: "string \<times> string \<Rightarrow> Codec \<Rightarrow> Codec"
  EqualsIgnoreCase :: "string \<Rightarrow> string \<Rightarrow> bool"
  codec_text :: "Codec \<Rightarrow> string"
  kRedCodecName :: string
  kUlpfecCodecName :: string
  kFlexfecCodecName :: string
  kAv1CodecName :: string
  kAv1xCodecName :: string
  feedback_remb :: "string \<times> string"
  feedback_transport_cc :: "string \<times> string"
  feedback_ccm_fir :: "string \<times> string"
  feedback_nack :: "string \<times> string"
  feedback_nack_pli :: "string \<times> string"

record stream_lib =
  GetPrimarySsrcs :: "StreamParams \<Rightarrow> ssrc list"
  GetFidSsrcs :: "StreamParams \<Rightarrow> ssrc list \<Rightarrow> ssrc list"
  stream_rids :: "StreamParams \<Rightarrow> string list"
  first_ssrc :: "StreamParams \<Rightarrow> ssrc"

section \<open>Payload types\<close>

definition AddDefaultFeedbackParams :: "'f codec_lib \<Rightarrow> Codec \<Rightarrow> Codec" where
  "AddDefaultFeedbackParams L c =
     (if codec_name c = kRedCodecName L \<or> codec_name c = kUlpfecCodecName L then c
      else let c1 = AddFeedbackParam L (feedback_transport_cc L) (AddFeedbackParam L (feedback_remb L) c)
           in if codec_name c = kFlexfecCodecName L then c1
              else AddFeedbackParam L (feedback_nack_pli L)
                     (AddFeedbackParam L (feedback_nack L) (AddFeedbackParam L (feedback_ccm_fir L) c1)))"

definition valid_for_lower :: "'f codec_lib \<Rightarrow> Codec \<Rightarrow> bool" where
  "valid_for_lower L c \<longleftrightarrow> EqualsIgnoreCase L (codec_name c) (kFlexfecCodecName L)
     \<or> EqualsIgnoreCase L (codec_name c) (kAv1CodecName L) \<or> EqualsIgnoreCase L (codec_name c) (kAv1xCodecName L)"

definition is_fec_codec :: "'f codec_lib \<Rightarrow> Codec \<Rightarrow> bool" where
  "is_fec_codec L c \<longleftrightarrow> EqualsIgnoreCase L (codec_name c) (kUlpfecCodecName L)
     \<or> EqualsIgnoreCase L (codec_name c) (kFlexfecCodecName L)"

text \<open>The next number and the two counters after.\<close>

definition take_type :: "bool \<Rightarrow> int \<Rightarrow> int \<Rightarrow> int \<times> int \<times> int" where
  "take_type low upper lower =
     (if low \<or> upper \<ge> 127 then (lower, upper, lower + 1) else (upper, upper + 1, lower))"

fun assign_types :: "'f codec_lib \<Rightarrow> 'f list \<Rightarrow> int \<Rightarrow> int \<Rightarrow> Codec list" where
  "assign_types L [] upper lower = []"
| "assign_types L (f # fs) upper lower =
     (if lower > 63 then []
      else
        (let c0 = codec_of_format L f; low = valid_for_lower L c0 in
         case take_type low upper lower of (n, upper1, lower1) \<Rightarrow>
           let c = AddDefaultFeedbackParams L (c0\<lparr>codec_id := n\<rparr>) in
           if is_fec_codec L c0 then c # assign_types L fs upper1 lower1
           else if lower1 > 63 then [c]
           else case take_type low upper1 lower1 of (m, upper2, lower2) \<Rightarrow>
                  c # CreateRtxCodec L m n # assign_types L fs upper2 lower2))"

text \<open>\<open>None\<close> for the formats: there is no factory.\<close>

definition GetPayloadTypesAndDefaultCodecs :: "'f codec_lib \<Rightarrow> 'f list option \<Rightarrow> Codec list" where
  "GetPayloadTypesAndDefaultCodecs L factory =
     (case factory of
        None \<Rightarrow> []
      | Some fs \<Rightarrow>
          if fs = [] then []
          else assign_types L (fs @ [format_named L (kRedCodecName L), format_named L (kUlpfecCodecName L)]) 96 35)"

section \<open>Codec lists\<close>

definition CodecVectorToString :: "'f codec_lib \<Rightarrow> Codec list \<Rightarrow> string" where
  "CodecVectorToString L cs = ''{'' @ comma_list (List.map (codec_text L) cs) @ ''}''"

definition ValidateCodecFormats :: "'f codec_lib \<Rightarrow> Codec list \<Rightarrow> bool" where
  "ValidateCodecFormats L cs \<longleftrightarrow>
     list_all (ValidateCodecFormat L) cs \<and> list_ex (\<lambda>c. GetCodecType L c = CODEC_VIDEO) cs"

definition ValidateStreamParams :: "stream_lib \<Rightarrow> StreamParams \<Rightarrow> bool" where
  "ValidateStreamParams S sp =
     (if stream_ssrcs sp = [] then False
      else
        (let primary_ssrcs = GetPrimarySsrcs S sp; rtx = GetFidSsrcs S sp primary_ssrcs in
         if \<not> list_all (\<lambda>x. x \<in> set (stream_ssrcs sp)) rtx then False
         else if rtx \<noteq> [] \<and> length primary_ssrcs \<noteq> length rtx then False
         else True))"

record VideoCodecSettings =
  vcs_codec :: Codec
  vcs_ulpfec :: UlpfecConfig
  vcs_flexfec_payload_type :: int
  vcs_rtx_payload_type :: int
  vcs_rtx_time :: int

definition EqualsDisregardingFlexfec :: "VideoCodecSettings \<Rightarrow> VideoCodecSettings \<Rightarrow> bool" where
  "EqualsDisregardingFlexfec a b \<longleftrightarrow> vcs_codec a = vcs_codec b \<and> vcs_ulpfec a = vcs_ulpfec b
     \<and> vcs_rtx_payload_type a = vcs_rtx_payload_type b \<and> vcs_rtx_time a = vcs_rtx_time b"

definition kNackHistoryMs :: int where "kNackHistoryMs = 1000"

record MapState =
  ms_video :: "Codec list"
  ms_types :: "(int, CodecType) smap"
  ms_rtx :: "(int, int) smap"
  ms_rtx_time :: "(int, int) smap"
  ms_ulpfec :: UlpfecConfig
  ms_flexfec :: "int option"

definition map_start :: MapState where
  "map_start = \<lparr>ms_video = [], ms_types = [], ms_rtx = [], ms_rtx_time = [],
     ms_ulpfec = default_UlpfecConfig, ms_flexfec = None\<rparr>"

text \<open>One codec of the list; \<open>None\<close>: the whole list is refused.\<close>

definition map_codec :: "'f codec_lib \<Rightarrow> Codec \<Rightarrow> MapState \<Rightarrow> MapState option" where
  "map_codec L c s =
     (if map_of (ms_types s) (codec_id c) \<noteq> None then None
      else
        (let s1 = s\<lparr>ms_types := smap_put (codec_id c) (GetCodecType L c) (ms_types s)\<rparr> in
         case GetCodecType L c of
           CODEC_RED \<Rightarrow>
             Some (if red_payload_type (ms_ulpfec s) \<noteq> -1 then s1
                   else s1\<lparr>ms_ulpfec := (ms_ulpfec s)\<lparr>red_payload_type := codec_id c\<rparr>\<rparr>)
         | CODEC_ULPFEC \<Rightarrow>
             Some (if ulpfec_payload_type (ms_ulpfec s) \<noteq> -1 then s1
                   else s1\<lparr>ms_ulpfec := (ms_ulpfec s)\<lparr>ulpfec_payload_type := codec_id c\<rparr>\<rparr>)
         | CODEC_FLEXFEC \<Rightarrow>
             Some (if ms_flexfec s \<noteq> None then s1 else s1\<lparr>ms_flexfec := Some (codec_id c)\<rparr>)
         | CODEC_RTX \<Rightarrow>
             (case GetApt L c of
                None \<Rightarrow> None
              | Some a \<Rightarrow>
                  if \<not> IsValidRtpPayloadType L a then None
                  else Some (s1\<lparr>ms_rtx := smap_put a (codec_id c) (ms_rtx s),
                               ms_rtx_time := (case GetRtxTime L c of
                                  Some t \<Rightarrow> if t > 0 then smap_put a t (ms_rtx_time s) else ms_rtx_time s
                                | None \<Rightarrow> ms_rtx_time s)\<rparr>))
         | CODEC_VIDEO \<Rightarrow> Some (s1\<lparr>ms_video := ms_video s @ [c]\<rparr>)))"

fun map_codecs_loop :: "'f codec_lib \<Rightarrow> Codec list \<Rightarrow> MapState \<Rightarrow> MapState option" where
  "map_codecs_loop L [] s = Some s"
| "map_codecs_loop L (c # cs) s = Option.bind (map_codec L c s) (map_codecs_loop L cs)"

text \<open>The RTX codecs must belong to a video or a RED codec; that of RED is remembered.\<close>

fun check_rtx :: "(int, CodecType) smap \<Rightarrow> (int \<times> int) list \<Rightarrow> UlpfecConfig \<Rightarrow> UlpfecConfig option" where
  "check_rtx types [] u = Some u"
| "check_rtx types ((a, r) # ms) u =
     (case map_of types a of
        None \<Rightarrow> None
      | Some t \<Rightarrow>
          if t \<noteq> CODEC_VIDEO \<and> t \<noteq> CODEC_RED then None
          else check_rtx types ms (if a = red_payload_type u then u\<lparr>red_rtx_payload_type := r\<rparr> else u))"

definition codec_settings :: "MapState \<Rightarrow> UlpfecConfig \<Rightarrow> Codec \<Rightarrow> VideoCodecSettings" where
  "codec_settings s u c = \<lparr>vcs_codec = c, vcs_ulpfec = u,
     vcs_flexfec_payload_type = (case ms_flexfec s of None \<Rightarrow> -1 | Some n \<Rightarrow> n),
     vcs_rtx_payload_type = (case map_of (ms_rtx s) (codec_id c) of None \<Rightarrow> -1 | Some n \<Rightarrow> n),
     vcs_rtx_time = (case map_of (ms_rtx s) (codec_id c) of
        None \<Rightarrow> -1
      | Some _ \<Rightarrow> (case map_of (ms_rtx_time s) (codec_id c) of
          None \<Rightarrow> -1 | Some t \<Rightarrow> if t < kNackHistoryMs then t else kNackHistoryMs))\<rparr>"

definition MapCodecs :: "'f codec_lib \<Rightarrow> Codec list \<Rightarrow> VideoCodecSettings list" where
  "MapCodecs L cs =
     (case map_codecs_loop L cs map_start of
        None \<Rightarrow> []
      | Some s \<Rightarrow>
          (case check_rtx (ms_types s) (ms_rtx s) (ms_ulpfec s) of
             None \<Rightarrow> []
           | Some u \<Rightarrow> List.map (codec_settings s u) (ms_video s)))"

section \<open>Choosing codecs\<close>

text \<open>\<open>std::map::insert\<close> of a range keeps the entries that are there.\<close>

definition merge_params :: "(string, string) smap \<Rightarrow> (string \<times> string) list \<Rightarrow> (string, string) smap" where
  "merge_params m ps = fold (\<lambda>(k, v) acc. if map_of acc k = None then smap_put k v acc else acc) ps m"

text \<open>Each local format goes to the first remote codec it fits.\<close>

fun select_codecs :: "'f codec_lib \<Rightarrow> VideoCodecSettings list \<Rightarrow> 'f list \<Rightarrow> VideoCodecSettings list" where
  "select_codecs L [] fs = []"
| "select_codecs L (r # rs) fs =
     (let fits = (\<lambda>f. IsSameCodec L f (codec_name (vcs_codec r)) (codec_params (vcs_codec r))) in
      List.map (\<lambda>f. r\<lparr>vcs_codec := (vcs_codec r)\<lparr>codec_params :=
          merge_params (codec_params (vcs_codec r)) (format_params L f)\<rparr>\<rparr>) (filter fits fs)
      @ select_codecs L rs (filter (\<lambda>f. \<not> fits f) fs))"

definition SelectSendVideoCodecs ::
    "'f codec_lib \<Rightarrow> 'f list option \<Rightarrow> VideoCodecSettings list \<Rightarrow> VideoCodecSettings list" where
  "SelectSendVideoCodecs L implementations remote =
     select_codecs L remote (case implementations of None \<Rightarrow> [] | Some fs \<Rightarrow> fs)"

definition NonFlexfecReceiveCodecsHaveChanged ::
    "(VideoCodecSettings list \<Rightarrow> VideoCodecSettings list) \<Rightarrow> VideoCodecSettings list
     \<Rightarrow> VideoCodecSettings list \<Rightarrow> bool" where
  "NonFlexfecReceiveCodecsHaveChanged srt before after \<longleftrightarrow>
     \<not> list_all2 EqualsDisregardingFlexfec (srt before) (srt after)"

section \<open>What a codec list says\<close>

text \<open>The reference: what each setting is, read off the list as a whole.\<close>

definition first_of :: "'f codec_lib \<Rightarrow> CodecType \<Rightarrow> Codec list \<Rightarrow> int option" where
  "first_of L ty cs = map_option codec_id (List.find (\<lambda>c. GetCodecType L c = ty) cs)"

definition id_or :: "int option \<Rightarrow> int" where
  "id_or x = (case x of None \<Rightarrow> -1 | Some n \<Rightarrow> n)"

text \<open>The last RTX codec for a payload type counts, and the last positive time.\<close>

definition rtx_for :: "'f codec_lib \<Rightarrow> Codec list \<Rightarrow> int \<Rightarrow> int option" where
  "rtx_for L cs a = map_option codec_id
     (List.find (\<lambda>c. GetCodecType L c = CODEC_RTX \<and> GetApt L c = Some a) (rev cs))"

definition rtx_time_for :: "'f codec_lib \<Rightarrow> Codec list \<Rightarrow> int \<Rightarrow> int option" where
  "rtx_time_for L cs a =
     Option.bind (List.find (\<lambda>c. GetCodecType L c = CODEC_RTX \<and> GetApt L c = Some a
         \<and> (\<exists>t. GetRtxTime L c = Some t \<and> t > 0)) (rev cs)) (GetRtxTime L)"

definition rtx_ok :: "'f codec_lib \<Rightarrow> Codec \<Rightarrow> bool" where
  "rtx_ok L c \<longleftrightarrow> GetCodecType L c = CODEC_RTX \<longrightarrow>
     (\<exists>a. GetApt L c = Some a \<and> IsValidRtpPayloadType L a)"

definition scan_ok :: "'f codec_lib \<Rightarrow> Codec list \<Rightarrow> bool" where
  "scan_ok L cs \<longleftrightarrow> distinct (List.map codec_id cs) \<and> list_all (rtx_ok L) cs"

definition codecs_ok :: "'f codec_lib \<Rightarrow> Codec list \<Rightarrow> bool" where
  "codecs_ok L cs \<longleftrightarrow> scan_ok L cs
     \<and> (\<forall>c \<in> set cs. \<forall>a. GetCodecType L c = CODEC_RTX \<longrightarrow> GetApt L c = Some a \<longrightarrow>
          (\<exists>d \<in> set cs. codec_id d = a \<and> GetCodecType L d \<in> {CODEC_VIDEO, CODEC_RED}))"

definition setting_of :: "'f codec_lib \<Rightarrow> Codec list \<Rightarrow> Codec \<Rightarrow> VideoCodecSettings" where
  "setting_of L cs c =
     (let red = first_of L CODEC_RED cs in
      \<lparr>vcs_codec = c,
       vcs_ulpfec = \<lparr>ulpfec_payload_type = id_or (first_of L CODEC_ULPFEC cs),
         red_payload_type = id_or red,
         red_rtx_payload_type = (case red of None \<Rightarrow> -1 | Some r \<Rightarrow> id_or (rtx_for L cs r))\<rparr>,
       vcs_flexfec_payload_type = id_or (first_of L CODEC_FLEXFEC cs),
       vcs_rtx_payload_type = id_or (rtx_for L cs (codec_id c)),
       vcs_rtx_time = (case rtx_time_for L cs (codec_id c) of
          None \<Rightarrow> -1 | Some t \<Rightarrow> min t kNackHistoryMs)\<rparr>)"

lemma first_of_snoc:
  "first_of L ty (cs @ [c]) = (case first_of L ty cs of
     Some n \<Rightarrow> Some n | None \<Rightarrow> if GetCodecType L c = ty then Some (codec_id c) else None)"
  by (induction cs) (auto simp: first_of_def)

lemma first_of_nonneg:
  "\<forall>c \<in> set cs. 0 \<le> codec_id c \<Longrightarrow> first_of L ty cs = Some n \<Longrightarrow> 0 \<le> n"
  by (auto simp: first_of_def find_Some_iff)

lemma rtx_for_snoc:
  "rtx_for L (cs @ [c]) a = (if GetCodecType L c = CODEC_RTX \<and> GetApt L c = Some a
     then Some (codec_id c) else rtx_for L cs a)"
  by (simp add: rtx_for_def)

lemma rtx_time_for_snoc:
  "rtx_time_for L (cs @ [c]) a = (if GetCodecType L c = CODEC_RTX \<and> GetApt L c = Some a
       \<and> (\<exists>t. GetRtxTime L c = Some t \<and> t > 0)
     then GetRtxTime L c else rtx_time_for L cs a)"
  by (auto simp: rtx_time_for_def)

text \<open>The state of the loop after the codecs \<open>ds\<close>.\<close>

definition reads :: "'f codec_lib \<Rightarrow> Codec list \<Rightarrow> MapState \<Rightarrow> bool" where
  "reads L ds s \<longleftrightarrow> ms_video s = filter (\<lambda>c. GetCodecType L c = CODEC_VIDEO) ds
     \<and> map_of (ms_types s) = map_of (List.map (\<lambda>c. (codec_id c, GetCodecType L c)) ds)
     \<and> smap_ok (ms_rtx s) \<and> map_of (ms_rtx s) = rtx_for L ds
     \<and> map_of (ms_rtx_time s) = rtx_time_for L ds
     \<and> ms_ulpfec s = \<lparr>ulpfec_payload_type = id_or (first_of L CODEC_ULPFEC ds),
         red_payload_type = id_or (first_of L CODEC_RED ds), red_rtx_payload_type = -1\<rparr>
     \<and> ms_flexfec s = first_of L CODEC_FLEXFEC ds"

lemma map_of_ids: "map_of (List.map (\<lambda>c. (codec_id c, f c)) ds) n = None \<longleftrightarrow> n \<notin> codec_id ` set ds"
  by (simp add: map_of_eq_None_iff image_image)

lemma map_of_snoc_new:
  "k \<notin> fst ` set m \<Longrightarrow> map_of (m @ [(k, v)]) = (map_of m)(k \<mapsto> v)"
  by (induction m) (auto simp: fun_eq_iff)

lemma map_codec_reads:
  assumes "reads L ds s" "\<forall>c \<in> set ds. 0 \<le> codec_id c" "0 \<le> codec_id c"
  shows "if codec_id c \<in> codec_id ` set ds \<or> \<not> rtx_ok L c then map_codec L c s = None
    else \<exists>s'. map_codec L c s = Some s' \<and> reads L (ds @ [c]) s'"
proof -
  have ty: "map_of (ms_types s) (codec_id c) = None \<longleftrightarrow> codec_id c \<notin> codec_id ` set ds"
    using assms(1) map_of_ids [of "GetCodecType L" ds] by (simp add: reads_def)
  show ?thesis
  proof (cases "codec_id c \<in> codec_id ` set ds \<or> \<not> rtx_ok L c")
    case True
    have "map_codec L c s = None"
    proof (cases "codec_id c \<in> codec_id ` set ds")
      case True
      then show ?thesis using ty by (simp add: map_codec_def)
    next
      case False
      with True show ?thesis using \<open>codec_id c \<in> codec_id ` set ds \<or> \<not> rtx_ok L c\<close>
        by (cases "GetApt L c") (auto simp: map_codec_def rtx_ok_def)
    qed
    then show ?thesis using True by simp
  next
    case False
    have new: "map_of (List.map (\<lambda>c. (codec_id c, GetCodecType L c)) (ds @ [c]))
        = (map_of (List.map (\<lambda>c. (codec_id c, GetCodecType L c)) ds))(codec_id c \<mapsto> GetCodecType L c)"
      using False map_of_snoc_new [of "codec_id c" "List.map (\<lambda>c. (codec_id c, GetCodecType L c)) ds"]
      by (simp add: image_image)
    have unset: "id_or (first_of L t ds) \<noteq> -1 \<longleftrightarrow> first_of L t ds \<noteq> None" for t
      using first_of_nonneg [OF assms(2), of L t] by (cases "first_of L t ds") (fastforce simp: id_or_def)+
    have r: "rtx_for L (ds @ [c]) = (if GetCodecType L c = CODEC_RTX
        then (case GetApt L c of None \<Rightarrow> rtx_for L ds | Some a \<Rightarrow> (rtx_for L ds)(a \<mapsto> codec_id c))
        else rtx_for L ds)"
      by (rule ext) (auto simp: rtx_for_snoc split: option.split)
    have t: "rtx_time_for L (ds @ [c]) = (if GetCodecType L c = CODEC_RTX
        then (case (GetApt L c, GetRtxTime L c) of
            (Some a, Some t) \<Rightarrow> if t > 0 then (rtx_time_for L ds)(a \<mapsto> t) else rtx_time_for L ds
          | _ \<Rightarrow> rtx_time_for L ds) else rtx_time_for L ds)"
      by (rule ext) (auto simp: rtx_time_for_snoc split: option.split)
    show ?thesis using False ty assms(1) new r t unset
      by (cases "GetCodecType L c")
        (auto simp: map_codec_def reads_def rtx_ok_def first_of_snoc id_or_def Let_def split: option.splits)
  qed
qed

lemma loop_reads:
  assumes "reads L ds s" "scan_ok L ds" "\<forall>c \<in> set (ds @ cs). 0 \<le> codec_id c"
  shows "if scan_ok L (ds @ cs) then \<exists>s'. map_codecs_loop L cs s = Some s' \<and> reads L (ds @ cs) s'
    else map_codecs_loop L cs s = None"
  using assms
proof (induction cs arbitrary: ds s)
  case Nil
  then show ?case by simp
next
  case (Cons c cs)
  have n: "\<forall>c \<in> set ds. 0 \<le> codec_id c" "0 \<le> codec_id c" using Cons.prems(3) by auto
  note step = map_codec_reads [OF Cons.prems(1) n]
  show ?case
  proof (cases "codec_id c \<in> codec_id ` set ds \<or> \<not> rtx_ok L c")
    case True
    moreover from this have "\<not> scan_ok L (ds @ c # cs)" by (auto simp: scan_ok_def)
    ultimately show ?thesis using step by simp
  next
    case False
    then obtain s' where s': "map_codec L c s = Some s'" "reads L (ds @ [c]) s'" using step by auto
    have "scan_ok L (ds @ [c])" using False Cons.prems(2) by (auto simp: scan_ok_def)
    moreover have "(ds @ [c]) @ cs = ds @ c # cs" by simp
    ultimately show ?thesis using Cons.IH [OF s'(2)] Cons.prems(3) s'(1) by (auto split: if_splits)
  qed
qed

lemma check_rtx_spec:
  "distinct (List.map fst ms) \<Longrightarrow>
     check_rtx types ms u =
       (if \<forall>(a, r) \<in> set ms. map_of types a = Some CODEC_VIDEO \<or> map_of types a = Some CODEC_RED
        then Some (case map_of ms (red_payload_type u) of
               None \<Rightarrow> u | Some r \<Rightarrow> u\<lparr>red_rtx_payload_type := r\<rparr>)
        else None)"
proof (induction types ms u rule: check_rtx.induct)
  case (1 types u)
  then show ?case by simp
next
  case (2 types a r ms u)
  show ?case
  proof (cases "map_of types a = Some CODEC_VIDEO \<or> map_of types a = Some CODEC_RED")
    case False
    then show ?thesis by (auto split: option.split)
  next
    case True
    then obtain t where t: "map_of types a = Some t" "t = CODEC_VIDEO \<or> t = CODEC_RED" by auto
    have r: "check_rtx types ((a, r) # ms) u
        = check_rtx types ms (if a = red_payload_type u then u\<lparr>red_rtx_payload_type := r\<rparr> else u)"
      using t by auto
    have IH: "check_rtx types ms (if a = red_payload_type u then u\<lparr>red_rtx_payload_type := r\<rparr> else u) =
       (let v = (if a = red_payload_type u then u\<lparr>red_rtx_payload_type := r\<rparr> else u) in
        if \<forall>(a, r) \<in> set ms. map_of types a = Some CODEC_VIDEO \<or> map_of types a = Some CODEC_RED
        then Some (case map_of ms (red_payload_type v) of
               None \<Rightarrow> v | Some r \<Rightarrow> v\<lparr>red_rtx_payload_type := r\<rparr>)
        else None)"
      unfolding Let_def using 2(1) [OF t(1)] 2(2) t(2) by auto
    have a: "a = red_payload_type u \<Longrightarrow> map_of ms (red_payload_type u) = None"
      using 2(2) by (auto simp: map_of_eq_None_iff)
    show ?thesis unfolding r IH using True a by (cases "a = red_payload_type u") (simp_all add: Let_def)
  qed
qed

lemma map_of_types:
  "distinct (List.map codec_id cs) \<Longrightarrow>
     map_of (List.map (\<lambda>c. (codec_id c, f c)) cs) a = Some t \<longleftrightarrow> (\<exists>d \<in> set cs. codec_id d = a \<and> f d = t)"
  by (subst map_of_eq_Some_iff) (auto simp: comp_def)

lemma find_SomeD: "List.find P xs = Some x \<Longrightarrow> x \<in> set xs \<and> P x"
  by (induction xs) (auto split: if_splits)

lemma rtx_for_range:
  "rtx_for L cs a \<noteq> None \<longleftrightarrow> (\<exists>c \<in> set cs. GetCodecType L c = CODEC_RTX \<and> GetApt L c = Some a)"
  by (auto simp: rtx_for_def find_None_iff)

lemma rtx_time_has_rtx: "rtx_time_for L cs a = Some t \<Longrightarrow> rtx_for L cs a \<noteq> None"
  unfolding rtx_time_for_def rtx_for_range bind_eq_Some_conv by (force dest: find_SomeD)

section \<open>Payload types of the engine\<close>

text \<open>What is documented of the codec class, and the types of the codecs of the formats.\<close>

definition codec_lib_ok :: "'f codec_lib \<Rightarrow> 'f list \<Rightarrow> bool" where
  "codec_lib_ok L fs \<longleftrightarrow>
     (\<forall>m n. codec_id (CreateRtxCodec L m n) = m \<and> GetCodecType L (CreateRtxCodec L m n) = CODEC_RTX
        \<and> GetApt L (CreateRtxCodec L m n) = Some n)
     \<and> (\<forall>p c. codec_id (AddFeedbackParam L p c) = codec_id c
          \<and> GetCodecType L (AddFeedbackParam L p c) = GetCodecType L c)
     \<and> (\<forall>c n. GetCodecType L (c\<lparr>codec_id := n\<rparr>) = GetCodecType L c)
     \<and> (\<forall>n. 0 \<le> n \<longrightarrow> n \<le> 127 \<longrightarrow> IsValidRtpPayloadType L n)
     \<and> (\<forall>f \<in> set fs \<union> {format_named L (kRedCodecName L), format_named L (kUlpfecCodecName L)}.
          GetCodecType L (codec_of_format L f) \<in>
            (if is_fec_codec L (codec_of_format L f) then {CODEC_ULPFEC, CODEC_FLEXFEC}
             else {CODEC_VIDEO, CODEC_RED}))"

lemma codec_lib_okD:
  assumes "codec_lib_ok L fs"
  shows "codec_id (CreateRtxCodec L m n) = m" "GetCodecType L (CreateRtxCodec L m n) = CODEC_RTX"
    "GetApt L (CreateRtxCodec L m n) = Some n"
    "codec_id (AddFeedbackParam L p c) = codec_id c"
    "GetCodecType L (AddFeedbackParam L p c) = GetCodecType L c"
    "GetCodecType L (c\<lparr>codec_id := n\<rparr>) = GetCodecType L c"
    "0 \<le> n \<Longrightarrow> n \<le> 127 \<Longrightarrow> IsValidRtpPayloadType L n"
  using assms unfolding codec_lib_ok_def by blast+

lemma AddDefaultFeedbackParams_keeps:
  assumes "codec_lib_ok L fs"
  shows "codec_id (AddDefaultFeedbackParams L c) = codec_id c"
    "GetCodecType L (AddDefaultFeedbackParams L c) = GetCodecType L c"
  by (simp_all add: AddDefaultFeedbackParams_def Let_def codec_lib_okD [OF assms])

definition in_range :: "int \<Rightarrow> int \<Rightarrow> int \<Rightarrow> bool" where
  "in_range upper lower n \<longleftrightarrow> (upper \<le> n \<and> n \<le> 126) \<or> (lower \<le> n \<and> n \<le> 63)"

lemma take_type_range:
  assumes "take_type low u l = (n, u1, l1)" "96 \<le> u" "u \<le> 127" "35 \<le> l" "l \<le> 63"
  shows "in_range u l n \<and> u \<le> u1 \<and> u1 \<le> 127 \<and> l \<le> l1 \<and> l1 \<le> 64 \<and> \<not> in_range u1 l1 n"
  using assms by (auto simp: take_type_def in_range_def split: if_splits)

lemma in_range_mono: "in_range u1 l1 n \<Longrightarrow> u \<le> u1 \<Longrightarrow> l \<le> l1 \<Longrightarrow> in_range u l n"
  by (auto simp: in_range_def)

text \<open>What holds of the codecs one call makes from given counters.\<close>

definition types_ok :: "'f codec_lib \<Rightarrow> int \<Rightarrow> int \<Rightarrow> Codec list \<Rightarrow> bool" where
  "types_ok L u l cs \<longleftrightarrow> distinct (List.map codec_id cs) \<and> (\<forall>c \<in> set cs. in_range u l (codec_id c))
     \<and> (\<forall>c \<in> set cs. GetCodecType L c = CODEC_RTX \<longrightarrow>
          (\<exists>d \<in> set cs. GetApt L c = Some (codec_id d) \<and> GetCodecType L d \<in> {CODEC_VIDEO, CODEC_RED}))"

lemma types_ok_Cons:
  assumes "types_ok L u1 l1 cs" "u \<le> u1" "l \<le> l1" "in_range u l (codec_id c)"
    "\<not> in_range u1 l1 (codec_id c)" "GetCodecType L c \<noteq> CODEC_RTX"
  shows "types_ok L u l (c # cs)"
  using assms in_range_mono unfolding types_ok_def by fastforce

lemma types_ok_pair:
  assumes "types_ok L u2 l2 cs" "u \<le> u1" "l \<le> l1" "u1 \<le> u2" "l1 \<le> l2"
    "in_range u l (codec_id c)" "\<not> in_range u1 l1 (codec_id c)" "GetCodecType L c \<in> {CODEC_VIDEO, CODEC_RED}"
    "in_range u1 l1 (codec_id r)" "\<not> in_range u2 l2 (codec_id r)" "GetApt L r = Some (codec_id c)"
  shows "types_ok L u l (c # r # cs)"
proof -
  have i: "in_range u1 l1 n \<Longrightarrow> in_range u l n" "in_range u2 l2 n \<Longrightarrow> in_range u1 l1 n" for n
    using assms(2-5) in_range_mono by blast+
  have "codec_id c \<noteq> codec_id r" using assms(7,9) by metis
  moreover have "codec_id c \<notin> codec_id ` set cs" "codec_id r \<notin> codec_id ` set cs"
    using assms(1,7,10) i(2) by (auto simp: types_ok_def)
  ultimately have "distinct (List.map codec_id (c # r # cs))" using assms(1) by (simp add: types_ok_def)
  moreover have "\<forall>x \<in> set (c # r # cs). in_range u l (codec_id x)"
    using assms(1,6,9) i by (auto simp: types_ok_def)
  ultimately show ?thesis using assms(1,8,11) unfolding types_ok_def by fastforce
qed

lemma assign_types_ok:
  assumes "codec_lib_ok L gs" "set fs \<subseteq> set gs \<union> {format_named L (kRedCodecName L), format_named L (kUlpfecCodecName L)}"
    "96 \<le> u" "u \<le> 127" "35 \<le> l" "l \<le> 64"
  shows "types_ok L u l (assign_types L fs u l)"
  using assms(2-)
proof (induction fs arbitrary: u l)
  case Nil
  then show ?case by (simp add: types_ok_def)
next
  case (Cons f fs)
  show ?case
  proof (cases "l > 63")
    case True
    then show ?thesis by (simp add: types_ok_def)
  next
    case False
    let ?base = "codec_of_format L f" and ?low = "valid_for_lower L (codec_of_format L f)"
    obtain n u1 l1 where t: "take_type ?low u l = (n, u1, l1)" by (cases "take_type ?low u l") auto
    let ?c = "AddDefaultFeedbackParams L (?base\<lparr>codec_id := n\<rparr>)"
    have r: "in_range u l n" "u \<le> u1" "u1 \<le> 127" "l \<le> l1" "l1 \<le> 64" "\<not> in_range u1 l1 n" "96 \<le> u1" "35 \<le> l1"
      using take_type_range [OF t] Cons.prems False by auto
    have c: "codec_id ?c = n" "GetCodecType L ?c = GetCodecType L ?base"
      by (simp_all add: AddDefaultFeedbackParams_keeps [OF assms(1)] codec_lib_okD [OF assms(1)])
    have ty: "GetCodecType L ?base \<in> (if is_fec_codec L ?base then {CODEC_ULPFEC, CODEC_FLEXFEC}
        else {CODEC_VIDEO, CODEC_RED})"
    proof -
      have "f \<in> set gs \<union> {format_named L (kRedCodecName L), format_named L (kUlpfecCodecName L)}"
        using Cons.prems(1) by auto
      then show ?thesis using assms(1) unfolding codec_lib_ok_def by blast
    qed
    have sub: "set fs \<subseteq> set gs \<union> {format_named L (kRedCodecName L), format_named L (kUlpfecCodecName L)}"
      using Cons.prems(1) by auto
    consider "is_fec_codec L ?base" | "\<not> is_fec_codec L ?base" "l1 > 63" | "\<not> is_fec_codec L ?base" "l1 \<le> 63" by linarith
    then show ?thesis
    proof cases
      case 1
      have "types_ok L u l (?c # assign_types L fs u1 l1)"
        by (rule types_ok_Cons [OF Cons.IH [OF sub r(7,3,8,5)] r(2,4)]) (use c r ty 1 in auto)
      then show ?thesis using t False 1 by (simp add: Let_def)
    next
      case 2
      have "types_ok L u l [?c]"
        by (rule types_ok_Cons [of L u1 l1]) (use c r ty 2 in \<open>auto simp: types_ok_def\<close>)
      then show ?thesis using t False 2 by (simp add: Let_def)
    next
      case 3
      obtain m u2 l2 where t2: "take_type ?low u1 l1 = (m, u2, l2)" by (cases "take_type ?low u1 l1") auto
      have r2: "in_range u1 l1 m" "u1 \<le> u2" "u2 \<le> 127" "l1 \<le> l2" "l2 \<le> 64" "\<not> in_range u2 l2 m" "96 \<le> u2" "35 \<le> l2"
        using take_type_range [OF t2] r 3(2) by auto
      have x: "codec_id (CreateRtxCodec L m n) = m" "GetApt L (CreateRtxCodec L m n) = Some n"
        by (simp_all add: codec_lib_okD [OF assms(1)])
      have "types_ok L u l (?c # CreateRtxCodec L m n # assign_types L fs u2 l2)"
        by (rule types_ok_pair [OF Cons.IH [OF sub r2(7,3,8,5)] r(2,4) r2(2,4)])
          (use c r r2 ty x 3 in auto)
      then show ?thesis using t t2 False 3 by (simp add: Let_def)
    qed
  qed
qed

section \<open>Properties\<close>

text \<open>C28: Reading a codec list computes its reference meaning. For payload types that are not negative,
  the list is refused exactly when a payload type occurs twice, or an RTX codec has no valid
  associated type or one that is no video or RED codec of the list; otherwise there is one setting
  per video codec, in the list's order, with the first RED, ULPFEC and FlexFEC types, the last RTX
  type for the codec and for RED, and the last positive RTX time cut at the NACK history.\<close>

theorem map_codecs_reference:
  assumes "\<forall>c \<in> set cs. 0 \<le> codec_id c"
  shows "MapCodecs L cs =
    (if codecs_ok L cs
     then List.map (setting_of L cs) (filter (\<lambda>c. GetCodecType L c = CODEC_VIDEO) cs) else [])"
proof -
  have "reads L [] map_start"
    by (auto simp: reads_def map_start_def first_of_def rtx_for_def rtx_time_for_def id_or_def
        default_UlpfecConfig_def fun_eq_iff)
  moreover have "scan_ok L []" by (simp add: scan_ok_def)
  ultimately have l: "if scan_ok L cs then \<exists>s. map_codecs_loop L cs map_start = Some s \<and> reads L cs s
      else map_codecs_loop L cs map_start = None"
    using loop_reads [of L "[]" map_start cs, unfolded append_Nil] assms by blast
  show ?thesis
  proof (cases "scan_ok L cs")
    case False
    then show ?thesis using l by (simp add: MapCodecs_def codecs_ok_def)
  next
    case True
    then obtain s where s: "map_codecs_loop L cs map_start = Some s" "reads L cs s" using l by auto
    let ?good = "\<lambda>a. \<exists>d \<in> set cs. codec_id d = a \<and> GetCodecType L d \<in> {CODEC_VIDEO, CODEC_RED}"
    have d: "distinct (List.map codec_id cs)" using True by (simp add: scan_ok_def)
    have ty: "map_of (ms_types s) a = Some t \<longleftrightarrow> (\<exists>d \<in> set cs. codec_id d = a \<and> GetCodecType L d = t)" for a t
      using s(2) map_of_types [OF d] by (simp add: reads_def)
    have m: "smap_ok (ms_rtx s)" "map_of (ms_rtx s) = rtx_for L cs" using s(2) by (simp_all add: reads_def)
    have keys: "fst ` set (ms_rtx s) = {a. rtx_for L cs a \<noteq> None}"
      using m(2) dom_map_of_conv_image_fst [of "ms_rtx s"] by (simp add: dom_def)
    have "(\<forall>(a, r) \<in> set (ms_rtx s). map_of (ms_types s) a = Some CODEC_VIDEO \<or> map_of (ms_types s) a = Some CODEC_RED)
        \<longleftrightarrow> (\<forall>a \<in> fst ` set (ms_rtx s). ?good a)"
      by (auto simp: ty split: prod.splits) force+
    also have "\<dots> \<longleftrightarrow> codecs_ok L cs"
      unfolding keys rtx_for_range codecs_ok_def using True by blast
    finally have c: "check_rtx (ms_types s) (ms_rtx s) (ms_ulpfec s) =
        (if codecs_ok L cs then Some (case rtx_for L cs (red_payload_type (ms_ulpfec s)) of
             None \<Rightarrow> ms_ulpfec s | Some r \<Rightarrow> (ms_ulpfec s)\<lparr>red_rtx_payload_type := r\<rparr>) else None)"
      using check_rtx_spec [OF smap_ok_distinct [OF m(1)], of "ms_types s" "ms_ulpfec s"] m(2) by simp
    show ?thesis
    proof (cases "codecs_ok L cs")
      case False
      then show ?thesis using s(1) c by (simp add: MapCodecs_def)
    next
      case ok: True
      let ?u = "case rtx_for L cs (red_payload_type (ms_ulpfec s)) of
             None \<Rightarrow> ms_ulpfec s | Some r \<Rightarrow> (ms_ulpfec s)\<lparr>red_rtx_payload_type := r\<rparr>"
      have none: "rtx_for L cs (-1) = None"
      proof (rule ccontr)
        assume "rtx_for L cs (-1) \<noteq> None"
        then have "?good (-1)" using ok unfolding codecs_ok_def rtx_for_range by blast
        then show False using assms by force
      qed
      have u: "?u = vcs_ulpfec (setting_of L cs x)" for x
        using s(2) none by (auto simp: reads_def setting_of_def id_or_def Let_def split: option.split)
      have "codec_settings s ?u x = setting_of L cs x" for x
        using s(2) rtx_time_has_rtx [of L cs "codec_id x"] unfolding u [of x]
        by (auto simp: codec_settings_def setting_of_def reads_def id_or_def Let_def min_def split: option.split)
      then show ?thesis using s ok c by (simp add: MapCodecs_def reads_def)
    qed
  qed
qed

lemma default_types_ok:
  assumes "codec_lib_ok L fs"
  shows "types_ok L 96 35 (GetPayloadTypesAndDefaultCodecs L (Some fs))"
proof (cases "fs = []")
  case True
  then show ?thesis by (simp add: GetPayloadTypesAndDefaultCodecs_def types_ok_def)
next
  case False
  then show ?thesis
    using assign_types_ok [OF assms, of "fs @ [format_named L (kRedCodecName L), format_named L (kUlpfecCodecName L)]" 96 35]
    by (simp add: GetPayloadTypesAndDefaultCodecs_def)
qed



section \<open>An instance\<close>

text \<open>A library of three names: the type of a codec is read off its name, and the associated type
  is written in unary among the parameters.\<close>

definition demo_unary :: "int \<Rightarrow> string" where
  "demo_unary n = (if n < 0 then CHR ''-'' # replicate (nat (- n)) CHR ''1'' else replicate (nat n) CHR ''1'')"

definition demo_unary_value :: "string \<Rightarrow> int" where
  "demo_unary_value s = (case s of [] \<Rightarrow> 0
     | c # cs \<Rightarrow> if c = CHR ''-'' then - int (length cs) else int (length s))"

definition demo_codec :: "int \<Rightarrow> string \<Rightarrow> (string \<times> string) list \<Rightarrow> Codec" where
  "demo_codec n name params = \<lparr>codec_id = n, codec_name = name, codec_clockrate = 90000, codec_channels = 0,
     feedback_params = [], codec_params = params\<rparr>"

definition demo_codec_lib :: "string codec_lib" where
  "demo_codec_lib =
     \<lparr>GetCodecType = (\<lambda>c. if codec_name c = ''red'' then CODEC_RED else if codec_name c = ''ulpfec'' then CODEC_ULPFEC
        else if codec_name c = ''flexfec-03'' then CODEC_FLEXFEC else if codec_name c = ''rtx'' then CODEC_RTX else CODEC_VIDEO),
      ValidateCodecFormat = (\<lambda>c. 0 \<le> codec_id c \<and> codec_id c \<le> 127),
      GetApt = (\<lambda>c. map_option demo_unary_value (map_of (codec_params c) ''apt'')),
      GetRtxTime = (\<lambda>c. map_option demo_unary_value (map_of (codec_params c) ''rtx-time'')),
      IsValidRtpPayloadType = (\<lambda>n. 0 \<le> n \<and> n \<le> 127),
      CreateRtxCodec = (\<lambda>m n. demo_codec m ''rtx'' [(''apt'', demo_unary n)]),
      codec_of_format = (\<lambda>f. demo_codec 0 f []),
      format_named = (\<lambda>f. f),
      format_params = (\<lambda>_. []),
      IsSameCodec = (\<lambda>f name _. f = name),
      AddFeedbackParam = (\<lambda>p c. c\<lparr>feedback_params := feedback_params c @ [p]\<rparr>),
      EqualsIgnoreCase = (\<lambda>a b. a = b),
      codec_text = codec_name,
      kRedCodecName = ''red'', kUlpfecCodecName = ''ulpfec'', kFlexfecCodecName = ''flexfec-03'',
      kAv1CodecName = ''AV1'', kAv1xCodecName = ''AV1X'',
      feedback_remb = (''goog-remb'', ''''), feedback_transport_cc = (''transport-cc'', ''''),
      feedback_ccm_fir = (''ccm'', ''fir''), feedback_nack = (''nack'', ''''),
      feedback_nack_pli = (''nack'', ''pli'')\<rparr>"

lemma demo_unary_value: "demo_unary_value (demo_unary n) = n"
proof (cases "nat n")
  case 0
  then show ?thesis by (cases "n = 0") (auto simp: demo_unary_value_def demo_unary_def)
next
  case (Suc k)
  then show ?thesis by (auto simp: demo_unary_value_def demo_unary_def)
qed

lemma demo_codec_lib_ok: "codec_lib_ok demo_codec_lib [''H264'', ''AV1'']"
  by (simp add: codec_lib_ok_def demo_codec_lib_def demo_codec_def demo_unary_value is_fec_codec_def)

lemma map_codecs_reference_witness:
  "MapCodecs demo_codec_lib [demo_codec 96 ''H264'' [], demo_codec 97 ''rtx'' [(''apt'', demo_unary 96)]]
     = [setting_of demo_codec_lib [demo_codec 96 ''H264'' [], demo_codec 97 ''rtx'' [(''apt'', demo_unary 96)]]
          (demo_codec 96 ''H264'' [])]
   \<and> MapCodecs demo_codec_lib [demo_codec 96 ''H264'' [], demo_codec 96 ''red'' []] = []"
proof -
  let ?a = "[demo_codec 96 ''H264'' [], demo_codec 97 ''rtx'' [(''apt'', demo_unary 96)]]"
  let ?b = "[demo_codec 96 ''H264'' [], demo_codec 96 ''red'' []]"
  have "codecs_ok demo_codec_lib ?a" "\<not> codecs_ok demo_codec_lib ?b"
    by (auto simp: codecs_ok_def scan_ok_def rtx_ok_def demo_codec_lib_def demo_codec_def demo_unary_value)
  then show ?thesis
    using map_codecs_reference [of ?a demo_codec_lib] map_codecs_reference [of ?b demo_codec_lib]
    by (simp add: demo_codec_def) (simp add: demo_codec_lib_def)
qed


end
