(* ===== verification/EncoderStreams.thy ===== *)
theory EncoderStreams
  imports VideoCodecs Simulcast
begin

text \<open>
  The streams of an encoder (engine/webrtc_video_engine.cpp): from the configuration of a sender to
  the size, the frame rate and the bitrates of every layer, for one layer and for simulcast.

  As in \<open>Simulcast\<close>, an \<open>int\<close> that overflows, a conversion of a double that is out of range and an
  element that is not there give \<open>None\<close>. A quotient of doubles is rounded to 53 bits. The names of
  the codecs, the settings of libmedia_codec and the experiment on the minimum bitrate are the
  record \<open>encoder_env\<close>.
\<close>

section \<open>Numbers\<close>

fun f64_up :: "nat \<Rightarrow> rat \<Rightarrow> nat" where
  "f64_up 0 x = 0"
| "f64_up (Suc n) x = (if x < 2 ^ 52 then Suc (f64_up n (2 * x)) else 0)"

fun f64_down :: "nat \<Rightarrow> rat \<Rightarrow> nat" where
  "f64_down 0 x = 0"
| "f64_down (Suc n) x = (if x < 2 ^ 53 then 0 else Suc (f64_down n (x / 2)))"

definition f64 :: "rat \<Rightarrow> rat" where
  "f64 x = (let u = f64_up 1074 x; d = f64_down 971 x
            in of_int (round_even (x * 2 ^ u / 2 ^ d)) * 2 ^ d / 2 ^ u)"

text \<open>The shifts are enough for every number of the format, and whole numbers that fit stay as they are.\<close>

lemma f64_up_enough: "2 ^ 52 \<le> x * 2 ^ n \<Longrightarrow> 2 ^ 52 \<le> x * 2 ^ f64_up n x"
proof (induction n arbitrary: x)
  case (Suc n)
  then have "2 ^ 52 \<le> (2 * x) * 2 ^ n" by (simp only: power_Suc mult_ac)
  from Suc.IH [OF this] have "2 ^ 52 \<le> x * 2 ^ Suc (f64_up n (2 * x))" by (simp only: power_Suc mult_ac)
  then show ?case by (cases "x < 2 ^ 52") (simp_all only: f64_up.simps if_True, simp)
qed simp

lemma f64_down_enough: "x < 2 ^ 53 * 2 ^ n \<Longrightarrow> x / 2 ^ f64_down n x < 2 ^ 53"
proof (induction n arbitrary: x)
  case (Suc n)
  then have "x / 2 < 2 ^ 53 * 2 ^ n" by simp
  from Suc.IH [OF this] show ?case by (simp add: field_simps)
qed simp

lemma f64_down_small: "x < 2 ^ 53 \<Longrightarrow> f64_down n x = 0"
  by (cases n) simp_all

lemma f64_of_int:
  assumes "n < 2 ^ 53"
  shows "f64 (of_int n) = of_int n"
proof -
  have "(of_int n :: rat) < of_int (2 ^ 53)" using assms by (simp only: of_int_less_iff)
  then have d: "f64_down k (of_int n) = 0" for k by (simp add: f64_down_small)
  define u where "u = f64_up 1074 (of_int n)"
  have "(of_int n :: rat) * 2 ^ u = of_int (n * 2 ^ u)" by simp
  then have "round_even (of_int n * 2 ^ u) = n * 2 ^ u" by (simp only: round_even_int)
  then show ?thesis by (simp add: f64_def Let_def d u_def [symmetric])
qed

definition PowerOfTwo :: "int \<Rightarrow> bool" where
  "PowerOfTwo v \<longleftrightarrow> v > 0 \<and> Bit_Operations.and v (v - 1) = 0"

definition at_least_one :: "dbl \<Rightarrow> dbl" where
  "at_least_one s = (if dbl_less s (Fin 1) then Fin 1 else s)"

text \<open>Not-a-number differs from its rounding; the conversion of an infinity is undefined.\<close>

fun scales_are_powers :: "VideoStream list \<Rightarrow> bool option" where
  "scales_are_powers [] = Some True"
| "scales_are_powers (l # ls) =
     (case at_least_one (vs_scale_resolution_down_by l) of
        NaN \<Rightarrow> Some False
      | Fin r \<Rightarrow> if of_int \<lfloor>r\<rfloor> \<noteq> r then Some False
                 else if \<lfloor>r\<rfloor> \<ge> 2 ^ 31 then None
                 else if \<not> PowerOfTwo \<lfloor>r\<rfloor> then Some False
                 else scales_are_powers ls
      | _ \<Rightarrow> None)"

definition kMinLayerSize :: int where "kMinLayerSize = 16"

text \<open>A size over a scale that is at least one, or not a number.\<close>

definition scaled_size :: "int \<Rightarrow> dbl \<Rightarrow> int option" where
  "scaled_size n s =
     (case s of
        NaN \<Rightarrow> None
      | Fin r \<Rightarrow> Some (max (trunc (f64 (of_int n / r))) kMinLayerSize)
      | _ \<Rightarrow> Some (max 0 kMinLayerSize))"

section \<open>Configuration\<close>

datatype ContentType = kRealtimeVideo | kScreen

datatype InterLayerPredMode = kPredOn

record Vp9Settings =
  vp9_spatial_layers :: nat
  vp9_temporal_layers :: nat
  vp9_denoising :: bool
  vp9_automatic_resize :: bool
  vp9_flexible_mode :: bool
  vp9_inter_layer_pred :: InterLayerPredMode

text \<open>The settings the code changes; the others are the defaults of libmedia_codec.\<close>

datatype EncoderSpecificSettings =
    H264Specific bool
  | Vp8Specific bool bool bool
  | Vp9Specific Vp9Settings

record EncoderStreamFactory =
  factory_codec_name :: string
  factory_max_qp :: int
  is_screenshare :: bool
  conference_mode :: bool

record VideoEncoderConfig =
  ec_codec_type :: nat
  ec_video_format :: "string \<times> (string, string) smap"
  ec_content_type :: ContentType
  ec_min_transmit_bitrate_bps :: int
  ec_max_bitrate_bps :: int
  ec_bitrate_priority :: dbl
  ec_number_of_streams :: nat
  ec_simulcast_layers :: "VideoStream list"
  ec_legacy_conference_mode :: bool
  ec_is_quality_scaling_allowed :: bool
  ec_specific :: "EncoderSpecificSettings option"
  ec_factory :: "EncoderStreamFactory option"

record encoder_env =
  sim :: simulcast_env
  same_name :: "string \<Rightarrow> string \<Rightarrow> bool"
  experimental_min_bitrate :: "nat \<Rightarrow> int option"
  PayloadStringToCodecType :: "string \<Rightarrow> nat"
  kVp8CodecName :: string
  kVp9CodecName :: string
  kH264CodecName :: string

definition IsTemporalLayersSupported :: "encoder_env \<Rightarrow> string \<Rightarrow> bool" where
  "IsTemporalLayersSupported V name \<longleftrightarrow> same_name V name (kVp8CodecName V) \<or> same_name V name (kVp9CodecName V)"

definition saturated_int :: "int \<Rightarrow> int" where
  "saturated_int n = max (- (2 ^ 31)) (min (2 ^ 31 - 1) n)"

definition GetMaxDefaultVideoBitrateKbps :: "int \<Rightarrow> int \<Rightarrow> bool \<Rightarrow> int option" where
  "GetMaxDefaultVideoBitrateKbps width height screenshare =
     map_option (\<lambda>p.
       let max_bitrate = (if p \<le> 320 * 240 then 600 else if p \<le> 640 * 480 then 1700
                          else if p \<le> 960 * 540 then 2000 else 2500)
       in if screenshare then max max_bitrate 1200 else max_bitrate) (imul width height)"

definition FindRequiredActiveLayers :: "VideoEncoderConfig \<Rightarrow> nat" where
  "FindRequiredActiveLayers cfg =
     (case List.find (\<lambda>i. vs_active (ec_simulcast_layers cfg ! i)) [0..<ec_number_of_streams cfg] of
        None \<Rightarrow> 0 | Some i \<Rightarrow> i + 1)"

section \<open>One stream\<close>

definition default_size :: "int \<Rightarrow> dbl \<Rightarrow> int option" where
  "default_size n s = (if dbl_less (Fin 1) s then scaled_size n s else Some n)"

definition default_min_bitrate :: "encoder_env \<Rightarrow> nat \<Rightarrow> int" where
  "default_min_bitrate V ty =
     (case experimental_min_bitrate V ty of
        Some b \<Rightarrow> saturated_int b | None \<Rightarrow> kDefaultMinVideoBitrateBps (sim V))"

text \<open>The number of temporal layers; outer \<open>None\<close>: VP9 without its settings.\<close>

definition default_temporal_layers ::
    "encoder_env \<Rightarrow> EncoderStreamFactory \<Rightarrow> VideoEncoderConfig \<Rightarrow> VideoStream \<Rightarrow> int option option" where
  "default_temporal_layers V F cfg c =
     (let base = (if same_name V (factory_codec_name F) (kVp9CodecName V)
                  then (case ec_specific cfg of
                          Some (Vp9Specific v) \<Rightarrow> Some (Some (int (vp9_temporal_layers v)))
                        | _ \<Rightarrow> None)
                  else Some (vs_num_temporal_layers (default_VideoStream (sim V))))
      in map_option (\<lambda>b.
           if IsTemporalLayersSupported V (factory_codec_name F) \<and> vs_num_temporal_layers c \<noteq> None
           then vs_num_temporal_layers c else b) base)"

definition CreateDefaultVideoStreams ::
    "encoder_env \<Rightarrow> EncoderStreamFactory \<Rightarrow> int \<Rightarrow> int \<Rightarrow> VideoEncoderConfig \<Rightarrow> VideoStream list option" where
  "CreateDefaultVideoStreams V F width height cfg =
     (case (ec_simulcast_layers cfg,
            if ec_max_bitrate_bps cfg > 0 then Some (ec_max_bitrate_bps cfg)
            else map_option (\<lambda>k. k * 1000)
                   (GetMaxDefaultVideoBitrateKbps width height (is_screenshare F))) of
        (c # _, Some max0) \<Rightarrow>
          (let configured = vs_min_bitrate_bps c > 0;
               min_bitrate = (if configured then vs_min_bitrate_bps c
                              else default_min_bitrate V (ec_codec_type cfg));
               max_bitrate = (if configured \<and> ec_max_bitrate_bps cfg \<le> 0 then max min_bitrate max0 else max0);
               framerate = (if vs_max_framerate c > 0 then vs_max_framerate c
                            else kDefaultVideoMaxFramerate (sim V))
           in case (default_size width (vs_scale_resolution_down_by c),
                    default_size height (vs_scale_resolution_down_by c),
                    default_temporal_layers V F cfg c) of
                (Some w, Some h, Some tls) \<Rightarrow>
                  Some [(default_VideoStream (sim V))\<lparr>vs_width := w, vs_height := h,
                    vs_max_framerate := framerate,
                    vs_min_bitrate_bps := min min_bitrate max_bitrate,
                    vs_target_bitrate_bps := (if vs_target_bitrate_bps c \<le> 0 then max_bitrate
                                              else vs_target_bitrate_bps c),
                    vs_max_bitrate_bps := max_bitrate, vs_max_qp := factory_max_qp F,
                    vs_bitrate_priority := Some (ec_bitrate_priority cfg),
                    vs_num_temporal_layers := tls,
                    vs_scalability_mode := vs_scalability_mode c\<rparr>]
              | _ \<Rightarrow> None)
      | _ \<Rightarrow> None)"

section \<open>Simulcast\<close>

text \<open>The bitrates of a layer \<open>l\<close> under the configured ones of \<open>c\<close>.\<close>

definition set_configured :: "VideoStream \<Rightarrow> VideoStream \<Rightarrow> VideoStream" where
  "set_configured c l =
     l\<lparr>vs_min_bitrate_bps := (if vs_min_bitrate_bps c > 0 then vs_min_bitrate_bps c else vs_min_bitrate_bps l),
       vs_max_bitrate_bps := (if vs_max_bitrate_bps c > 0 then vs_max_bitrate_bps c else vs_max_bitrate_bps l),
       vs_target_bitrate_bps := (if vs_target_bitrate_bps c > 0 then vs_target_bitrate_bps c
                                 else vs_target_bitrate_bps l)\<rparr>"

definition three_quarters :: "int \<Rightarrow> int option" where
  "three_quarters n = map_option (\<lambda>m. m sdiv 4) (imul n 3)"

definition configured_rates :: "VideoStream \<Rightarrow> VideoStream \<Rightarrow> VideoStream option" where
  "configured_rates c l0 =
     (let l = set_configured c l0 in
      if vs_min_bitrate_bps c > 0 \<and> vs_max_bitrate_bps c > 0
      then map_option (\<lambda>t. l\<lparr>vs_target_bitrate_bps :=
               (if t < vs_min_bitrate_bps l then vs_max_bitrate_bps l else t)\<rparr>)
             (if vs_target_bitrate_bps c \<le> 0 then three_quarters (vs_max_bitrate_bps l)
              else Some (vs_target_bitrate_bps l))
      else if vs_min_bitrate_bps c > 0
      then Some (l\<lparr>vs_target_bitrate_bps := max (vs_target_bitrate_bps l) (vs_min_bitrate_bps l),
                  vs_max_bitrate_bps := max (vs_max_bitrate_bps l) (vs_min_bitrate_bps l)\<rparr>)
      else if vs_max_bitrate_bps c > 0
      then (let mn = min (vs_min_bitrate_bps l) (vs_max_bitrate_bps l)
            in map_option (\<lambda>t. l\<lparr>vs_min_bitrate_bps := mn,
                   vs_target_bitrate_bps := max (min t (vs_max_bitrate_bps l)) mn\<rparr>)
                 (if vs_target_bitrate_bps c \<le> 0
                  then map_option (max (vs_target_bitrate_bps l)) (three_quarters (vs_max_bitrate_bps l))
                  else Some (vs_target_bitrate_bps l)))
      else Some l)"

text \<open>What is configured besides the bitrates; the scaled size when there is a scale at all.\<close>

definition configured_layer ::
    "encoder_env \<Rightarrow> string \<Rightarrow> bool \<Rightarrow> int \<Rightarrow> int \<Rightarrow> VideoStream \<Rightarrow> VideoStream \<Rightarrow> VideoStream option" where
  "configured_layer V name has_scale nw nh c l =
     (let l1 = l\<lparr>vs_active := vs_active c,
            vs_num_temporal_layers := (if vs_num_temporal_layers c \<noteq> None \<and> IsTemporalLayersSupported V name
                                       then vs_num_temporal_layers c else vs_num_temporal_layers l),
            vs_max_framerate := (if vs_max_framerate c > 0 then vs_max_framerate c else vs_max_framerate l)\<rparr>
      in Option.bind
           (if has_scale
            then (let s = at_least_one (vs_scale_resolution_down_by c) in
                  case (scaled_size nw s, scaled_size nh s) of
                    (Some w, Some h) \<Rightarrow> Some (l1\<lparr>vs_width := w, vs_height := h\<rparr>)
                  | _ \<Rightarrow> None)
            else Some l1)
           (configured_rates c))"


text \<open>What is left of the bitrate goes to the top layer, unless its maximum is configured.\<close>

definition boosted :: "EncoderStreamFactory \<Rightarrow> VideoEncoderConfig \<Rightarrow> VideoStream list \<Rightarrow> VideoStream list option" where
  "boosted F cfg ls =
     (if \<not> is_screenshare F
         \<and> \<not> vs_max_bitrate_bps (ec_simulcast_layers cfg ! (length ls - 1)) > 0
         \<and> ec_max_bitrate_bps cfg > 0
      then BoostMaxSimulcastLayer (ec_max_bitrate_bps cfg) ls else Some ls)"

text \<open>
  When the layer with the lowest maximum is not active, the first active one, in the order of the
  maxima, may go as low as that layer could.
\<close>

definition lower_first_active :: "VideoStream list \<Rightarrow> VideoStream list" where
  "lower_first_active ls =
     (let index = sort_key (\<lambda>i. vs_max_bitrate_bps (ls ! i)) [0..<length ls] in
      if \<not> vs_active (ls ! hd index)
      then (case List.find (\<lambda>i. vs_active (ls ! i)) index of
              None \<Rightarrow> ls
            | Some i \<Rightarrow> ls[i := (ls ! i)\<lparr>vs_min_bitrate_bps := vs_min_bitrate_bps (ls ! hd index)\<rparr>])
      else ls)"

definition with_experiment :: "encoder_env \<Rightarrow> nat \<Rightarrow> VideoStream list \<Rightarrow> VideoStream list" where
  "with_experiment V ty ls =
     (case (experimental_min_bitrate V ty, ls) of
        (Some b, l # ls') \<Rightarrow> l\<lparr>vs_min_bitrate_bps := saturated_int b\<rparr> # ls'
      | _ \<Rightarrow> ls)"

definition fitted_size ::
    "encoder_env \<Rightarrow> bool \<Rightarrow> int \<Rightarrow> nat \<Rightarrow> int option" where
  "fitted_size V fit n streams =
     (if fit \<or> base2_exponent (sim V) \<noteq> None then NormalizeSimulcastSize (sim V) n streams else Some n)"

definition CreateSimulcastOrConferenceModeScreenshareStreams ::
    "encoder_env \<Rightarrow> EncoderStreamFactory \<Rightarrow> int \<Rightarrow> int \<Rightarrow> VideoEncoderConfig \<Rightarrow> VideoStream list option" where
  "CreateSimulcastOrConferenceModeScreenshareStreams V F width height cfg =
     (let name = factory_codec_name F; cs = ec_simulcast_layers cfg; n = ec_number_of_streams cfg;
          temporal = same_name V name (kVp8CodecName V) \<or> same_name V name (kH264CodecName V);
          has_scale = list_ex (\<lambda>c. vs_scale_resolution_down_by c \<noteq> Fin (-1)) cs
      in case (GetSimulcastConfig (sim V) (FindRequiredActiveLayers cfg) n width height
                 (ec_bitrate_priority cfg) (factory_max_qp F) (is_screenshare F \<and> conference_mode F) temporal,
               if has_scale then scales_are_powers cs else Some True) of
           (Some layers, Some default_scales) \<Rightarrow>
             (case (fitted_size V default_scales width n, fitted_size V default_scales height n) of
                (Some nw, Some nh) \<Rightarrow>
                  if layers = [] \<or> length cs < length layers then None
                  else Option.bind (those (List.map2 (configured_layer V name has_scale nw nh) cs
                                             (with_experiment V (ec_codec_type cfg) layers)))
                         (\<lambda>ls. map_option lower_first_active (boosted F cfg ls))
              | _ \<Rightarrow> None)
         | _ \<Rightarrow> None)"

definition CreateEncoderStreams ::
    "encoder_env \<Rightarrow> EncoderStreamFactory \<Rightarrow> int \<Rightarrow> int \<Rightarrow> VideoEncoderConfig \<Rightarrow> VideoStream list option" where
  "CreateEncoderStreams V F width height cfg =
     (if ec_number_of_streams cfg > 1
         \<or> (same_name V (factory_codec_name F) (kVp8CodecName V)
            \<or> same_name V (factory_codec_name F) (kH264CodecName V)) \<and> is_screenshare F \<and> conference_mode F
      then CreateSimulcastOrConferenceModeScreenshareStreams V F width height cfg
      else CreateDefaultVideoStreams V F width height cfg)"

section \<open>Rates of one layer\<close>

text \<open>The minimum is not negative and not above the maximum, and the target is at most the maximum.\<close>

definition rates_in_order :: "VideoStream \<Rightarrow> bool" where
  "rates_in_order l \<longleftrightarrow> 0 \<le> vs_min_bitrate_bps l \<and> vs_min_bitrate_bps l \<le> vs_target_bitrate_bps l
     \<and> vs_target_bitrate_bps l \<le> vs_max_bitrate_bps l"

text \<open>
  A configuration with bitrates up to \<open>b\<close>: a minimum is not above a maximum, and a target comes with
  a maximum that it does not exceed. Values that are not positive mean not configured.
\<close>

definition rates_configured :: "int \<Rightarrow> VideoStream \<Rightarrow> bool" where
  "rates_configured b c \<longleftrightarrow>
     vs_min_bitrate_bps c \<le> b \<and> vs_max_bitrate_bps c \<le> b \<and> vs_target_bitrate_bps c \<le> b
     \<and> (vs_min_bitrate_bps c > 0 \<longrightarrow> vs_max_bitrate_bps c > 0 \<longrightarrow> vs_min_bitrate_bps c \<le> vs_max_bitrate_bps c)
     \<and> (vs_target_bitrate_bps c > 0 \<longrightarrow>
          vs_max_bitrate_bps c > 0 \<and> vs_target_bitrate_bps c \<le> vs_max_bitrate_bps c)"

lemma three_quarters_ok:
  "0 < n \<Longrightarrow> n \<le> 500000000 \<Longrightarrow> three_quarters n = Some (n * 3 div 4)"
  by (simp add: three_quarters_def imul_def signed_divide_int_def sgn_if)

lemma configured_rates_ok:
  assumes "rates_configured 500000000 c" "rates_in_order l" "vs_max_bitrate_bps l \<le> 500000000"
  shows "\<exists>l'. configured_rates c l = Some l' \<and> rates_in_order l' \<and> vs_max_bitrate_bps l' \<le> 500000000
    \<and> (vs_max_bitrate_bps c > 0 \<longrightarrow> vs_max_bitrate_bps l' = vs_max_bitrate_bps c)
    \<and> (vs_min_bitrate_bps c > 0 \<longrightarrow> vs_min_bitrate_bps l' = vs_min_bitrate_bps c)
    \<and> vs_active l' = vs_active l \<and> vs_width l' = vs_width l \<and> vs_height l' = vs_height l"
proof -
  have q: "0 < vs_max_bitrate_bps c \<Longrightarrow>
      three_quarters (vs_max_bitrate_bps c) = Some (vs_max_bitrate_bps c * 3 div 4)"
    using assms(1) by (intro three_quarters_ok) (auto simp: rates_configured_def)
  show ?thesis using assms q
    by (auto simp: configured_rates_def set_configured_def rates_in_order_def rates_configured_def Let_def)
qed


section \<open>All layers\<close>

text \<open>What the last step keeps: it may raise a minimum above the target, but not above the maximum.\<close>

definition rates_usable :: "VideoStream \<Rightarrow> bool" where
  "rates_usable l \<longleftrightarrow> 0 \<le> vs_min_bitrate_bps l \<and> vs_min_bitrate_bps l \<le> vs_max_bitrate_bps l
     \<and> vs_target_bitrate_bps l \<le> vs_max_bitrate_bps l"

lemma rates_in_order_usable: "rates_in_order l \<Longrightarrow> rates_usable l"
  by (simp add: rates_in_order_def rates_usable_def)

lemma hd_sort_key_least:
  assumes "x \<in> set xs"
  shows "hd (sort_key f xs) \<in> set xs \<and> f (hd (sort_key f xs)) \<le> f x"
proof (cases "sort_key f xs")
  case Nil
  then have "xs = []" by (metis length_0_conv length_sort)
  then show ?thesis using assms by simp
next
  case (Cons y ys)
  have "sorted (List.map f (y # ys))" using sorted_sort_key [of f xs] Cons by simp
  moreover have "x \<in> set (y # ys)" using assms Cons by (metis set_sort)
  moreover have "y \<in> set xs" using Cons by (metis list.set_intros(1) set_sort)
  ultimately show ?thesis using Cons by auto
qed

lemma nth_update_self: "k < length xs \<Longrightarrow> xs[i := y] ! k = (if i = k then y else xs ! k)"
  by simp

lemma lower_first_active_ok:
  assumes "list_all rates_usable ls"
  shows "list_all rates_usable (lower_first_active ls)"
    "length (lower_first_active ls) = length ls"
    "k < length ls \<Longrightarrow> vs_active (lower_first_active ls ! k) = vs_active (ls ! k)
       \<and> vs_max_bitrate_bps (lower_first_active ls ! k) = vs_max_bitrate_bps (ls ! k)
       \<and> vs_width (lower_first_active ls ! k) = vs_width (ls ! k)
       \<and> vs_height (lower_first_active ls ! k) = vs_height (ls ! k)"
proof -
  let ?index = "sort_key (\<lambda>i. vs_max_bitrate_bps (ls ! i)) [0..<length ls]"
  have all: "rates_usable (ls ! i)" if "i < length ls" for i
    using assms that by (simp add: list_all_length)
  have new: "rates_usable ((ls ! i)\<lparr>vs_min_bitrate_bps := vs_min_bitrate_bps (ls ! hd ?index)\<rparr>)"
    if "i < length ls" for i
  proof -
    have "i \<in> set [0..<length ls]" using that by simp
    from hd_sort_key_least [OF this, of "\<lambda>i. vs_max_bitrate_bps (ls ! i)"]
    have "hd ?index < length ls" "vs_max_bitrate_bps (ls ! hd ?index) \<le> vs_max_bitrate_bps (ls ! i)" by auto
    then show ?thesis using all [of "hd ?index"] all [OF that] by (auto simp: rates_usable_def)
  qed
  have find: "i < length ls" if "List.find P ?index = Some i" for P i
    using find_SomeD [OF that] by simp
  show "list_all rates_usable (lower_first_active ls)" using assms new find
    by (auto simp: lower_first_active_def Let_def list_all_length nth_list_update split: option.split)
  show "length (lower_first_active ls) = length ls"
    by (simp add: lower_first_active_def Let_def split: option.split)
  show "vs_active (lower_first_active ls ! k) = vs_active (ls ! k)
       \<and> vs_max_bitrate_bps (lower_first_active ls ! k) = vs_max_bitrate_bps (ls ! k)
       \<and> vs_width (lower_first_active ls ! k) = vs_width (ls ! k)
       \<and> vs_height (lower_first_active ls ! k) = vs_height (ls ! k)" if "k < length ls"
    using that by (auto simp: lower_first_active_def Let_def nth_update_self split: option.split)
qed

lemma sum_targets_ok:
  assumes "\<forall>l \<in> set ls. 0 \<le> vs_target_bitrate_bps l \<and> vs_target_bitrate_bps l \<le> 500000000"
    "0 \<le> acc" "acc + 500000000 * int (length ls) < 2 ^ 31"
  shows "\<exists>t. sum_targets ls acc = Some t \<and> acc \<le> t \<and> t \<le> acc + 500000000 * int (length ls)"
  using assms
proof (induction ls arbitrary: acc)
  case Nil
  then show ?case by simp
next
  case (Cons l ls)
  have l: "0 \<le> vs_target_bitrate_bps l" "vs_target_bitrate_bps l \<le> 500000000" using Cons.prems(1) by simp_all
  have "acc + vs_target_bitrate_bps l + 500000000 * int (length ls) < 2 ^ 31"
    using Cons.prems(3) l by simp
  then obtain t where t: "sum_targets ls (acc + vs_target_bitrate_bps l) = Some t"
    "acc + vs_target_bitrate_bps l \<le> t" "t \<le> acc + vs_target_bitrate_bps l + 500000000 * int (length ls)"
    using Cons.IH [of "acc + vs_target_bitrate_bps l"] Cons.prems(1,2) l by auto
  moreover have "iadd acc (vs_target_bitrate_bps l) = Some (acc + vs_target_bitrate_bps l)"
    using Cons.prems(2,3) l by (simp add: iadd_def)
  ultimately show ?case using l by simp
qed

lemma boost_ok:
  assumes "list_all rates_in_order ls" "list_all (\<lambda>l. vs_max_bitrate_bps l \<le> 500000000) ls"
    "length ls \<le> 4" "b < 2 ^ 31" "ls \<noteq> []"
  shows "\<exists>m. BoostMaxSimulcastLayer b ls = Some (butlast ls @ [(last ls)\<lparr>vs_max_bitrate_bps := m\<rparr>])
    \<and> vs_max_bitrate_bps (last ls) \<le> m"
proof -
  have ts: "\<forall>l \<in> set (butlast ls). 0 \<le> vs_target_bitrate_bps l \<and> vs_target_bitrate_bps l \<le> 500000000"
    using assms(1,2) unfolding list_all_iff rates_in_order_def by (meson in_set_butlastD order_trans)
  have n: "500000000 * int (length (butlast ls)) \<le> 1500000000" using assms(3) by simp
  obtain t where t: "sum_targets (butlast ls) 0 = Some t" "0 \<le> t" "t \<le> 1500000000"
    using sum_targets_ok [OF ts, of 0] n by force
  have "rates_in_order (last ls)" "vs_max_bitrate_bps (last ls) \<le> 500000000"
    using assms(1,2,5) by (simp_all add: list_all_iff)
  then have m: "0 \<le> vs_max_bitrate_bps (last ls)" "vs_max_bitrate_bps (last ls) \<le> 500000000"
    by (simp_all add: rates_in_order_def)
  have tot: "GetTotalMaxBitrate ls = Some (t + vs_max_bitrate_bps (last ls))"
    using t m assms(5) by (simp add: GetTotalMaxBitrate_def iadd_def)
  have same: "ls = butlast ls @ [(last ls)\<lparr>vs_max_bitrate_bps := vs_max_bitrate_bps (last ls)\<rparr>]"
    using assms(5) by simp
  show ?thesis
  proof (cases "t + vs_max_bitrate_bps (last ls) < b")
    case True
    then have "iadd (vs_max_bitrate_bps (last ls)) (b - (t + vs_max_bitrate_bps (last ls))) = Some (b - t)"
      using t m assms(4) by (simp add: iadd_def)
    then show ?thesis using True tot assms(5)
      by (intro exI [of _ "b - t"]) (simp add: BoostMaxSimulcastLayer_def)
  next
    case False
    then have "BoostMaxSimulcastLayer b ls = Some ls" using tot by (simp add: BoostMaxSimulcastLayer_def)
    then show ?thesis using same by (intro exI [of _ "vs_max_bitrate_bps (last ls)"]) simp
  qed
qed


lemma boosted_ok:
  assumes "list_all rates_in_order ls" "list_all (\<lambda>l. vs_max_bitrate_bps l \<le> 500000000) ls"
    "length ls \<le> 4" "ec_max_bitrate_bps cfg < 2 ^ 31" "ls \<noteq> []"
    and keep: "\<forall>k < length ls. vs_active (ls ! k) = vs_active (ec_simulcast_layers cfg ! k)
      \<and> (vs_max_bitrate_bps (ec_simulcast_layers cfg ! k) > 0 \<longrightarrow>
           vs_max_bitrate_bps (ls ! k) = vs_max_bitrate_bps (ec_simulcast_layers cfg ! k))"
  shows "\<exists>bs. boosted F cfg ls = Some bs \<and> length bs = length ls \<and> list_all rates_usable bs
    \<and> (\<forall>k < length ls. vs_active (bs ! k) = vs_active (ec_simulcast_layers cfg ! k)
         \<and> (vs_max_bitrate_bps (ec_simulcast_layers cfg ! k) > 0 \<longrightarrow>
              vs_max_bitrate_bps (bs ! k) = vs_max_bitrate_bps (ec_simulcast_layers cfg ! k)))"
proof -
  obtain m where m: "BoostMaxSimulcastLayer (ec_max_bitrate_bps cfg) ls
      = Some (butlast ls @ [(last ls)\<lparr>vs_max_bitrate_bps := m\<rparr>])" "vs_max_bitrate_bps (last ls) \<le> m"
    using boost_ok [OF assms(1-5)] by blast
  have u: "list_all rates_usable ls" using assms(1) rates_in_order_usable by (simp add: list_all_iff)
  show ?thesis
  proof (cases "boosted F cfg ls = Some ls")
    case True
    then show ?thesis using u keep by blast
  next
    case False
    let ?bs = "butlast ls @ [(last ls)\<lparr>vs_max_bitrate_bps := m\<rparr>]"
    have b: "boosted F cfg ls = Some ?bs" "\<not> vs_max_bitrate_bps (ec_simulcast_layers cfg ! (length ls - 1)) > 0"
      using False m(1) by (auto simp: boosted_def split: if_splits)
    have "rates_usable (last ls)" using u assms(5) by (simp add: list_all_iff)
    then have "rates_usable ((last ls)\<lparr>vs_max_bitrate_bps := m\<rparr>)" using m(2) by (simp add: rates_usable_def)
    then have v: "list_all rates_usable ?bs" using u by (auto simp: list_all_iff dest: in_set_butlastD)
    have "vs_active (?bs ! k) = vs_active (ec_simulcast_layers cfg ! k)
         \<and> (vs_max_bitrate_bps (ec_simulcast_layers cfg ! k) > 0 \<longrightarrow>
              vs_max_bitrate_bps (?bs ! k) = vs_max_bitrate_bps (ec_simulcast_layers cfg ! k))"
      if k: "k < length ls" for k
    proof (cases "k = length ls - 1")
      case True
      then have "?bs ! k = (last ls)\<lparr>vs_max_bitrate_bps := m\<rparr>" "last ls = ls ! k"
        using assms(5) by (simp_all add: nth_append last_conv_nth)
      then show ?thesis using keep k b(2) True by simp
    next
      case False
      then have "?bs ! k = ls ! k" using k by (simp add: nth_append nth_butlast)
      then show ?thesis using keep k by simp
    qed
    then show ?thesis using b(1) v assms(5) by (intro exI [of _ ?bs]) simp
  qed
qed

text \<open>A double is finite and small enough to become an \<open>int\<close>.\<close>

definition scale_ok :: "dbl \<Rightarrow> bool" where
  "scale_ok s \<longleftrightarrow> (case s of Fin r \<Rightarrow> r < 2 ^ 31 | _ \<Rightarrow> False)"

lemma at_least_one_ok: "scale_ok s \<Longrightarrow> \<exists>r. at_least_one s = Fin r \<and> 1 \<le> r \<and> r < 2 ^ 31"
  by (cases s) (auto simp: scale_ok_def at_least_one_def)

lemma scales_are_powers_total:
  "list_all (\<lambda>l. scale_ok (vs_scale_resolution_down_by l)) cs \<Longrightarrow> scales_are_powers cs \<noteq> None"
proof (induction cs)
  case Nil
  then show ?case by simp
next
  case (Cons c cs)
  obtain r where r: "at_least_one (vs_scale_resolution_down_by c) = Fin r" "r < 2 ^ 31"
    using at_least_one_ok Cons.prems by fastforce
  have "\<lfloor>r\<rfloor> < 2 ^ 31" using r(2) by (simp add: floor_less_iff)
  then show ?case using r(1) Cons by (auto simp del: not_None_eq)
qed

lemma configured_layer_ok:
  assumes "rates_configured 500000000 c" "rates_in_order l" "vs_max_bitrate_bps l \<le> 500000000"
    "scale_ok (vs_scale_resolution_down_by c)"
  shows "\<exists>l'. configured_layer V name hs nw nh c l = Some l' \<and> rates_in_order l'
    \<and> vs_max_bitrate_bps l' \<le> 500000000 \<and> vs_active l' = vs_active c
    \<and> (vs_max_bitrate_bps c > 0 \<longrightarrow> vs_max_bitrate_bps l' = vs_max_bitrate_bps c)"
proof -
  obtain r where r: "at_least_one (vs_scale_resolution_down_by c) = Fin r"
    using at_least_one_ok [OF assms(4)] by blast
  obtain l1 where l1: "configured_layer V name hs nw nh c l = configured_rates c l1"
    "rates_in_order l1" "vs_max_bitrate_bps l1 \<le> 500000000" "vs_active l1 = vs_active c"
    using assms(2,3) r
    by (cases hs) (auto simp: configured_layer_def scaled_size_def rates_in_order_def Let_def)
  show ?thesis using configured_rates_ok [OF assms(1) l1(2,3)] l1(1,4) by auto
qed

lemma configured_layers_ok:
  assumes "length ls \<le> length cs" "list_all (rates_configured 500000000) cs"
    "list_all (\<lambda>c. scale_ok (vs_scale_resolution_down_by c)) cs"
    "list_all rates_in_order ls" "list_all (\<lambda>l. vs_max_bitrate_bps l \<le> 500000000) ls"
  shows "\<exists>ls'. those (List.map2 (configured_layer V name hs nw nh) cs ls) = Some ls' \<and> length ls' = length ls
    \<and> list_all rates_in_order ls' \<and> list_all (\<lambda>l. vs_max_bitrate_bps l \<le> 500000000) ls'
    \<and> (\<forall>k < length ls. vs_active (ls' ! k) = vs_active (cs ! k)
         \<and> (vs_max_bitrate_bps (cs ! k) > 0 \<longrightarrow> vs_max_bitrate_bps (ls' ! k) = vs_max_bitrate_bps (cs ! k)))"
  using assms
proof (induction ls arbitrary: cs)
  case Nil
  then show ?case by simp
next
  case (Cons l ls)
  obtain c ds where cs: "cs = c # ds" using Cons.prems(1) by (cases cs) auto
  obtain l' where l': "configured_layer V name hs nw nh c l = Some l'" "rates_in_order l'"
    "vs_max_bitrate_bps l' \<le> 500000000" "vs_active l' = vs_active c"
    "vs_max_bitrate_bps c > 0 \<longrightarrow> vs_max_bitrate_bps l' = vs_max_bitrate_bps c"
    using configured_layer_ok [of c l V name hs nw nh] Cons.prems cs by auto
  obtain ls' where ls': "those (List.map2 (configured_layer V name hs nw nh) ds ls) = Some ls'"
    "length ls' = length ls" "list_all rates_in_order ls'" "list_all (\<lambda>l. vs_max_bitrate_bps l \<le> 500000000) ls'"
    "\<forall>k < length ls. vs_active (ls' ! k) = vs_active (ds ! k)
       \<and> (vs_max_bitrate_bps (ds ! k) > 0 \<longrightarrow> vs_max_bitrate_bps (ls' ! k) = vs_max_bitrate_bps (ds ! k))"
    using Cons.IH [of ds] Cons.prems cs by auto
  have "\<forall>k < length (l # ls). vs_active ((l' # ls') ! k) = vs_active (cs ! k)
       \<and> (vs_max_bitrate_bps (cs ! k) > 0 \<longrightarrow> vs_max_bitrate_bps ((l' # ls') ! k) = vs_max_bitrate_bps (cs ! k))"
    using l' ls'(5) by (auto simp: cs nth_Cons split: nat.split)
  then show ?case using l' ls' by (intro exI [of _ "l' # ls'"]) (simp add: cs)
qed

lemma required_layers:
  "FindRequiredActiveLayers cfg \<le> ec_number_of_streams cfg"
  "i < ec_number_of_streams cfg \<Longrightarrow> vs_active (ec_simulcast_layers cfg ! i) \<Longrightarrow>
     \<exists>k < FindRequiredActiveLayers cfg. vs_active (ec_simulcast_layers cfg ! k)"
proof -
  let ?f = "List.find (\<lambda>i. vs_active (ec_simulcast_layers cfg ! i)) [0..<ec_number_of_streams cfg]"
  show "FindRequiredActiveLayers cfg \<le> ec_number_of_streams cfg"
    by (auto simp: FindRequiredActiveLayers_def find_Some_iff split: option.split)
  show "\<exists>k < FindRequiredActiveLayers cfg. vs_active (ec_simulcast_layers cfg ! k)"
    if i: "i < ec_number_of_streams cfg" "vs_active (ec_simulcast_layers cfg ! i)"
  proof (cases ?f)
    case None
    then show ?thesis using i by (auto simp: find_None_iff)
  next
    case (Some k)
    then show ?thesis using find_SomeD [OF Some] by (auto simp: FindRequiredActiveLayers_def)
  qed
qed


text \<open>The frame, the number of streams and the configuration of the theorem on simulcast.\<close>

definition simulcast_ready :: "encoder_env \<Rightarrow> EncoderStreamFactory \<Rightarrow> int \<Rightarrow> int \<Rightarrow> VideoEncoderConfig \<Rightarrow> bool" where
  "simulcast_ready V F w h cfg \<longleftrightarrow>
     0 \<le> w \<and> 0 \<le> h \<and> w * h < 2 ^ 31
     \<and> 1 < ec_number_of_streams cfg \<and> ec_number_of_streams cfg \<le> 4
     \<and> ec_number_of_streams cfg \<le> kMaxSimulcastStreams (sim V)
     \<and> ec_number_of_streams cfg \<le> length (ec_simulcast_layers cfg)
     \<and> \<not> (is_screenshare F \<and> conference_mode F)
     \<and> base2_exponent (sim V) = None \<and> default_rates (sim V) (base_heavy_tl3 (sim V))
     \<and> experimental_min_bitrate V (ec_codec_type cfg) = None
     \<and> ec_max_bitrate_bps cfg < 2 ^ 31
     \<and> list_all (rates_configured 500000000) (ec_simulcast_layers cfg)
     \<and> list_all (\<lambda>c. scale_ok (vs_scale_resolution_down_by c)) (ec_simulcast_layers cfg)"

text \<open>The layers before the boost, with what \<open>configured_layers_ok\<close> tells of them.\<close>

lemma simulcast_layers:
  assumes "rates_ok (sim V)" "simulcast_ready V F w h cfg"
  shows "\<exists>ls. CreateEncoderStreams V F w h cfg = map_option lower_first_active (boosted F cfg ls)
    \<and> FindRequiredActiveLayers cfg \<le> length ls \<and> 1 \<le> length ls \<and> length ls \<le> ec_number_of_streams cfg
    \<and> list_all rates_in_order ls \<and> list_all (\<lambda>l. vs_max_bitrate_bps l \<le> 500000000) ls
    \<and> (\<forall>k < length ls. vs_active (ls ! k) = vs_active (ec_simulcast_layers cfg ! k)
         \<and> (vs_max_bitrate_bps (ec_simulcast_layers cfg ! k) > 0 \<longrightarrow>
              vs_max_bitrate_bps (ls ! k) = vs_max_bitrate_bps (ec_simulcast_layers cfg ! k)))"
proof -
  let ?n = "ec_number_of_streams cfg" and ?cs = "ec_simulcast_layers cfg" and ?name = "factory_codec_name F"
  let ?tls = "same_name V ?name (kVp8CodecName V) \<or> same_name V ?name (kH264CodecName V)"
  let ?hs = "list_ex (\<lambda>c. vs_scale_resolution_down_by c \<noteq> Fin (-1)) ?cs"
  note r = assms(2) [unfolded simulcast_ready_def]
  obtain layers where l: "GetSimulcastConfig (sim V) (FindRequiredActiveLayers cfg) ?n w h
      (ec_bitrate_priority cfg) (factory_max_qp F) False ?tls = Some layers"
    "FindRequiredActiveLayers cfg \<le> length layers" "1 \<le> length layers" "length layers \<le> ?n"
    "\<forall>k < length layers. layer_ok (layers ! k)
       \<and> (default_rates (sim V) (base_heavy_tl3 (sim V)) \<longrightarrow> rates_below (layers ! k))"
    using simulcast_config_ok [OF assms(1), of "FindRequiredActiveLayers cfg" ?n w h
        "ec_bitrate_priority cfg" "factory_max_qp F" ?tls] required_layers(1) [of cfg] r by auto
  then have o: "list_all rates_in_order layers" "list_all (\<lambda>l. vs_max_bitrate_bps l \<le> 500000000) layers"
    using r by (auto simp: list_all_length layer_ok_def rates_below_def rates_in_order_def)
  have "scales_are_powers ?cs \<noteq> None" using scales_are_powers_total r by blast
  then have "(if ?hs then scales_are_powers ?cs else Some True) \<noteq> None"
    by (metis option.distinct(1))
  then obtain d where d: "(if ?hs then scales_are_powers ?cs else Some True) = Some d" by blast
  have n: "1 \<le> ?n" "?n \<le> 32" using r by auto
  obtain nw nh where z: "fitted_size V d w ?n = Some nw" "fitted_size V d h ?n = Some nh"
    using normalized_size [of "sim V" ?n] n r by (cases d) (auto simp: fitted_size_def)
  obtain ls where ls: "those (List.map2 (configured_layer V ?name ?hs nw nh) ?cs layers) = Some ls"
    "length ls = length layers" "list_all rates_in_order ls" "list_all (\<lambda>l. vs_max_bitrate_bps l \<le> 500000000) ls"
    "\<forall>k < length layers. vs_active (ls ! k) = vs_active (?cs ! k)
       \<and> (vs_max_bitrate_bps (?cs ! k) > 0 \<longrightarrow> vs_max_bitrate_bps (ls ! k) = vs_max_bitrate_bps (?cs ! k))"
    using configured_layers_ok [of layers ?cs V ?name ?hs nw nh] l(4) o r by auto
  have w: "with_experiment V (ec_codec_type cfg) layers = layers"
    using r by (simp add: with_experiment_def)
  have s: "(is_screenshare F \<and> conference_mode F) = False" using r by blast
  have "layers \<noteq> []" "\<not> length ?cs < length layers" using l(3,4) r by auto
  then have "CreateSimulcastOrConferenceModeScreenshareStreams V F w h cfg
      = map_option lower_first_active (boosted F cfg ls)"
    by (simp add: CreateSimulcastOrConferenceModeScreenshareStreams_def Let_def s l(1) d z w ls(1)
        del: fun_upd_apply)
  moreover have "1 < ?n" using r by blast
  ultimately have "CreateEncoderStreams V F w h cfg = map_option lower_first_active (boosted F cfg ls)"
    by (simp add: CreateEncoderStreams_def)
  then show ?thesis using l(2,3,4) ls(2-5) by auto
qed


section \<open>Properties\<close>



definition demo_encoder :: encoder_env where
  "demo_encoder = \<lparr>sim = demo_simulcast, same_name = (\<lambda>a b. a = b), experimental_min_bitrate = (\<lambda>_. None),
     PayloadStringToCodecType = length, kVp8CodecName = ''VP8'', kVp9CodecName = ''VP9'',
     kH264CodecName = ''H264''\<rparr>"

definition demo_factory :: EncoderStreamFactory where
  "demo_factory = \<lparr>factory_codec_name = ''VP8'', factory_max_qp = 56, is_screenshare = False,
     conference_mode = False\<rparr>"

definition demo_encoder_config :: "VideoStream list \<Rightarrow> VideoEncoderConfig" where
  "demo_encoder_config cs = \<lparr>ec_codec_type = 1, ec_video_format = (''VP8'', []),
     ec_content_type = kRealtimeVideo, ec_min_transmit_bitrate_bps = 0, ec_max_bitrate_bps = 3000000,
     ec_bitrate_priority = Fin 1, ec_number_of_streams = length cs, ec_simulcast_layers = cs,
     ec_legacy_conference_mode = False, ec_is_quality_scaling_allowed = False, ec_specific = None,
     ec_factory = Some demo_factory\<rparr>"


end
