(* ===== verification/VideoSendStream.thy ===== *)
theory VideoSendStream
  imports EncoderStreams
begin

text \<open>
  The sender of the video engine, \<open>WebRtcVideoChannel::WebRtcVideoSendStream\<close>
  (engine/webrtc_video_engine.cpp): the configuration of a stream, of its encoder, and the calls
  that change them.

  The call that creates the \<open>VideoSendStream\<close> behind \<open>stream_\<close> is commented out in the source, so the
  pointer is never set: it is \<open>ss_stream\<close>, \<open>None\<close> for the null pointer and otherwise the calls
  made so far. A call through the null pointer, a failed \<open>RTC_CHECK\<close>, an overflow of an \<open>int\<close> and
  an element that is not there give \<open>None\<close>. What libmedia_codec and libmedia_transfer_protocol
  supply is the record \<open>sender_lib\<close>.
\<close>

section \<open>Data\<close>

datatype ContentHint = kHintNone | kFluid | kDetailed | kText

record VideoOptions =
  is_screencast :: "bool option"
  video_noise_reduction :: "bool option"
  screencast_min_bitrate_kbps :: "int option"
  content_hint :: "ContentHint option"
  other_options :: nat

record RtcpParameters =
  rtcp_cname :: string
  reduced_size :: bool

type_synonym 'c SenderParameters = "(RtcpParameters, 'c) RtpParameters"

record SendConfig =
  cfg_rtp :: "RtpExtension RtpConfig"
  cfg_loss_notification :: bool
  cfg_suspend_below_min_bitrate :: bool
  cfg_periodic_alr_probing :: bool
  cfg_cpu_load_estimator :: bool
  cfg_rtcp_report_interval_ms :: int
  cfg_crypto_options :: nat
  cfg_frame_encryptor :: "nat option"
  cfg_frame_transformer :: "nat option"

text \<open>The calls a \<open>VideoSendStream\<close> receives.\<close>

datatype StreamCall =
    CallSetSource "nat option" DegradationPreference
  | CallUpdateActiveSimulcastLayers "bool list"
  | CallStop
  | CallReconfigureVideoEncoder VideoEncoderConfig

record 'c WebRtcVideoSendStream =
  ss_ssrcs :: "ssrc list"
  ss_ssrc_groups :: "SsrcGroup list"
  ss_enable_cpu_overuse_detection :: bool
  ss_source :: "nat option"
  ss_stream :: "StreamCall list option"
  ss_config :: SendConfig
  ss_options :: VideoOptions
  ss_max_bitrate_bps :: int
  ss_conference_mode :: bool
  ss_codec_settings :: "VideoCodecSettings option"
  ss_encoder_config :: VideoEncoderConfig
  ss_rtp_parameters :: "'c SenderParameters"
  ss_sending :: bool

record VideoSendParameters =
  sp_codecs :: "Codec list"
  sp_extensions :: "RtpExtension list"
  sp_is_stream_active :: bool
  sp_extmap_allow_mixed :: bool
  sp_mid :: string
  sp_max_bandwidth_bps :: int
  sp_conference_mode :: bool
  sp_reduced_size :: bool

record ChangedSendParameters =
  ch_send_codec :: "VideoCodecSettings option"
  ch_negotiated_codecs :: "VideoCodecSettings list option"
  ch_rtp_header_extensions :: "RtpExtension list option"
  ch_mid :: "string option"
  ch_extmap_allow_mixed :: "bool option"
  ch_max_bandwidth_bps :: "int option"
  ch_conference_mode :: "bool option"
  ch_rtcp_mode :: "RtcpMode option"

record sender_lib =
  enc :: encoder_env
  streams :: stream_lib
  GetMaxQuantization :: "Codec \<Rightarrow> int option"
  GetMaxBitrateKbps :: "Codec \<Rightarrow> int option"
  HasLntf :: "Codec \<Rightarrow> bool"
  HasNack :: "Codec \<Rightarrow> bool"
  HasTransportCc :: "Codec \<Rightarrow> bool"
  packetization_raw :: "Codec \<Rightarrow> bool"
  SetAll :: "VideoOptions \<Rightarrow> VideoOptions \<Rightarrow> VideoOptions"
  kVideoMtu :: nat
  max_temporal_streams :: int
  kConferenceMaxNumSpatialLayers :: nat
  kConferenceMaxNumTemporalLayers :: nat
  default_encoding :: RtpEncodingParameters
  default_encoder_config :: VideoEncoderConfig

abbreviation disable_automatic_resize :: bool where
  "disable_automatic_resize \<equiv> True"

definition kDefaultQpMax :: int where "kDefaultQpMax = 56"

section \<open>Encoder\<close>

definition screencast :: "'c WebRtcVideoSendStream \<Rightarrow> bool" where
  "screencast t = (case is_screencast (ss_options t) of None \<Rightarrow> False | Some b \<Rightarrow> b)"

definition NumActiveStreams :: "'c SenderParameters \<Rightarrow> nat" where
  "NumActiveStreams p = length (filter enc_active (encodings p))"

definition IsLayerActive :: "RtpEncodingParameters \<Rightarrow> bool" where
  "IsLayerActive e \<longleftrightarrow> enc_active e
     \<and> (case max_bitrate_bps e of None \<Rightarrow> True | Some b \<Rightarrow> b > 0)
     \<and> (case enc_max_framerate e of None \<Rightarrow> True | Some f \<Rightarrow> dbl_less (Fin 0) f)"

definition MinPositive :: "int \<Rightarrow> int \<Rightarrow> int" where
  "MinPositive a b = (if a \<le> 0 then b else if b \<le> 0 then a else min a b)"

definition ConfigureVideoEncoderSettings ::
    "sender_lib \<Rightarrow> 'c WebRtcVideoSendStream \<Rightarrow> Codec \<Rightarrow> EncoderSpecificSettings option" where
  "ConfigureVideoEncoderSettings B t c =
     (let scr = screencast t;
          automatic_resize = (\<not> disable_automatic_resize \<and> \<not> scr
            \<and> (length (rc_ssrcs (cfg_rtp (ss_config t))) = 1 \<or> NumActiveStreams (ss_rtp_parameters t) = 1));
          frame_dropping = (\<not> scr);
          codec_default = (if scr then False else video_noise_reduction (ss_options t) = None);
          denoising = (if scr then False
                       else case video_noise_reduction (ss_options t) of None \<Rightarrow> False | Some b \<Rightarrow> b)
      in if same_name (enc B) (codec_name c) (kH264CodecName (enc B)) then Some (H264Specific frame_dropping)
         else if same_name (enc B) (codec_name c) (kVp8CodecName (enc B))
         then Some (Vp8Specific automatic_resize (if codec_default then True else denoising) frame_dropping)
         else if same_name (enc B) (codec_name c) (kVp9CodecName (enc B))
         then (let num_spatial = 0; num_temporal = 1;
                   spatial = min num_spatial (kConferenceMaxNumSpatialLayers B)
               in Some (Vp9Specific \<lparr>vp9_spatial_layers = spatial,
                    vp9_temporal_layers = min num_temporal (kConferenceMaxNumTemporalLayers B),
                    vp9_denoising = (if codec_default then True else denoising),
                    vp9_automatic_resize = automatic_resize, vp9_flexible_mode = spatial > 1,
                    vp9_inter_layer_pred = kPredOn\<rparr>))
         else None)"

definition dbl_to_int :: "dbl \<Rightarrow> int option" where
  "dbl_to_int d =
     (case d of
        Fin r \<Rightarrow> if - (2 ^ 31) \<le> trunc r \<and> trunc r < 2 ^ 31 then Some (trunc r) else None
      | _ \<Rightarrow> None)"

text \<open>The provided constraints of one encoding; a frame rate is cut to an \<open>int\<close>.\<close>

definition layer_of_encoding :: "VideoStream \<Rightarrow> RtpEncodingParameters \<Rightarrow> VideoStream option" where
  "layer_of_encoding dflt e =
     (let l = dflt\<lparr>vs_active := enc_active e, vs_scalability_mode := enc_scalability_mode e,
            vs_min_bitrate_bps := (case min_bitrate_bps e of None \<Rightarrow> vs_min_bitrate_bps dflt | Some b \<Rightarrow> b),
            vs_max_bitrate_bps := (case max_bitrate_bps e of None \<Rightarrow> vs_max_bitrate_bps dflt | Some b \<Rightarrow> b),
            vs_scale_resolution_down_by :=
              (case scale_resolution_down_by e of None \<Rightarrow> vs_scale_resolution_down_by dflt | Some s \<Rightarrow> s),
            vs_num_temporal_layers :=
              (case num_temporal_layers e of None \<Rightarrow> vs_num_temporal_layers dflt | Some n \<Rightarrow> Some n)\<rparr>
      in case enc_max_framerate e of
           None \<Rightarrow> Some l
         | Some f \<Rightarrow> map_option (\<lambda>n. l\<lparr>vs_max_framerate := n\<rparr>) (dbl_to_int f))"

text \<open>The source returns true whatever the codec is.\<close>

definition IsCodecDisabledForSimulcast :: "string \<Rightarrow> bool" where
  "IsCodecDisabledForSimulcast name = True"

definition stream_max_bitrate :: "sender_lib \<Rightarrow> 'c WebRtcVideoSendStream \<Rightarrow> Codec \<Rightarrow> int option" where
  "stream_max_bitrate B t c =
     (let b = (case encodings (ss_rtp_parameters t) of
                 [e] \<Rightarrow> (case max_bitrate_bps e of
                           Some m \<Rightarrow> MinPositive m (ss_max_bitrate_bps t) | None \<Rightarrow> ss_max_bitrate_bps t)
               | _ \<Rightarrow> ss_max_bitrate_bps t)
      in case GetMaxBitrateKbps B c of
           Some k \<Rightarrow> if b = -1 then imul k 1000 else Some b
         | None \<Rightarrow> Some b)"

definition min_transmit_bitrate :: "'c WebRtcVideoSendStream \<Rightarrow> int option" where
  "min_transmit_bitrate t =
     (if screencast t
      then imul 1000 (case screencast_min_bitrate_kbps (ss_options t) of None \<Rightarrow> 0 | Some k \<Rightarrow> k)
      else Some 0)"

definition CreateVideoEncoderConfig ::
    "sender_lib \<Rightarrow> 'c WebRtcVideoSendStream \<Rightarrow> Codec \<Rightarrow> VideoEncoderConfig option" where
  "CreateVideoEncoderConfig B t c =
     (let es = encodings (ss_rtp_parameters t); scr = screencast t;
          ssrcs = rc_ssrcs (cfg_rtp (ss_config t)) in
      case (es, min_transmit_bitrate t, stream_max_bitrate B t c,
            those (List.map (layer_of_encoding (default_VideoStream (sim (enc B)))) es)) of
        (e # _, Some min_transmit, Some max_bitrate, Some layers) \<Rightarrow>
          Some ((default_encoder_config B)\<lparr>
            ec_codec_type := PayloadStringToCodecType (enc B) (codec_name c),
            ec_video_format := (codec_name c, codec_params c),
            ec_min_transmit_bitrate_bps := min_transmit,
            ec_content_type := (if scr then kScreen else kRealtimeVideo),
            ec_number_of_streams := (if IsCodecDisabledForSimulcast (codec_name c) then 1 else length ssrcs),
            ec_max_bitrate_bps := max_bitrate,
            ec_bitrate_priority := bitrate_priority e,
            ec_simulcast_layers := layers,
            ec_legacy_conference_mode := ss_conference_mode t,
            ec_is_quality_scaling_allowed := (\<not> disable_automatic_resize \<and> \<not> scr
              \<and> (length ssrcs = 1 \<or> NumActiveStreams (ss_rtp_parameters t) = 1)),
            ec_factory := Some \<lparr>factory_codec_name = codec_name c,
              factory_max_qp = (case GetMaxQuantization B c of None \<Rightarrow> kDefaultQpMax | Some q \<Rightarrow> q),
              is_screenshare = scr, conference_mode = ss_conference_mode t\<rparr>\<rparr>)
      | _ \<Rightarrow> None)"

section \<open>The stream behind the pointer\<close>

definition call_stream :: "StreamCall \<Rightarrow> 'c WebRtcVideoSendStream \<Rightarrow> 'c WebRtcVideoSendStream option" where
  "call_stream c t = map_option (\<lambda>calls. t\<lparr>ss_stream := Some (calls @ [c])\<rparr>) (ss_stream t)"

definition GetDegradationPreference :: "'c WebRtcVideoSendStream \<Rightarrow> DegradationPreference" where
  "GetDegradationPreference t =
     (if \<not> ss_enable_cpu_overuse_detection t then DISABLED
      else case degradation_preference (ss_rtp_parameters t) of
             Some d \<Rightarrow> d
           | None \<Rightarrow>
               if content_hint (ss_options t) = Some kFluid then MAINTAIN_FRAMERATE
               else if screencast t \<or> content_hint (ss_options t) = Some kDetailed
                       \<or> content_hint (ss_options t) = Some kText
               then MAINTAIN_RESOLUTION
               else MAINTAIN_FRAMERATE)"

text \<open>The layers that are to send; \<open>None\<close> when an encoding that is read is not there.\<close>

definition active_layers :: "'c WebRtcVideoSendStream \<Rightarrow> bool list option" where
  "active_layers t =
     (let es = encodings (ss_rtp_parameters t); one = (ec_number_of_streams (ss_encoder_config t) = 1) in
      if one \<and> es = [] then None
      else if one \<and> length es > 1 then Some [list_ex enc_active es]
      else Some (List.map IsLayerActive es))"

definition UpdateSendState :: "'c WebRtcVideoSendStream \<Rightarrow> 'c WebRtcVideoSendStream option" where
  "UpdateSendState t =
     (if ss_sending t
      then Option.bind (active_layers t) (\<lambda>a. call_stream (CallUpdateActiveSimulcastLayers a) t)
      else if ss_stream t \<noteq> None then call_stream CallStop t
      else Some t)"

definition RecreateWebRtcStream :: "sender_lib \<Rightarrow> 'c WebRtcVideoSendStream \<Rightarrow> 'c WebRtcVideoSendStream option" where
  "RecreateWebRtcStream B t =
     (if ss_codec_settings t = None then None
      else
        (let t1 = t\<lparr>ss_encoder_config := (ss_encoder_config t)\<lparr>ec_specific := None\<rparr>\<rparr> in
         Option.bind
           (if ss_source t1 \<noteq> None
            then call_stream (CallSetSource (ss_source t1) (GetDegradationPreference t1)) t1
            else Some t1)
           UpdateSendState))"

text \<open>The configuration a new stream would get: without RTX when there is no payload type for it, and
  with the first SSRC only when the encoder makes one stream.\<close>

definition recreate_config :: "'c WebRtcVideoSendStream \<Rightarrow> SendConfig" where
  "recreate_config t =
     (let r = cfg_rtp (ss_config t);
          rtx1 = (if rtx_ssrcs (rc_rtx r) \<noteq> [] \<and> rtx_payload_type (rc_rtx r) = -1
                  then (rc_rtx r)\<lparr>rtx_ssrcs := []\<rparr> else rc_rtx r);
          r1 = (if ec_number_of_streams (ss_encoder_config t) = 1 \<and> length (rc_ssrcs r) > 1
                then r\<lparr>rc_ssrcs := take 1 (rc_ssrcs r), rc_rtx := rtx1\<lparr>rtx_ssrcs := take 1 (rtx_ssrcs rtx1)\<rparr>\<rparr>
                else r\<lparr>rc_rtx := rtx1\<rparr>)
      in (ss_config t)\<lparr>cfg_rtp := r1\<rparr>)"

text \<open>No RTX SSRC without a payload type for RTX, and one layer has one SSRC at most; what is kept
  was there before, in the same order.\<close>

lemma recreate_config_ssrcs:
  fixes t :: "'c WebRtcVideoSendStream"
  defines "r \<equiv> cfg_rtp (ss_config t)" and "r' \<equiv> cfg_rtp (recreate_config t)"
  shows "rtx_payload_type (rc_rtx r') = rtx_payload_type (rc_rtx r)"
    and "rtx_payload_type (rc_rtx r) = -1 \<Longrightarrow> rtx_ssrcs (rc_rtx r') = []"
    and "ec_number_of_streams (ss_encoder_config t) = 1 \<Longrightarrow> length (rc_ssrcs r') \<le> 1"
    and "rc_ssrcs r' = take (length (rc_ssrcs r')) (rc_ssrcs r)"
    and "rtx_ssrcs (rc_rtx r') = take (length (rtx_ssrcs (rc_rtx r'))) (rtx_ssrcs (rc_rtx r))"
  by (simp_all add: r_def r'_def recreate_config_def Let_def min_def)

definition ReconfigureEncoder :: "sender_lib \<Rightarrow> 'c WebRtcVideoSendStream \<Rightarrow> 'c WebRtcVideoSendStream option" where
  "ReconfigureEncoder B t =
     (if ss_stream t = None then Some t
      else case ss_codec_settings t of
             None \<Rightarrow> None
           | Some s \<Rightarrow>
               Option.bind (CreateVideoEncoderConfig B t (vcs_codec s)) (\<lambda>cfg.
                 map_option (\<lambda>t1. t1\<lparr>ss_encoder_config := cfg\<lparr>ec_specific := None\<rparr>\<rparr>)
                   (call_stream (CallReconfigureVideoEncoder
                      (cfg\<lparr>ec_specific := ConfigureVideoEncoderSettings B t (vcs_codec s)\<rparr>)) t)))"

section \<open>Codec\<close>

text \<open>The RTP configuration for a codec; RTX without a payload type is dropped.\<close>

definition rtp_for_codec :: "sender_lib \<Rightarrow> VideoCodecSettings \<Rightarrow> RtpExtension RtpConfig \<Rightarrow> RtpExtension RtpConfig" where
  "rtp_for_codec B s r =
     r\<lparr>rc_payload_name := codec_name (vcs_codec s), rc_payload_type := codec_id (vcs_codec s),
       rc_raw_payload := packetization_raw B (vcs_codec s), rc_ulpfec := vcs_ulpfec s,
       rc_flexfec := (rc_flexfec r)\<lparr>flexfec_payload_type := vcs_flexfec_payload_type s\<rparr>,
       rc_rtx := (if rtx_ssrcs (rc_rtx r) = [] then rc_rtx r
                  else if vcs_rtx_payload_type s = -1 then (rc_rtx r)\<lparr>rtx_ssrcs := []\<rparr>
                  else (rc_rtx r)\<lparr>rtx_payload_type := vcs_rtx_payload_type s\<rparr>),
       rc_lntf_enabled := HasLntf B (vcs_codec s),
       rc_rtp_history_ms := (if HasNack B (vcs_codec s) then kNackHistoryMs else 0)\<rparr>"

definition ss_SetCodec ::
    "sender_lib \<Rightarrow> VideoCodecSettings \<Rightarrow> 'c WebRtcVideoSendStream \<Rightarrow> 'c WebRtcVideoSendStream option" where
  "ss_SetCodec B s t =
     Option.bind (CreateVideoEncoderConfig B t (vcs_codec s)) (\<lambda>cfg.
       RecreateWebRtcStream B
         (t\<lparr>ss_encoder_config := cfg,
            ss_config := (ss_config t)\<lparr>cfg_rtp := rtp_for_codec B s (cfg_rtp (ss_config t)),
                           cfg_loss_notification := HasLntf B (vcs_codec s)\<rparr>,
            ss_codec_settings := Some s\<rparr>))"

definition when_some :: "'a option \<Rightarrow> ('a \<Rightarrow> 'b \<Rightarrow> 'b) \<Rightarrow> 'b \<Rightarrow> 'b" where
  "when_some x f b = (case x of None \<Rightarrow> b | Some a \<Rightarrow> f a b)"

definition set_rtp :: "(RtpExtension RtpConfig \<Rightarrow> RtpExtension RtpConfig) \<Rightarrow> 'c WebRtcVideoSendStream
    \<Rightarrow> 'c WebRtcVideoSendStream" where
  "set_rtp f t = t\<lparr>ss_config := (ss_config t)\<lparr>cfg_rtp := f (cfg_rtp (ss_config t))\<rparr>\<rparr>"

text \<open>The parameters of the channel that changed, but for the codec and the bitrate.\<close>

definition apply_changed :: "ChangedSendParameters \<Rightarrow> 'c WebRtcVideoSendStream \<Rightarrow> 'c WebRtcVideoSendStream" where
  "apply_changed ch t =
     when_some (ch_mid ch) (\<lambda>m. set_rtp (\<lambda>r. r\<lparr>rc_mid := m\<rparr>))
     (when_some (ch_rtp_header_extensions ch)
        (\<lambda>es t. set_rtp (\<lambda>r. r\<lparr>rc_extensions := es\<rparr>)
           (t\<lparr>ss_rtp_parameters := (ss_rtp_parameters t)\<lparr>header_extensions := es\<rparr>\<rparr>))
     (when_some (ch_extmap_allow_mixed ch) (\<lambda>b. set_rtp (\<lambda>r. r\<lparr>rc_extmap_allow_mixed := b\<rparr>))
     (when_some (ch_rtcp_mode ch)
        (\<lambda>m t. set_rtp (\<lambda>r. r\<lparr>rc_rtcp_mode := m\<rparr>)
           (t\<lparr>ss_rtp_parameters := (ss_rtp_parameters t)
                \<lparr>rtcp := (rtcp (ss_rtp_parameters t))\<lparr>reduced_size := (m = kReducedSize)\<rparr>\<rparr>\<rparr>)) t)))"

definition recreate_needed :: "ChangedSendParameters \<Rightarrow> bool" where
  "recreate_needed ch \<longleftrightarrow> ch_rtcp_mode ch \<noteq> None \<or> ch_extmap_allow_mixed ch \<noteq> None
     \<or> ch_rtp_header_extensions ch \<noteq> None \<or> ch_mid ch \<noteq> None"

definition ss_SetSendParameters ::
    "sender_lib \<Rightarrow> ChangedSendParameters \<Rightarrow> 'c WebRtcVideoSendStream \<Rightarrow> 'c WebRtcVideoSendStream option" where
  "ss_SetSendParameters B ch t =
     (let t1 = apply_changed ch t in
      Option.bind
        (case ch_max_bandwidth_bps ch of
           None \<Rightarrow> Some t1 | Some b \<Rightarrow> ReconfigureEncoder B (t1\<lparr>ss_max_bitrate_bps := b\<rparr>))
        (\<lambda>t2. let t3 = when_some (ch_conference_mode ch) (\<lambda>b t. t\<lparr>ss_conference_mode := b\<rparr>) t2 in
          case ch_send_codec ch of
            Some s \<Rightarrow> ss_SetCodec B s t3
          | None \<Rightarrow>
              (case (ch_conference_mode ch, ss_codec_settings t3) of
                 (Some _, Some s) \<Rightarrow> ss_SetCodec B s t3
               | _ \<Rightarrow> if recreate_needed ch then RecreateWebRtcStream B t3 else Some t3)))"


section \<open>Parameters of the sender\<close>

text \<open>Two optional doubles differ; not-a-number differs from itself.\<close>

definition dbl_differs :: "dbl option \<Rightarrow> dbl option \<Rightarrow> bool" where
  "dbl_differs a b \<longleftrightarrow> a \<noteq> b \<or> a = Some NaN"

definition encoding_changed :: "RtpEncodingParameters \<Rightarrow> RtpEncodingParameters \<Rightarrow> bool" where
  "encoding_changed n l \<longleftrightarrow> min_bitrate_bps n \<noteq> min_bitrate_bps l \<or> max_bitrate_bps n \<noteq> max_bitrate_bps l
     \<or> dbl_differs (enc_max_framerate n) (enc_max_framerate l)
     \<or> dbl_differs (scale_resolution_down_by n) (scale_resolution_down_by l)
     \<or> num_temporal_layers n \<noteq> num_temporal_layers l"

definition ss_SetRtpParameters :: "sender_lib \<Rightarrow> 'c SenderParameters \<Rightarrow> 'c WebRtcVideoSendStream
    \<Rightarrow> (RTCError \<times> 'c WebRtcVideoSendStream) option" where
  "ss_SetRtpParameters B new t =
     (let old = ss_rtp_parameters t;
          error = CheckRtpParametersInvalidModificationAndValues (max_temporal_streams B) old new in
      if \<not> ok error then Some (error, t)
      else case (encodings new, encodings old) of
        (n # _, l # _) \<Rightarrow>
          (let new_param = list_ex (\<lambda>(a, b). encoding_changed a b) (zip (encodings new) (encodings old));
               reconfigure = (new_param
                 \<or> dbl_differs (Some (bitrate_priority n)) (Some (bitrate_priority l))
                 \<or> enc_scalability_mode n \<noteq> enc_scalability_mode l);
               new_send_state = list_ex (\<lambda>(a, b). IsLayerActive a \<noteq> IsLayerActive b)
                 (zip (encodings new) (encodings old));
               new_degradation = (degradation_preference new \<noteq> degradation_preference old);
               t1 = t\<lparr>ss_rtp_parameters := new\<lparr>param_codecs := []\<rparr>\<rparr>
           in Option.bind (if reconfigure \<or> new_send_state then ReconfigureEncoder B t1 else Some t1)
                (\<lambda>t2. Option.bind (if new_send_state then UpdateSendState t2 else Some t2)
                  (\<lambda>t3. map_option (Pair OK)
                    (if new_degradation \<and> ss_source t3 \<noteq> None \<and> ss_stream t3 \<noteq> None
                     then call_stream (CallSetSource (ss_source t3) (GetDegradationPreference t3)) t3
                     else Some t3))))
      | _ \<Rightarrow> None)"

definition ss_SetFrameEncryptor :: "sender_lib \<Rightarrow> nat option \<Rightarrow> 'c WebRtcVideoSendStream
    \<Rightarrow> 'c WebRtcVideoSendStream option" where
  "ss_SetFrameEncryptor B e t =
     (let t1 = t\<lparr>ss_config := (ss_config t)\<lparr>cfg_frame_encryptor := e\<rparr>\<rparr>
      in if ss_stream t1 \<noteq> None then RecreateWebRtcStream B t1 else Some t1)"

definition ss_SetFrameTransformer :: "sender_lib \<Rightarrow> nat option \<Rightarrow> 'c WebRtcVideoSendStream
    \<Rightarrow> 'c WebRtcVideoSendStream option" where
  "ss_SetFrameTransformer B f t =
     (let t1 = t\<lparr>ss_config := (ss_config t)\<lparr>cfg_frame_transformer := f\<rparr>\<rparr>
      in if ss_stream t1 \<noteq> None then RecreateWebRtcStream B t1 else Some t1)"

definition ss_SetSend :: "bool \<Rightarrow> 'c WebRtcVideoSendStream \<Rightarrow> 'c WebRtcVideoSendStream option" where
  "ss_SetSend b t = UpdateSendState (t\<lparr>ss_sending := b\<rparr>)"

text \<open>The options, with the codec made anew when the stream becomes or stops being a screen cast.\<close>

definition set_options :: "sender_lib \<Rightarrow> VideoOptions \<Rightarrow> 'c WebRtcVideoSendStream
    \<Rightarrow> 'c WebRtcVideoSendStream option" where
  "set_options B opts t =
     (let old = ss_options t; t1 = t\<lparr>ss_options := SetAll B opts old\<rparr> in
      Option.bind
        (if screencast t1 \<noteq> screencast t
         then (case ss_codec_settings t1 of
                 Some s \<Rightarrow> map_option (\<lambda>t2. (t2, old\<lparr>is_screencast := is_screencast opts\<rparr>)) (ss_SetCodec B s t1)
               | None \<Rightarrow> Some (t1, old))
         else Some (t1, old))
        (\<lambda>(t2, old2). if ss_options t2 \<noteq> old2 then ReconfigureEncoder B t2 else Some t2))"

definition ss_SetVideoSend :: "sender_lib \<Rightarrow> VideoOptions option \<Rightarrow> nat option \<Rightarrow> 'c WebRtcVideoSendStream
    \<Rightarrow> 'c WebRtcVideoSendStream option" where
  "ss_SetVideoSend B opts source t =
     Option.bind (case opts of None \<Rightarrow> Some t | Some x \<Rightarrow> set_options B x t)
       (\<lambda>t1. Option.bind
         (if ss_source t1 \<noteq> None \<and> ss_stream t1 \<noteq> None then call_stream (CallSetSource None DISABLED) t1
          else Some t1)
         (\<lambda>t2. let t3 = t2\<lparr>ss_source := source\<rparr> in
           if source \<noteq> None \<and> ss_stream t3 \<noteq> None
           then call_stream (CallSetSource source (GetDegradationPreference t3)) t3 else Some t3))"

section \<open>Construction\<close>

definition sender_rtp_config ::
    "sender_lib \<Rightarrow> StreamParams \<Rightarrow> RtpExtension list option \<Rightarrow> VideoSendParameters
     \<Rightarrow> RtpExtension RtpConfig \<Rightarrow> RtpExtension RtpConfig" where
  "sender_rtp_config B sp extensions params r =
     (let ssrcs = GetPrimarySsrcs (streams B) sp in
      r\<lparr>rc_max_packet_size := min (rc_max_packet_size r) (kVideoMtu B), rc_ssrcs := ssrcs,
        rc_rtx := (rc_rtx r)\<lparr>rtx_ssrcs := GetFidSsrcs (streams B) sp ssrcs\<rparr>,
        rc_c_name := stream_cname sp,
        rc_extensions := (case extensions of None \<Rightarrow> rc_extensions r | Some es \<Rightarrow> es),
        rc_rtcp_mode := (if sp_reduced_size params then kReducedSize else kCompound),
        rc_mid := sp_mid params\<rparr>)"

definition new_WebRtcVideoSendStream ::
    "sender_lib \<Rightarrow> StreamParams \<Rightarrow> SendConfig \<Rightarrow> VideoOptions \<Rightarrow> bool \<Rightarrow> int \<Rightarrow> VideoCodecSettings option
     \<Rightarrow> RtpExtension list option \<Rightarrow> VideoSendParameters \<Rightarrow> 'c WebRtcVideoSendStream option" where
  "new_WebRtcVideoSendStream B sp config opts cpu max_bitrate codec extensions params =
     (let ssrcs = GetPrimarySsrcs (streams B) sp in
      case (ssrcs, CreateRtpParametersWithEncodings (default_encoding B)
                     (\<lambda>n. \<lparr>rtcp_cname = n, reduced_size = False\<rparr>) ssrcs (stream_rids (streams B) sp)
                     (stream_cname sp)) of
        (x # _, Some p) \<Rightarrow>
          (let p1 = p\<lparr>encodings := (case encodings p of [] \<Rightarrow> [] | e # es \<Rightarrow> e\<lparr>enc_ssrc := Some x\<rparr> # es),
                 header_extensions := (case extensions of None \<Rightarrow> header_extensions p | Some es \<Rightarrow> es),
                 rtcp := (rtcp p)\<lparr>reduced_size := sp_reduced_size params\<rparr>\<rparr>;
               t = \<lparr>ss_ssrcs = stream_ssrcs sp, ss_ssrc_groups = ssrc_groups sp,
                 ss_enable_cpu_overuse_detection = cpu, ss_source = None, ss_stream = None,
                 ss_config = config\<lparr>cfg_rtp := sender_rtp_config B sp extensions params (cfg_rtp config)\<rparr>,
                 ss_options = opts, ss_max_bitrate_bps = max_bitrate,
                 ss_conference_mode = sp_conference_mode params, ss_codec_settings = codec,
                 ss_encoder_config = default_encoder_config B, ss_rtp_parameters = p1, ss_sending = False\<rparr>
           in case codec of None \<Rightarrow> Some t | Some s \<Rightarrow> ss_SetCodec B s t)
      | _ \<Rightarrow> None)"


section \<open>Calls on a sender\<close>

datatype 'c SenderCall =
    SetSendParameters_call ChangedSendParameters
  | SetRtpParameters_call "'c SenderParameters"
  | SetFrameEncryptor_call "nat option"
  | SetFrameTransformer_call "nat option"
  | SetSend_call bool
  | SetVideoSend_call "VideoOptions option" "nat option"

fun sender_step :: "sender_lib \<Rightarrow> 'c SenderCall \<Rightarrow> 'c WebRtcVideoSendStream \<Rightarrow> 'c WebRtcVideoSendStream option" where
  "sender_step B (SetSendParameters_call ch) t = ss_SetSendParameters B ch t"
| "sender_step B (SetRtpParameters_call p) t = map_option snd (ss_SetRtpParameters B p t)"
| "sender_step B (SetFrameEncryptor_call e) t = ss_SetFrameEncryptor B e t"
| "sender_step B (SetFrameTransformer_call f) t = ss_SetFrameTransformer B f t"
| "sender_step B (SetSend_call b) t = ss_SetSend b t"
| "sender_step B (SetVideoSend_call opts src) t = ss_SetVideoSend B opts src t"

fun sender_run :: "sender_lib \<Rightarrow> 'c SenderCall list \<Rightarrow> 'c WebRtcVideoSendStream \<Rightarrow> 'c WebRtcVideoSendStream option" where
  "sender_run B [] t = Some t"
| "sender_run B (c # cs) t = Option.bind (sender_step B c t) (sender_run B cs)"

section \<open>Without a stream\<close>

text \<open>With the null pointer every call on the stream ends the program.\<close>

named_theorems no_stream

lemma call_stream_null [no_stream]: "ss_stream t = None \<Longrightarrow> call_stream c t = None"
  by (simp add: call_stream_def)

lemma UpdateSendState_null [no_stream]:
  "ss_stream t = None \<Longrightarrow> UpdateSendState t = (if ss_sending t then None else Some t)"
  by (auto simp: UpdateSendState_def call_stream_null split: bind_split)

lemma ReconfigureEncoder_null [no_stream]: "ss_stream t = None \<Longrightarrow> ReconfigureEncoder B t = Some t"
  by (simp add: ReconfigureEncoder_def)

lemma RecreateWebRtcStream_null [no_stream]:
  "ss_stream t = None \<Longrightarrow> RecreateWebRtcStream B t =
     (if ss_codec_settings t = None \<or> ss_source t \<noteq> None \<or> ss_sending t then None
      else Some (t\<lparr>ss_encoder_config := (ss_encoder_config t)\<lparr>ec_specific := None\<rparr>\<rparr>))"
  by (auto simp: RecreateWebRtcStream_def Let_def call_stream_null UpdateSendState_null split: bind_split)

definition with_codec :: "sender_lib \<Rightarrow> VideoCodecSettings \<Rightarrow> VideoEncoderConfig \<Rightarrow> 'c WebRtcVideoSendStream
    \<Rightarrow> 'c WebRtcVideoSendStream" where
  "with_codec B s cfg t =
     t\<lparr>ss_encoder_config := cfg\<lparr>ec_specific := None\<rparr>,
       ss_config := (ss_config t)\<lparr>cfg_rtp := rtp_for_codec B s (cfg_rtp (ss_config t)),
                      cfg_loss_notification := HasLntf B (vcs_codec s)\<rparr>,
       ss_codec_settings := Some s\<rparr>"

lemma ss_SetCodec_null [no_stream]:
  "ss_stream t = None \<Longrightarrow> ss_SetCodec B s t =
     (if ss_source t \<noteq> None \<or> ss_sending t then None
      else map_option (\<lambda>cfg. with_codec B s cfg t) (CreateVideoEncoderConfig B t (vcs_codec s)))"
  by (auto simp: ss_SetCodec_def RecreateWebRtcStream_null with_codec_def split: bind_split)

lemma CreateVideoEncoderConfig_streams:
  "CreateVideoEncoderConfig B t c = Some cfg \<Longrightarrow> ec_number_of_streams cfg = 1"
  by (auto simp: CreateVideoEncoderConfig_def IsCodecDisabledForSimulcast_def Let_def
      split: list.splits option.splits)

lemma set_rtp_simps [simp]:
  "ss_stream (set_rtp f t) = ss_stream t" "ss_sending (set_rtp f t) = ss_sending t"
  "ss_source (set_rtp f t) = ss_source t" "ss_codec_settings (set_rtp f t) = ss_codec_settings t"
  "ss_rtp_parameters (set_rtp f t) = ss_rtp_parameters t" "ss_encoder_config (set_rtp f t) = ss_encoder_config t"
  "ss_ssrcs (set_rtp f t) = ss_ssrcs t" "cfg_rtp (ss_config (set_rtp f t)) = f (cfg_rtp (ss_config t))"
  by (simp_all add: set_rtp_def)

lemma apply_changed_simps [simp]:
  "ss_stream (apply_changed ch t) = ss_stream t" "ss_sending (apply_changed ch t) = ss_sending t"
  "ss_source (apply_changed ch t) = ss_source t" "ss_codec_settings (apply_changed ch t) = ss_codec_settings t"
  "ss_encoder_config (apply_changed ch t) = ss_encoder_config t" "ss_ssrcs (apply_changed ch t) = ss_ssrcs t"
  by (simp_all add: apply_changed_def when_some_def split: option.split)

section \<open>What a sender keeps\<close>

definition codec_in_place :: "sender_lib \<Rightarrow> 'c WebRtcVideoSendStream \<Rightarrow> bool" where
  "codec_in_place B t \<longleftrightarrow>
     (\<forall>s. ss_codec_settings t = Some s \<longrightarrow>
        (let r = cfg_rtp (ss_config t) in
         rc_payload_name r = codec_name (vcs_codec s) \<and> rc_payload_type r = codec_id (vcs_codec s)
         \<and> rc_ulpfec r = vcs_ulpfec s
         \<and> rc_rtp_history_ms r = (if HasNack B (vcs_codec s) then kNackHistoryMs else 0)
         \<and> (rtx_ssrcs (rc_rtx r) \<noteq> [] \<longrightarrow> rtx_payload_type (rc_rtx r) = vcs_rtx_payload_type s
              \<and> rtx_payload_type (rc_rtx r) \<noteq> -1)
         \<and> ec_number_of_streams (ss_encoder_config t) = 1))"

definition sender_identity :: "sender_lib \<Rightarrow> StreamParams \<Rightarrow> 'c WebRtcVideoSendStream \<Rightarrow> bool" where
  "sender_identity B sp t \<longleftrightarrow>
     (let r = cfg_rtp (ss_config t); p = ss_rtp_parameters t; ssrcs = GetPrimarySsrcs (streams B) sp in
      ss_ssrcs t = stream_ssrcs sp \<and> rc_ssrcs r = ssrcs \<and> List.map enc_ssrc (encodings p) = List.map Some ssrcs
      \<and> rtcp_cname (rtcp p) = stream_cname sp
      \<and> (rtx_ssrcs (rc_rtx r) = [] \<or> rtx_ssrcs (rc_rtx r) = GetFidSsrcs (streams B) sp ssrcs)
      \<and> rc_extensions r = header_extensions p
      \<and> (rc_rtcp_mode r = kReducedSize \<longleftrightarrow> reduced_size (rtcp p))
      \<and> (\<forall>e \<in> set (encodings p). valid_encoding (max_temporal_streams B) e))"

definition sender_ok :: "sender_lib \<Rightarrow> StreamParams \<Rightarrow> 'c WebRtcVideoSendStream \<Rightarrow> bool" where
  "sender_ok B sp t \<longleftrightarrow> ss_stream t = None \<and> \<not> ss_sending t \<and> codec_in_place B t \<and> sender_identity B sp t"

lemma codec_in_place_updates [simp]:
  "codec_in_place B (t\<lparr>ss_options := x\<rparr>) = codec_in_place B t"
  "codec_in_place B (t\<lparr>ss_source := y\<rparr>) = codec_in_place B t"
  "codec_in_place B (t\<lparr>ss_sending := b\<rparr>) = codec_in_place B t"
  "codec_in_place B (t\<lparr>ss_max_bitrate_bps := n\<rparr>) = codec_in_place B t"
  "codec_in_place B (t\<lparr>ss_conference_mode := b\<rparr>) = codec_in_place B t"
  "codec_in_place B (t\<lparr>ss_rtp_parameters := p\<rparr>) = codec_in_place B t"
  "codec_in_place B (t\<lparr>ss_config := (ss_config t)\<lparr>cfg_frame_encryptor := e\<rparr>\<rparr>) = codec_in_place B t"
  "codec_in_place B (t\<lparr>ss_config := (ss_config t)\<lparr>cfg_frame_transformer := e\<rparr>\<rparr>) = codec_in_place B t"
  "codec_in_place B (t\<lparr>ss_encoder_config := (ss_encoder_config t)\<lparr>ec_specific := z\<rparr>\<rparr>) = codec_in_place B t"
  by (simp_all add: codec_in_place_def)

lemma sender_identity_updates [simp]:
  "sender_identity B sp (t\<lparr>ss_options := x\<rparr>) = sender_identity B sp t"
  "sender_identity B sp (t\<lparr>ss_source := y\<rparr>) = sender_identity B sp t"
  "sender_identity B sp (t\<lparr>ss_sending := b\<rparr>) = sender_identity B sp t"
  "sender_identity B sp (t\<lparr>ss_max_bitrate_bps := n\<rparr>) = sender_identity B sp t"
  "sender_identity B sp (t\<lparr>ss_conference_mode := b\<rparr>) = sender_identity B sp t"
  "sender_identity B sp (t\<lparr>ss_config := (ss_config t)\<lparr>cfg_frame_encryptor := e\<rparr>\<rparr>) = sender_identity B sp t"
  "sender_identity B sp (t\<lparr>ss_config := (ss_config t)\<lparr>cfg_frame_transformer := e\<rparr>\<rparr>) = sender_identity B sp t"
  "sender_identity B sp (t\<lparr>ss_encoder_config := w\<rparr>) = sender_identity B sp t"
  by (simp_all add: sender_identity_def)

lemma with_codec_ok:
  assumes "sender_identity B sp t" "CreateVideoEncoderConfig B t (vcs_codec s) = Some cfg"
  shows "codec_in_place B (with_codec B s cfg t)" "sender_identity B sp (with_codec B s cfg t)"
  using assms CreateVideoEncoderConfig_streams [OF assms(2)]
  by (auto simp: codec_in_place_def sender_identity_def with_codec_def rtp_for_codec_def Let_def)

lemma SetCodec_ok:
  assumes "ss_stream t = None" "sender_identity B sp t" "ss_SetCodec B s t = Some t'"
  shows "sender_ok B sp t' \<and> ss_source t' = None"
proof -
  obtain cfg where c: "CreateVideoEncoderConfig B t (vcs_codec s) = Some cfg" "t' = with_codec B s cfg t"
    "ss_source t = None" "\<not> ss_sending t"
    using assms(1,3) by (auto simp: ss_SetCodec_null split: if_splits)
  then show ?thesis using assms(1) with_codec_ok [OF assms(2) c(1)]
    by (auto simp: sender_ok_def with_codec_def)
qed

lemma apply_changed_ok:
  assumes "sender_identity B sp t"
  shows "sender_identity B sp (apply_changed ch t)"
  using assms
  by (auto simp: sender_identity_def apply_changed_def when_some_def Let_def split: option.split)


lemma apply_changed_codec:
  "codec_in_place B t \<Longrightarrow> codec_in_place B (apply_changed ch t)"
  by (auto simp: codec_in_place_def apply_changed_def when_some_def Let_def split: option.split)

lemma accepted_parameters:
  assumes "ok (CheckRtpParametersInvalidModificationAndValues k old p)"
  shows "same_identity old p \<and> (\<forall>e \<in> set (encodings p). valid_encoding k e)"
proof -
  have "CheckRtpParametersInvalidModificationAndValues k old p = OK"
    using assms by (cases "CheckRtpParametersInvalidModificationAndValues k old p") auto
  then show ?thesis
    by (auto simp: CheckRtpParametersInvalidModificationAndValues_def CheckRtpParametersValues_def
        list_all2_map_eq same_identity_def check_encodings_iff split: if_splits)
qed

lemma SetSendParameters_ok:
  assumes "sender_ok B sp t" "ss_SetSendParameters B ch t = Some t'"
  shows "sender_ok B sp t'"
proof -
  define t3 where "t3 = when_some (ch_conference_mode ch) (\<lambda>b t. t\<lparr>ss_conference_mode := b\<rparr>)
    (case ch_max_bandwidth_bps ch of None \<Rightarrow> apply_changed ch t
     | Some b \<Rightarrow> (apply_changed ch t)\<lparr>ss_max_bitrate_bps := b\<rparr>)"
  have n: "ss_stream (apply_changed ch t) = None" using assms(1) by (simp add: sender_ok_def)
  have s: "ss_stream t3 = None" "\<not> ss_sending t3" "sender_identity B sp t3" "codec_in_place B t3"
    using assms(1) apply_changed_ok [of B sp t ch] apply_changed_codec [of B t ch] n
    by (auto simp: t3_def sender_ok_def when_some_def split: option.split)
  have "ss_SetSendParameters B ch t =
     (case ch_send_codec ch of
        Some s \<Rightarrow> ss_SetCodec B s t3
      | None \<Rightarrow> (case (ch_conference_mode ch, ss_codec_settings t3) of
           (Some _, Some s) \<Rightarrow> ss_SetCodec B s t3
         | _ \<Rightarrow> if recreate_needed ch then RecreateWebRtcStream B t3 else Some t3))"
    using n by (auto simp: ss_SetSendParameters_def t3_def ReconfigureEncoder_null Let_def split: option.split)
  then consider s where "ss_SetCodec B s t3 = Some t'" | "RecreateWebRtcStream B t3 = Some t'" | "t' = t3"
    using assms(2) by (auto split: option.splits if_splits)
  then show ?thesis
  proof cases
    case (1 s)
    then show ?thesis using SetCodec_ok s by blast
  next
    case 2
    then show ?thesis using s
      by (auto simp: RecreateWebRtcStream_null sender_ok_def split: if_splits)
  next
    case 3
    then show ?thesis using s by (simp add: sender_ok_def)
  qed
qed

lemma SetRtpParameters_ok:
  assumes "sender_ok B sp t" "ss_SetRtpParameters B p t = Some (err, t')"
  shows "sender_ok B sp t' \<and> (err \<noteq> OK \<longrightarrow> t' = t)"
proof (cases "ok (CheckRtpParametersInvalidModificationAndValues (max_temporal_streams B) (ss_rtp_parameters t) p)")
  case False
  then show ?thesis using assms by (auto simp: ss_SetRtpParameters_def Let_def)
next
  case True
  note a = accepted_parameters [OF True]
  have n: "ss_stream t = None" "\<not> ss_sending t" using assms(1) by (simp_all add: sender_ok_def)
  have t': "t' = t\<lparr>ss_rtp_parameters := p\<lparr>param_codecs := []\<rparr>\<rparr>" "err = OK"
    using assms(2) n True
    by (auto simp: ss_SetRtpParameters_def no_stream Let_def split: list.splits if_splits)
  have "sender_identity B sp t'" using assms(1) a
    by (simp add: t' sender_ok_def sender_identity_def same_identity_def Let_def)
  moreover have "codec_in_place B t'" using assms(1) by (simp add: t' sender_ok_def)
  ultimately show ?thesis using n t' by (simp add: sender_ok_def)
qed

lemma set_options_ok:
  assumes "sender_ok B sp t" "set_options B opts t = Some t'"
  shows "sender_ok B sp t'"
proof -
  define t1 where "t1 = t\<lparr>ss_options := SetAll B opts (ss_options t)\<rparr>"
  have o1: "sender_ok B sp t1"
    using assms(1) by (simp add: t1_def sender_ok_def)
  then have n1: "ss_stream t1 = None" "sender_identity B sp t1" by (simp_all add: sender_ok_def)
  let ?first = "if screencast t1 \<noteq> screencast t
       then (case ss_codec_settings t1 of
               Some s \<Rightarrow> map_option (\<lambda>t2. (t2, (ss_options t)\<lparr>is_screencast := is_screencast opts\<rparr>)) (ss_SetCodec B s t1)
             | None \<Rightarrow> Some (t1, ss_options t))
       else Some (t1, ss_options t)"
  have "Option.bind ?first (\<lambda>(t2, old2). if ss_options t2 \<noteq> old2 then ReconfigureEncoder B t2 else Some t2)
      = set_options B opts t"
    by (simp only: set_options_def Let_def t1_def)
  from trans [OF this assms(2), THEN bind_eq_Some_conv [THEN iffD1]]
  have "\<exists>x. ?first = Some x
      \<and> (case x of (t2, old2) \<Rightarrow> if ss_options t2 \<noteq> old2 then ReconfigureEncoder B t2 else Some t2) = Some t'" .
  then obtain x where x: "?first = Some x"
    "(if ss_options (fst x) \<noteq> snd x then ReconfigureEncoder B (fst x) else Some (fst x)) = Some t'"
    unfolding split_beta by blast
  obtain t2 old2 where t2: "t2 = fst x" "old2 = snd x" by blast
  have "t2 = t1 \<or> (\<exists>s. ss_SetCodec B s t1 = Some t2)"
    using x(1) t2(1) by (auto split: if_splits option.splits)
  then have "sender_ok B sp t2" using o1 SetCodec_ok [OF n1] by blast
  then show ?thesis using x(2) t2 by (auto simp: sender_ok_def ReconfigureEncoder_null split: if_splits)
qed

lemma SetVideoSend_ok:
  assumes "sender_ok B sp t" "ss_SetVideoSend B opts src t = Some t'"
  shows "sender_ok B sp t' \<and> ss_source t' = src"
proof -
  obtain t1 where t1: "(case opts of None \<Rightarrow> Some t | Some x \<Rightarrow> set_options B x t) = Some t1"
    using assms(2) by (cases "case opts of None \<Rightarrow> Some t | Some x \<Rightarrow> set_options B x t")
      (auto simp: ss_SetVideoSend_def)
  then have ok1: "sender_ok B sp t1" using assms(1) set_options_ok by (auto split: option.splits)
  then have "t' = t1\<lparr>ss_source := src\<rparr>"
    using assms(2) t1 by (auto simp: ss_SetVideoSend_def sender_ok_def Let_def)
  then show ?thesis using ok1 by (simp add: sender_ok_def)
qed

lemma sender_step_ok:
  assumes "sender_ok B sp t" "sender_step B c t = Some t'"
  shows "sender_ok B sp t'"
proof (cases c)
  case (SetSend_call b)
  then show ?thesis using assms
    by (auto simp: ss_SetSend_def UpdateSendState_null sender_ok_def split: if_splits)
next
  case (SetRtpParameters_call p)
  then obtain err where "ss_SetRtpParameters B p t = Some (err, t')" using assms(2) by auto
  then show ?thesis using SetRtpParameters_ok [OF assms(1)] by blast
next
  case (SetSendParameters_call ch)
  then show ?thesis using assms SetSendParameters_ok by simp
next
  case (SetVideoSend_call opts src)
  then show ?thesis using assms SetVideoSend_ok by fastforce
next
  case (SetFrameEncryptor_call e)
  then show ?thesis using assms by (auto simp: ss_SetFrameEncryptor_def sender_ok_def)
next
  case (SetFrameTransformer_call f)
  then show ?thesis using assms by (auto simp: ss_SetFrameTransformer_def sender_ok_def)
qed

interpretation sender_seq: call_run "sender_step B" "sender_run B" for B
  by unfold_locales simp_all

lemma sender_run_ok:
  assumes "sender_ok B sp t" "sender_run B cs t = Some t'"
  shows "sender_ok B sp t'"
  by (rule sender_seq.run_keeps [where P = "sender_ok B sp", OF assms(2,1) sender_step_ok])


section \<open>A new sender\<close>

lemma created_encodings:
  assumes "CreateRtpParametersWithEncodings dflt f ssrcs rids n = Some p" "valid_encoding k dflt"
  shows "List.map enc_ssrc (encodings p) = List.map Some ssrcs"
    "\<forall>e \<in> set (encodings p). valid_encoding k e"
    "rtcp p = f n" "header_extensions p = []"
proof -
  let ?es = "List.map (\<lambda>x. dflt\<lparr>enc_ssrc := Some x\<rparr>) ssrcs"
  have l: "length rids \<le> length ssrcs" and
    p: "encodings p = List.map (\<lambda>(e, r). e\<lparr>enc_rid := r\<rparr>) (zip ?es rids) @ drop (length rids) ?es"
    "rtcp p = f n" "header_extensions p = []"
    using assms(1) by (auto simp: CreateRtpParametersWithEncodings_def Let_def split: if_splits)
  show "rtcp p = f n" "header_extensions p = []" by (fact p)+
  have "List.map enc_ssrc (List.map (\<lambda>(e, r). e\<lparr>enc_rid := r\<rparr>) (zip ?es rids))
      = List.map (enc_ssrc \<circ> fst) (zip ?es rids)"
    by (auto simp: comp_def)
  also have "\<dots> = List.map enc_ssrc (take (length rids) ?es)"
    using l by (simp flip: List.map_map add: map_fst_zip_take)
  finally have "List.map enc_ssrc (encodings p) = List.map enc_ssrc ?es"
    using p(1) by (metis append_take_drop_id map_append)
  then show "List.map enc_ssrc (encodings p) = List.map Some ssrcs" by (simp add: comp_def)
  have "valid_encoding k e" if "e \<in> set ?es" for e
    using that assms(2) by (auto simp: valid_encoding_def)
  then have "valid_encoding k (e\<lparr>enc_rid := r\<rparr>)" if "e \<in> set ?es" for e r
    using that by (auto simp: valid_encoding_def)
  then show "\<forall>e \<in> set (encodings p). valid_encoding k e"
    using p(1) assms(2) by (auto dest: set_zip_leftD in_set_dropD simp: valid_encoding_def)
qed

lemma new_sender_ok:
  fixes t :: "'c WebRtcVideoSendStream"
  assumes "new_WebRtcVideoSendStream B sp config opts cpu mb codec extensions params = Some t"
    "valid_encoding (max_temporal_streams B) (default_encoding B)" "rc_extensions (cfg_rtp config) = []"
  shows "sender_ok B sp t"
proof -
  let ?ssrcs = "GetPrimarySsrcs (streams B) sp"
  let ?create = "CreateRtpParametersWithEncodings (default_encoding B)
      (\<lambda>n. \<lparr>rtcp_cname = n, reduced_size = False\<rparr>) ?ssrcs (stream_rids (streams B) sp) (stream_cname sp)
      :: 'c SenderParameters option"
  obtain x xs where x: "?ssrcs = x # xs"
    using assms(1) by (cases ?ssrcs) (simp_all add: new_WebRtcVideoSendStream_def Let_def)
  have "?create \<noteq> None"
  proof
    assume "?create = None"
    then show False using assms(1) x by (simp add: new_WebRtcVideoSendStream_def Let_def)
  qed
  then obtain p where p: "?create = Some p" by blast
  note c = created_encodings [OF p assms(2)]
  obtain e es where e: "encodings p = e # es" using c(1) x by (cases "encodings p") auto
  define t0 where "t0 = \<lparr>ss_ssrcs = stream_ssrcs sp, ss_ssrc_groups = ssrc_groups sp,
     ss_enable_cpu_overuse_detection = cpu, ss_source = None, ss_stream = None,
     ss_config = config\<lparr>cfg_rtp := sender_rtp_config B sp extensions params (cfg_rtp config)\<rparr>,
     ss_options = opts, ss_max_bitrate_bps = mb,
     ss_conference_mode = sp_conference_mode params, ss_codec_settings = codec,
     ss_encoder_config = default_encoder_config B,
     ss_rtp_parameters = p\<lparr>encodings := e\<lparr>enc_ssrc := Some x\<rparr> # es,
       header_extensions := (case extensions of None \<Rightarrow> header_extensions p | Some es \<Rightarrow> es),
       rtcp := (rtcp p)\<lparr>reduced_size := sp_reduced_size params\<rparr>\<rparr>, ss_sending = False\<rparr>"
  have "valid_encoding (max_temporal_streams B) (e\<lparr>enc_ssrc := Some x\<rparr>)"
    using c(2) e by (auto simp: valid_encoding_def)
  then have i: "sender_identity B sp t0"
    using c e x assms(3)
    by (auto simp: t0_def sender_identity_def sender_rtp_config_def Let_def split: option.split)
  have r: "(case codec of None \<Rightarrow> Some t0 | Some s \<Rightarrow> ss_SetCodec B s t0) = Some t"
    using assms(1) p e x unfolding t0_def by (simp add: new_WebRtcVideoSendStream_def Let_def)
  have n: "ss_stream t0 = None" "\<not> ss_sending t0" "ss_codec_settings t0 = codec" by (simp_all add: t0_def)
  show ?thesis
  proof (cases codec)
    case None
    then have "t = t0" using r by simp
    moreover have "codec_in_place B t0" using n(3) None by (simp add: codec_in_place_def)
    ultimately show ?thesis using i n by (simp add: sender_ok_def)
  next
    case (Some s)
    then show ?thesis using SetCodec_ok [OF n(1) i] r by simp
  qed
qed

section \<open>Properties\<close>

text \<open>C20: A sender stays consistent under every sequence of calls that return. Its SSRCs, its CNAME and
  the SSRCs of its encodings stay those of its stream; the header extensions and the RTCP mode are
  the same in its two sets of parameters; every encoding keeps its rules; RTX is either off or on
  all its SSRCs; and once there is a codec, the RTP configuration is that codec's, RTX that is on
  has a payload type, and the encoder makes one stream.\<close>

theorem sender_stays_consistent:
  assumes "new_WebRtcVideoSendStream B sp config opts cpu mb codec extensions params = Some t0"
    "valid_encoding (max_temporal_streams B) (default_encoding B)" "rc_extensions (cfg_rtp config) = []"
    "sender_run B calls t0 = Some t"
  shows "sender_identity B sp t \<and> codec_in_place B t"
  using sender_run_ok [OF new_sender_ok [OF assms(1-3)] assms(4)] by (simp add: sender_ok_def)

text \<open>A sender never sends. The call that creates the stream behind it is commented out, so after any
  sequence of calls that return the pointer is still null, the sender is not sending, telling it to
  send ends the program, and so does a codec once the sender has a source.\<close>

theorem sender_never_sends:
  assumes "new_WebRtcVideoSendStream B sp config opts cpu mb codec extensions params = Some t0"
    "valid_encoding (max_temporal_streams B) (default_encoding B)" "rc_extensions (cfg_rtp config) = []"
    "sender_run B calls t0 = Some t"
  shows "ss_stream t = None \<and> \<not> ss_sending t \<and> sender_step B (SetSend_call True) t = None
    \<and> (ss_source t \<noteq> None \<longrightarrow> ss_SetCodec B s t = None)"
proof -
  have "ss_stream t = None" "\<not> ss_sending t"
    using sender_run_ok [OF new_sender_ok [OF assms(1-3)] assms(4)] by (simp_all add: sender_ok_def)
  then show ?thesis by (simp add: ss_SetSend_def UpdateSendState_null ss_SetCodec_null)
qed


section \<open>An instance\<close>

text \<open>The FID groups of a stream pair a primary SSRC with one of RTX.\<close>

definition demo_streams :: stream_lib where
  "demo_streams =
     \<lparr>GetPrimarySsrcs = (\<lambda>sp. take (length (stream_ssrcs sp) - length (ssrc_groups sp)) (stream_ssrcs sp)),
      GetFidSsrcs = (\<lambda>sp _. List.map (\<lambda>g. last (group_ssrcs g)) (ssrc_groups sp)),
      stream_rids = (\<lambda>_. []), first_ssrc = (\<lambda>sp. case stream_ssrcs sp of [] \<Rightarrow> 0 | x # _ \<Rightarrow> x)\<rparr>"

definition demo_sender :: sender_lib where
  "demo_sender = \<lparr>enc = demo_encoder, streams = demo_streams, GetMaxQuantization = (\<lambda>_. None),
     GetMaxBitrateKbps = (\<lambda>_. None), HasLntf = (\<lambda>_. False), HasNack = (\<lambda>_. True),
     HasTransportCc = (\<lambda>_. True), packetization_raw = (\<lambda>_. False), SetAll = (\<lambda>a _. a),
     kVideoMtu = 1200, max_temporal_streams = 4, kConferenceMaxNumSpatialLayers = 3,
     kConferenceMaxNumTemporalLayers = 3, default_encoding = demo_encoding\<lparr>enc_ssrc := None\<rparr>,
     default_encoder_config = demo_encoder_config []\<rparr>"

definition demo_stream_params :: StreamParams where
  "demo_stream_params = \<lparr>stream_id = ''v'', stream_ids = [], stream_ssrcs = [10, 11],
     ssrc_groups = [\<lparr>group_semantics = ''FID'', group_ssrcs = [10, 11]\<rparr>], stream_cname = ''c''\<rparr>"

definition demo_send_config :: SendConfig where
  "demo_send_config = \<lparr>cfg_rtp = default_RtpConfig, cfg_loss_notification = False,
     cfg_suspend_below_min_bitrate = False, cfg_periodic_alr_probing = False, cfg_cpu_load_estimator = False,
     cfg_rtcp_report_interval_ms = 1000, cfg_crypto_options = 0, cfg_frame_encryptor = None,
     cfg_frame_transformer = None\<rparr>"

definition demo_options :: VideoOptions where
  "demo_options = \<lparr>is_screencast = None, video_noise_reduction = None, screencast_min_bitrate_kbps = None,
     content_hint = None, other_options = 0\<rparr>"

definition demo_send_params :: VideoSendParameters where
  "demo_send_params = \<lparr>sp_codecs = [], sp_extensions = [], sp_is_stream_active = True,
     sp_extmap_allow_mixed = False, sp_mid = ''v'', sp_max_bandwidth_bps = -1, sp_conference_mode = False,
     sp_reduced_size = True\<rparr>"

definition demo_settings :: VideoCodecSettings where
  "demo_settings = \<lparr>vcs_codec = demo_codec 96 ''H264'' [], vcs_ulpfec = default_UlpfecConfig,
     vcs_flexfec_payload_type = -1, vcs_rtx_payload_type = 97, vcs_rtx_time = -1\<rparr>"

definition no_change :: ChangedSendParameters where
  "no_change = \<lparr>ch_send_codec = None, ch_negotiated_codecs = None, ch_rtp_header_extensions = None,
     ch_mid = None, ch_extmap_allow_mixed = None, ch_max_bandwidth_bps = None, ch_conference_mode = None,
     ch_rtcp_mode = None\<rparr>"

definition demo_new_sender :: "nat WebRtcVideoSendStream option" where
  "demo_new_sender = new_WebRtcVideoSendStream demo_sender demo_stream_params demo_send_config demo_options
     True (-1) (Some demo_settings) None demo_send_params"

definition demo_calls :: "nat SenderCall list" where
  "demo_calls = [SetSendParameters_call (no_change\<lparr>ch_rtcp_mode := Some kCompound, ch_mid := Some ''w''\<rparr>),
     SetVideoSend_call None (Some 5)]"

lemmas sender_demo_defs = demo_new_sender_def demo_calls_def demo_settings_def demo_send_params_def
  demo_options_def demo_send_config_def demo_stream_params_def demo_sender_def demo_streams_def demo_codec_def
  demo_encoder_def demo_encoder_config_def demo_simulcast_def demo_stream_def demo_encoding_def no_change_def

lemma demo_sender_runs: "\<exists>t0. demo_new_sender = Some t0
    \<and> (\<exists>t. sender_run demo_sender demo_calls t0 = Some t \<and> ss_source t \<noteq> None)"
  by (simp add: sender_demo_defs new_WebRtcVideoSendStream_def CreateRtpParametersWithEncodings_def
      sender_rtp_config_def ss_SetCodec_def CreateVideoEncoderConfig_def min_transmit_bitrate_def screencast_def
      stream_max_bitrate_def layer_of_encoding_def RecreateWebRtcStream_def UpdateSendState_def
      ss_SetSendParameters_def apply_changed_def recreate_needed_def when_some_def set_rtp_def
      ss_SetVideoSend_def default_RtpConfig_def rtp_for_codec_def Let_def)

lemma demo_encoding_valid:
  "valid_encoding (max_temporal_streams demo_sender) (default_encoding demo_sender)"
  by (simp add: demo_sender_def demo_encoding_def valid_encoding_def dbl_le_def)

lemma demo_config_plain: "rc_extensions (cfg_rtp demo_send_config) = []"
  by (simp add: demo_send_config_def default_RtpConfig_def)

lemma sender_stays_consistent_witness:
  "\<exists>t0 t. demo_new_sender = Some t0 \<and> sender_run demo_sender demo_calls t0 = Some t
     \<and> sender_identity demo_sender demo_stream_params t \<and> codec_in_place demo_sender t"
  using demo_sender_runs sender_stays_consistent [OF _ demo_encoding_valid demo_config_plain]
  unfolding demo_new_sender_def by blast

lemma sender_never_sends_witness:
  "\<exists>t0 t. demo_new_sender = Some t0 \<and> sender_run demo_sender demo_calls t0 = Some t
     \<and> sender_step demo_sender (SetSend_call True) t = None \<and> ss_SetCodec demo_sender demo_settings t = None"
  using demo_sender_runs sender_never_sends [OF _ demo_encoding_valid demo_config_plain]
  unfolding demo_new_sender_def by blast

end
