(* ===== verification/VideoReceiveStream.thy ===== *)
theory VideoReceiveStream
  imports VideoSendStream
begin

text \<open>
  The receiver of the video engine, \<open>WebRtcVideoChannel::WebRtcVideoReceiveStream\<close>
  (engine/webrtc_video_engine.cpp). The source has commented out its configuration and the stream
  behind it, and with them the effect of most of its methods: what is left is the sink, the
  parameters and the estimated start time of the remote side.
\<close>

section \<open>State\<close>

record VideoReceiveStream =
  rs_stream_params :: StreamParams
  rs_default_stream :: bool
  rs_sink :: "nat option"
  rs_first_frame_timestamp :: int
  rs_start_ntp_time_ms :: int

definition new_VideoReceiveStream :: "StreamParams \<Rightarrow> bool \<Rightarrow> VideoReceiveStream" where
  "new_VideoReceiveStream sp dflt = \<lparr>rs_stream_params = sp, rs_default_stream = dflt, rs_sink = None,
     rs_first_frame_timestamp = -1, rs_start_ntp_time_ms = 0\<rparr>"

definition rs_GetSsrcs :: "VideoReceiveStream \<Rightarrow> ssrc list" where
  "rs_GetSsrcs r = stream_ssrcs (rs_stream_params r)"

definition rs_GetRtpParameters :: "sender_lib \<Rightarrow> VideoReceiveStream \<Rightarrow> 'c SenderParameters" where
  "rs_GetRtpParameters B r =
     \<lparr>encodings = List.map (\<lambda>x. (default_encoding B)\<lparr>enc_ssrc := Some x\<rparr>)
        (GetPrimarySsrcs (streams B) (rs_stream_params r)),
      rtcp = \<lparr>rtcp_cname = '''', reduced_size = False\<rparr>, header_extensions = [], param_codecs = [],
      degradation_preference = None\<rparr>"

definition rs_SetSink :: "nat option \<Rightarrow> VideoReceiveStream \<Rightarrow> VideoReceiveStream" where
  "rs_SetSink s r = r\<lparr>rs_sink := s\<rparr>"

definition rs_SetBaseMinimumPlayoutDelayMs :: "int \<Rightarrow> VideoReceiveStream \<Rightarrow> bool \<times> VideoReceiveStream" where
  "rs_SetBaseMinimumPlayoutDelayMs d r = (False, r)"

definition rs_GetBaseMinimumPlayoutDelayMs :: "VideoReceiveStream \<Rightarrow> int" where
  "rs_GetBaseMinimumPlayoutDelayMs r = 0"

text \<open>The calls whose effect on the stream is commented out.\<close>

definition rs_RecreateWebRtcVideoStream :: "VideoReceiveStream \<Rightarrow> VideoReceiveStream" where
  "rs_RecreateWebRtcVideoStream r = r"

definition rs_SetLocalSsrc :: "ssrc \<Rightarrow> VideoReceiveStream \<Rightarrow> VideoReceiveStream" where
  "rs_SetLocalSsrc x r = rs_RecreateWebRtcVideoStream r"

definition rs_SetFeedbackParameters ::
    "bool \<Rightarrow> bool \<Rightarrow> bool \<Rightarrow> RtcpMode \<Rightarrow> int \<Rightarrow> VideoReceiveStream \<Rightarrow> VideoReceiveStream" where
  "rs_SetFeedbackParameters lntf nack transport_cc mode rtx_time r = rs_RecreateWebRtcVideoStream r"

definition rs_ConfigureCodecs :: "VideoCodecSettings list \<Rightarrow> VideoReceiveStream \<Rightarrow> bool" where
  "rs_ConfigureCodecs cs r = True"

record ChangedRecvParameters =
  cr_codec_settings :: "VideoCodecSettings list option"
  cr_rtp_header_extensions :: "RtpExtension list option"
  cr_flexfec_payload_type :: "int option"

definition rs_SetRecvParameters :: "ChangedRecvParameters \<Rightarrow> VideoReceiveStream \<Rightarrow> VideoReceiveStream" where
  "rs_SetRecvParameters ch r =
     (case cr_codec_settings ch of
        None \<Rightarrow> r | Some cs \<Rightarrow> if rs_ConfigureCodecs cs r then rs_RecreateWebRtcVideoStream r else r)"

definition rs_SetFrameDecryptor :: "nat option \<Rightarrow> VideoReceiveStream \<Rightarrow> VideoReceiveStream" where
  "rs_SetFrameDecryptor d r = r"

definition rs_SetDepacketizerToDecoderFrameTransformer ::
    "nat \<Rightarrow> VideoReceiveStream \<Rightarrow> VideoReceiveStream" where
  "rs_SetDepacketizerToDecoderFrameTransformer f r = r"

definition rs_GetSources :: "VideoReceiveStream \<Rightarrow> nat list" where
  "rs_GetSources r = []"

text \<open>The two values the receiver's statistics still have.\<close>

definition rs_GetVideoReceiverInfo :: "VideoReceiveStream \<Rightarrow> SsrcGroup list \<times> int" where
  "rs_GetVideoReceiverInfo r = (ssrc_groups (rs_stream_params r), rs_start_ntp_time_ms r)"

text \<open>A frame at a time of the local clock, with its NTP time: the frame goes to the sink, if any.\<close>

definition rs_OnFrame :: "int \<Rightarrow> int \<Rightarrow> VideoReceiveStream \<Rightarrow> VideoReceiveStream \<times> nat option" where
  "rs_OnFrame now ntp r =
     (let r1 = (if rs_first_frame_timestamp r < 0 then r\<lparr>rs_first_frame_timestamp := now\<rparr> else r);
          elapsed = now - rs_first_frame_timestamp r1;
          r2 = (if ntp > 0 then r1\<lparr>rs_start_ntp_time_ms := ntp - elapsed\<rparr> else r1)
      in (r2, rs_sink r2))"

fun rs_frames :: "(int \<times> int) list \<Rightarrow> VideoReceiveStream \<Rightarrow> VideoReceiveStream" where
  "rs_frames [] r = r"
| "rs_frames ((now, ntp) # fs) r = rs_frames fs (fst (rs_OnFrame now ntp r))"

text \<open>The start time, once the first frame has come at \<open>t0\<close>.\<close>

lemma rs_frames_from:
  assumes "0 \<le> t0" "rs_first_frame_timestamp r = t0"
  shows "rs_first_frame_timestamp (rs_frames fs r) = t0
    \<and> rs_start_ntp_time_ms (rs_frames fs r)
       = (case filter (\<lambda>(now, ntp). ntp > 0) fs of [] \<Rightarrow> rs_start_ntp_time_ms r
          | gs \<Rightarrow> snd (last gs) - (fst (last gs) - t0))"
  using assms
proof (induction fs r rule: rs_frames.induct)
  case (1 r)
  then show ?case by simp
next
  case (2 now ntp fs r)
  let ?r = "fst (rs_OnFrame now ntp r)"
  have r: "rs_first_frame_timestamp ?r = t0"
    "rs_start_ntp_time_ms ?r = (if ntp > 0 then ntp - (now - t0) else rs_start_ntp_time_ms r)"
    using 2(2,3) by (simp_all add: rs_OnFrame_def Let_def)
  show ?case using 2(1) [OF 2(2) r(1)] r(2)
    by (cases "filter (\<lambda>(now, ntp). ntp > 0) fs") auto
qed

end
