(* ===== verification/VideoChannel.thy ===== *)
theory VideoChannel
  imports VideoReceiveStream
begin

text \<open>
  The video engine and its channel, \<open>WebRtcVideoEngine\<close> and \<open>WebRtcVideoChannel\<close>
  (engine/webrtc_video_engine.cpp): the negotiation of codecs, header extensions and bitrates, the
  senders by SSRC, the receivers by SSRC and the handler of packets with an unknown SSRC.

  The source has commented out the call object, the creation of receivers and the worker thread, which
  is the null pointer: what reaches through it gives \<open>None\<close>, as does a failed \<open>RTC_CHECK\<close> and an
  element that is not there. The codecs of libmedia_codec and libmedia_transfer_protocol, the sorts
  and the constants are the record \<open>channel_lib\<close>.
\<close>

section \<open>Data\<close>

datatype DiffServCodePoint = DSCP_DEFAULT | DSCP_CS1 | DSCP_AF42 | DSCP_AF41

record VideoConfig =
  suspend_below_min_bitrate :: bool
  periodic_alr_bandwidth_probing :: bool
  experiment_cpu_load_estimator :: bool
  rtcp_report_interval_ms :: int
  enable_cpu_adaptation :: bool

record VideoRecvParameters =
  rp_codecs :: "Codec list"
  rp_extensions :: "RtpExtension list"
  rp_is_stream_active :: bool

record EncoderSwitchConfig =
  sw_codec_name :: string
  sw_param :: "string option"
  sw_value :: "string option"

record ('f, 'c) channel_lib =
  codec_lib :: "'f codec_lib"
  sender_lib :: sender_lib
  uris :: ext_uris
  sort_extensions :: "RtpExtension list \<Rightarrow> RtpExtension list"
  IsSupportedForVideo :: "string \<Rightarrow> bool"
  kMinId :: int
  kMaxId :: int
  sort_settings :: "VideoCodecSettings list \<Rightarrow> VideoCodecSettings list"
  FindMatchingCodec :: "Codec list \<Rightarrow> Codec \<Rightarrow> bool"
  min_bitrate_of :: "Codec \<Rightarrow> int option"
  start_bitrate_of :: "Codec \<Rightarrow> int option"
  max_bitrate_of :: "Codec \<Rightarrow> int option"
  ToCodecParameters :: "Codec \<Rightarrow> 'c"
  default_bitrates :: BitrateConstraints
  default_send_config :: SendConfig
  default_send_params :: VideoSendParameters
  default_recv_params :: VideoRecvParameters

record ('f, 'c) VideoChannel =
  vc_worker :: "nat option"
  vc_config :: VideoConfig
  vc_encoder_implementations :: "'f list option"
  vc_decoder_formats :: "'f list option"
  vc_default_options :: VideoOptions
  vc_crypto_options :: nat
  vc_report_ssrc :: ssrc
  vc_sending :: bool
  vc_send_streams :: "(ssrc, 'c WebRtcVideoSendStream) smap"
  vc_receive_streams :: "(ssrc, VideoReceiveStream) smap"
  vc_send_ssrcs :: "ssrc set"
  vc_receive_ssrcs :: "ssrc set"
  vc_send_codec :: "VideoCodecSettings option"
  vc_negotiated :: "VideoCodecSettings list"
  vc_send_extensions :: "RtpExtension list option"
  vc_extmap_allow_mixed :: bool
  vc_recv_codecs :: "VideoCodecSettings list"
  vc_recv_extensions :: "RtpExtension list"
  vc_recv_flexfec_type :: int
  vc_bitrates :: BitrateConstraints
  vc_send_params :: VideoSendParameters
  vc_recv_params :: VideoRecvParameters
  vc_dscp :: DiffServCodePoint
  vc_default_sink :: "nat option"
  vc_default_delay_ms :: int
  vc_demuxer_id :: "32 word"
  vc_demuxer_completed_id :: "32 word"
  vc_unsignaled_params :: StreamParams
  vc_unsignaled_transformer :: "nat option"
  vc_allow_switching :: bool
  vc_requested_switch :: "EncoderSwitchConfig option"

definition kDefaultRtcpReceiverReportSsrc :: ssrc where
  "kDefaultRtcpReceiverReportSsrc = 1"

section \<open>Engine\<close>

definition send_codecs :: "'f codec_lib \<Rightarrow> 'f list option \<Rightarrow> Codec list" where
  "send_codecs L encoder_formats = GetPayloadTypesAndDefaultCodecs L encoder_formats"

definition recv_codecs :: "'f codec_lib \<Rightarrow> 'f list option \<Rightarrow> Codec list" where
  "recv_codecs L decoder_formats = GetPayloadTypesAndDefaultCodecs L decoder_formats"

text \<open>The field trials are a lookup; the URIs are found by the names of their constants.\<close>

definition IsEnabled :: "(string \<Rightarrow> string) \<Rightarrow> string \<Rightarrow> bool" where
  "IsEnabled trials name \<longleftrightarrow> take 7 (trials name) = ''Enabled''"

definition trial_direction :: "(string \<Rightarrow> string) \<Rightarrow> string \<Rightarrow> RtpTransceiverDirection" where
  "trial_direction trials name = (if IsEnabled trials name then kSendRecv else kStopped)"

definition GetRtpHeaderExtensions ::
    "(string \<Rightarrow> string) \<Rightarrow> (string \<Rightarrow> string) \<Rightarrow> (string \<times> int \<times> RtpTransceiverDirection) list" where
  "GetRtpHeaderExtensions const trials =
     (let always = [''kTimestampOffsetUri'', ''kAbsSendTimeUri'', ''kVideoRotationUri'',
            ''kTransportSequenceNumberUri'', ''kPlayoutDelayUri'', ''kVideoContentTypeUri'',
            ''kVideoTimingUri'', ''kColorSpaceUri'', ''kMidUri'', ''kRidUri'', ''kRepairedRidUri''];
          tried = [(''kGenericFrameDescriptorUri00'', ''WebRTC-GenericDescriptorAdvertised''),
            (''kDependencyDescriptorUri'', ''WebRTC-DependencyDescriptorAdvertised''),
            (''kVideoLayersAllocationUri'', ''WebRTC-VideoLayersAllocationAdvertised''),
            (''kVideoFrameTrackingIdUri'', ''WebRTC-VideoFrameTrackingIdAdvertised'')];
          entries = List.map (\<lambda>u. (u, kSendRecv)) always
            @ List.map (\<lambda>(u, t). (u, trial_direction trials t)) tried
      in List.map (\<lambda>(i, u, d). (const u, i, d)) (zip [1..int (length entries)] entries))"

section \<open>Construction\<close>

definition new_VideoChannel ::
    "('f, 'c) channel_lib \<Rightarrow> VideoConfig \<Rightarrow> VideoOptions \<Rightarrow> nat \<Rightarrow> 'f list option \<Rightarrow> 'f list option
     \<Rightarrow> ('f, 'c) VideoChannel" where
  "new_VideoChannel L config opts crypto implementations decoder_formats =
     (let recv = MapCodecs (codec_lib L) (GetPayloadTypesAndDefaultCodecs (codec_lib L) decoder_formats) in
      \<lparr>vc_worker = None, vc_config = config, vc_encoder_implementations = implementations,
       vc_decoder_formats = decoder_formats, vc_default_options = opts, vc_crypto_options = crypto,
       vc_report_ssrc = kDefaultRtcpReceiverReportSsrc, vc_sending = False,
       vc_send_streams = [], vc_receive_streams = [], vc_send_ssrcs = {}, vc_receive_ssrcs = {},
       vc_send_codec = None, vc_negotiated = [], vc_send_extensions = None, vc_extmap_allow_mixed = False,
       vc_recv_codecs = recv, vc_recv_extensions = [],
       vc_recv_flexfec_type = (case recv of [] \<Rightarrow> 0 | s # _ \<Rightarrow> vcs_flexfec_payload_type s),
       vc_bitrates = default_bitrates L, vc_send_params = default_send_params L,
       vc_recv_params = default_recv_params L, vc_dscp = DSCP_DEFAULT, vc_default_sink = None,
       vc_default_delay_ms = 0, vc_demuxer_id = 0, vc_demuxer_completed_id = 0,
       vc_unsignaled_params = \<lparr>stream_id = '''', stream_ids = [], stream_ssrcs = [], ssrc_groups = [],
         stream_cname = ''''\<rparr>,
       vc_unsignaled_transformer = None, vc_allow_switching = False, vc_requested_switch = None\<rparr>)"

section \<open>Parameters for sending\<close>

definition extensions_ok :: "('f, 'c) channel_lib \<Rightarrow> RtpExtension list \<Rightarrow> bool" where
  "extensions_ok L es = ValidateRtpExtensions (kMinId L) (kMaxId L) es"

definition negotiate :: "('f, 'c) channel_lib \<Rightarrow> Codec list \<Rightarrow> ('f, 'c) VideoChannel \<Rightarrow> VideoCodecSettings list" where
  "negotiate L cs C =
     SelectSendVideoCodecs (codec_lib L) (vc_encoder_implementations C) (MapCodecs (codec_lib L) cs)"

definition changed :: "'a \<Rightarrow> 'a \<Rightarrow> 'b \<Rightarrow> 'b option" where
  "changed new old x = (if new \<noteq> old then Some x else None)"

definition send_changes ::
    "('f, 'c) channel_lib \<Rightarrow> VideoSendParameters \<Rightarrow> ('f, 'c) VideoChannel \<Rightarrow> ChangedSendParameters" where
  "send_changes L p C =
     (let negotiated = negotiate L (sp_codecs p) C; old = vc_send_params C;
          filtered = FilterRtpExtensions (uris L) (sort_extensions L) (sp_extensions p)
            (IsSupportedForVideo L) True in
      \<lparr>ch_send_codec = (if vc_negotiated C \<noteq> negotiated
         then (case negotiated of [] \<Rightarrow> None
               | s # _ \<Rightarrow> if vc_send_codec C \<noteq> Some s then Some s else None)
         else None),
       ch_negotiated_codecs = changed negotiated (vc_negotiated C) negotiated,
       ch_rtp_header_extensions = changed (Some filtered) (vc_send_extensions C) filtered,
       ch_mid = changed (sp_mid p) (sp_mid old) (sp_mid p),
       ch_extmap_allow_mixed =
         changed (sp_extmap_allow_mixed p) (vc_extmap_allow_mixed C) (sp_extmap_allow_mixed p),
       ch_max_bandwidth_bps =
         (if sp_max_bandwidth_bps p \<noteq> sp_max_bandwidth_bps old \<and> sp_max_bandwidth_bps p \<ge> -1
          then Some (if sp_max_bandwidth_bps p = 0 then -1 else sp_max_bandwidth_bps p) else None),
       ch_conference_mode = changed (sp_conference_mode p) (sp_conference_mode old) (sp_conference_mode p),
       ch_rtcp_mode = changed (sp_reduced_size p) (sp_reduced_size old)
         (if sp_reduced_size p then kReducedSize else kCompound)\<rparr>)"

text \<open>\<open>None\<close>: the parameters are refused.\<close>

definition GetChangedSendParameters ::
    "('f, 'c) channel_lib \<Rightarrow> VideoSendParameters \<Rightarrow> ('f, 'c) VideoChannel \<Rightarrow> ChangedSendParameters option" where
  "GetChangedSendParameters L p C =
     (if \<not> ValidateCodecFormats (codec_lib L) (sp_codecs p) \<or> \<not> extensions_ok L (sp_extensions p) then None
      else if sp_is_stream_active p \<and> negotiate L (sp_codecs p) C = [] then None
      else Some (send_changes L p C))"

definition take_changes :: "ChangedSendParameters \<Rightarrow> ('f, 'c) VideoChannel \<Rightarrow> ('f, 'c) VideoChannel" where
  "take_changes ch C =
     when_some (ch_rtp_header_extensions ch) (\<lambda>es C. C\<lparr>vc_send_extensions := Some es\<rparr>)
     (when_some (ch_extmap_allow_mixed ch) (\<lambda>b C. C\<lparr>vc_extmap_allow_mixed := b\<rparr>)
     (when_some (ch_send_codec ch) (\<lambda>s C. C\<lparr>vc_send_codec := Some s\<rparr>)
     (when_some (ch_negotiated_codecs ch) (\<lambda>ns C. C\<lparr>vc_negotiated := ns\<rparr>) C)))"

definition codec_bitrates :: "('f, 'c) channel_lib \<Rightarrow> Codec \<Rightarrow> BitrateConstraints option" where
  "codec_bitrates L c = GetBitrateConfigForCodec (min_bitrate_of L c) (start_bitrate_of L c) (max_bitrate_of L c)"

definition new_bitrates ::
    "('f, 'c) channel_lib \<Rightarrow> ChangedSendParameters \<Rightarrow> ('f, 'c) VideoChannel \<Rightarrow> BitrateConstraints option" where
  "new_bitrates L ch C =
     (if ch_send_codec ch = None \<and> ch_max_bandwidth_bps ch = None then Some (vc_bitrates C)
      else
        (let limit = sp_max_bandwidth_bps (vc_send_params C);
             b0 = (if limit = -1 then (vc_bitrates C)\<lparr>bc_max_bitrate_bps := -1\<rparr> else vc_bitrates C)
         in map_option (\<lambda>b. if limit \<ge> 0 then b\<lparr>bc_max_bitrate_bps := if limit = 0 then -1 else limit\<rparr> else b)
              (case vc_send_codec C of
                 None \<Rightarrow> Some b0
               | Some s \<Rightarrow>
                   map_option (\<lambda>b. if ch_send_codec ch = None then b\<lparr>bc_start_bitrate_bps := -1\<rparr> else b)
                     (codec_bitrates L (vcs_codec s)))))"

fun each_sender :: "('s \<Rightarrow> 's option) \<Rightarrow> (ssrc, 's) smap \<Rightarrow> (ssrc, 's) smap option" where
  "each_sender f [] = Some []"
| "each_sender f ((k, t) # m) = Option.bind (f t) (\<lambda>t'. map_option (\<lambda>m'. (k, t') # m') (each_sender f m))"

definition each_receiver ::
    "(VideoReceiveStream \<Rightarrow> VideoReceiveStream) \<Rightarrow> ('f, 'c) VideoChannel \<Rightarrow> ('f, 'c) VideoChannel" where
  "each_receiver f C = C\<lparr>vc_receive_streams := List.map (\<lambda>(k, r). (k, f r)) (vc_receive_streams C)\<rparr>"

definition feedback_to_receivers ::
    "('f, 'c) channel_lib \<Rightarrow> ('f, 'c) VideoChannel \<Rightarrow> ('f, 'c) VideoChannel option" where
  "feedback_to_receivers L C =
     (if vc_receive_streams C = [] then Some C
      else map_option (\<lambda>s. let c = vcs_codec s; B = sender_lib L in
        each_receiver (rs_SetFeedbackParameters (HasLntf B c) (HasNack B c) (HasTransportCc B c)
          (if sp_reduced_size (vc_send_params C) then kReducedSize else kCompound) (vcs_rtx_time s)) C)
        (vc_send_codec C))"

text \<open>It always returns true.\<close>

definition ApplyChangedParams ::
    "('f, 'c) channel_lib \<Rightarrow> ChangedSendParameters \<Rightarrow> ('f, 'c) VideoChannel \<Rightarrow> ('f, 'c) VideoChannel option" where
  "ApplyChangedParams L ch C =
     (let C1 = take_changes ch C in
      Option.bind (new_bitrates L ch C1) (\<lambda>b.
      Option.bind (each_sender (ss_SetSendParameters (sender_lib L) ch) (vc_send_streams C1)) (\<lambda>ss.
        let C2 = C1\<lparr>vc_bitrates := b, vc_send_streams := ss\<rparr> in
        if ch_send_codec ch \<noteq> None \<or> ch_rtcp_mode ch \<noteq> None then feedback_to_receivers L C2 else Some C2)))"

definition vc_SetSendParameters ::
    "('f, 'c) channel_lib \<Rightarrow> VideoSendParameters \<Rightarrow> ('f, 'c) VideoChannel \<Rightarrow> (bool \<times> ('f, 'c) VideoChannel) option" where
  "vc_SetSendParameters L p C =
     (case GetChangedSendParameters L p C of
        None \<Rightarrow> Some (False, C)
      | Some ch \<Rightarrow> map_option (Pair True) (ApplyChangedParams L ch (C\<lparr>vc_send_params := p\<rparr>)))"

section \<open>Another encoder\<close>

definition RequestEncoderFallback ::
    "('f, 'c) channel_lib \<Rightarrow> ('f, 'c) VideoChannel \<Rightarrow> ('f, 'c) VideoChannel option" where
  "RequestEncoderFallback L C =
     (case vc_negotiated C of
        _ # s # ss \<Rightarrow>
          ApplyChangedParams L (no_change\<lparr>ch_negotiated_codecs := Some (s # ss), ch_send_codec := Some s\<rparr>) C
      | _ \<Rightarrow> Some C)"

definition switch_to ::
    "('f, 'c) channel_lib \<Rightarrow> VideoCodecSettings \<Rightarrow> ('f, 'c) VideoChannel \<Rightarrow> ('f, 'c) VideoChannel option" where
  "switch_to L s C =
     (if vc_send_codec C = Some s then Some C else ApplyChangedParams L (no_change\<lparr>ch_send_codec := Some s\<rparr>) C)"

definition switch_fits :: "EncoderSwitchConfig \<Rightarrow> VideoCodecSettings \<Rightarrow> bool" where
  "switch_fits conf s \<longleftrightarrow> codec_name (vcs_codec s) = sw_codec_name conf
     \<and> (case sw_param conf of
          None \<Rightarrow> True
        | Some p \<Rightarrow> (case map_of (codec_params (vcs_codec s)) p of
             None \<Rightarrow> False | Some v \<Rightarrow> sw_value conf = None \<or> sw_value conf = Some v))"

definition RequestEncoderSwitch ::
    "('f, 'c) channel_lib \<Rightarrow> EncoderSwitchConfig \<Rightarrow> ('f, 'c) VideoChannel \<Rightarrow> ('f, 'c) VideoChannel option" where
  "RequestEncoderSwitch L conf C =
     (if \<not> vc_allow_switching C then Some (C\<lparr>vc_requested_switch := Some conf\<rparr>)
      else case List.find (switch_fits conf) (vc_negotiated C) of
             None \<Rightarrow> Some C | Some s \<Rightarrow> switch_to L s C)"

definition with_format_params :: "'f codec_lib \<Rightarrow> 'f \<Rightarrow> VideoCodecSettings \<Rightarrow> VideoCodecSettings" where
  "with_format_params L f s =
     s\<lparr>vcs_codec := (vcs_codec s)\<lparr>codec_params :=
        foldl (\<lambda>m kv. smap_put (fst kv) (snd kv) m) (codec_params (vcs_codec s)) (format_params L f)\<rparr>\<rparr>"

definition RequestEncoderSwitch_format ::
    "('f, 'c) channel_lib \<Rightarrow> 'f \<Rightarrow> ('f, 'c) VideoChannel \<Rightarrow> ('f, 'c) VideoChannel option" where
  "RequestEncoderSwitch_format L f C =
     (case List.find (\<lambda>s. IsSameCodec (codec_lib L) f (codec_name (vcs_codec s)) (codec_params (vcs_codec s)))
             (vc_negotiated C) of
        None \<Rightarrow> Some C | Some s \<Rightarrow> switch_to L (with_format_params (codec_lib L) f s) C)"

definition SetVideoCodecSwitchingEnabled ::
    "('f, 'c) channel_lib \<Rightarrow> bool \<Rightarrow> ('f, 'c) VideoChannel \<Rightarrow> ('f, 'c) VideoChannel option" where
  "SetVideoCodecSwitchingEnabled L enabled C =
     (let C1 = C\<lparr>vc_allow_switching := enabled\<rparr> in
      case (enabled, vc_requested_switch C1) of
        (True, Some conf) \<Rightarrow>
          map_option (\<lambda>C2. C2\<lparr>vc_requested_switch := None\<rparr>) (RequestEncoderSwitch L conf C1)
      | _ \<Rightarrow> Some C1)"

section \<open>Parameters of one stream\<close>

definition no_parameters :: "'c SenderParameters" where
  "no_parameters = \<lparr>encodings = [], rtcp = \<lparr>rtcp_cname = '''', reduced_size = False\<rparr>, header_extensions = [],
     param_codecs = [], degradation_preference = None\<rparr>"

definition with_codecs ::
    "('f, 'c) channel_lib \<Rightarrow> Codec list \<Rightarrow> 'c SenderParameters \<Rightarrow> 'c SenderParameters" where
  "with_codecs L cs p = p\<lparr>param_codecs := param_codecs p @ List.map (ToCodecParameters L) cs\<rparr>"

definition GetRtpSendParameters ::
    "('f, 'c) channel_lib \<Rightarrow> ssrc \<Rightarrow> ('f, 'c) VideoChannel \<Rightarrow> 'c SenderParameters" where
  "GetRtpSendParameters L x C =
     (case map_of (vc_send_streams C) x of
        None \<Rightarrow> no_parameters
      | Some t \<Rightarrow> with_codecs L (sp_codecs (vc_send_params C)) (ss_rtp_parameters t))"

fun dscp_of :: "Priority \<Rightarrow> DiffServCodePoint" where
  "dscp_of kVeryLow = DSCP_CS1"
| "dscp_of kLow = DSCP_DEFAULT"
| "dscp_of kMedium = DSCP_AF42"
| "dscp_of kHigh = DSCP_AF41"

text \<open>The error of libmedia_transfer_protocol has a kind and here no message.\<close>

definition SetRtpSendParameters ::
    "('f, 'c) channel_lib \<Rightarrow> ssrc \<Rightarrow> 'c SenderParameters \<Rightarrow> ('f, 'c) VideoChannel
     \<Rightarrow> (RTCError \<times> ('f, 'c) VideoChannel) option" where
  "SetRtpSendParameters L x p C =
     (case map_of (vc_send_streams C) x of
        None \<Rightarrow> Some (RTCErr INTERNAL_ERROR '''', C)
      | Some t \<Rightarrow>
          if param_codecs (GetRtpSendParameters L x C) \<noteq> param_codecs p
          then Some (RTCErr INTERNAL_ERROR '''', C)
          else
            (let C1 = (case encodings p of [] \<Rightarrow> C | e # _ \<Rightarrow> C\<lparr>vc_dscp := dscp_of (network_priority e)\<rparr>) in
             map_option (\<lambda>(err, t1). (err, C1\<lparr>vc_send_streams := smap_put x t1 (vc_send_streams C1)\<rparr>))
               (ss_SetRtpParameters (sender_lib L) p t)))"

definition GetRtpReceiveParameters ::
    "('f, 'c) channel_lib \<Rightarrow> ssrc \<Rightarrow> ('f, 'c) VideoChannel \<Rightarrow> 'c SenderParameters" where
  "GetRtpReceiveParameters L x C =
     (case map_of (vc_receive_streams C) x of
        None \<Rightarrow> no_parameters
      | Some r \<Rightarrow> with_codecs L (rp_codecs (vc_recv_params C)) (rs_GetRtpParameters (sender_lib L) r))"

definition GetDefaultRtpReceiveParameters ::
    "('f, 'c) channel_lib \<Rightarrow> ('f, 'c) VideoChannel \<Rightarrow> 'c SenderParameters" where
  "GetDefaultRtpReceiveParameters L C =
     (if vc_default_sink C = None then no_parameters
      else with_codecs L (rp_codecs (vc_recv_params C))
        (no_parameters\<lparr>encodings := [default_encoding (sender_lib L)]\<rparr>))"

section \<open>Parameters for receiving\<close>

definition GetChangedRecvParameters ::
    "('f, 'c) channel_lib \<Rightarrow> VideoRecvParameters \<Rightarrow> ('f, 'c) VideoChannel \<Rightarrow> ChangedRecvParameters option" where
  "GetChangedRecvParameters L p C =
     (if \<not> ValidateCodecFormats (codec_lib L) (rp_codecs p) \<or> \<not> extensions_ok L (rp_extensions p) then None
      else case MapCodecs (codec_lib L) (rp_codecs p) of
        [] \<Rightarrow> None
      | s # ss \<Rightarrow>
          (let mapped = s # ss;
               supported = GetPayloadTypesAndDefaultCodecs (codec_lib L) (vc_decoder_formats C);
               filtered = FilterRtpExtensions (uris L) (sort_extensions L) (rp_extensions p)
                 (IsSupportedForVideo L) False in
           if rp_is_stream_active p \<and> \<not> list_all (\<lambda>m. FindMatchingCodec L supported (vcs_codec m)) mapped
           then None
           else Some \<lparr>
             cr_codec_settings =
               (if NonFlexfecReceiveCodecsHaveChanged (sort_settings L) (vc_recv_codecs C) mapped
                then Some mapped else None),
             cr_rtp_header_extensions = changed filtered (vc_recv_extensions C) filtered,
             cr_flexfec_payload_type = changed (vcs_flexfec_payload_type s) (vc_recv_flexfec_type C)
               (vcs_flexfec_payload_type s)\<rparr>))"

definition SetRecvParameters ::
    "('f, 'c) channel_lib \<Rightarrow> VideoRecvParameters \<Rightarrow> ('f, 'c) VideoChannel \<Rightarrow> bool \<times> ('f, 'c) VideoChannel" where
  "SetRecvParameters L p C =
     (case GetChangedRecvParameters L p C of
        None \<Rightarrow> (False, C)
      | Some ch \<Rightarrow>
          (let C1 = when_some (cr_codec_settings ch) (\<lambda>cs C. C\<lparr>vc_recv_codecs := cs\<rparr>)
             (when_some (cr_rtp_header_extensions ch) (\<lambda>es C. C\<lparr>vc_recv_extensions := es\<rparr>)
             (when_some (cr_flexfec_payload_type ch) (\<lambda>n C. C\<lparr>vc_recv_flexfec_type := n\<rparr>) C))
           in (True, (each_receiver (rs_SetRecvParameters ch) C1)\<lparr>vc_recv_params := p\<rparr>)))"

definition CodecSettingsVectorToString :: "'f codec_lib \<Rightarrow> VideoCodecSettings list \<Rightarrow> string" where
  "CodecSettingsVectorToString L ss = CodecVectorToString L (List.map vcs_codec ss)"

section \<open>Senders\<close>

definition GetSendCodec :: "('f, 'c) VideoChannel \<Rightarrow> Codec option" where
  "GetSendCodec C = map_option vcs_codec (vc_send_codec C)"

definition vc_SetSend :: "bool \<Rightarrow> ('f, 'c) VideoChannel \<Rightarrow> (bool \<times> ('f, 'c) VideoChannel) option" where
  "vc_SetSend send C =
     (if send \<and> vc_send_codec C = None then Some (False, C)
      else map_option (\<lambda>ss. (True, C\<lparr>vc_send_streams := ss, vc_sending := send\<rparr>))
             (each_sender (ss_SetSend send) (vc_send_streams C)))"

definition vc_SetVideoSend ::
    "('f, 'c) channel_lib \<Rightarrow> ssrc \<Rightarrow> VideoOptions option \<Rightarrow> nat option \<Rightarrow> ('f, 'c) VideoChannel
     \<Rightarrow> (bool \<times> ('f, 'c) VideoChannel) option" where
  "vc_SetVideoSend L x opts source C =
     (case map_of (vc_send_streams C) x of
        None \<Rightarrow> if source \<noteq> None then None else Some (False, C)
      | Some t \<Rightarrow> map_option (\<lambda>t1. (True, C\<lparr>vc_send_streams := smap_put x t1 (vc_send_streams C)\<rparr>))
          (ss_SetVideoSend (sender_lib L) opts source t))"

definition ValidateSendSsrcAvailability :: "StreamParams \<Rightarrow> ('f, 'c) VideoChannel \<Rightarrow> bool" where
  "ValidateSendSsrcAvailability sp C = list_all (\<lambda>x. x \<notin> vc_send_ssrcs C) (stream_ssrcs sp)"

definition ValidateReceiveSsrcAvailability :: "StreamParams \<Rightarrow> ('f, 'c) VideoChannel \<Rightarrow> bool" where
  "ValidateReceiveSsrcAvailability sp C = list_all (\<lambda>x. x \<notin> vc_receive_ssrcs C) (stream_ssrcs sp)"

definition send_config :: "('f, 'c) channel_lib \<Rightarrow> StreamParams \<Rightarrow> ('f, 'c) VideoChannel \<Rightarrow> SendConfig" where
  "send_config L sp C =
     (default_send_config L)
       \<lparr>cfg_rtp := default_RtpConfig\<lparr>rc_rids := stream_rids (streams (sender_lib L)) sp,
          rc_extmap_allow_mixed := vc_extmap_allow_mixed C\<rparr>,
        cfg_suspend_below_min_bitrate := suspend_below_min_bitrate (vc_config C),
        cfg_periodic_alr_probing := periodic_alr_bandwidth_probing (vc_config C),
        cfg_cpu_load_estimator := experiment_cpu_load_estimator (vc_config C),
        cfg_crypto_options := vc_crypto_options C,
        cfg_rtcp_report_interval_ms := rtcp_report_interval_ms (vc_config C)\<rparr>"

definition AddSendStream ::
    "('f, 'c) channel_lib \<Rightarrow> StreamParams \<Rightarrow> ('f, 'c) VideoChannel \<Rightarrow> (bool \<times> ('f, 'c) VideoChannel) option" where
  "AddSendStream L sp C =
     (let S = streams (sender_lib L); x = first_ssrc S sp in
      if \<not> ValidateStreamParams S sp \<or> \<not> ValidateSendSsrcAvailability sp C then Some (False, C)
      else Option.bind
        (new_WebRtcVideoSendStream (sender_lib L) sp (send_config L sp C) (vc_default_options C)
           (enable_cpu_adaptation (vc_config C)) (bc_max_bitrate_bps (vc_bitrates C)) (vc_send_codec C)
           (vc_send_extensions C) (vc_send_params C))
        (\<lambda>t. map_option
          (\<lambda>t1. let C1 = C\<lparr>vc_send_ssrcs := vc_send_ssrcs C \<union> set (stream_ssrcs sp),
                  vc_send_streams := smap_put x t1 (vc_send_streams C)\<rparr>
            in (True, if vc_report_ssrc C1 = kDefaultRtcpReceiverReportSsrc
                      then each_receiver (rs_SetLocalSsrc x) (C1\<lparr>vc_report_ssrc := x\<rparr>) else C1))
          (if vc_sending C then ss_SetSend True t else Some t)))"

definition RemoveSendStream :: "ssrc \<Rightarrow> ('f, 'c) VideoChannel \<Rightarrow> bool \<times> ('f, 'c) VideoChannel" where
  "RemoveSendStream x C =
     (case map_of (vc_send_streams C) x of
        None \<Rightarrow> (False, C)
      | Some t \<Rightarrow>
          (let C1 = C\<lparr>vc_send_ssrcs := vc_send_ssrcs C - set (ss_ssrcs t),
                 vc_send_streams := smap_del x (vc_send_streams C)\<rparr>;
               y = (case vc_send_streams C1 of [] \<Rightarrow> kDefaultRtcpReceiverReportSsrc | (k, _) # _ \<Rightarrow> k)
           in (True, if vc_report_ssrc C = x
                     then each_receiver (rs_SetLocalSsrc y) (C1\<lparr>vc_report_ssrc := y\<rparr>) else C1)))"

definition vc_SetFrameEncryptor ::
    "('f, 'c) channel_lib \<Rightarrow> ssrc \<Rightarrow> nat option \<Rightarrow> ('f, 'c) VideoChannel \<Rightarrow> ('f, 'c) VideoChannel option" where
  "vc_SetFrameEncryptor L x e C =
     (case map_of (vc_send_streams C) x of
        None \<Rightarrow> Some C
      | Some t \<Rightarrow> map_option (\<lambda>t1. C\<lparr>vc_send_streams := smap_put x t1 (vc_send_streams C)\<rparr>)
          (ss_SetFrameEncryptor (sender_lib L) e t))"

definition vc_SetEncoderToPacketizerFrameTransformer ::
    "('f, 'c) channel_lib \<Rightarrow> ssrc \<Rightarrow> nat option \<Rightarrow> ('f, 'c) VideoChannel \<Rightarrow> ('f, 'c) VideoChannel option" where
  "vc_SetEncoderToPacketizerFrameTransformer L x f C =
     (case map_of (vc_send_streams C) x of
        None \<Rightarrow> Some C
      | Some t \<Rightarrow> map_option (\<lambda>t1. C\<lparr>vc_send_streams := smap_put x t1 (vc_send_streams C)\<rparr>)
          (ss_SetFrameTransformer (sender_lib L) f t))"

section \<open>Receivers\<close>

definition DeleteReceiveStream :: "VideoReceiveStream \<Rightarrow> ('f, 'c) VideoChannel \<Rightarrow> ('f, 'c) VideoChannel" where
  "DeleteReceiveStream r C = C\<lparr>vc_receive_ssrcs := vc_receive_ssrcs C - set (rs_GetSsrcs r)\<rparr>"

definition on_receiver ::
    "ssrc \<Rightarrow> (VideoReceiveStream \<Rightarrow> VideoReceiveStream) \<Rightarrow> ('f, 'c) VideoChannel \<Rightarrow> bool \<times> ('f, 'c) VideoChannel" where
  "on_receiver x f C =
     (case map_of (vc_receive_streams C) x of
        None \<Rightarrow> (False, C)
      | Some r \<Rightarrow> (True, C\<lparr>vc_receive_streams := smap_put x (f r) (vc_receive_streams C)\<rparr>))"

definition vc_SetSink :: "ssrc \<Rightarrow> nat option \<Rightarrow> ('f, 'c) VideoChannel \<Rightarrow> bool \<times> ('f, 'c) VideoChannel" where
  "vc_SetSink x sink C = on_receiver x (rs_SetSink sink) C"

definition GetDefaultReceiveStreamSsrc :: "('f, 'c) VideoChannel \<Rightarrow> ssrc option" where
  "GetDefaultReceiveStreamSsrc C =
     map_option fst (List.find (\<lambda>(_, r). rs_default_stream r) (vc_receive_streams C))"

definition vc_SetDefaultSink :: "nat option \<Rightarrow> ('f, 'c) VideoChannel \<Rightarrow> ('f, 'c) VideoChannel" where
  "vc_SetDefaultSink sink C =
     (let C1 = C\<lparr>vc_default_sink := sink\<rparr> in
      case GetDefaultReceiveStreamSsrc C1 of None \<Rightarrow> C1 | Some x \<Rightarrow> snd (vc_SetSink x sink C1))"

definition vc_SetFrameDecryptor :: "ssrc \<Rightarrow> nat option \<Rightarrow> ('f, 'c) VideoChannel \<Rightarrow> ('f, 'c) VideoChannel" where
  "vc_SetFrameDecryptor x d C = snd (on_receiver x (rs_SetFrameDecryptor d) C)"

definition vc_SetDepacketizerToDecoderFrameTransformer ::
    "ssrc \<Rightarrow> nat \<Rightarrow> ('f, 'c) VideoChannel \<Rightarrow> ('f, 'c) VideoChannel" where
  "vc_SetDepacketizerToDecoderFrameTransformer x f C =
     (if x = 0 then C\<lparr>vc_unsignaled_transformer := Some f\<rparr>
      else snd (on_receiver x (rs_SetDepacketizerToDecoderFrameTransformer f) C))"

definition vc_SetBaseMinimumPlayoutDelayMs ::
    "ssrc \<Rightarrow> int \<Rightarrow> ('f, 'c) VideoChannel \<Rightarrow> bool \<times> ('f, 'c) VideoChannel" where
  "vc_SetBaseMinimumPlayoutDelayMs x d C =
     (let set_delay = (\<lambda>y. on_receiver y (\<lambda>r. snd (rs_SetBaseMinimumPlayoutDelayMs d r))) in
      if x = 0
      then (let C1 = C\<lparr>vc_default_delay_ms := d\<rparr> in
            case GetDefaultReceiveStreamSsrc C of None \<Rightarrow> (True, C1) | Some y \<Rightarrow> set_delay y C1)
      else set_delay x C)"

definition vc_GetBaseMinimumPlayoutDelayMs :: "ssrc \<Rightarrow> ('f, 'c) VideoChannel \<Rightarrow> int option" where
  "vc_GetBaseMinimumPlayoutDelayMs x C =
     (if x = 0 then Some (vc_default_delay_ms C)
      else map_option rs_GetBaseMinimumPlayoutDelayMs (map_of (vc_receive_streams C) x))"

definition FindReceiveStream :: "ssrc \<Rightarrow> ('f, 'c) VideoChannel \<Rightarrow> VideoReceiveStream option" where
  "FindReceiveStream x C =
     Option.bind (if x = 0 then GetDefaultReceiveStreamSsrc C else Some x) (map_of (vc_receive_streams C))"

definition GetSources :: "ssrc \<Rightarrow> ('f, 'c) VideoChannel \<Rightarrow> nat list" where
  "GetSources x C = (case map_of (vc_receive_streams C) x of None \<Rightarrow> [] | Some r \<Rightarrow> rs_GetSources r)"

datatype UnsignalledAction = kDropPacket | kDeliverPacket

text \<open>The creation of a receiver for the SSRC is commented out.\<close>

definition OnUnsignalledSsrc :: "ssrc \<Rightarrow> ('f, 'c) VideoChannel \<Rightarrow> UnsignalledAction \<times> ('f, 'c) VideoChannel" where
  "OnUnsignalledSsrc x C =
     (let d = (case vc_GetBaseMinimumPlayoutDelayMs 0 C of None \<Rightarrow> 0 | Some d \<Rightarrow> d);
          C1 = snd (vc_SetBaseMinimumPlayoutDelayMs x d C)
      in (kDeliverPacket, snd (vc_SetSink x (vc_default_sink C1) C1)))"

section \<open>The network thread\<close>

definition post_worker ::
    "(('f, 'c) VideoChannel \<Rightarrow> ('f, 'c) VideoChannel) \<Rightarrow> ('f, 'c) VideoChannel \<Rightarrow> ('f, 'c) VideoChannel option" where
  "post_worker task C = map_option (\<lambda>_. task C) (vc_worker C)"

definition OnDemuxerCriteriaUpdatePending :: "('f, 'c) VideoChannel \<Rightarrow> ('f, 'c) VideoChannel" where
  "OnDemuxerCriteriaUpdatePending C = C\<lparr>vc_demuxer_id := vc_demuxer_id C + 1\<rparr>"

definition OnDemuxerCriteriaUpdateComplete :: "('f, 'c) VideoChannel \<Rightarrow> ('f, 'c) VideoChannel option" where
  "OnDemuxerCriteriaUpdateComplete =
     post_worker (\<lambda>C. C\<lparr>vc_demuxer_completed_id := vc_demuxer_completed_id C + 1\<rparr>)"

text \<open>The bodies of these two tasks are commented out.\<close>

definition vc_OnPacketReceived :: "('f, 'c) VideoChannel \<Rightarrow> ('f, 'c) VideoChannel option" where
  "vc_OnPacketReceived = post_worker (\<lambda>C. C)"

definition vc_OnNetworkRouteChanged :: "('f, 'c) VideoChannel \<Rightarrow> ('f, 'c) VideoChannel option" where
  "vc_OnNetworkRouteChanged = post_worker (\<lambda>C. C)"

end
