(* ===== verification/ChannelSenders.thy ===== *)
theory ChannelSenders
  imports VideoChannel
begin

text \<open>
  The channel and its senders (engine/webrtc_video_engine.cpp): the calls on a channel as a step
  function, the invariant that ties every sender and its SSRCs to the channel, and what the
  negotiation, the fallback and the registration of senders do.
\<close>

section \<open>What a sender shares with its channel\<close>

definition channel_view :: "'c WebRtcVideoSendStream \<Rightarrow>
    VideoCodecSettings option \<times> RtpExtension list \<times> RtcpMode \<times> string \<times> bool \<times> bool \<times> ssrc list" where
  "channel_view t = (let r = cfg_rtp (ss_config t) in
     (ss_codec_settings t, rc_extensions r, rc_rtcp_mode r, rc_mid r, rc_extmap_allow_mixed r,
      ss_conference_mode t, ss_ssrcs t))"

lemma channel_view_updates [simp]:
  "channel_view (t\<lparr>ss_options := x\<rparr>) = channel_view t"
  "channel_view (t\<lparr>ss_source := y\<rparr>) = channel_view t"
  "channel_view (t\<lparr>ss_sending := b\<rparr>) = channel_view t"
  "channel_view (t\<lparr>ss_max_bitrate_bps := n\<rparr>) = channel_view t"
  "channel_view (t\<lparr>ss_rtp_parameters := p\<rparr>) = channel_view t"
  "channel_view (t\<lparr>ss_encoder_config := w\<rparr>) = channel_view t"
  "channel_view (t\<lparr>ss_config := (ss_config t)\<lparr>cfg_frame_encryptor := e\<rparr>\<rparr>) = channel_view t"
  "channel_view (t\<lparr>ss_config := (ss_config t)\<lparr>cfg_frame_transformer := e\<rparr>\<rparr>) = channel_view t"
  by (simp_all add: channel_view_def)

lemma channel_view_SetCodec:
  assumes "ss_stream t = None" "ss_SetCodec B s t = Some t'"
  shows "channel_view t' = (Some s, snd (channel_view t))"
  using assms by (auto simp: ss_SetCodec_null with_codec_def channel_view_def rtp_for_codec_def Let_def
      split: if_splits)

lemma SetCodec_stream: "ss_stream t = None \<Longrightarrow> ss_SetCodec B s t = Some t' \<Longrightarrow> ss_stream t' = None"
  by (auto simp: ss_SetCodec_null with_codec_def split: if_splits)

text \<open>What the changed parameters make of the view.\<close>

definition changed_view ::
    "ChangedSendParameters \<Rightarrow>
     VideoCodecSettings option \<times> RtpExtension list \<times> RtcpMode \<times> string \<times> bool \<times> bool \<times> ssrc list \<Rightarrow>
     VideoCodecSettings option \<times> RtpExtension list \<times> RtcpMode \<times> string \<times> bool \<times> bool \<times> ssrc list" where
  "changed_view ch v = (case v of (c, es, m, d, x, f, ss) \<Rightarrow>
     (case ch_send_codec ch of None \<Rightarrow> c | Some s \<Rightarrow> Some s,
      case ch_rtp_header_extensions ch of None \<Rightarrow> es | Some y \<Rightarrow> y,
      case ch_rtcp_mode ch of None \<Rightarrow> m | Some y \<Rightarrow> y,
      case ch_mid ch of None \<Rightarrow> d | Some y \<Rightarrow> y,
      case ch_extmap_allow_mixed ch of None \<Rightarrow> x | Some y \<Rightarrow> y,
      case ch_conference_mode ch of None \<Rightarrow> f | Some y \<Rightarrow> y, ss))"

lemma channel_view_SetSendParameters:
  assumes "ss_stream t = None" "ss_SetSendParameters B ch t = Some t'"
  shows "channel_view t' = changed_view ch (channel_view t)"
proof -
  define t3 where "t3 = when_some (ch_conference_mode ch) (\<lambda>b t. t\<lparr>ss_conference_mode := b\<rparr>)
    (case ch_max_bandwidth_bps ch of None \<Rightarrow> apply_changed ch t
     | Some b \<Rightarrow> (apply_changed ch t)\<lparr>ss_max_bitrate_bps := b\<rparr>)"
  have n: "ss_stream (apply_changed ch t) = None" "ss_stream t3 = None"
    using assms(1) by (simp_all add: t3_def when_some_def split: option.split)
  have v: "channel_view t3 = (ss_codec_settings t, snd (changed_view ch (channel_view t)))"
    "ss_codec_settings t3 = ss_codec_settings t"
    by (auto simp: t3_def apply_changed_def set_rtp_def when_some_def channel_view_def changed_view_def
        Let_def split: option.split)
  have c: "fst (changed_view ch (channel_view t)) =
      (case ch_send_codec ch of None \<Rightarrow> ss_codec_settings t | Some s \<Rightarrow> Some s)"
    by (simp add: changed_view_def channel_view_def Let_def)
  have "ss_SetSendParameters B ch t =
     (case ch_send_codec ch of
        Some s \<Rightarrow> ss_SetCodec B s t3
      | None \<Rightarrow> (case (ch_conference_mode ch, ss_codec_settings t3) of
           (Some _, Some s) \<Rightarrow> ss_SetCodec B s t3
         | _ \<Rightarrow> if recreate_needed ch then RecreateWebRtcStream B t3 else Some t3))"
    using n by (auto simp: ss_SetSendParameters_def t3_def ReconfigureEncoder_null Let_def split: option.split)
  then consider
      s where "ch_send_codec ch = Some s" "ss_SetCodec B s t3 = Some t'"
    | s where "ch_send_codec ch = None" "ss_codec_settings t3 = Some s" "ss_SetCodec B s t3 = Some t'"
    | "ch_send_codec ch = None" "RecreateWebRtcStream B t3 = Some t'"
    | "ch_send_codec ch = None" "t' = t3"
    using assms(2)
    by (cases "ch_send_codec ch"; cases "ch_conference_mode ch"; cases "ss_codec_settings t3";
        cases "recreate_needed ch"; simp)
  then show ?thesis
  proof cases
    case (1 s)
    then show ?thesis using channel_view_SetCodec [OF n(2) 1(2)] v c by (simp add: prod_eq_iff)
  next
    case (2 s)
    then show ?thesis using channel_view_SetCodec [OF n(2) 2(3)] v c by (simp add: prod_eq_iff)
  next
    case 3
    then show ?thesis using v c n by (auto simp: RecreateWebRtcStream_null prod_eq_iff split: if_splits)
  next
    case 4
    then show ?thesis using v c by (simp add: prod_eq_iff)
  qed
qed

lemma channel_view_SetRtpParameters:
  assumes "ss_stream t = None" "ss_SetRtpParameters B p t = Some (err, t')"
  shows "channel_view t' = channel_view t"
  using assms
  by (auto simp: ss_SetRtpParameters_def no_stream Let_def bind_eq_Some_conv split: list.splits if_splits)

lemma channel_view_set_options:
  assumes "ss_stream t = None" "set_options B opts t = Some t'"
  shows "channel_view t' = channel_view t \<and> ss_stream t' = None"
proof -
  define t1 where "t1 = t\<lparr>ss_options := SetAll B opts (ss_options t)\<rparr>"
  have n1: "ss_stream t1 = None" "channel_view t1 = channel_view t"
    "ss_codec_settings t1 = fst (channel_view t)"
    using assms(1) by (simp_all add: t1_def channel_view_def Let_def)
  let ?first = "if screencast t1 \<noteq> screencast t
       then (case ss_codec_settings t1 of
               Some s \<Rightarrow> map_option (\<lambda>t2. (t2, (ss_options t)\<lparr>is_screencast := is_screencast opts\<rparr>)) (ss_SetCodec B s t1)
             | None \<Rightarrow> Some (t1, ss_options t))
       else Some (t1, ss_options t)"
  have "Option.bind ?first (\<lambda>(t2, old2). if ss_options t2 \<noteq> old2 then ReconfigureEncoder B t2 else Some t2)
      = set_options B opts t"
    by (simp only: set_options_def Let_def t1_def)
  from trans [OF this assms(2), THEN bind_eq_Some_conv [THEN iffD1]]
  obtain x where x: "?first = Some x"
    "(if ss_options (fst x) \<noteq> snd x then ReconfigureEncoder B (fst x) else Some (fst x)) = Some t'"
    unfolding split_beta by blast
  have "fst x = t1 \<or> (\<exists>s. ss_codec_settings t1 = Some s \<and> ss_SetCodec B s t1 = Some (fst x))"
    using x(1) by (auto split: if_splits option.splits)
  then have "channel_view (fst x) = channel_view t \<and> ss_stream (fst x) = None"
  proof (elim disjE exE conjE)
    fix s assume s: "ss_codec_settings t1 = Some s" "ss_SetCodec B s t1 = Some (fst x)"
    have "channel_view (fst x) = channel_view t1"
      using channel_view_SetCodec [OF n1(1) s(2)] n1(2,3) s(1) by (simp add: prod_eq_iff)
    moreover have "ss_stream (fst x) = None" by (rule SetCodec_stream [OF n1(1) s(2)])
    ultimately show ?thesis using n1(2) by simp
  qed (simp add: n1)
  then show ?thesis using x(2) by (auto simp: ReconfigureEncoder_null split: if_splits)
qed

lemma channel_view_SetVideoSend:
  assumes "ss_stream t = None" "ss_SetVideoSend B opts src t = Some t'"
  shows "channel_view t' = channel_view t"
proof -
  obtain t1 where t1: "(case opts of None \<Rightarrow> Some t | Some x \<Rightarrow> set_options B x t) = Some t1"
    using assms(2) by (cases "case opts of None \<Rightarrow> Some t | Some x \<Rightarrow> set_options B x t")
      (auto simp: ss_SetVideoSend_def)
  then have "channel_view t1 = channel_view t \<and> ss_stream t1 = None"
    using assms(1) channel_view_set_options by (auto split: option.splits)
  then show ?thesis using assms(2) t1 by (auto simp: ss_SetVideoSend_def Let_def)
qed

lemma channel_view_new:
  assumes "new_WebRtcVideoSendStream B sp config opts cpu mb codec exts params = Some t"
  shows "channel_view t = (codec, case exts of None \<Rightarrow> rc_extensions (cfg_rtp config) | Some es \<Rightarrow> es,
     if sp_reduced_size params then kReducedSize else kCompound, sp_mid params,
     rc_extmap_allow_mixed (cfg_rtp config), sp_conference_mode params, stream_ssrcs sp)"
  using assms channel_view_SetCodec
  by (auto simp: new_WebRtcVideoSendStream_def Let_def channel_view_def sender_rtp_config_def
      split: list.splits option.splits dest!: channel_view_SetCodec [rotated])

section \<open>Calls on a channel\<close>

datatype ('f, 'c) ChannelCall =
    SetSendParameters_to VideoSendParameters
  | SetRecvParameters_to VideoRecvParameters
  | Fallback
  | Switch EncoderSwitchConfig
  | Switch_format 'f
  | EnableSwitching bool
  | SetRtpParameters_of ssrc "'c SenderParameters"
  | Send bool
  | VideoSend ssrc "VideoOptions option" "nat option"
  | AddStream StreamParams
  | RemoveStream ssrc
  | Encryptor ssrc "nat option"
  | SendTransformer ssrc "nat option"
  | Decryptor ssrc "nat option"
  | ReceiveTransformer ssrc nat
  | Sink ssrc "nat option"
  | DefaultSink "nat option"
  | PlayoutDelay ssrc int
  | Unsignalled ssrc
  | DemuxerPending
  | DemuxerComplete
  | Packet
  | NetworkRoute

fun channel_step :: "('f, 'c) channel_lib \<Rightarrow> ('f, 'c) ChannelCall \<Rightarrow> ('f, 'c) VideoChannel
    \<Rightarrow> ('f, 'c) VideoChannel option" where
  "channel_step L (SetSendParameters_to p) C = map_option snd (vc_SetSendParameters L p C)"
| "channel_step L (SetRecvParameters_to p) C = Some (snd (SetRecvParameters L p C))"
| "channel_step L Fallback C = RequestEncoderFallback L C"
| "channel_step L (Switch conf) C = RequestEncoderSwitch L conf C"
| "channel_step L (Switch_format f) C = RequestEncoderSwitch_format L f C"
| "channel_step L (EnableSwitching b) C = SetVideoCodecSwitchingEnabled L b C"
| "channel_step L (SetRtpParameters_of x p) C = map_option snd (SetRtpSendParameters L x p C)"
| "channel_step L (Send b) C = map_option snd (vc_SetSend b C)"
| "channel_step L (VideoSend x opts src) C = map_option snd (vc_SetVideoSend L x opts src C)"
| "channel_step L (AddStream sp) C = map_option snd (AddSendStream L sp C)"
| "channel_step L (RemoveStream x) C = Some (snd (RemoveSendStream x C))"
| "channel_step L (Encryptor x e) C = vc_SetFrameEncryptor L x e C"
| "channel_step L (SendTransformer x f) C = vc_SetEncoderToPacketizerFrameTransformer L x f C"
| "channel_step L (Decryptor x d) C = Some (vc_SetFrameDecryptor x d C)"
| "channel_step L (ReceiveTransformer x f) C = Some (vc_SetDepacketizerToDecoderFrameTransformer x f C)"
| "channel_step L (Sink x s) C = Some (snd (vc_SetSink x s C))"
| "channel_step L (DefaultSink s) C = Some (vc_SetDefaultSink s C)"
| "channel_step L (PlayoutDelay x d) C = Some (snd (vc_SetBaseMinimumPlayoutDelayMs x d C))"
| "channel_step L (Unsignalled x) C = Some (snd (OnUnsignalledSsrc x C))"
| "channel_step L DemuxerPending C = Some (OnDemuxerCriteriaUpdatePending C)"
| "channel_step L DemuxerComplete C = OnDemuxerCriteriaUpdateComplete C"
| "channel_step L Packet C = vc_OnPacketReceived C"
| "channel_step L NetworkRoute C = vc_OnNetworkRouteChanged C"

inductive channel_reaches ::
    "('f, 'c) channel_lib \<Rightarrow> ('f, 'c) VideoChannel \<Rightarrow> ('f, 'c) VideoChannel \<Rightarrow> bool"
  for L C0 where
  start: "channel_reaches L C0 C0"
| step: "channel_reaches L C0 C \<Longrightarrow> channel_step L c C = Some C' \<Longrightarrow> channel_reaches L C0 C'"

section \<open>The invariant\<close>

text \<open>The view a channel expects of each of its senders.\<close>

definition in_tune :: "('f, 'c) VideoChannel \<Rightarrow> 'c WebRtcVideoSendStream \<Rightarrow> bool" where
  "in_tune C t \<longleftrightarrow>
     channel_view t = (vc_send_codec C, case vc_send_extensions C of None \<Rightarrow> [] | Some es \<Rightarrow> es,
       if sp_reduced_size (vc_send_params C) then kReducedSize else kCompound, sp_mid (vc_send_params C),
       vc_extmap_allow_mixed C, sp_conference_mode (vc_send_params C), ss_ssrcs t)"

definition sender_at :: "('f, 'c) VideoChannel \<Rightarrow> ssrc \<Rightarrow> 'c WebRtcVideoSendStream option" where
  "sender_at C = map_of (vc_send_streams C)"

definition senders_ok :: "('f, 'c) channel_lib \<Rightarrow> ('f, 'c) VideoChannel \<Rightarrow> bool" where
  "senders_ok L C \<longleftrightarrow> smap_ok (vc_send_streams C)
     \<and> (\<forall>x t. sender_at C x = Some t \<longrightarrow>
          (\<exists>sp. sender_ok (sender_lib L) sp t) \<and> in_tune C t \<and> ss_ssrcs t \<noteq> [] \<and> hd (ss_ssrcs t) = x)"

definition ssrcs_ok :: "('f, 'c) VideoChannel \<Rightarrow> bool" where
  "ssrcs_ok C \<longleftrightarrow> vc_send_ssrcs C = {y. \<exists>x t. sender_at C x = Some t \<and> y \<in> set (ss_ssrcs t)}
     \<and> (\<forall>x t y u. sender_at C x = Some t \<longrightarrow> sender_at C y = Some u \<longrightarrow> x \<noteq> y
          \<longrightarrow> set (ss_ssrcs t) \<inter> set (ss_ssrcs u) = {})"

definition report_ok :: "('f, 'c) VideoChannel \<Rightarrow> bool" where
  "report_ok C \<longleftrightarrow>
     (if dom (sender_at C) = {} then vc_report_ssrc C = kDefaultRtcpReceiverReportSsrc
      else vc_report_ssrc C \<in> dom (sender_at C)
        \<and> (vc_report_ssrc C = kDefaultRtcpReceiverReportSsrc
             \<longrightarrow> (\<forall>x \<in> dom (sender_at C). kDefaultRtcpReceiverReportSsrc \<le> x)))"

definition quiet :: "('f, 'c) VideoChannel \<Rightarrow> bool" where
  "quiet C \<longleftrightarrow> (vc_sending C \<longrightarrow> dom (sender_at C) = {})
     \<and> vc_receive_streams C = [] \<and> vc_receive_ssrcs C = {} \<and> vc_worker C = None"

definition channel_ok :: "('f, 'c) channel_lib \<Rightarrow> ('f, 'c) VideoChannel \<Rightarrow> bool" where
  "channel_ok L C \<longleftrightarrow> senders_ok L C \<and> ssrcs_ok C \<and> report_ok C \<and> quiet C"

text \<open>What is assumed of the library: the first SSRC, and a default encoding that keeps the rules.\<close>

definition channel_lib_ok :: "('f, 'c) channel_lib \<Rightarrow> bool" where
  "channel_lib_ok L \<longleftrightarrow>
     (\<forall>sp. stream_ssrcs sp \<noteq> [] \<longrightarrow> first_ssrc (streams (sender_lib L)) sp = hd (stream_ssrcs sp))
     \<and> valid_encoding (max_temporal_streams (sender_lib L)) (default_encoding (sender_lib L))"

text \<open>Senders replaced one by one.\<close>

definition same_keys ::
    "('c WebRtcVideoSendStream \<Rightarrow> 'c WebRtcVideoSendStream \<Rightarrow> bool) \<Rightarrow> ('f, 'c) VideoChannel
     \<Rightarrow> ('f, 'c) VideoChannel \<Rightarrow> bool" where
  "same_keys R C C' \<longleftrightarrow> smap_ok (vc_send_streams C') \<and> dom (sender_at C') = dom (sender_at C)
     \<and> (\<forall>x t t'. sender_at C x = Some t \<longrightarrow> sender_at C' x = Some t' \<longrightarrow> ss_ssrcs t' = ss_ssrcs t \<and> R t t')"

lemma same_keysD:
  assumes "same_keys R C C'"
  shows "sender_at C' x = Some t' \<Longrightarrow> \<exists>t. sender_at C x = Some t \<and> ss_ssrcs t' = ss_ssrcs t \<and> R t t'"
    "sender_at C x = Some t \<Longrightarrow> \<exists>t'. sender_at C' x = Some t' \<and> ss_ssrcs t' = ss_ssrcs t \<and> R t t'"
    "dom (sender_at C') = dom (sender_at C)"
  using assms unfolding same_keys_def by (blast, blast, blast)

definition same_frame :: "('f, 'c) VideoChannel \<Rightarrow> ('f, 'c) VideoChannel \<Rightarrow> bool" where
  "same_frame C C' \<longleftrightarrow> vc_send_ssrcs C' = vc_send_ssrcs C \<and> vc_report_ssrc C' = vc_report_ssrc C
     \<and> vc_receive_streams C' = vc_receive_streams C \<and> vc_receive_ssrcs C' = vc_receive_ssrcs C
     \<and> vc_worker C' = vc_worker C"

lemma channel_ok_replace:
  assumes "channel_ok L C" "same_keys R C C'" "same_frame C C'"
    "\<And>sp t t'. R t t' \<Longrightarrow> sender_ok (sender_lib L) sp t \<Longrightarrow> in_tune C t \<Longrightarrow>
       sender_ok (sender_lib L) sp t' \<and> in_tune C' t'"
    "vc_sending C' \<longrightarrow> vc_sending C \<or> dom (sender_at C) = {}"
  shows "channel_ok L C'"
proof -
  note k = same_keysD [OF assms(2)]
  have "senders_ok L C'"
    unfolding senders_ok_def
  proof (intro conjI allI impI)
    show "smap_ok (vc_send_streams C')" using assms(2) by (simp add: same_keys_def)
    fix x t' assume "sender_at C' x = Some t'"
    then obtain t where t: "sender_at C x = Some t" "ss_ssrcs t' = ss_ssrcs t" "R t t'" using k(1) by blast
    then obtain sp where "sender_ok (sender_lib L) sp t" "in_tune C t" "ss_ssrcs t \<noteq> []" "hd (ss_ssrcs t) = x"
      using assms(1) unfolding channel_ok_def senders_ok_def by blast
    then show "\<exists>sp. sender_ok (sender_lib L) sp t'" "in_tune C' t'" "ss_ssrcs t' \<noteq> []" "hd (ss_ssrcs t') = x"
      using t assms(4) [of t t' sp] by auto
  qed
  moreover have "ssrcs_ok C'"
    unfolding ssrcs_ok_def
  proof (intro conjI allI impI)
    have "(\<exists>x t. sender_at C' x = Some t \<and> y \<in> set (ss_ssrcs t))
        = (\<exists>x t. sender_at C x = Some t \<and> y \<in> set (ss_ssrcs t))" for y
      using k(1,2) by metis
    then show "vc_send_ssrcs C' = {y. \<exists>x t. sender_at C' x = Some t \<and> y \<in> set (ss_ssrcs t)}"
      using assms(1,3) by (simp add: channel_ok_def ssrcs_ok_def same_frame_def)
    fix x t y u assume a: "sender_at C' x = Some t" "sender_at C' y = Some u" "x \<noteq> y"
    then obtain t0 u0 where "sender_at C x = Some t0" "ss_ssrcs t = ss_ssrcs t0"
      "sender_at C y = Some u0" "ss_ssrcs u = ss_ssrcs u0" using k(1) by metis
    then show "set (ss_ssrcs t) \<inter> set (ss_ssrcs u) = {}"
      using assms(1) a(3) unfolding channel_ok_def ssrcs_ok_def by metis
  qed
  moreover have "report_ok C'" "quiet C'"
    using assms(1,3,5) k(3) by (auto simp: channel_ok_def report_ok_def quiet_def same_frame_def)
  ultimately show ?thesis by (simp add: channel_ok_def)
qed

lemma each_sender_at:
  assumes "each_sender f m = Some m'"
  shows "map fst m' = map fst m"
    "map_of m' x = Option.bind (map_of m x) f" "map_of m x = Some t \<Longrightarrow> f t \<noteq> None"
proof -
  have "map fst m' = map fst m \<and> map_of m' x = Option.bind (map_of m x) f
    \<and> (map_of m x = Some t \<longrightarrow> f t \<noteq> None)"
    using assms by (induction f m arbitrary: m' rule: each_sender.induct) (auto simp: bind_eq_Some_conv)
  then show "map fst m' = map fst m"
    "map_of m' x = Option.bind (map_of m x) f" "map_of m x = Some t \<Longrightarrow> f t \<noteq> None" by auto
qed

lemma same_keys_each:
  assumes "each_sender f (vc_send_streams C) = Some (vc_send_streams C')" "smap_ok (vc_send_streams C)"
    "\<And>x t t'. sender_at C x = Some t \<Longrightarrow> f t = Some t' \<Longrightarrow> ss_ssrcs t' = ss_ssrcs t \<and> R t t'"
  shows "same_keys R C C'"
proof -
  note e = each_sender_at [OF assms(1)]
  have s: "smap_ok (vc_send_streams C')" using assms(2) e(1) by (simp add: smap_ok_def)
  have at: "sender_at C' x = Option.bind (sender_at C x) f" "sender_at C x = Some t \<Longrightarrow> f t \<noteq> None" for x t
    using e(2,3) by (simp_all add: sender_at_def)
  have d: "sender_at C' x = None \<longleftrightarrow> sender_at C x = None" for x
    using at [of x] by (cases "sender_at C x") auto
  then have "dom (sender_at C') = dom (sender_at C)" by (simp add: dom_def)
  moreover have "ss_ssrcs t' = ss_ssrcs t \<and> R t t'"
    if "sender_at C x = Some t" "sender_at C' x = Some t'" for x t t'
  proof -
    have "f t = Some t'" using that at(1) [of x] by simp
    then show ?thesis using that(1) by (rule assms(3) [rotated])
  qed
  ultimately show ?thesis using s unfolding same_keys_def by blast
qed

lemma same_keys_put:
  assumes "sender_at C x = Some t" "smap_ok (vc_send_streams C)"
    "vc_send_streams C' = smap_put x t' (vc_send_streams C)" "ss_ssrcs t' = ss_ssrcs t" "R t t'" "\<And>u. R u u"
  shows "same_keys R C C'"
  using assms by (auto simp: same_keys_def sender_at_def)

section \<open>Every call keeps the invariant\<close>

lemma take_changes_simps [simp]:
  "vc_send_streams (take_changes ch C) = vc_send_streams C" "vc_send_ssrcs (take_changes ch C) = vc_send_ssrcs C"
  "vc_report_ssrc (take_changes ch C) = vc_report_ssrc C" "vc_sending (take_changes ch C) = vc_sending C"
  "vc_receive_streams (take_changes ch C) = vc_receive_streams C" "vc_worker (take_changes ch C) = vc_worker C"
  "vc_receive_ssrcs (take_changes ch C) = vc_receive_ssrcs C" "vc_send_params (take_changes ch C) = vc_send_params C"
  "vc_negotiated (take_changes ch C) = (case ch_negotiated_codecs ch of None \<Rightarrow> vc_negotiated C | Some ns \<Rightarrow> ns)"
  "vc_send_codec (take_changes ch C) = (case ch_send_codec ch of None \<Rightarrow> vc_send_codec C | Some s \<Rightarrow> Some s)"
  "vc_send_extensions (take_changes ch C) =
     (case ch_rtp_header_extensions ch of None \<Rightarrow> vc_send_extensions C | Some es \<Rightarrow> Some es)"
  "vc_extmap_allow_mixed (take_changes ch C) =
     (case ch_extmap_allow_mixed ch of None \<Rightarrow> vc_extmap_allow_mixed C | Some b \<Rightarrow> b)"
  "vc_allow_switching (take_changes ch C) = vc_allow_switching C"
  by (simp_all add: take_changes_def when_some_def split: option.split)

text \<open>Without receivers the changes reach the senders and the channel only.\<close>

lemma ApplyChangedParams_quiet:
  assumes "vc_receive_streams C = []" "ApplyChangedParams L ch C = Some C'"
  obtains b ss where "new_bitrates L ch (take_changes ch C) = Some b"
    "each_sender (ss_SetSendParameters (sender_lib L) ch) (vc_send_streams C) = Some ss"
    "C' = (take_changes ch C)\<lparr>vc_bitrates := b, vc_send_streams := ss\<rparr>"
  using assms by (auto simp: ApplyChangedParams_def Let_def bind_eq_Some_conv feedback_to_receivers_def
      split: if_splits)

lemma in_tune_ssrcs: "channel_view t = (c, es, m, d, x, f, ss) \<Longrightarrow> ss_ssrcs t = ss"
  by (simp add: channel_view_def Let_def)

lemma changed_view_ssrcs: "channel_view t' = changed_view ch (channel_view t) \<Longrightarrow> ss_ssrcs t' = ss_ssrcs t"
  by (simp add: channel_view_def changed_view_def Let_def)

lemma apply_ok:
  assumes "channel_ok L C" "ApplyChangedParams L ch (C\<lparr>vc_send_params := p\<rparr>) = Some C'"
    "\<And>t t'. in_tune C t \<Longrightarrow> channel_view t' = changed_view ch (channel_view t)
       \<Longrightarrow> in_tune (take_changes ch (C\<lparr>vc_send_params := p\<rparr>)) t'"
  shows "channel_ok L C'"
proof -
  let ?C1 = "C\<lparr>vc_send_params := p\<rparr>"
  let ?f = "ss_SetSendParameters (sender_lib L) ch"
  have q: "vc_receive_streams ?C1 = []" using assms(1) by (simp add: channel_ok_def quiet_def)
  from q assms(2) obtain b ss where b: "each_sender ?f (vc_send_streams C) = Some ss"
    "C' = (take_changes ch ?C1)\<lparr>vc_bitrates := b, vc_send_streams := ss\<rparr>"
    by (rule ApplyChangedParams_quiet) simp
  have n: "ss_stream t = None" if "sender_at C x = Some t" for x t
    using assms(1) that unfolding channel_ok_def senders_ok_def sender_ok_def by blast
  have "each_sender ?f (vc_send_streams C) = Some (vc_send_streams C')" using b by simp
  then have "same_keys (\<lambda>t t'. ?f t = Some t' \<and> ss_stream t = None) C C'"
  proof (rule same_keys_each)
    show "smap_ok (vc_send_streams C)" using assms(1) by (simp add: channel_ok_def senders_ok_def)
    fix x t t' assume a: "sender_at C x = Some t" "?f t = Some t'"
    then show "ss_ssrcs t' = ss_ssrcs t \<and> ?f t = Some t' \<and> ss_stream t = None"
      using n changed_view_ssrcs channel_view_SetSendParameters by blast
  qed
  moreover have "same_frame C C'" "vc_sending C' = vc_sending C"
    by (simp_all add: b(2) same_frame_def)
  moreover have "sender_ok (sender_lib L) sp t' \<and> in_tune C' t'"
    if i: "?f t = Some t' \<and> ss_stream t = None" "sender_ok (sender_lib L) sp t" "in_tune C t" for sp t t'
  proof -
    have "in_tune (take_changes ch ?C1) t'"
      using i assms(3) channel_view_SetSendParameters by blast
    then have "in_tune C' t'" by (simp add: b(2) in_tune_def)
    then show ?thesis using i SetSendParameters_ok by blast
  qed
  ultimately show ?thesis using channel_ok_replace [OF assms(1)] by blast
qed

lemma SetSendParameters_to_ok:
  fixes C :: "('f, 'c) VideoChannel"
  assumes "channel_ok L C" "vc_SetSendParameters L p C = Some (b, C')"
  shows "channel_ok L C'"
proof (cases "GetChangedSendParameters L p C")
  case None
  then show ?thesis using assms by (simp add: vc_SetSendParameters_def)
next
  case (Some ch)
  have a: "ApplyChangedParams L ch (C\<lparr>vc_send_params := p\<rparr>) = Some C'"
    using assms(2) Some by (auto simp: vc_SetSendParameters_def)
  have ch: "ch = send_changes L p C"
    using Some by (simp add: GetChangedSendParameters_def split: if_split_asm)
  show ?thesis
    using assms(1) a
  proof (rule apply_ok)
    fix t t' :: "'c WebRtcVideoSendStream"
    assume i: "in_tune C t" "channel_view t' = changed_view ch (channel_view t)"
    then show "in_tune (take_changes ch (C\<lparr>vc_send_params := p\<rparr>)) t'"
      using changed_view_ssrcs [OF i(2)]
      unfolding in_tune_def i(2) changed_view_def ch send_changes_def changed_def Let_def
      by (simp split: option.splits)
  qed
qed

lemma apply_codec_ok:
  fixes C :: "('f, 'c) VideoChannel"
  assumes "channel_ok L C"
    "ApplyChangedParams L (no_change\<lparr>ch_negotiated_codecs := ns, ch_send_codec := c\<rparr>) C = Some C'"
  shows "channel_ok L C'"
proof -
  let ?ch = "no_change\<lparr>ch_negotiated_codecs := ns, ch_send_codec := c\<rparr>"
  have "ApplyChangedParams L ?ch (C\<lparr>vc_send_params := vc_send_params C\<rparr>) = Some C'" using assms(2) by simp
  with assms(1) show ?thesis
  proof (rule apply_ok)
    fix t t' :: "'c WebRtcVideoSendStream"
    assume i: "in_tune C t" "channel_view t' = changed_view ?ch (channel_view t)"
    then show "in_tune (take_changes ?ch (C\<lparr>vc_send_params := vc_send_params C\<rparr>)) t'"
      using changed_view_ssrcs [OF i(2)] by (simp add: in_tune_def changed_view_def no_change_def)
  qed
qed

lemma switch_to_ok:
  assumes "channel_ok L C" "switch_to L s C = Some C'"
  shows "channel_ok L C'"
proof (cases "vc_send_codec C = Some s")
  case True
  then show ?thesis using assms by (simp add: switch_to_def)
next
  case False
  have "no_change\<lparr>ch_send_codec := Some s\<rparr> = no_change\<lparr>ch_negotiated_codecs := None, ch_send_codec := Some s\<rparr>"
    by (simp add: no_change_def)
  then show ?thesis using assms False apply_codec_ok [OF assms(1)] by (simp add: switch_to_def)
qed

lemma Fallback_ok:
  assumes "channel_ok L C" "RequestEncoderFallback L C = Some C'"
  shows "channel_ok L C'"
  using assms apply_codec_ok by (auto simp: RequestEncoderFallback_def split: list.splits)

text \<open>Fields that the invariant does not read.\<close>

lemma channel_ok_updates [simp]:
  "channel_ok L (C\<lparr>vc_requested_switch := a\<rparr>) = channel_ok L C"
  "channel_ok L (C\<lparr>vc_allow_switching := b\<rparr>) = channel_ok L C"
  "channel_ok L (C\<lparr>vc_dscp := d\<rparr>) = channel_ok L C"
  "channel_ok L (C\<lparr>vc_default_sink := s\<rparr>) = channel_ok L C"
  "channel_ok L (C\<lparr>vc_default_delay_ms := n\<rparr>) = channel_ok L C"
  "channel_ok L (C\<lparr>vc_demuxer_id := w\<rparr>) = channel_ok L C"
  "channel_ok L (C\<lparr>vc_unsignaled_transformer := f\<rparr>) = channel_ok L C"
  "channel_ok L (C\<lparr>vc_recv_codecs := cs\<rparr>) = channel_ok L C"
  "channel_ok L (C\<lparr>vc_recv_extensions := es\<rparr>) = channel_ok L C"
  "channel_ok L (C\<lparr>vc_recv_flexfec_type := i\<rparr>) = channel_ok L C"
  "channel_ok L (C\<lparr>vc_recv_params := p\<rparr>) = channel_ok L C"
  by (simp_all add: channel_ok_def senders_ok_def ssrcs_ok_def report_ok_def quiet_def sender_at_def in_tune_def)

lemma Switch_ok:
  assumes "channel_ok L C" "RequestEncoderSwitch L conf C = Some C'"
  shows "channel_ok L C'"
  using assms by (auto simp: RequestEncoderSwitch_def split: if_splits option.splits dest: switch_to_ok)

lemma EnableSwitching_ok:
  assumes "channel_ok L C" "SetVideoCodecSwitchingEnabled L b C = Some C'"
  shows "channel_ok L C'"
proof -
  have o: "channel_ok L (C\<lparr>vc_allow_switching := b\<rparr>)" using assms(1) by simp
  consider "C' = C\<lparr>vc_allow_switching := b\<rparr>"
    | conf C2 where "RequestEncoderSwitch L conf (C\<lparr>vc_allow_switching := b\<rparr>) = Some C2"
        "C' = C2\<lparr>vc_requested_switch := None\<rparr>"
    using assms(2) by (cases "vc_requested_switch C"; cases b) (auto simp: SetVideoCodecSwitchingEnabled_def Let_def)
  then show ?thesis
  proof cases
    case 1
    then show ?thesis using o by simp
  next
    case (2 conf C2)
    then show ?thesis using Switch_ok [OF o 2(1)] by simp
  qed
qed

text \<open>One sender replaced by one with the same view.\<close>

lemma put_sender_ok:
  assumes "channel_ok L C" "map_of (vc_send_streams C) x = Some t" "channel_view t' = channel_view t"
    "\<And>sp. sender_ok (sender_lib L) sp t \<Longrightarrow> sender_ok (sender_lib L) sp t'"
  shows "channel_ok L (C\<lparr>vc_send_streams := smap_put x t' (vc_send_streams C)\<rparr>)" (is "channel_ok L ?C'")
proof -
  let ?R = "\<lambda>u u'. channel_view u' = channel_view u
    \<and> (\<forall>sp. sender_ok (sender_lib L) sp u \<longrightarrow> sender_ok (sender_lib L) sp u')"
  have s: "ss_ssrcs t' = ss_ssrcs t" using assms(3) by (simp add: channel_view_def Let_def)
  have "same_keys ?R C ?C'"
    by (rule same_keys_put [of _ x t _ t']) (use assms s in \<open>auto simp: sender_at_def channel_ok_def senders_ok_def\<close>)
  moreover have "same_frame C ?C'" "vc_sending ?C' = vc_sending C" by (simp_all add: same_frame_def)
  moreover have "sender_ok (sender_lib L) sp u' \<and> in_tune ?C' u'"
    if i: "?R u u'" "sender_ok (sender_lib L) sp u" "in_tune C u" for sp u u'
  proof -
    have "ss_ssrcs u' = ss_ssrcs u" using i(1) by (simp add: channel_view_def Let_def)
    then show ?thesis using i by (simp add: in_tune_def)
  qed
  ultimately show ?thesis using channel_ok_replace [OF assms(1)] by blast
qed

lemma sender_null:
  "channel_ok L C \<Longrightarrow> map_of (vc_send_streams C) x = Some t \<Longrightarrow> ss_stream t = None"
  unfolding channel_ok_def senders_ok_def sender_at_def sender_ok_def by blast

lemma SetRtpParameters_of_ok:
  assumes "channel_ok L C" "SetRtpSendParameters L x p C = Some (err, C')"
  shows "channel_ok L C'"
proof (cases "map_of (vc_send_streams C) x")
  case None
  then show ?thesis using assms by (simp add: SetRtpSendParameters_def)
next
  case (Some t)
  let ?C1 = "case encodings p of [] \<Rightarrow> C | e # _ \<Rightarrow> C\<lparr>vc_dscp := dscp_of (network_priority e)\<rparr>"
  have c1: "channel_ok L ?C1" "vc_send_streams ?C1 = vc_send_streams C"
    using assms(1) by (simp_all split: list.split)
  consider "C' = C"
    | t1 where "ss_SetRtpParameters (sender_lib L) p t = Some (err, t1)"
        "C' = ?C1\<lparr>vc_send_streams := smap_put x t1 (vc_send_streams ?C1)\<rparr>"
    using assms(2) Some by (auto simp: SetRtpSendParameters_def Let_def split: if_splits)
  then show ?thesis
  proof cases
    case 1
    then show ?thesis using assms(1) by simp
  next
    case (2 t1)
    have m: "map_of (vc_send_streams ?C1) x = Some t" using Some c1(2) by simp
    show ?thesis
      unfolding 2(2)
      by (rule put_sender_ok [OF c1(1) m channel_view_SetRtpParameters [OF sender_null [OF c1(1) m] 2(1)]])
        (use 2(1) SetRtpParameters_ok in blast)
  qed
qed

lemma VideoSend_ok:
  assumes "channel_ok L C" "vc_SetVideoSend L x opts src C = Some (b, C')"
  shows "channel_ok L C'"
proof (cases "map_of (vc_send_streams C) x")
  case None
  then show ?thesis using assms by (simp add: vc_SetVideoSend_def split: if_splits)
next
  case (Some t)
  then obtain t1 where t1: "ss_SetVideoSend (sender_lib L) opts src t = Some t1"
    "C' = C\<lparr>vc_send_streams := smap_put x t1 (vc_send_streams C)\<rparr>"
    using assms(2) by (auto simp: vc_SetVideoSend_def)
  show ?thesis
    unfolding t1(2)
    by (rule put_sender_ok [OF assms(1) Some channel_view_SetVideoSend [OF sender_null [OF assms(1) Some] t1(1)]])
      (use t1(1) SetVideoSend_ok in blast)
qed

lemma Encryptor_ok:
  assumes "channel_ok L C" "vc_SetFrameEncryptor L x e C = Some C'"
  shows "channel_ok L C'"
proof (cases "map_of (vc_send_streams C) x")
  case None
  then show ?thesis using assms by (simp add: vc_SetFrameEncryptor_def)
next
  case (Some t)
  let ?t1 = "t\<lparr>ss_config := (ss_config t)\<lparr>cfg_frame_encryptor := e\<rparr>\<rparr>"
  have "C' = C\<lparr>vc_send_streams := smap_put x ?t1 (vc_send_streams C)\<rparr>"
    using assms Some sender_null [OF assms(1) Some] by (simp add: vc_SetFrameEncryptor_def ss_SetFrameEncryptor_def)
  then show ?thesis using put_sender_ok [OF assms(1) Some, of ?t1] by (simp add: sender_ok_def)
qed

lemma SendTransformer_ok:
  assumes "channel_ok L C" "vc_SetEncoderToPacketizerFrameTransformer L x f C = Some C'"
  shows "channel_ok L C'"
proof (cases "map_of (vc_send_streams C) x")
  case None
  then show ?thesis using assms by (simp add: vc_SetEncoderToPacketizerFrameTransformer_def)
next
  case (Some t)
  let ?t1 = "t\<lparr>ss_config := (ss_config t)\<lparr>cfg_frame_transformer := f\<rparr>\<rparr>"
  have "C' = C\<lparr>vc_send_streams := smap_put x ?t1 (vc_send_streams C)\<rparr>"
    using assms Some sender_null [OF assms(1) Some]
    by (simp add: vc_SetEncoderToPacketizerFrameTransformer_def ss_SetFrameTransformer_def)
  then show ?thesis using put_sender_ok [OF assms(1) Some, of ?t1] by (simp add: sender_ok_def)
qed

text \<open>A channel with senders cannot start to send: it would go through their null pointers.\<close>

lemma each_SetSend_null:
  assumes "\<forall>t \<in> snd ` set m. ss_stream t = None"
  shows "each_sender (ss_SetSend b) m =
    (if b \<and> m \<noteq> [] then None else Some (List.map (\<lambda>(k, t). (k, t\<lparr>ss_sending := b\<rparr>)) m))"
  using assms by (induction m) (auto simp: ss_SetSend_def UpdateSendState_null)

lemma Send_ok:
  assumes "channel_ok L C" "vc_SetSend b C = Some (r, C')"
  shows "channel_ok L C'"
proof (cases "b \<and> vc_send_codec C = None")
  case True
  then show ?thesis using assms by (simp add: vc_SetSend_def)
next
  case False
  let ?m = "vc_send_streams C"
  have k: "smap_ok ?m" using assms(1) by (simp add: channel_ok_def senders_ok_def)
  have ok: "sender_ok (sender_lib L) sp (t\<lparr>ss_sending := b\<rparr>)"
    if "sender_ok (sender_lib L) sp t" "\<not> b" for sp t
    using that by (simp add: sender_ok_def)
  obtain ss where ss: "each_sender (ss_SetSend b) ?m = Some ss" "C' = C\<lparr>vc_send_streams := ss, vc_sending := b\<rparr>"
    using assms(2) False by (auto simp: vc_SetSend_def split: if_splits)
  have n: "\<forall>t \<in> snd ` set ?m. ss_stream t = None"
    using sender_null [OF assms(1)] k by (auto simp: smap_in_set_iff)
  show ?thesis
  proof (cases "?m = []")
    case True
    then show ?thesis using assms(1) ss
      by (auto simp: channel_ok_def senders_ok_def ssrcs_ok_def report_ok_def quiet_def sender_at_def)
  next
    case m: False
    then have b: "\<not> b" using ss(1) each_SetSend_null [OF n, of b] by auto
    let ?R = "\<lambda>t t'. t' = t\<lparr>ss_sending := b\<rparr>"
    have "each_sender (ss_SetSend b) ?m = Some (vc_send_streams C')" using ss by simp
    then have "same_keys ?R C C'"
    proof (rule same_keys_each [OF _ k])
      fix x t t' assume a: "sender_at C x = Some t" "ss_SetSend b t = Some t'"
      have "ss_stream t = None" using a(1) sender_null [OF assms(1)] by (simp add: sender_at_def)
      then show "ss_ssrcs t' = ss_ssrcs t \<and> ?R t t'"
        using a(2) b by (auto simp: ss_SetSend_def UpdateSendState_null)
    qed
    moreover have "same_frame C C'" "\<not> vc_sending C'" using b by (simp_all add: ss(2) same_frame_def)
    moreover have "sender_ok (sender_lib L) sp t' \<and> in_tune C' t'"
      if "?R t t'" "sender_ok (sender_lib L) sp t" "in_tune C t" for sp t t'
      using that ok b by (simp add: ss(2) in_tune_def)
    ultimately show ?thesis using channel_ok_replace [OF assms(1)] by blast
  qed
qed

lemma ex_new_value:
  assumes "m k = None"
  shows "(\<exists>z u. (m(k \<mapsto> t)) z = Some u \<and> P u) \<longleftrightarrow> (\<exists>z u. m z = Some u \<and> P u) \<or> P t"
proof
  assume "\<exists>z u. (m(k \<mapsto> t)) z = Some u \<and> P u"
  then show "(\<exists>z u. m z = Some u \<and> P u) \<or> P t" by (auto split: if_splits)
next
  assume r: "(\<exists>z u. m z = Some u \<and> P u) \<or> P t"
  have "(m(k \<mapsto> t)) k = Some t" by simp
  moreover have "(m(k \<mapsto> t)) z = Some u" if "m z = Some u" for z u using that assms by auto
  ultimately show "\<exists>z u. (m(k \<mapsto> t)) z = Some u \<and> P u" using r by blast
qed

text \<open>What a successful registration is.\<close>

definition added :: "StreamParams \<Rightarrow> ssrc \<Rightarrow> 'c WebRtcVideoSendStream \<Rightarrow> ('f, 'c) VideoChannel \<Rightarrow> ('f, 'c) VideoChannel" where
  "added sp x t C = C\<lparr>vc_send_ssrcs := vc_send_ssrcs C \<union> set (stream_ssrcs sp),
     vc_send_streams := smap_put x t (vc_send_streams C),
     vc_report_ssrc := if vc_report_ssrc C = kDefaultRtcpReceiverReportSsrc then x else vc_report_ssrc C\<rparr>"

lemma each_receiver_quiet [simp]: "vc_receive_streams C = [] \<Longrightarrow> each_receiver f C = C"
  by (simp add: each_receiver_def)

lemma sender_ok_ssrcs: "sender_ok B sp t \<Longrightarrow> ss_ssrcs t = stream_ssrcs sp"
  by (simp add: sender_ok_def sender_identity_def Let_def)

lemma AddSendStream_cases:
  assumes "channel_ok L C" "channel_lib_ok L" "AddSendStream L sp C = Some (b, C')"
  shows "(\<not> b \<and> C' = C) \<or> (\<exists>t. b \<and> stream_ssrcs sp \<noteq> [] \<and> set (stream_ssrcs sp) \<inter> vc_send_ssrcs C = {}
    \<and> \<not> vc_sending C \<and> sender_ok (sender_lib L) sp t \<and> in_tune C t \<and> C' = added sp (hd (stream_ssrcs sp)) t C)"
proof (cases "ValidateStreamParams (streams (sender_lib L)) sp \<and> ValidateSendSsrcAvailability sp C")
  case False
  then show ?thesis using assms(3) by (auto simp: AddSendStream_def Let_def)
next
  case True
  let ?new = "new_WebRtcVideoSendStream (sender_lib L) sp (send_config L sp C) (vc_default_options C)
     (enable_cpu_adaptation (vc_config C)) (bc_max_bitrate_bps (vc_bitrates C)) (vc_send_codec C)
     (vc_send_extensions C) (vc_send_params C)"
  have v: "stream_ssrcs sp \<noteq> []" "set (stream_ssrcs sp) \<inter> vc_send_ssrcs C = {}"
    using True by (auto simp: ValidateStreamParams_def ValidateSendSsrcAvailability_def list_all_iff split: if_splits)
  have x: "first_ssrc (streams (sender_lib L)) sp = hd (stream_ssrcs sp)"
    using assms(2) v(1) by (simp add: channel_lib_ok_def)
  have q: "vc_receive_streams C = []" using assms(1) by (simp add: channel_ok_def quiet_def)
  obtain t t1 where t: "?new = Some t" "(if vc_sending C then ss_SetSend True t else Some t) = Some t1"
    "b" "C' = added sp (hd (stream_ssrcs sp)) t1 C"
    using assms(3) True x q
    by (auto simp: AddSendStream_def added_def Let_def bind_eq_Some_conv simp del: each_receiver_quiet
        simp: each_receiver_def)
  have e: "rc_extensions (cfg_rtp (send_config L sp C)) = []"
    "rc_extmap_allow_mixed (cfg_rtp (send_config L sp C)) = vc_extmap_allow_mixed C"
    by (simp_all add: send_config_def default_RtpConfig_def)
  have o: "sender_ok (sender_lib L) sp t"
    using new_sender_ok [OF t(1)] assms(2) e by (simp add: channel_lib_ok_def)
  then have "ss_stream t = None" by (simp add: sender_ok_def)
  then have s: "\<not> vc_sending C" "t1 = t" using t(2) by (auto simp: ss_SetSend_def UpdateSendState_null split: if_splits)
  have "in_tune C t"
    using channel_view_new [OF t(1)] sender_ok_ssrcs [OF o] unfolding in_tune_def e by simp
  then show ?thesis using o s t(3,4) v by blast
qed

lemma added_ok:
  assumes "channel_ok L C" "stream_ssrcs sp \<noteq> []" "set (stream_ssrcs sp) \<inter> vc_send_ssrcs C = {}"
    "\<not> vc_sending C" "sender_ok (sender_lib L) sp t" "in_tune C t"
  shows "channel_ok L (added sp (hd (stream_ssrcs sp)) t C)" (is "channel_ok L ?C'")
proof -
  let ?x = "hd (stream_ssrcs sp)"
  have at: "sender_at ?C' = (sender_at C)(?x \<mapsto> t)" by (simp add: sender_at_def added_def)
  have ss: "ss_ssrcs t = stream_ssrcs sp" using assms(5) by (rule sender_ok_ssrcs)
  have used: "set (ss_ssrcs u) \<subseteq> vc_send_ssrcs C" "y \<in> set (ss_ssrcs u)" if "sender_at C y = Some u" for y u
  proof -
    show "set (ss_ssrcs u) \<subseteq> vc_send_ssrcs C"
      using that assms(1) by (auto simp: channel_ok_def ssrcs_ok_def)
    have "ss_ssrcs u \<noteq> []" "hd (ss_ssrcs u) = y"
      using that assms(1) unfolding channel_ok_def senders_ok_def by blast+
    then show "y \<in> set (ss_ssrcs u)" using hd_in_set by blast
  qed
  have x: "?x \<in> set (stream_ssrcs sp)" using assms(2) by simp
  have free: "sender_at C ?x = None"
  proof (rule ccontr)
    assume "sender_at C ?x \<noteq> None"
    then obtain u where "sender_at C ?x = Some u" by blast
    then show False using used [of ?x u] assms(3) x by blast
  qed
  have tune: "in_tune ?C' u = in_tune C u" for u by (simp add: in_tune_def added_def)
  have "senders_ok L ?C'"
    using assms(1,2,5,6) ss by (auto simp: channel_ok_def senders_ok_def at tune) (simp add: added_def)
  moreover have "ssrcs_ok ?C'"
    unfolding ssrcs_ok_def
  proof (intro conjI allI impI)
    have "vc_send_ssrcs C = {y. \<exists>z u. sender_at C z = Some u \<and> y \<in> set (ss_ssrcs u)}"
      using assms(1) by (simp add: channel_ok_def ssrcs_ok_def)
    then have "vc_send_ssrcs ?C' = {y. \<exists>z u. sender_at C z = Some u \<and> y \<in> set (ss_ssrcs u)} \<union> set (ss_ssrcs t)"
      by (simp add: added_def ss)
    also have "\<dots> = {y. \<exists>z u. sender_at ?C' z = Some u \<and> y \<in> set (ss_ssrcs u)}"
    proof -
      have "(\<exists>z u. ((sender_at C)(?x \<mapsto> t)) z = Some u \<and> y \<in> set (ss_ssrcs u))
          \<longleftrightarrow> (\<exists>z u. sender_at C z = Some u \<and> y \<in> set (ss_ssrcs u)) \<or> y \<in> set (ss_ssrcs t)" for y
        using free by (rule ex_new_value)
      then show ?thesis unfolding at by blast
    qed
    finally show "vc_send_ssrcs ?C' = {y. \<exists>z u. sender_at ?C' z = Some u \<and> y \<in> set (ss_ssrcs u)}" .
    fix z u y w assume a: "sender_at ?C' z = Some u" "sender_at ?C' y = Some w" "z \<noteq> y"
    have old: "set (ss_ssrcs v) \<inter> set (ss_ssrcs t) = {}" if "sender_at C i = Some v" for i v
      using used(1) [OF that] assms(3) ss by auto
    show "set (ss_ssrcs u) \<inter> set (ss_ssrcs w) = {}"
    proof (cases "z = ?x \<or> y = ?x")
      case True
      then show ?thesis using a old [of y w] old [of z u] unfolding at by auto
    next
      case False
      then have "sender_at C z = Some u" "sender_at C y = Some w" using a(1,2) unfolding at by auto
      then show ?thesis using a(3) assms(1) unfolding channel_ok_def ssrcs_ok_def by blast
    qed
  qed
  moreover have "report_ok ?C'"
  proof -
    have d: "dom (sender_at ?C') = insert ?x (dom (sender_at C))" unfolding at by simp
    have r: "vc_report_ssrc ?C' = (if vc_report_ssrc C = kDefaultRtcpReceiverReportSsrc then ?x else vc_report_ssrc C)"
      by (simp add: added_def)
    have o: "report_ok C" using assms(1) by (simp add: channel_ok_def)
    show ?thesis
    proof (cases "vc_report_ssrc C = kDefaultRtcpReceiverReportSsrc")
      case True
      then show ?thesis using o unfolding report_ok_def d r by (auto split: if_splits)
    next
      case False
      then have "vc_report_ssrc C \<in> dom (sender_at C)" using o unfolding report_ok_def by (meson)
      then show ?thesis using False unfolding report_ok_def d r by simp
    qed
  qed
  moreover have "quiet ?C'" using assms(1,4) by (auto simp: channel_ok_def quiet_def added_def)
  ultimately show ?thesis by (simp add: channel_ok_def)
qed

lemma AddStream_ok:
  assumes "channel_ok L C" "channel_lib_ok L" "AddSendStream L sp C = Some (b, C')"
  shows "channel_ok L C'"
  using AddSendStream_cases [OF assms] assms(1) added_ok by blast

lemma smap_hd_least:
  "smap_ok ((k, v) # m) \<Longrightarrow> x \<in> dom (map_of ((k, v) # m)) \<Longrightarrow> k \<le> x"
  by (auto simp: smap_ok_def dom_map_of_conv_image_fst)

text \<open>What a removal is: the report SSRC moves to the least one that is left.\<close>

definition removed :: "ssrc \<Rightarrow> 'c WebRtcVideoSendStream \<Rightarrow> ('f, 'c) VideoChannel \<Rightarrow> ('f, 'c) VideoChannel" where
  "removed x t C = C\<lparr>vc_send_ssrcs := vc_send_ssrcs C - set (ss_ssrcs t),
     vc_send_streams := smap_del x (vc_send_streams C),
     vc_report_ssrc := if vc_report_ssrc C = x
       then (case smap_del x (vc_send_streams C) of [] \<Rightarrow> kDefaultRtcpReceiverReportSsrc | (k, _) # _ \<Rightarrow> k)
       else vc_report_ssrc C\<rparr>"

lemma RemoveSendStream_quiet:
  assumes "vc_receive_streams C = []" "map_of (vc_send_streams C) x = Some t"
  shows "RemoveSendStream x C = (True, removed x t C)"
  using assms by (simp add: RemoveSendStream_def removed_def Let_def)

lemma removed_ok:
  assumes "channel_ok L C" "map_of (vc_send_streams C) x = Some t"
  shows "channel_ok L (removed x t C)" (is "channel_ok L ?C'")
proof -
  have at: "sender_at ?C' = (sender_at C)(x := None)" by (simp add: sender_at_def removed_def)
  have k: "smap_ok (vc_send_streams C)" and x: "sender_at C x = Some t"
    using assms by (simp_all add: channel_ok_def senders_ok_def sender_at_def)
  have tune: "in_tune ?C' u = in_tune C u" for u by (simp add: in_tune_def removed_def)
  have streams: "vc_send_streams ?C' = smap_del x (vc_send_streams C)" by (simp add: removed_def)
  have "senders_ok L ?C'"
    using assms(1) k unfolding channel_ok_def senders_ok_def at tune streams by (auto split: if_splits)
  moreover have "ssrcs_ok ?C'"
    unfolding ssrcs_ok_def
  proof (intro conjI allI impI)
    have s: "vc_send_ssrcs C = {y. \<exists>z u. sender_at C z = Some u \<and> y \<in> set (ss_ssrcs u)}"
      using assms(1) by (simp add: channel_ok_def ssrcs_ok_def)
    have other: "set (ss_ssrcs u) \<inter> set (ss_ssrcs t) = {}" if "sender_at C z = Some u" "z \<noteq> x" for z u
      using that x assms(1) unfolding channel_ok_def ssrcs_ok_def by blast
    have "vc_send_ssrcs ?C' = vc_send_ssrcs C - set (ss_ssrcs t)" by (simp add: removed_def)
    also have "\<dots> = {y. \<exists>z u. sender_at ?C' z = Some u \<and> y \<in> set (ss_ssrcs u)}"
    proof (intro set_eqI iffI)
      fix y assume "y \<in> vc_send_ssrcs C - set (ss_ssrcs t)"
      then obtain z u where z: "sender_at C z = Some u" "y \<in> set (ss_ssrcs u)" "y \<notin> set (ss_ssrcs t)"
        using s by blast
      then have "z \<noteq> x" using x by auto
      then show "y \<in> {y. \<exists>z u. sender_at ?C' z = Some u \<and> y \<in> set (ss_ssrcs u)}"
        using z unfolding at by auto
    next
      fix y assume "y \<in> {y. \<exists>z u. sender_at ?C' z = Some u \<and> y \<in> set (ss_ssrcs u)}"
      then obtain z u where "sender_at C z = Some u" "z \<noteq> x" "y \<in> set (ss_ssrcs u)"
        unfolding at by (auto split: if_splits)
      then show "y \<in> vc_send_ssrcs C - set (ss_ssrcs t)" using s other by blast
    qed
    finally show "vc_send_ssrcs ?C' = {y. \<exists>z u. sender_at ?C' z = Some u \<and> y \<in> set (ss_ssrcs u)}" .
    fix z u y w assume "sender_at ?C' z = Some u" "sender_at ?C' y = Some w" "z \<noteq> y"
    then have "sender_at C z = Some u" "sender_at C y = Some w" "z \<noteq> y" unfolding at by (auto split: if_splits)
    then show "set (ss_ssrcs u) \<inter> set (ss_ssrcs w) = {}"
      using assms(1) unfolding channel_ok_def ssrcs_ok_def by blast
  qed
  moreover have "report_ok ?C'"
  proof (cases "smap_del x (vc_send_streams C)")
    case Nil
    then have "dom (sender_at ?C') = {}" by (simp add: sender_at_def streams)
    then have "dom (sender_at C) = {x}" using x unfolding at by auto
    then have "vc_report_ssrc C = x" using assms(1) by (auto simp: channel_ok_def report_ok_def split: if_splits)
    then show ?thesis using \<open>dom (sender_at ?C') = {}\<close> Nil by (simp add: report_ok_def removed_def)
  next
    case (Cons b bs)
    obtain j v where b: "b = (j, v)" by (cases b)
    have sm: "smap_ok ((j, v) # bs)" using k Cons b by (metis smap_ok_del)
    have d: "dom (sender_at ?C') = dom (map_of ((j, v) # bs))"
      using Cons b by (simp add: sender_at_def streams)
    have least: "j \<in> dom (sender_at ?C')" "\<forall>y \<in> dom (sender_at ?C'). j \<le> y"
      unfolding d by (simp, use smap_hd_least [OF sm] in blast)
    have ne: "dom (sender_at ?C') \<noteq> {}" "dom (sender_at C) \<noteq> {}" using least(1) x by auto
    have o: "vc_report_ssrc C \<in> dom (sender_at C)"
      "vc_report_ssrc C = kDefaultRtcpReceiverReportSsrc \<longrightarrow> (\<forall>x \<in> dom (sender_at C). kDefaultRtcpReceiverReportSsrc \<le> x)"
      using assms(1) ne(2) by (simp_all add: channel_ok_def report_ok_def)
    have r: "vc_report_ssrc ?C' = (if vc_report_ssrc C = x then j else vc_report_ssrc C)"
      using Cons b by (simp add: removed_def)
    show ?thesis
    proof (cases "vc_report_ssrc C = x")
      case True
      then show ?thesis using ne(1) least r unfolding report_ok_def by auto
    next
      case False
      then show ?thesis using ne(1) o r unfolding report_ok_def at by auto
    qed
  qed
  moreover have "quiet ?C'"
    using assms(1) x unfolding channel_ok_def quiet_def at by (auto simp: removed_def)
  ultimately show ?thesis by (simp add: channel_ok_def)
qed

lemma RemoveStream_ok:
  assumes "channel_ok L C"
  shows "channel_ok L (snd (RemoveSendStream x C))"
proof (cases "map_of (vc_send_streams C) x")
  case None
  then show ?thesis using assms by (simp add: RemoveSendStream_def)
next
  case (Some t)
  have q: "vc_receive_streams C = []" using assms by (simp add: channel_ok_def quiet_def)
  show ?thesis using removed_ok [OF assms Some] RemoveSendStream_quiet [OF q Some] by simp
qed

section \<open>Without receivers\<close>

lemma quiet_receivers:
  assumes "vc_receive_streams C = []"
  shows "on_receiver x f C = (False, C)" "GetDefaultReceiveStreamSsrc C = None"
    "vc_SetSink x s C = (False, C)" "FindReceiveStream x C = None"
    "vc_SetDefaultSink s C = C\<lparr>vc_default_sink := s\<rparr>" "vc_SetFrameDecryptor x d C = C"
    "OnUnsignalledSsrc x C = (kDeliverPacket, if x = 0 then C\<lparr>vc_default_delay_ms := vc_default_delay_ms C\<rparr> else C)"
  using assms
  by (simp_all add: on_receiver_def GetDefaultReceiveStreamSsrc_def vc_SetSink_def FindReceiveStream_def
      vc_SetDefaultSink_def vc_SetFrameDecryptor_def OnUnsignalledSsrc_def vc_GetBaseMinimumPlayoutDelayMs_def
      vc_SetBaseMinimumPlayoutDelayMs_def Let_def)

lemma receiver_calls_ok:
  assumes "channel_ok L C"
  shows "channel_ok L (snd (SetRecvParameters L p C))" "channel_ok L (vc_SetFrameDecryptor x d C)"
    "channel_ok L (vc_SetDepacketizerToDecoderFrameTransformer x f C)" "channel_ok L (snd (vc_SetSink x s C))"
    "channel_ok L (vc_SetDefaultSink s C)" "channel_ok L (snd (vc_SetBaseMinimumPlayoutDelayMs x n C))"
    "channel_ok L (snd (OnUnsignalledSsrc x C))" "channel_ok L (OnDemuxerCriteriaUpdatePending C)"
    "vc_OnPacketReceived C = None" "vc_OnNetworkRouteChanged C = None" "OnDemuxerCriteriaUpdateComplete C = None"
proof -
  have q: "vc_receive_streams C = []" "vc_worker C = None" using assms by (simp_all add: channel_ok_def quiet_def)
  note r = quiet_receivers [OF q(1)]
  show "channel_ok L (snd (SetRecvParameters L p C))"
  proof (cases "GetChangedRecvParameters L p C")
    case (Some ch)
    then show ?thesis using assms q
      by (simp add: SetRecvParameters_def when_some_def Let_def split: option.split)
  qed (use assms in \<open>simp add: SetRecvParameters_def\<close>)
  show "channel_ok L (vc_SetDepacketizerToDecoderFrameTransformer x f C)"
    "channel_ok L (snd (vc_SetBaseMinimumPlayoutDelayMs x n C))"
    "channel_ok L (OnDemuxerCriteriaUpdatePending C)"
    using assms q r by (simp_all add: vc_SetDepacketizerToDecoderFrameTransformer_def
        vc_SetBaseMinimumPlayoutDelayMs_def OnDemuxerCriteriaUpdatePending_def)
  show "channel_ok L (vc_SetFrameDecryptor x d C)" "channel_ok L (snd (vc_SetSink x s C))"
    "channel_ok L (vc_SetDefaultSink s C)" "channel_ok L (snd (OnUnsignalledSsrc x C))"
    using assms by (simp_all add: r)
  show "vc_OnPacketReceived C = None" "vc_OnNetworkRouteChanged C = None" "OnDemuxerCriteriaUpdateComplete C = None"
    using q(2) by (simp_all add: vc_OnPacketReceived_def vc_OnNetworkRouteChanged_def
        OnDemuxerCriteriaUpdateComplete_def post_worker_def)
qed

lemma channel_step_ok:
  assumes "channel_lib_ok L" "channel_ok L C" "channel_step L c C = Some C'"
  shows "channel_ok L C'"
proof (cases c)
  case (SetSendParameters_to p)
  then show ?thesis using assms by (auto intro: SetSendParameters_to_ok)
next
  case Fallback
  then show ?thesis using assms by (auto intro: Fallback_ok)
next
  case (Switch conf)
  then show ?thesis using assms by (auto intro: Switch_ok)
next
  case (Switch_format f)
  then show ?thesis using assms
    by (auto simp: RequestEncoderSwitch_format_def split: option.splits dest: switch_to_ok)
next
  case (EnableSwitching b)
  then show ?thesis using assms by (auto intro: EnableSwitching_ok)
next
  case (SetRtpParameters_of x p)
  then show ?thesis using assms by (auto intro: SetRtpParameters_of_ok)
next
  case (Send b)
  then show ?thesis using assms by (auto intro: Send_ok)
next
  case (VideoSend x opts src)
  then show ?thesis using assms by (auto intro: VideoSend_ok)
next
  case (AddStream sp)
  then show ?thesis using assms by (auto intro: AddStream_ok)
next
  case (RemoveStream x)
  then show ?thesis using assms RemoveStream_ok by auto
next
  case (Encryptor x e)
  then show ?thesis using assms by (auto intro: Encryptor_ok)
next
  case (SendTransformer x f)
  then show ?thesis using assms by (auto intro: SendTransformer_ok)
next
  case (SetRecvParameters_to p)
  then show ?thesis using assms(3) receiver_calls_ok(1) [OF assms(2)] by auto
next
  case (Decryptor x d)
  then show ?thesis using assms(3) receiver_calls_ok(2) [OF assms(2)] by auto
next
  case (ReceiveTransformer x f)
  then show ?thesis using assms(3) receiver_calls_ok(3) [OF assms(2)] by auto
next
  case (Sink x s)
  then show ?thesis using assms(3) receiver_calls_ok(4) [OF assms(2)] by auto
next
  case (DefaultSink s)
  then show ?thesis using assms(3) receiver_calls_ok(5) [OF assms(2)] by auto
next
  case (PlayoutDelay x n)
  then show ?thesis using assms(3) receiver_calls_ok(6) [OF assms(2)] by auto
next
  case (Unsignalled x)
  then show ?thesis using assms(3) receiver_calls_ok(7) [OF assms(2)] by auto
next
  case DemuxerPending
  then show ?thesis using assms(3) receiver_calls_ok(8) [OF assms(2)] by auto
qed (use assms(3) receiver_calls_ok(9-11) [OF assms(2)] in auto)

lemma new_channel_ok: "channel_ok L (new_VideoChannel L config opts crypto impls formats)"
  by (simp add: channel_ok_def new_VideoChannel_def senders_ok_def ssrcs_ok_def report_ok_def quiet_def
      sender_at_def Let_def)

lemma channel_reaches_ok:
  assumes "channel_reaches L C0 C" "channel_ok L C0" "channel_lib_ok L"
  shows "channel_ok L C"
  using assms by (induction rule: channel_reaches.induct) (auto intro: channel_step_ok)

end
