(* ===== verification/ChannelNegotiation.thy ===== *)
theory ChannelNegotiation
  imports ChannelSenders
begin

text \<open>
  What the calls on a channel (engine/webrtc_video_engine.cpp) achieve: the senders stay in tune with
  the channel, a sender that is added and removed leaves no trace, parameters are taken as a whole
  or not at all and taking them again changes nothing, and the fallback walks down the list of codecs.
\<close>

section \<open>Reachable channels\<close>

lemma smap_del_put: "map_of m k = None \<Longrightarrow> smap_del k (smap_put k v m) = m"
proof (induction m)
  case (Cons b m)
  then have "map_of m k = None" "fst b \<noteq> k" by (cases b; auto split: if_splits)+
  moreover have "smap_del k m = m"
    using \<open>map_of m k = None\<close> unfolding smap_del_def by (induction m) (auto split: if_splits)
  ultimately show ?case using Cons.IH by (auto simp: smap_del_def)
qed (simp add: smap_del_def)

lemma added_streams: "vc_send_streams (added sp x t C) = smap_put x t (vc_send_streams C)"
  by (simp add: added_def)

text \<open>C10: Whatever calls a channel has received, its senders are in tune with it. Each sender is found under
  its first SSRC; its codec, header extensions, RTCP mode, mid and conference mode are the channel's;
  the set of used SSRCs is the union of those of the senders, which are disjoint; and the SSRC of the
  receiver reports is one of the senders', or 1 when there is none.\<close>

theorem channel_senders_in_tune:
  assumes "channel_lib_ok L" "channel_reaches L (new_VideoChannel L config opts crypto impls formats) C"
  shows "senders_ok L C \<and> ssrcs_ok C \<and> report_ok C"
  using channel_reaches_ok [OF assms(2) new_channel_ok assms(1)] by (simp add: channel_ok_def)

text \<open>C24: A channel neither sends nor receives, since the source creates no stream. Whatever calls it has
  received, it has no receiver, so a sink finds none; it counts as sending only while it has no
  sender; once it has a sender and a codec, telling it to send ends the program; and so does a packet,
  as the worker thread is the null pointer.\<close>

theorem channel_never_sends_or_receives:
  assumes "channel_lib_ok L" "channel_reaches L (new_VideoChannel L config opts crypto impls formats) C"
  shows "vc_receive_streams C = [] \<and> vc_SetSink x (Some s) C = (False, C) \<and> FindReceiveStream x C = None
    \<and> (vc_sending C \<longrightarrow> vc_send_streams C = [])
    \<and> (vc_send_streams C \<noteq> [] \<and> vc_send_codec C \<noteq> None \<longrightarrow> vc_SetSend True C = None)
    \<and> vc_OnPacketReceived C = None"
proof -
  have o: "channel_ok L C" using channel_reaches_ok [OF assms(2) new_channel_ok assms(1)] .
  have q: "vc_receive_streams C = []" and s: "vc_sending C \<longrightarrow> vc_send_streams C = []"
    using o by (auto simp: channel_ok_def quiet_def sender_at_def dom_map_of_conv_image_fst)
  have k: "smap_ok (vc_send_streams C)" using o by (simp add: channel_ok_def senders_ok_def)
  have "\<forall>t \<in> snd ` set (vc_send_streams C). ss_stream t = None"
    using sender_null [OF o] k by (auto simp: smap_in_set_iff)
  from each_SetSend_null [OF this, of True]
  have "vc_send_streams C \<noteq> [] \<and> vc_send_codec C \<noteq> None \<longrightarrow> vc_SetSend True C = None"
    by (simp add: vc_SetSend_def)
  then show ?thesis using q s quiet_receivers [OF q] receiver_calls_ok(9) [OF o] by simp
qed

text \<open>C12: Adding a sender and removing it again leaves the channel as it was: the senders, the used SSRCs and
  the SSRC of the receiver reports are all restored.\<close>

theorem sender_added_and_removed:
  assumes "channel_lib_ok L" "channel_reaches L (new_VideoChannel L config opts crypto impls formats) C"
    "AddSendStream L sp C = Some (True, C')"
  shows "C' \<noteq> C \<and> RemoveSendStream (hd (stream_ssrcs sp)) C' = (True, C)"
proof -
  let ?x = "hd (stream_ssrcs sp)" and ?m = "vc_send_streams C"
  have o: "channel_ok L C" using channel_reaches_ok [OF assms(2) new_channel_ok assms(1)] .
  obtain t where t: "stream_ssrcs sp \<noteq> []" "set (stream_ssrcs sp) \<inter> vc_send_ssrcs C = {}"
    "sender_ok (sender_lib L) sp t" "C' = added sp ?x t C"
    using AddSendStream_cases [OF o assms(1,3)] by auto
  have x1: "?x \<in> set (stream_ssrcs sp)" using t(1) by (rule hd_in_set)
  then have x: "?x \<notin> vc_send_ssrcs C" using t(2) by blast
  have free: "map_of ?m ?x = None"
  proof (rule ccontr)
    assume "map_of ?m ?x \<noteq> None"
    then obtain u where "sender_at C ?x = Some u" by (auto simp: sender_at_def)
    then have "ss_ssrcs u \<noteq> []" "hd (ss_ssrcs u) = ?x" "set (ss_ssrcs u) \<subseteq> vc_send_ssrcs C"
      using o unfolding channel_ok_def senders_ok_def ssrcs_ok_def by blast+
    then show False using x by (metis hd_in_set subsetD)
  qed
  have del: "smap_del ?x (smap_put ?x t ?m) = ?m" using free by (rule smap_del_put)
  have rec: "vc_receive_streams C' = []" using o by (simp add: t(4) added_def channel_ok_def quiet_def)
  have report: "(case ?m of [] \<Rightarrow> kDefaultRtcpReceiverReportSsrc | (k, _) # _ \<Rightarrow> k) = kDefaultRtcpReceiverReportSsrc"
    if d: "vc_report_ssrc C = kDefaultRtcpReceiverReportSsrc"
  proof (cases ?m)
    case (Cons b bs)
    obtain k v where b: "b = (k, v)" by (cases b)
    have m: "smap_ok ((k, v) # bs)" "sender_at C = map_of ((k, v) # bs)"
      using o Cons b by (simp_all add: channel_ok_def senders_ok_def sender_at_def)
    have "dom (sender_at C) \<noteq> {}" using m(2) by auto
    then have "kDefaultRtcpReceiverReportSsrc \<in> dom (sender_at C)"
      "\<forall>y \<in> dom (sender_at C). kDefaultRtcpReceiverReportSsrc \<le> y"
      using o d by (simp_all add: channel_ok_def report_ok_def)
    moreover have "k \<in> dom (sender_at C)" using m(2) by simp
    ultimately have "k \<le> kDefaultRtcpReceiverReportSsrc" "kDefaultRtcpReceiverReportSsrc \<le> k"
      using smap_hd_least [OF m(1)] m(2) by auto
    then show ?thesis using Cons b by simp
  qed simp
  have other: "vc_report_ssrc C \<noteq> ?x" if "vc_report_ssrc C \<noteq> kDefaultRtcpReceiverReportSsrc"
    using that o free by (auto simp: channel_ok_def report_ok_def sender_at_def split: if_splits)
  have "RemoveSendStream ?x C' = (True, removed ?x t C')"
    using RemoveSendStream_quiet [OF rec] by (simp add: t(4) added_def)
  moreover have "removed ?x t C' = C"
  proof -
    have r1: "(vc_send_ssrcs C \<union> set (stream_ssrcs sp)) - set (ss_ssrcs t) = vc_send_ssrcs C"
      using t(2) sender_ok_ssrcs [OF t(3)] by auto
    have r2: "vc_report_ssrc (removed ?x t C') = vc_report_ssrc C"
    proof (cases "vc_report_ssrc C = kDefaultRtcpReceiverReportSsrc")
      case True
      then show ?thesis using report [OF True] del by (simp add: t(4) removed_def added_def)
    next
      case False
      then show ?thesis using other by (simp add: t(4) removed_def added_def)
    qed
    show ?thesis
      by (rule VideoChannel.equality; (rule r2)?) (simp_all add: t(4) removed_def added_def r1 del)
  qed
  moreover have "C' \<noteq> C"
  proof
    assume "C' = C"
    then have "vc_send_streams (added sp ?x t C) = ?m" using t(4) by simp
    then have "map_of ?m ?x = Some t" by (metis (no_types) added_streams map_of_smap_put fun_upd_same)
    then show False using free by simp
  qed
  ultimately show ?thesis by simp
qed

section \<open>Parameters\<close>

lemma ApplyChangedParams_result:
  assumes "ApplyChangedParams L ch C = Some C'"
  shows "\<exists>f b ss. C' = each_receiver f ((take_changes ch C)\<lparr>vc_bitrates := b, vc_send_streams := ss\<rparr>)"
proof -
  have id: "each_receiver (\<lambda>r. r) D = D" for D :: "('a, 'b) VideoChannel"
    by (simp add: each_receiver_def)
  obtain b ss where "(if ch_send_codec ch \<noteq> None \<or> ch_rtcp_mode ch \<noteq> None
      then feedback_to_receivers L ((take_changes ch C)\<lparr>vc_bitrates := b, vc_send_streams := ss\<rparr>)
      else Some ((take_changes ch C)\<lparr>vc_bitrates := b, vc_send_streams := ss\<rparr>)) = Some C'"
    using assms by (auto simp: ApplyChangedParams_def Let_def bind_eq_Some_conv)
  then have "\<exists>f. C' = each_receiver f ((take_changes ch C)\<lparr>vc_bitrates := b, vc_send_streams := ss\<rparr>)"
    using id [symmetric] by (auto simp: feedback_to_receivers_def Let_def split: if_splits)
  then show ?thesis by blast
qed

lemma each_receiver_simps [simp]:
  "vc_send_params (each_receiver f C) = vc_send_params C" "vc_negotiated (each_receiver f C) = vc_negotiated C"
  "vc_send_extensions (each_receiver f C) = vc_send_extensions C"
  "vc_extmap_allow_mixed (each_receiver f C) = vc_extmap_allow_mixed C"
  "vc_send_codec (each_receiver f C) = vc_send_codec C"
  "vc_encoder_implementations (each_receiver f C) = vc_encoder_implementations C"
  "vc_send_streams (each_receiver f C) = vc_send_streams C" "vc_bitrates (each_receiver f C) = vc_bitrates C"
  by (simp_all add: each_receiver_def)

lemma take_changes_implementations [simp]:
  "vc_encoder_implementations (take_changes ch C) = vc_encoder_implementations C"
  by (simp add: take_changes_def when_some_def split: option.split)

lemma take_no_change [simp]: "take_changes no_change C = C"
  by (simp add: take_changes_def no_change_def when_some_def)

lemma ss_SetSendParameters_none: "ss_SetSendParameters B no_change t = Some t"
  by (simp add: ss_SetSendParameters_def no_change_def apply_changed_def when_some_def recreate_needed_def Let_def
      split: option.split)

lemma each_sender_none: "each_sender (ss_SetSendParameters B no_change) m = Some m"
  by (induction m) (auto simp: ss_SetSendParameters_none)

lemma ApplyChangedParams_none: "ApplyChangedParams L no_change C = Some C"
  by (simp add: ApplyChangedParams_def each_sender_none new_bitrates_def) (simp add: no_change_def)

lemma negotiate_same:
  "vc_encoder_implementations C' = vc_encoder_implementations C \<Longrightarrow> negotiate L cs C' = negotiate L cs C"
  by (simp add: negotiate_def)

text \<open>The extensions a list of offered ones comes down to.\<close>

definition offered_extensions :: "('f, 'c) channel_lib \<Rightarrow> RtpExtension list \<Rightarrow> RtpExtension list" where
  "offered_extensions L es = FilterRtpExtensions (uris L) (sort_extensions L) es (IsSupportedForVideo L) True"

text \<open>C11: New parameters for sending are taken as a whole or not at all. They are refused exactly when a
  codec is malformed or none is a video codec, an extension has a number out of range or used twice,
  or a stream is to be active although no codec is left after the negotiation; then nothing changes.
  Otherwise the channel has the new parameters, the codecs of the negotiation and the filtered
  extensions; it sends with the first of the codecs when they have changed and are not empty; and
  to set the same parameters again changes nothing.\<close>

theorem send_parameters_settled:
  assumes "vc_SetSendParameters L p C = Some (r, C')"
  shows "(r \<longleftrightarrow> ValidateCodecFormats (codec_lib L) (sp_codecs p) \<and> extensions_ok L (sp_extensions p)
        \<and> (sp_is_stream_active p \<longrightarrow> negotiate L (sp_codecs p) C \<noteq> []))
    \<and> (\<not> r \<longrightarrow> C' = C)
    \<and> (r \<longrightarrow> vc_send_params C' = p \<and> vc_negotiated C' = negotiate L (sp_codecs p) C
        \<and> vc_send_extensions C' = Some (offered_extensions L (sp_extensions p))
        \<and> vc_extmap_allow_mixed C' = sp_extmap_allow_mixed p
        \<and> vc_send_codec C' = (if vc_negotiated C = negotiate L (sp_codecs p) C \<or> negotiate L (sp_codecs p) C = []
             then vc_send_codec C else Some (hd (negotiate L (sp_codecs p) C)))
        \<and> vc_SetSendParameters L p C' = Some (True, C'))"
proof (cases "GetChangedSendParameters L p C")
  case None
  then have "\<not> r" "C' = C" using assms by (auto simp: vc_SetSendParameters_def)
  then show ?thesis using None by (auto simp: GetChangedSendParameters_def split: if_split_asm)
next
  case (Some ch)
  have v: "ch = send_changes L p C" "ValidateCodecFormats (codec_lib L) (sp_codecs p)"
    "extensions_ok L (sp_extensions p)" "sp_is_stream_active p \<longrightarrow> negotiate L (sp_codecs p) C \<noteq> []"
    using Some by (auto simp: GetChangedSendParameters_def split: if_split_asm)
  have r: "r" "ApplyChangedParams L ch (C\<lparr>vc_send_params := p\<rparr>) = Some C'"
    using assms Some by (auto simp: vc_SetSendParameters_def)
  obtain f b ss where C': "C' = each_receiver f
      ((take_changes ch (C\<lparr>vc_send_params := p\<rparr>))\<lparr>vc_bitrates := b, vc_send_streams := ss\<rparr>)"
    using ApplyChangedParams_result [OF r(2)] by blast
  let ?n = "negotiate L (sp_codecs p) C"
  have n: "negotiate L (sp_codecs p) C' = ?n" by (rule negotiate_same) (simp add: C')
  have f: "vc_send_params C' = p" "vc_negotiated C' = ?n"
    "vc_send_extensions C' = Some (offered_extensions L (sp_extensions p))"
    "vc_extmap_allow_mixed C' = sp_extmap_allow_mixed p"
    "vc_send_codec C' = (if vc_negotiated C = ?n \<or> ?n = [] then vc_send_codec C else Some (hd ?n))"
    by (simp_all add: C' v(1) send_changes_def changed_def offered_extensions_def Let_def split: list.split)
  have "send_changes L p C' = no_change"
    using f n by (simp add: send_changes_def changed_def no_change_def offered_extensions_def Let_def)
  then have "GetChangedSendParameters L p C' = Some no_change"
    using v n by (simp add: GetChangedSendParameters_def)
  moreover have "C'\<lparr>vc_send_params := vc_send_params C'\<rparr> = C'" by simp
  then have "C'\<lparr>vc_send_params := p\<rparr> = C'" unfolding f(1) .
  ultimately have "vc_SetSendParameters L p C' = Some (True, C')"
    by (simp add: vc_SetSendParameters_def ApplyChangedParams_none)
  then show ?thesis using f v r(1) by simp
qed


section \<open>Fallback\<close>

fun fallbacks :: "('f, 'c) channel_lib \<Rightarrow> nat \<Rightarrow> ('f, 'c) VideoChannel \<Rightarrow> ('f, 'c) VideoChannel option" where
  "fallbacks L 0 C = Some C"
| "fallbacks L (Suc n) C = Option.bind (RequestEncoderFallback L C) (fallbacks L n)"

lemma RequestEncoderFallback_result:
  assumes "RequestEncoderFallback L C = Some C'"
  shows "vc_negotiated C' = (if length (vc_negotiated C) > 1 then tl (vc_negotiated C) else vc_negotiated C)
    \<and> (if length (vc_negotiated C) > 1 then vc_send_codec C' = Some (hd (tl (vc_negotiated C))) else C' = C)"
proof (cases "length (vc_negotiated C) > 1")
  case True
  then obtain a s ss where n: "vc_negotiated C = a # s # ss"
    by (cases "vc_negotiated C" rule: remdups_adj.cases) auto
  have "ApplyChangedParams L (no_change\<lparr>ch_negotiated_codecs := Some (s # ss), ch_send_codec := Some s\<rparr>) C = Some C'"
    using assms n by (simp add: RequestEncoderFallback_def)
  from ApplyChangedParams_result [OF this] obtain f b st where "C' = each_receiver f
      ((take_changes (no_change\<lparr>ch_negotiated_codecs := Some (s # ss), ch_send_codec := Some s\<rparr>) C)
         \<lparr>vc_bitrates := b, vc_send_streams := st\<rparr>)"
    by blast
  then show ?thesis by (simp add: n)
next
  case False
  then have "vc_negotiated C = [] \<or> (\<exists>a. vc_negotiated C = [a])"
    by (cases "vc_negotiated C" rule: remdups_adj.cases) auto
  then show ?thesis using assms by (auto simp: RequestEncoderFallback_def)
qed

lemma fallbacks_result:
  assumes "fallbacks L n C = Some C'"
  shows "vc_negotiated C' = drop (min n (length (vc_negotiated C) - 1)) (vc_negotiated C)
    \<and> (0 < n \<and> 1 < length (vc_negotiated C) \<longrightarrow> vc_send_codec C' = Some (hd (vc_negotiated C')))"
  using assms
proof (induction n arbitrary: C)
  case 0
  then show ?case by simp
next
  case (Suc n)
  then obtain D where D: "RequestEncoderFallback L C = Some D" "fallbacks L n D = Some C'"
    by (auto simp: bind_eq_Some_conv)
  note d = RequestEncoderFallback_result [OF D(1)] and IH = Suc.IH [OF D(2)]
  show ?case
  proof (cases "length (vc_negotiated C) > 1")
    case False
    then have "D = C" using d by simp
    then show ?thesis using IH False by simp
  next
    case True
    then obtain a s ss where n: "vc_negotiated C = a # s # ss" "vc_negotiated D = s # ss" "vc_send_codec D = Some s"
      using d by (cases "vc_negotiated C" rule: remdups_adj.cases) auto
    have neg: "vc_negotiated C' = drop (min n (length ss)) (s # ss)" using IH n(2) by simp
    then have "vc_negotiated C' = drop (min (Suc n) (length (vc_negotiated C) - 1)) (vc_negotiated C)"
      using n(1) by (simp add: min_def)
    moreover have "vc_send_codec C' = Some (hd (vc_negotiated C'))"
    proof (cases "0 < n \<and> 1 < length (vc_negotiated D)")
      case False
      then have "C' = D" using D(2) n(2)
      proof (cases n)
        case (Suc k)
        then have e: "ss = []" using False n(2) by simp
        have "RequestEncoderFallback L D = Some D" using n(2) e by (simp add: RequestEncoderFallback_def)
        then have "fallbacks L j D = Some D" for j by (induction j) auto
        then show ?thesis using D(2) by simp
      qed simp
      then show ?thesis using n by simp
    qed (use IH in blast)
    ultimately show ?thesis by simp
  qed
qed

lemma fallback_returns:
  assumes "vc_send_streams C = []" "vc_receive_streams C = []"
    "\<forall>s \<in> set (vc_negotiated C). codec_bitrates L (vcs_codec s) \<noteq> None"
  shows "\<exists>C'. RequestEncoderFallback L C = Some C' \<and> vc_send_streams C' = [] \<and> vc_receive_streams C' = []"
proof (cases "vc_negotiated C" rule: remdups_adj.cases)
  case (3 a s ss)
  then have "codec_bitrates L (vcs_codec s) \<noteq> None" using assms(3) by simp
  then show ?thesis using assms(1,2) 3
    by (auto simp: RequestEncoderFallback_def ApplyChangedParams_def new_bitrates_def feedback_to_receivers_def Let_def)
qed (use assms in \<open>auto simp: RequestEncoderFallback_def\<close>)

lemma fallbacks_return:
  assumes "vc_send_streams C = []" "vc_receive_streams C = []"
    "\<forall>s \<in> set (vc_negotiated C). codec_bitrates L (vcs_codec s) \<noteq> None"
  shows "fallbacks L n C \<noteq> None"
  using assms
proof (induction n arbitrary: C)
  case 0
  then show ?case by simp
next
  case (Suc n)
  obtain D where D: "RequestEncoderFallback L C = Some D" "vc_send_streams D = []" "vc_receive_streams D = []"
    using fallback_returns [OF Suc.prems] by blast
  have "set (vc_negotiated D) \<subseteq> set (vc_negotiated C)"
    using RequestEncoderFallback_result [OF D(1)] by (cases "vc_negotiated C") (auto split: if_splits)
  then show ?case using Suc.IH [OF D(2,3)] Suc.prems(3) D(1) by auto
qed

text \<open>C19: The fallback ends. Every request drops the first codec of the negotiation while there are two and
  sends with the next one, so after n requests the first n codecs are gone but never the last, the
  channel sends with the first that is left, and from the last one on a request changes nothing.
  Without senders, and when the bitrates of the codecs fit an int, every request returns.\<close>

theorem fallback_ends:
  shows "(fallbacks L n C = Some C' \<longrightarrow>
      vc_negotiated C' = drop (min n (length (vc_negotiated C) - 1)) (vc_negotiated C)
      \<and> (0 < n \<and> 1 < length (vc_negotiated C) \<longrightarrow> vc_send_codec C' = Some (hd (vc_negotiated C')))
      \<and> (length (vc_negotiated C) - 1 \<le> n \<longrightarrow> RequestEncoderFallback L C' = Some C'))
    \<and> (vc_send_streams C = [] \<and> vc_receive_streams C = []
        \<and> (\<forall>s \<in> set (vc_negotiated C). codec_bitrates L (vcs_codec s) \<noteq> None) \<longrightarrow> fallbacks L n C \<noteq> None)"
proof (intro conjI impI)
  assume f: "fallbacks L n C = Some C'"
  note r = fallbacks_result [OF f]
  show "vc_negotiated C' = drop (min n (length (vc_negotiated C) - 1)) (vc_negotiated C)" using r by blast
  show "vc_send_codec C' = Some (hd (vc_negotiated C'))" if "0 < n \<and> 1 < length (vc_negotiated C)" using r that by blast
  show "RequestEncoderFallback L C' = Some C'" if "length (vc_negotiated C) - 1 \<le> n"
  proof -
    have "length (vc_negotiated C') \<le> 1" using r that by simp
    then show ?thesis by (cases "vc_negotiated C'" rule: remdups_adj.cases) (auto simp: RequestEncoderFallback_def)
  qed
qed (use fallbacks_return in blast)

text \<open>After a switch to the second codec, a fallback keeps that codec and drops the first one.\<close>

lemma fallback_after_switch:
  assumes "vc_negotiated C = a # s # ss" "vc_send_codec C = Some s" "RequestEncoderFallback L C = Some C'"
  shows "vc_send_codec C' = Some s \<and> vc_negotiated C' = s # ss"
  using RequestEncoderFallback_result [OF assms(3)] assms(1) by simp

section \<open>Extensions of the engine\<close>

text \<open>The engine numbers its header extensions from 1 to 15 without a gap, so that a description which
  offers all of them passes the validation wherever these numbers are allowed; only the last four can
  be stopped, each by its field trial.\<close>

theorem engine_extensions_valid:
  fixes const trials :: "string \<Rightarrow> string"
  defines "es \<equiv> GetRtpHeaderExtensions const trials"
  assumes "0 \<le> lo" "lo \<le> 1" "15 \<le> hi"
  shows "ValidateRtpExtensions lo hi (List.map (\<lambda>(u, i, d). \<lparr>uri = u, ext_id = i, ext_encrypt = False\<rparr>) es)
    \<and> List.map (\<lambda>(u, i, d). i) es = [1..15]
    \<and> (\<forall>(u, i, d) \<in> set es. d \<noteq> kSendRecv \<longrightarrow> d = kStopped \<and> i \<ge> 12)"
proof -
  let ?f = "\<lambda>(u, i, d). \<lparr>uri = u, ext_id = i, ext_encrypt = False\<rparr>"
  have n: "List.map (\<lambda>(u, i, d). i) es = [1..15]"
    by (simp add: es_def GetRtpHeaderExtensions_def upto_rec1)
  have s: "\<forall>(u, i, d) \<in> set es. d \<noteq> kSendRecv \<longrightarrow> d = kStopped \<and> i \<ge> 12"
    by (simp add: es_def GetRtpHeaderExtensions_def trial_direction_def upto_rec1)
  have ids: "List.map ext_id (List.map ?f es) = [1..15]"
    unfolding n [symmetric] by (simp add: comp_def case_prod_beta)
  have range: "1 \<le> ext_id e \<and> ext_id e \<le> 15" if e: "e \<in> set (List.map ?f es)" for e
  proof -
    have "ext_id e \<in> set (List.map ext_id (List.map ?f es))"
      unfolding set_map [of ext_id] using e by (rule imageI)
    then have "ext_id e \<in> {1..15}" by (simp only: ids set_upto)
    then show ?thesis by simp
  qed
  have "\<not> replicate (nat (1 + hi)) False ! nat (ext_id e)" if "e \<in> set (List.map ?f es)" for e
    using range [OF that] assms(4) by (simp add: nat_less_iff)
  then have "ValidateRtpExtensions lo hi (List.map ?f es)"
    unfolding ValidateRtpExtensions_def
    using validate_from_iff [of "replicate (nat (1 + hi)) False" hi lo "List.map ?f es"] assms(2-4) range ids
    by fastforce
  then show ?thesis using n s by blast
qed

section \<open>An instance\<close>

definition demo_channel_lib :: "(string, nat) channel_lib" where
  "demo_channel_lib =
     \<lparr>codec_lib = demo_codec_lib, sender_lib = demo_sender, uris = demo_uris, sort_extensions = (\<lambda>es. es),
      IsSupportedForVideo = (\<lambda>_. True), kMinId = 1, kMaxId = 14, sort_settings = (\<lambda>ss. ss),
      FindMatchingCodec = (\<lambda>cs c. list_ex (\<lambda>d. codec_name d = codec_name c) cs),
      min_bitrate_of = (\<lambda>_. None), start_bitrate_of = (\<lambda>_. None), max_bitrate_of = (\<lambda>_. None),
      ToCodecParameters = (\<lambda>c. nat (codec_id c)),
      default_bitrates = \<lparr>bc_min_bitrate_bps = 0, bc_start_bitrate_bps = 300000, bc_max_bitrate_bps = -1\<rparr>,
      default_send_config = demo_send_config,
      default_send_params = demo_send_params\<lparr>sp_reduced_size := False, sp_mid := ''''\<rparr>,
      default_recv_params = \<lparr>rp_codecs = [], rp_extensions = [], rp_is_stream_active = True\<rparr>\<rparr>"

definition demo_video_config :: VideoConfig where
  "demo_video_config = \<lparr>suspend_below_min_bitrate = False, periodic_alr_bandwidth_probing = False,
     experiment_cpu_load_estimator = False, rtcp_report_interval_ms = 1000, enable_cpu_adaptation = True\<rparr>"

definition demo_channel :: "(string, nat) VideoChannel" where
  "demo_channel = new_VideoChannel demo_channel_lib demo_video_config demo_options 0
     (Some [''H264'', ''AV1'']) (Some [''H264''])"

definition demo_channel_params :: VideoSendParameters where
  "demo_channel_params = demo_send_params\<lparr>sp_codecs := [demo_codec 96 ''H264'' [], demo_codec 98 ''AV1'' []]\<rparr>"

lemma demo_channel_lib_ok: "channel_lib_ok demo_channel_lib"
  by (simp add: channel_lib_ok_def demo_channel_lib_def demo_sender_def demo_streams_def demo_encoding_def
      valid_encoding_def dbl_le_def neq_Nil_conv split: list.split)

lemma demo_calls_return:
  "case vc_SetSendParameters demo_channel_lib demo_channel_params demo_channel of
     Some (True, C) \<Rightarrow> length (vc_negotiated C) = 2
       \<and> (case AddSendStream demo_channel_lib demo_stream_params C of
            Some (True, D) \<Rightarrow> length (vc_send_streams D) = 1 \<and> vc_send_codec D \<noteq> None | _ \<Rightarrow> False)
   | _ \<Rightarrow> False"
  by code_simp

lemma demo_run:
  obtains C D where "vc_SetSendParameters demo_channel_lib demo_channel_params demo_channel = Some (True, C)"
    "AddSendStream demo_channel_lib demo_stream_params C = Some (True, D)"
    "length (vc_send_streams D) = 1" "vc_send_codec D \<noteq> None" "length (vc_negotiated C) = 2"
    "channel_reaches demo_channel_lib demo_channel C" "channel_reaches demo_channel_lib demo_channel D"
proof -
  obtain C D where c: "vc_SetSendParameters demo_channel_lib demo_channel_params demo_channel = Some (True, C)"
    "AddSendStream demo_channel_lib demo_stream_params C = Some (True, D)"
    "length (vc_send_streams D) = 1" "vc_send_codec D \<noteq> None" "length (vc_negotiated C) = 2"
    using demo_calls_return by (auto split: option.splits prod.splits bool.splits)
  have "channel_reaches demo_channel_lib demo_channel C"
    by (rule channel_reaches.step [OF channel_reaches.start, of _ "SetSendParameters_to demo_channel_params"])
      (simp add: c(1))
  moreover have "channel_reaches demo_channel_lib demo_channel D"
    by (rule channel_reaches.step [OF \<open>channel_reaches demo_channel_lib demo_channel C\<close>,
          of "AddStream demo_stream_params"]) (simp add: c(2))
  ultimately show ?thesis using that c by blast
qed

theorem channel_senders_in_tune_witness:
  "\<exists>C. vc_send_streams C \<noteq> [] \<and> senders_ok demo_channel_lib C \<and> ssrcs_ok C \<and> report_ok C"
proof -
  obtain C D where d: "length (vc_send_streams D) = 1" "channel_reaches demo_channel_lib demo_channel D"
    using demo_run by metis
  then show ?thesis
    using channel_senders_in_tune [OF demo_channel_lib_ok d(2) [unfolded demo_channel_def]]
    by (intro exI [of _ D]) auto
qed

theorem channel_never_sends_or_receives_witness:
  "\<exists>C. vc_send_streams C \<noteq> [] \<and> \<not> vc_sending C
     \<and> vc_SetSend True (C :: (string, nat) VideoChannel) = None \<and> vc_OnPacketReceived C = None"
proof -
  obtain C D where d: "length (vc_send_streams D) = 1" "channel_reaches demo_channel_lib demo_channel D"
    "vc_send_codec D \<noteq> None"
    using demo_run by metis
  then have "vc_send_streams D \<noteq> []" by auto
  then show ?thesis
    using channel_never_sends_or_receives [OF demo_channel_lib_ok d(2) [unfolded demo_channel_def]] d(3)
    by (intro exI [of _ D]) blast
qed

theorem sender_added_and_removed_witness:
  "\<exists>C D. AddSendStream demo_channel_lib demo_stream_params C = Some (True, D) \<and> D \<noteq> C
     \<and> RemoveSendStream 10 D = (True, C)"
proof -
  obtain C D where d: "AddSendStream demo_channel_lib demo_stream_params C = Some (True, D)"
    "channel_reaches demo_channel_lib demo_channel C"
    using demo_run by metis
  have "hd (stream_ssrcs demo_stream_params) = 10" by (simp add: demo_stream_params_def)
  then show ?thesis
    using sender_added_and_removed [OF demo_channel_lib_ok d(2) [unfolded demo_channel_def] d(1)] d(1)
    by (intro exI [of _ C] exI [of _ D]) simp
qed

theorem send_parameters_settled_witness:
  "\<exists>C. vc_SetSendParameters demo_channel_lib demo_channel_params demo_channel = Some (True, C)
     \<and> vc_send_params C = demo_channel_params
     \<and> vc_SetSendParameters demo_channel_lib demo_channel_params C = Some (True, C)"
proof -
  obtain C where c: "vc_SetSendParameters demo_channel_lib demo_channel_params demo_channel = Some (True, C)"
    using demo_run by metis
  then show ?thesis using send_parameters_settled [OF c] by blast
qed

definition demo_recv_params :: VideoRecvParameters where
  "demo_recv_params = \<lparr>rp_codecs = [demo_codec 96 ''H264'' []], rp_extensions = [], rp_is_stream_active = True\<rparr>"


theorem fallback_ends_witness:
  "\<exists>C C'. length (vc_negotiated C) = 2 \<and> fallbacks demo_channel_lib 5 C = Some C'
     \<and> vc_negotiated C' = drop 1 (vc_negotiated C) \<and> RequestEncoderFallback demo_channel_lib C' = Some C'"
proof -
  obtain C where c: "vc_SetSendParameters demo_channel_lib demo_channel_params demo_channel = Some (True, C)"
    "length (vc_negotiated C) = 2"
    using demo_run by metis
  have s: "case vc_SetSendParameters demo_channel_lib demo_channel_params demo_channel of
      Some (_, C) \<Rightarrow> length (vc_send_streams C) = 0 \<and> length (vc_receive_streams C) = 0 | None \<Rightarrow> False"
    by code_simp
  have "\<forall>s \<in> set (vc_negotiated C). codec_bitrates demo_channel_lib (vcs_codec s) \<noteq> None"
    by (simp add: codec_bitrates_def demo_channel_lib_def GetBitrateConfigForCodec_def bitrate_param_def)
  moreover have "vc_send_streams C = [] \<and> vc_receive_streams C = []" using s c(1) by simp
  ultimately have "fallbacks demo_channel_lib 5 C \<noteq> None" using fallback_ends [of demo_channel_lib 5 C] by blast
  then obtain C' where f: "fallbacks demo_channel_lib 5 C = Some C'" by blast
  then show ?thesis using fallback_ends [of demo_channel_lib 5 C C'] c(2)
    by (intro exI [of _ C] exI [of _ C']) simp
qed

theorem engine_extensions_valid_witness:
  "ValidateRtpExtensions 1 255 (List.map (\<lambda>(u, i, d). \<lparr>uri = u, ext_id = i, ext_encrypt = False\<rparr>)
     (GetRtpHeaderExtensions (\<lambda>n. n) (\<lambda>_. ''Enabled'')))"
  using engine_extensions_valid [of 1 255] by simp

end
