(* ===== verification/StatsRecords.thy ===== *)
theory StatsRecords
  imports MediaEngine SessionDescription
begin

text \<open>
  The records of the statistics of a sender (video_send_stream.h, and those of
  libmedia_transfer_protocol that engine/webrtc_video_engine.cpp fills).
\<close>

section \<open>Data\<close>

datatype StreamType = StreamMedia | StreamRtx | StreamFlexfec

record ('r, 'b) StreamStats =
  st_type :: StreamType
  st_referenced_media_ssrc :: "ssrc option"
  st_rtp_stats :: 'r
  st_key_frames :: int
  st_width :: int
  st_height :: int
  st_total_bitrate_bps :: int
  st_retransmit_bitrate_bps :: int
  st_total_packet_send_delay_ms :: int
  st_fir_packets :: int
  st_nack_packets :: int
  st_pli_packets :: int
  st_report_block_data :: "'b option"
  st_encode_frame_rate :: dbl
  st_frames_encoded :: int
  st_qp_sum :: "int option"
  st_total_encode_time_ms :: int
  st_total_encoded_bytes_target :: int
  st_huge_frames_sent :: int

record ('r, 'b) Stats =
  encoder_implementation_name :: string
  input_frame_rate :: int
  encode_frame_rate :: int
  avg_encode_time_ms :: int
  encode_usage_percent :: int
  frames_encoded :: int
  total_encode_time_ms :: int
  total_encoded_bytes_target :: int
  frames :: int
  target_media_bitrate_bps :: int
  media_bitrate_bps :: int
  bw_limited_resolution :: bool
  cpu_limited_resolution :: bool
  quality_limitation_reason :: nat
  quality_limitation_durations_ms :: "(nat, int) smap"
  quality_limitation_resolution_changes :: int
  number_of_cpu_adapt_changes :: int
  has_entered_low_resolution :: bool
  substreams :: "(ssrc, ('r, 'b) StreamStats) smap"
  content_type :: nat
  huge_frames_sent :: int

text \<open>A record of values is in two parts: what all streams of a sender share, and the rest.\<close>

record CommonInfo =
  ci_codec_name :: string
  ci_codec_payload_type :: "int option"
  ci_adapt_changes :: int
  ci_adapt_cpu :: bool
  ci_adapt_bandwidth :: bool
  ci_has_entered_low_resolution :: bool
  ci_quality_limitation_reason :: nat
  ci_quality_limitation_durations_ms :: "(nat, int) smap"
  ci_quality_limitation_resolution_changes :: int
  ci_encoder_implementation_name :: string
  ci_ssrc_groups :: "SsrcGroup list"
  ci_frames :: int
  ci_framerate_input :: int
  ci_avg_encode_ms :: int
  ci_encode_usage_percent :: int
  ci_nominal_bitrate :: int
  ci_content_type :: nat
  ci_aggregated_framerate_sent :: dbl
  ci_aggregated_huge_frames_sent :: int

record ('l, 'b) VideoSenderInfo =
  si_common :: CommonInfo
  si_local_stats :: 'l
  si_rid :: "string option"
  si_payload_bytes_sent :: int
  si_header_and_padding_bytes_sent :: int
  si_packets_sent :: int
  si_total_packet_send_delay_ms :: int
  si_send_frame_width :: int
  si_send_frame_height :: int
  si_key_frames_encoded :: int
  si_framerate_sent :: dbl
  si_frames_encoded :: int
  si_frames_sent :: int
  si_retransmitted_bytes_sent :: int
  si_retransmitted_packets_sent :: int
  si_firs_rcvd :: int
  si_nacks_rcvd :: int
  si_plis_rcvd :: int
  si_packets_lost :: int
  si_fraction_lost :: rat
  si_report_block_datas :: "'b list"
  si_qp_sum :: "int option"
  si_total_encode_time_ms :: int
  si_total_encoded_bytes_target :: int
  si_huge_frames_sent :: int

record BandwidthEstimationInfo =
  transmit_bitrate :: int
  retransmit_bitrate :: int
  target_enc_bitrate :: int
  actual_enc_bitrate :: int

section \<open>Names\<close>

fun StreamTypeToString :: "StreamType \<Rightarrow> string" where
  "StreamTypeToString StreamMedia = ''media''"
| "StreamTypeToString StreamRtx = ''rtx''"
| "StreamTypeToString StreamFlexfec = ''flexfec''"

lemma StreamTypeToString_eq [simp]: "StreamTypeToString a = StreamTypeToString b \<longleftrightarrow> a = b"
  by (cases a; cases b) simp_all

end
