(* ===== verification/SendStats.thy ===== *)
theory SendStats
  imports VideoChannel StatsRecords
begin

text \<open>
  The statistics of the senders (engine/webrtc_video_engine.cpp): the streams of a sender are merged
  into its media streams, each media stream gives one record of values, and these are added up.

  The counters of an RTP stream, the report blocks and the list of SSRCs of a record belong to
  libmedia_transfer_protocol: they are the record \<open>stats_lib\<close>. Counters are unbounded numbers here.
  \<open>None\<close> is an optional value that is read but not there, or a failed \<open>RTC_CHECK\<close>.
\<close>

section \<open>Library\<close>

record ('r, 'b, 'l) stats_lib =
  AddCounters :: "'r \<Rightarrow> 'r \<Rightarrow> 'r"
  transmitted_payload_bytes :: "'r \<Rightarrow> int"
  transmitted_header_bytes :: "'r \<Rightarrow> int"
  transmitted_padding_bytes :: "'r \<Rightarrow> int"
  transmitted_packets :: "'r \<Rightarrow> int"
  retransmitted_payload_bytes :: "'r \<Rightarrow> int"
  retransmitted_packets :: "'r \<Rightarrow> int"
  report_packets_lost :: "'b \<Rightarrow> int"
  report_fraction_lost :: "'b \<Rightarrow> int"
  add_ssrc :: "ssrc \<Rightarrow> 'l \<Rightarrow> 'l"
  cleared_local_stats :: 'l
  default_stream_stats :: "('r, 'b) StreamStats"
  default_common_info :: CommonInfo
  default_sender_info :: "('l, 'b) VideoSenderInfo"
  GetStats :: "StreamCall list \<Rightarrow> ('r, 'b) Stats"

section \<open>Merging\<close>

text \<open>An RTX or FlexFEC stream is added to the media stream it refers to, if that one is known.\<close>

definition add_associated ::
    "('r, 'b, 'l) stats_lib \<Rightarrow> (ssrc, ('r, 'b) StreamStats) smap \<Rightarrow> ('r, 'b) StreamStats
     \<Rightarrow> (ssrc, ('r, 'b) StreamStats) smap \<Rightarrow> (ssrc, ('r, 'b) StreamStats) smap option" where
  "add_associated L subs s acc =
     (if st_type s = StreamMedia then Some acc
      else case st_referenced_media_ssrc s of
        None \<Rightarrow> None
      | Some m \<Rightarrow>
          if map_of subs m = None then Some acc
          else (let t = (case map_of acc m of None \<Rightarrow> default_stream_stats L | Some t \<Rightarrow> t)
                in Some (smap_put m (t\<lparr>st_rtp_stats := AddCounters L (st_rtp_stats t) (st_rtp_stats s)\<rparr>) acc)))"

fun add_all_associated ::
    "('r, 'b, 'l) stats_lib \<Rightarrow> (ssrc, ('r, 'b) StreamStats) smap \<Rightarrow> (ssrc, ('r, 'b) StreamStats) smap
     \<Rightarrow> (ssrc, ('r, 'b) StreamStats) smap \<Rightarrow> (ssrc, ('r, 'b) StreamStats) smap option" where
  "add_all_associated L subs [] acc = Some acc"
| "add_all_associated L subs ((x, s) # ss) acc =
     Option.bind (add_associated L subs s acc) (add_all_associated L subs ss)"

definition MergeInfoAboutOutboundRtpSubstreams ::
    "('r, 'b, 'l) stats_lib \<Rightarrow> (ssrc, ('r, 'b) StreamStats) smap \<Rightarrow> (ssrc, ('r, 'b) StreamStats) smap option" where
  "MergeInfoAboutOutboundRtpSubstreams L subs =
     add_all_associated L subs subs (filter (\<lambda>(_, s). st_type s = StreamMedia) subs)"

section \<open>The records of a sender\<close>

definition add_ssrcs :: "('r, 'b, 'l) stats_lib \<Rightarrow> ssrc list \<Rightarrow> 'l \<Rightarrow> 'l" where
  "add_ssrcs L xs l = foldl (\<lambda>acc x. add_ssrc L x acc) l xs"

definition codec_info :: "('r, 'b, 'l) stats_lib \<Rightarrow> 'c WebRtcVideoSendStream \<Rightarrow> CommonInfo" where
  "codec_info L t =
     (case ss_codec_settings t of
        None \<Rightarrow> default_common_info L
      | Some s \<Rightarrow> (default_common_info L)\<lparr>ci_codec_name := codec_name (vcs_codec s),
          ci_codec_payload_type := Some (codec_id (vcs_codec s))\<rparr>)"

definition common_info ::
    "('r, 'b, 'l) stats_lib \<Rightarrow> 'c WebRtcVideoSendStream \<Rightarrow> ('r, 'b) Stats \<Rightarrow> CommonInfo" where
  "common_info L t st =
     (codec_info L t)
       \<lparr>ci_adapt_changes := number_of_cpu_adapt_changes st,
        ci_adapt_cpu := cpu_limited_resolution st, ci_adapt_bandwidth := bw_limited_resolution st,
        ci_has_entered_low_resolution := has_entered_low_resolution st,
        ci_quality_limitation_reason := quality_limitation_reason st,
        ci_quality_limitation_durations_ms := quality_limitation_durations_ms st,
        ci_quality_limitation_resolution_changes := quality_limitation_resolution_changes st,
        ci_encoder_implementation_name := encoder_implementation_name st,
        ci_ssrc_groups := ss_ssrc_groups t, ci_frames := frames st, ci_framerate_input := input_frame_rate st,
        ci_avg_encode_ms := avg_encode_time_ms st, ci_encode_usage_percent := encode_usage_percent st,
        ci_nominal_bitrate := media_bitrate_bps st, ci_content_type := content_type st,
        ci_aggregated_framerate_sent := Fin (of_int (encode_frame_rate st)),
        ci_aggregated_huge_frames_sent := huge_frames_sent st\<rparr>"

definition with_report ::
    "('r, 'b, 'l) stats_lib \<Rightarrow> 'b option \<Rightarrow> ('l, 'b) VideoSenderInfo \<Rightarrow> ('l, 'b) VideoSenderInfo" where
  "with_report L b i =
     (case b of
        None \<Rightarrow> i
      | Some d \<Rightarrow> i\<lparr>si_packets_lost := report_packets_lost L d,
          si_fraction_lost := of_int (report_fraction_lost L d) / 256,
          si_report_block_datas := si_report_block_datas i @ [d]\<rparr>)"

definition layer_info ::
    "('r, 'b, 'l) stats_lib \<Rightarrow> string option \<Rightarrow> ssrc \<Rightarrow> ('r, 'b) StreamStats \<Rightarrow> ('l, 'b) VideoSenderInfo
     \<Rightarrow> ('l, 'b) VideoSenderInfo" where
  "layer_info L r x s i =
     (let c = st_rtp_stats s in
      (with_report L (st_report_block_data s) i)
       \<lparr>si_local_stats := add_ssrc L x (si_local_stats i), si_rid := r,
        si_payload_bytes_sent := transmitted_payload_bytes L c,
        si_header_and_padding_bytes_sent := transmitted_header_bytes L c + transmitted_padding_bytes L c,
        si_packets_sent := transmitted_packets L c,
        si_total_packet_send_delay_ms := si_total_packet_send_delay_ms i + st_total_packet_send_delay_ms s,
        si_send_frame_width := st_width s, si_send_frame_height := st_height s,
        si_key_frames_encoded := st_key_frames s, si_framerate_sent := st_encode_frame_rate s,
        si_frames_encoded := st_frames_encoded s, si_frames_sent := st_frames_encoded s,
        si_retransmitted_bytes_sent := retransmitted_payload_bytes L c,
        si_retransmitted_packets_sent := retransmitted_packets L c,
        si_firs_rcvd := st_fir_packets s, si_nacks_rcvd := st_nack_packets s, si_plis_rcvd := st_pli_packets s,
        si_qp_sum := st_qp_sum s, si_total_encode_time_ms := st_total_encode_time_ms s,
        si_total_encoded_bytes_target := st_total_encoded_bytes_target s,
        si_huge_frames_sent := st_huge_frames_sent s\<rparr>)"

text \<open>Without a stream, or without substreams, there is one record for all SSRCs of the sender.\<close>

definition GetPerLayerVideoSenderInfos ::
    "('r, 'b, 'l) stats_lib \<Rightarrow> 'c WebRtcVideoSendStream \<Rightarrow> ('l, 'b) VideoSenderInfo list option" where
  "GetPerLayerVideoSenderInfos L t =
     (let r = cfg_rtp (ss_config t);
          one = (\<lambda>i. i\<lparr>si_local_stats := add_ssrcs L (rc_ssrcs r) (si_local_stats i)\<rparr>) in
      case ss_stream t of
        None \<Rightarrow> Some [one ((default_sender_info L)\<lparr>si_common := codec_info L t\<rparr>)]
      | Some calls \<Rightarrow>
          (let st = GetStats L calls; i = (default_sender_info L)\<lparr>si_common := common_info L t st\<rparr> in
           if substreams st = []
           then Some [(one i)\<lparr>si_framerate_sent := Fin (of_int (encode_frame_rate st)),
             si_frames_encoded := frames_encoded st, si_total_encode_time_ms := total_encode_time_ms st,
             si_total_encoded_bytes_target := total_encoded_bytes_target st,
             si_frames_sent := frames_encoded st, si_huge_frames_sent := huge_frames_sent st\<rparr>]
           else map_option (List.map (\<lambda>(x, s). layer_info L (GetRidForSsrc r x) x s i))
                  (MergeInfoAboutOutboundRtpSubstreams L (substreams st))))"

definition plus_opt :: "int option \<Rightarrow> int option \<Rightarrow> int option" where
  "plus_opt a b = (case b of None \<Rightarrow> a | Some n \<Rightarrow> Some ((case a of None \<Rightarrow> 0 | Some m \<Rightarrow> m) + n))"

definition plus_info ::
    "('l, 'b) VideoSenderInfo \<Rightarrow> ('l, 'b) VideoSenderInfo \<Rightarrow> ('l, 'b) VideoSenderInfo" where
  "plus_info a i =
     a\<lparr>si_key_frames_encoded := si_key_frames_encoded a + si_key_frames_encoded i,
       si_payload_bytes_sent := si_payload_bytes_sent a + si_payload_bytes_sent i,
       si_header_and_padding_bytes_sent := si_header_and_padding_bytes_sent a + si_header_and_padding_bytes_sent i,
       si_packets_sent := si_packets_sent a + si_packets_sent i,
       si_total_packet_send_delay_ms := si_total_packet_send_delay_ms a + si_total_packet_send_delay_ms i,
       si_retransmitted_bytes_sent := si_retransmitted_bytes_sent a + si_retransmitted_bytes_sent i,
       si_retransmitted_packets_sent := si_retransmitted_packets_sent a + si_retransmitted_packets_sent i,
       si_packets_lost := si_packets_lost a + si_packets_lost i,
       si_send_frame_width := (if si_send_frame_width i > si_send_frame_width a
         then si_send_frame_width i else si_send_frame_width a),
       si_send_frame_height := (if si_send_frame_height i > si_send_frame_height a
         then si_send_frame_height i else si_send_frame_height a),
       si_firs_rcvd := si_firs_rcvd a + si_firs_rcvd i, si_nacks_rcvd := si_nacks_rcvd a + si_nacks_rcvd i,
       si_plis_rcvd := si_plis_rcvd a + si_plis_rcvd i,
       si_report_block_datas := si_report_block_datas a @ take 1 (si_report_block_datas i),
       si_qp_sum := plus_opt (si_qp_sum a) (si_qp_sum i),
       si_frames_encoded := si_frames_encoded a + si_frames_encoded i,
       si_frames_sent := si_frames_sent a + si_frames_sent i,
       si_total_encode_time_ms := si_total_encode_time_ms a + si_total_encode_time_ms i,
       si_total_encoded_bytes_target := si_total_encoded_bytes_target a + si_total_encoded_bytes_target i\<rparr>"

definition GetAggregatedVideoSenderInfo ::
    "('r, 'b, 'l) stats_lib \<Rightarrow> 'c WebRtcVideoSendStream \<Rightarrow> ('l, 'b) VideoSenderInfo list
     \<Rightarrow> ('l, 'b) VideoSenderInfo option" where
  "GetAggregatedVideoSenderInfo L t infos =
     (case infos of
        [] \<Rightarrow> None
      | [i] \<Rightarrow> Some i
      | i # is \<Rightarrow> Some (foldl plus_info
          (i\<lparr>si_local_stats := add_ssrcs L (rc_ssrcs (cfg_rtp (ss_config t))) (cleared_local_stats L),
             si_framerate_sent := ci_aggregated_framerate_sent (si_common i),
             si_huge_frames_sent := ci_aggregated_huge_frames_sent (si_common i)\<rparr>) is))"

section \<open>The channel\<close>

definition ss_FillBitrateInfo ::
    "('r, 'b, 'l) stats_lib \<Rightarrow> 'c WebRtcVideoSendStream \<Rightarrow> BandwidthEstimationInfo \<Rightarrow> BandwidthEstimationInfo" where
  "ss_FillBitrateInfo L t b =
     (case ss_stream t of
        None \<Rightarrow> b
      | Some calls \<Rightarrow>
          (let st = GetStats L calls;
               b1 = foldl (\<lambda>acc (_, s). acc\<lparr>transmit_bitrate := transmit_bitrate acc + st_total_bitrate_bps s,
                 retransmit_bitrate := retransmit_bitrate acc + st_retransmit_bitrate_bps s\<rparr>) b (substreams st)
           in b1\<lparr>target_enc_bitrate := target_enc_bitrate b1 + target_media_bitrate_bps st,
                 actual_enc_bitrate := actual_enc_bitrate b1 + media_bitrate_bps st\<rparr>))"

definition FillBitrateInfo ::
    "('r, 'b, 'l) stats_lib \<Rightarrow> ('f, 'c) VideoChannel \<Rightarrow> BandwidthEstimationInfo \<Rightarrow> BandwidthEstimationInfo" where
  "FillBitrateInfo L C b = foldl (\<lambda>acc (_, t). ss_FillBitrateInfo L t acc) b (vc_send_streams C)"

record ('l, 'b, 'c) VideoMediaInfo =
  vm_senders :: "('l, 'b) VideoSenderInfo list"
  vm_aggregated_senders :: "('l, 'b) VideoSenderInfo list"
  vm_receivers :: "(SsrcGroup list \<times> int) list"
  vm_send_codecs :: "(int, 'c) smap"
  vm_receive_codecs :: "(int, 'c) smap"

fun fill_senders ::
    "('r, 'b, 'l) stats_lib \<Rightarrow> 'c WebRtcVideoSendStream list \<Rightarrow> ('l, 'b, 'd) VideoMediaInfo
     \<Rightarrow> ('l, 'b, 'd) VideoMediaInfo option" where
  "fill_senders L [] info = Some info"
| "fill_senders L (t # ts) info =
     Option.bind (GetPerLayerVideoSenderInfos L t) (\<lambda>infos.
       if infos = [] then fill_senders L ts info
       else Option.bind (GetAggregatedVideoSenderInfo L t infos) (\<lambda>a.
         fill_senders L ts (info\<lparr>vm_aggregated_senders := vm_aggregated_senders info @ [a],
           vm_senders := vm_senders info @ infos\<rparr>)))"

definition FillSenderStats ::
    "('r, 'b, 'l) stats_lib \<Rightarrow> ('f, 'c) VideoChannel \<Rightarrow> ('l, 'b, 'd) VideoMediaInfo
     \<Rightarrow> ('l, 'b, 'd) VideoMediaInfo option" where
  "FillSenderStats L C info = fill_senders L (List.map snd (vc_send_streams C)) info"

definition FillReceiverStats ::
    "('f, 'c) VideoChannel \<Rightarrow> ('l, 'b, 'd) VideoMediaInfo \<Rightarrow> ('l, 'b, 'd) VideoMediaInfo" where
  "FillReceiverStats C info =
     info\<lparr>vm_receivers := vm_receivers info @ List.map (\<lambda>(_, r). rs_GetVideoReceiverInfo r) (vc_receive_streams C)\<rparr>"

text \<open>The payload type of a codec's parameters is the number of the codec; the first one stays.\<close>

definition insert_codecs :: "('f, 'c) channel_lib \<Rightarrow> Codec list \<Rightarrow> (int, 'c) smap \<Rightarrow> (int, 'c) smap" where
  "insert_codecs L cs m =
     foldl (\<lambda>acc c. if map_of acc (codec_id c) = None then smap_put (codec_id c) (ToCodecParameters L c) acc else acc) m cs"

definition FillSendAndReceiveCodecStats ::
    "('f, 'c) channel_lib \<Rightarrow> ('f, 'c) VideoChannel \<Rightarrow> ('l, 'b, 'c) VideoMediaInfo \<Rightarrow> ('l, 'b, 'c) VideoMediaInfo" where
  "FillSendAndReceiveCodecStats L C info =
     info\<lparr>vm_send_codecs := insert_codecs L (sp_codecs (vc_send_params C)) (vm_send_codecs info),
          vm_receive_codecs := insert_codecs L (rp_codecs (vc_recv_params C)) (vm_receive_codecs info)\<rparr>"

definition vc_GetStats ::
    "('r, 'b, 'l) stats_lib \<Rightarrow> ('f, 'c) channel_lib \<Rightarrow> ('f, 'c) VideoChannel
     \<Rightarrow> ('l, 'b, 'c) VideoMediaInfo option" where
  "vc_GetStats S L C =
     map_option (\<lambda>info. FillSendAndReceiveCodecStats L C (FillReceiverStats C info))
       (FillSenderStats S C \<lparr>vm_senders = [], vm_aggregated_senders = [], vm_receivers = [],
          vm_send_codecs = [], vm_receive_codecs = []\<rparr>)"

section \<open>What the merge gives\<close>

text \<open>The counters of a media stream and of the streams that refer to it, in the order of the SSRCs.\<close>

definition associated_stats :: "(ssrc, ('r, 'b) StreamStats) smap \<Rightarrow> ssrc \<Rightarrow> 'r list" where
  "associated_stats subs x = List.map (\<lambda>(_, s). st_rtp_stats s)
     (filter (\<lambda>(_, s). st_type s \<noteq> StreamMedia \<and> st_referenced_media_ssrc s = Some x) subs)"

text \<open>Every associated stream names a stream, which is media or not known.\<close>

definition references_ok :: "(ssrc, ('r, 'b) StreamStats) smap \<Rightarrow> bool" where
  "references_ok subs \<longleftrightarrow> smap_ok subs
     \<and> (\<forall>(x, s) \<in> set subs. st_type s \<noteq> StreamMedia \<longrightarrow>
          (\<exists>m. st_referenced_media_ssrc s = Some m
             \<and> (case map_of subs m of None \<Rightarrow> True | Some t \<Rightarrow> st_type t = StreamMedia)))"

lemma map_of_filter_ok:
  "smap_ok m \<Longrightarrow> map_of (filter (\<lambda>(_, v). P v) m) k =
     (case map_of m k of None \<Rightarrow> None | Some v \<Rightarrow> if P v then Some v else None)"
  by (induction m) (fastforce simp: smap_ok_Cons split: option.split dest: map_of_SomeD)+

lemma add_all_associated_result:
  assumes "\<forall>(x, s) \<in> set ss. st_type s \<noteq> StreamMedia \<longrightarrow> (\<exists>m. st_referenced_media_ssrc s = Some m
      \<and> (map_of subs m = None \<longleftrightarrow> map_of acc m = None))"
    "smap_ok acc"
  shows "\<exists>r. add_all_associated L subs ss acc = Some r \<and> smap_ok r
    \<and> (\<forall>k. map_of r k = map_option (\<lambda>t. t\<lparr>st_rtp_stats :=
           foldl (AddCounters L) (st_rtp_stats t) (associated_stats ss k)\<rparr>) (map_of acc k))"
  using assms
proof (induction ss arbitrary: acc)
  case Nil
  then show ?case by (simp add: associated_stats_def option.map_ident)
next
  case (Cons b ss)
  obtain x s where b: "b = (x, s)" by (cases b)
  show ?case
  proof (cases "st_type s = StreamMedia")
    case True
    have "associated_stats (b # ss) k = associated_stats ss k" for k
      using True by (simp add: b associated_stats_def)
    then show ?thesis using Cons.IH [of acc] Cons.prems True by (simp add: b add_associated_def)
  next
    case False
    then obtain m where m: "st_referenced_media_ssrc s = Some m" "map_of subs m = None \<longleftrightarrow> map_of acc m = None"
      using Cons.prems(1) b by auto
    have a: "associated_stats (b # ss) k = (if k = m then [st_rtp_stats s] else []) @ associated_stats ss k" for k
      using False m(1) by (simp add: b associated_stats_def)
    show ?thesis
    proof (cases "map_of acc m")
      case None

      have "map_option (\<lambda>t. t\<lparr>st_rtp_stats := foldl (AddCounters L) (st_rtp_stats t) (associated_stats (b # ss) k)\<rparr>) (map_of acc k)
          = map_option (\<lambda>t. t\<lparr>st_rtp_stats := foldl (AddCounters L) (st_rtp_stats t) (associated_stats ss k)\<rparr>) (map_of acc k)" for k
        using a [of k] None by (cases "k = m") auto
      then show ?thesis using Cons.IH [of acc] Cons.prems False m None
        by (simp add: b add_associated_def)
    next
      case (Some t)
      let ?acc = "smap_put m (t\<lparr>st_rtp_stats := AddCounters L (st_rtp_stats t) (st_rtp_stats s)\<rparr>) acc"
      have p: "\<forall>(x, s) \<in> set ss. st_type s \<noteq> StreamMedia \<longrightarrow> (\<exists>m. st_referenced_media_ssrc s = Some m
          \<and> (map_of subs m = None \<longleftrightarrow> map_of ?acc m = None))"
        using Cons.prems(1) Some m(2) by fastforce
      obtain r where r: "add_all_associated L subs ss ?acc = Some r" "smap_ok r"
        "\<forall>k. map_of r k = map_option (\<lambda>t. t\<lparr>st_rtp_stats :=
           foldl (AddCounters L) (st_rtp_stats t) (associated_stats ss k)\<rparr>) (map_of ?acc k)"
        using Cons.IH [OF p] Cons.prems(2) by auto
      have "add_all_associated L subs (b # ss) acc = Some r"
        using r(1) False m Some by (auto simp: b add_associated_def)
      moreover have "map_of r k = map_option (\<lambda>t. t\<lparr>st_rtp_stats :=
           foldl (AddCounters L) (st_rtp_stats t) (associated_stats (b # ss) k)\<rparr>) (map_of acc k)" for k
        using r(3) a [of k] Some by simp
      ultimately show ?thesis using r(2) by blast
    qed
  qed
qed

text \<open>C23: When every RTX and FlexFEC stream refers to a media stream or to an unknown one, the merge has
  exactly the media streams, each unchanged but for its counters, to which those of the streams that
  refer to it are added in the order of their SSRCs; streams that refer to an unknown one are left out.\<close>

theorem merged_stats:
  assumes "references_ok subs"
  shows "\<exists>r. MergeInfoAboutOutboundRtpSubstreams L subs = Some r \<and> smap_ok r
    \<and> (\<forall>x. map_of r x = (case map_of subs x of
         Some t \<Rightarrow> if st_type t = StreamMedia
           then Some (t\<lparr>st_rtp_stats := foldl (AddCounters L) (st_rtp_stats t) (associated_stats subs x)\<rparr>) else None
       | None \<Rightarrow> None))"
proof -
  let ?acc = "filter (\<lambda>(_, s). st_type s = StreamMedia) subs"
  have k: "smap_ok subs" using assms by (simp add: references_ok_def)
  have at: "map_of ?acc x = (case map_of subs x of None \<Rightarrow> None | Some v \<Rightarrow> if st_type v = StreamMedia then Some v else None)"
    for x by (rule map_of_filter_ok [OF k])
  have "\<forall>(x, s) \<in> set subs. st_type s \<noteq> StreamMedia \<longrightarrow> (\<exists>m. st_referenced_media_ssrc s = Some m
      \<and> (map_of subs m = None \<longleftrightarrow> map_of ?acc m = None))"
    using assms unfolding references_ok_def at by (fastforce split: option.splits)
  from add_all_associated_result [OF this, of L]
  show ?thesis using k by (auto simp: MergeInfoAboutOutboundRtpSubstreams_def at split: option.split)
qed

section \<open>What the sum gives\<close>

lemma foldl_additive:
  assumes "\<And>a i. f (plus_info a i) = f a + (g i :: int)"
  shows "f (foldl plus_info a infos) = f a + sum_list (List.map g infos)"
  by (induction infos arbitrary: a) (simp_all add: assms)

lemma foldl_largest:
  assumes "\<And>a i. f (plus_info a i) = (if g i > f a then g i else (f a :: int))"
  shows "f (foldl plus_info a infos) = Max (insert (f a) (g ` set infos))"
proof (induction infos arbitrary: a)
  case (Cons i ks)
  have "f (foldl plus_info a (i # ks)) = Max (insert (max (f a) (g i)) (g ` set ks))"
    using Cons [of "plus_info a i"] by (simp add: assms max_def)
  also have "\<dots> = Max (insert (f a) (insert (g i) (g ` set ks)))"
    by (cases "set ks = {}") (auto simp: Max_insert max.assoc)
  finally show ?case by simp
qed simp

definition somes :: "'a option list \<Rightarrow> 'a list" where
  "somes xs = concat (List.map (\<lambda>x. case x of None \<Rightarrow> [] | Some a \<Rightarrow> [a]) xs)"

lemma foldl_qp_sum:
  "si_qp_sum (foldl plus_info a infos) =
     (if somes (si_qp_sum a # List.map si_qp_sum infos) = [] then None
      else Some (sum_list (somes (si_qp_sum a # List.map si_qp_sum infos))))"
  by (induction infos arbitrary: a) (auto simp: somes_def plus_info_def plus_opt_def split: option.split)

definition layer_counters :: "(('l, 'b) VideoSenderInfo \<Rightarrow> int) list" where
  "layer_counters = [si_packets_sent, si_payload_bytes_sent, si_header_and_padding_bytes_sent,
     si_retransmitted_packets_sent, si_retransmitted_bytes_sent, si_packets_lost, si_key_frames_encoded,
     si_frames_encoded, si_frames_sent, si_firs_rcvd, si_nacks_rcvd, si_plis_rcvd,
     si_total_packet_send_delay_ms, si_total_encode_time_ms, si_total_encoded_bytes_target]"

lemma layer_counters_sum:
  assumes "f \<in> set layer_counters"
  shows "f (foldl plus_info a infos) = f a + sum_list (List.map f infos)"
proof -
  have "f (plus_info a i) = f a + f i" for a i
    using assms by (auto simp: layer_counters_def plus_info_def)
  then show ?thesis by (rule foldl_additive)
qed

lemma foldl_plus_info:
  "si_framerate_sent (foldl plus_info a infos) = si_framerate_sent a"
  "si_huge_frames_sent (foldl plus_info a infos) = si_huge_frames_sent a"
  "si_report_block_datas (foldl plus_info a infos) = si_report_block_datas a
     @ concat (List.map (\<lambda>i. take 1 (si_report_block_datas i)) infos)"
  "si_send_frame_width (foldl plus_info a infos) = Max (insert (si_send_frame_width a) (si_send_frame_width ` set infos))"
  "si_send_frame_height (foldl plus_info a infos) = Max (insert (si_send_frame_height a) (si_send_frame_height ` set infos))"
proof -
  show "si_framerate_sent (foldl plus_info a infos) = si_framerate_sent a"
    "si_huge_frames_sent (foldl plus_info a infos) = si_huge_frames_sent a"
    "si_report_block_datas (foldl plus_info a infos) = si_report_block_datas a
       @ concat (List.map (\<lambda>i. take 1 (si_report_block_datas i)) infos)"
    by (induction infos arbitrary: a) (simp_all add: plus_info_def)
  show "si_send_frame_width (foldl plus_info a infos) = Max (insert (si_send_frame_width a) (si_send_frame_width ` set infos))"
    "si_send_frame_height (foldl plus_info a infos) = Max (insert (si_send_frame_height a) (si_send_frame_height ` set infos))"
    by (rule foldl_largest, simp add: plus_info_def)+
qed


section \<open>The bitrates of the channel\<close>

lemma add_substreams:
  fixes ss :: "(ssrc \<times> ('r, 'b) StreamStats) list"
  defines "b' b \<equiv> foldl (\<lambda>acc (_, s). acc\<lparr>transmit_bitrate := transmit_bitrate acc + st_total_bitrate_bps s,
    retransmit_bitrate := retransmit_bitrate acc + st_retransmit_bitrate_bps s\<rparr>) b ss"
  shows "transmit_bitrate (b' b) = transmit_bitrate b + (\<Sum>(x, s) \<leftarrow> ss. st_total_bitrate_bps s)"
    and "retransmit_bitrate (b' b) = retransmit_bitrate b + (\<Sum>(x, s) \<leftarrow> ss. st_retransmit_bitrate_bps s)"
    and "target_enc_bitrate (b' b) = target_enc_bitrate b" "actual_enc_bitrate (b' b) = actual_enc_bitrate b"
  unfolding b'_def by (induction ss arbitrary: b) (auto simp: split_beta)

text \<open>Every sender with a stream adds the bitrates of its streams and of its encoder: sent, sent
  again, asked of the encoder, made by the encoder.\<close>

datatype bitrates = Bitrates int int int int

instantiation bitrates :: comm_monoid_add
begin

fun plus_bitrates :: "bitrates \<Rightarrow> bitrates \<Rightarrow> bitrates" where
  "plus_bitrates (Bitrates a b c d) (Bitrates e f g h) = Bitrates (a + e) (b + f) (c + g) (d + h)"

definition zero_bitrates :: bitrates where
  "zero_bitrates = Bitrates 0 0 0 0"

instance
proof
  fix a b c :: bitrates
  show "a + b + c = a + (b + c)" by (cases a; cases b; cases c) simp
  show "a + b = b + a" by (cases a; cases b) simp
  show "0 + a = a" by (cases a) (simp add: zero_bitrates_def)
qed

end

definition sender_bitrates :: "('r, 'b, 'l) stats_lib \<Rightarrow> 'c WebRtcVideoSendStream \<Rightarrow> bitrates" where
  "sender_bitrates L t =
     (case ss_stream t of
        None \<Rightarrow> 0
      | Some calls \<Rightarrow>
          (let st = GetStats L calls
           in Bitrates (\<Sum>(x, s) \<leftarrow> substreams st. st_total_bitrate_bps s)
                (\<Sum>(x, s) \<leftarrow> substreams st. st_retransmit_bitrate_bps s)
                (target_media_bitrate_bps st) (media_bitrate_bps st)))"

definition bitrates_of :: "BandwidthEstimationInfo \<Rightarrow> bitrates" where
  "bitrates_of b = Bitrates (transmit_bitrate b) (retransmit_bitrate b) (target_enc_bitrate b) (actual_enc_bitrate b)"

lemma ss_FillBitrateInfo_adds:
  "bitrates_of (ss_FillBitrateInfo L t b) = bitrates_of b + sender_bitrates L t"
  by (auto simp: ss_FillBitrateInfo_def bitrates_of_def sender_bitrates_def add_substreams Let_def
      zero_bitrates_def split: option.split)

lemma FillBitrateInfo_adds:
  fixes C :: "('f, 'c) VideoChannel"
  shows "bitrates_of (FillBitrateInfo L C b)
     = bitrates_of b + (\<Sum>(x, t) \<leftarrow> vc_send_streams C. sender_bitrates L t)"
proof -
  have "bitrates_of (foldl (\<lambda>acc (_, t). ss_FillBitrateInfo L t acc) b ts)
      = bitrates_of b + (\<Sum>(x, t) \<leftarrow> ts. sender_bitrates L t)"
    for ts :: "(ssrc \<times> 'c WebRtcVideoSendStream) list"
    by (induction ts arbitrary: b) (auto simp: ss_FillBitrateInfo_adds add.assoc)
  then show ?thesis by (simp add: FillBitrateInfo_def)
qed

text \<open>As long as no sender has a stream, the channel adds nothing.\<close>

lemma FillBitrateInfo_without_streams:
  fixes C :: "('f, 'c) VideoChannel"
  assumes "\<forall>(x, t) \<in> set (vc_send_streams C). ss_stream t = None"
  shows "bitrates_of (FillBitrateInfo L C b) = bitrates_of b"
proof -
  have "(\<Sum>(x, t) \<leftarrow> ts. sender_bitrates L t) = 0" if "\<forall>(x, t) \<in> set ts. ss_stream t = None"
    for ts :: "(ssrc \<times> 'c WebRtcVideoSendStream) list"
    using that by (induction ts) (auto simp: sender_bitrates_def)
  then show ?thesis using assms by (simp add: FillBitrateInfo_adds)
qed

section \<open>An instance\<close>

definition demo_stream_stats :: "StreamType \<Rightarrow> ssrc option \<Rightarrow> int \<Rightarrow> (int, nat) StreamStats" where
  "demo_stream_stats ty m n = \<lparr>st_type = ty, st_referenced_media_ssrc = m, st_rtp_stats = n, st_key_frames = 1,
     st_width = 640, st_height = 360, st_total_bitrate_bps = 0, st_retransmit_bitrate_bps = 0,
     st_total_packet_send_delay_ms = 0, st_fir_packets = 0, st_nack_packets = 0, st_pli_packets = 0,
     st_report_block_data = None, st_encode_frame_rate = Fin 30, st_frames_encoded = 30, st_qp_sum = None,
     st_total_encode_time_ms = 0, st_total_encoded_bytes_target = 0, st_huge_frames_sent = 0\<rparr>"

definition demo_common_info :: CommonInfo where
  "demo_common_info = \<lparr>ci_codec_name = '''', ci_codec_payload_type = None, ci_adapt_changes = 0,
     ci_adapt_cpu = False, ci_adapt_bandwidth = False, ci_has_entered_low_resolution = False,
     ci_quality_limitation_reason = 0, ci_quality_limitation_durations_ms = [],
     ci_quality_limitation_resolution_changes = 0, ci_encoder_implementation_name = '''', ci_ssrc_groups = [],
     ci_frames = 0, ci_framerate_input = 0, ci_avg_encode_ms = 0, ci_encode_usage_percent = 0,
     ci_nominal_bitrate = 0, ci_content_type = 0, ci_aggregated_framerate_sent = Fin 0,
     ci_aggregated_huge_frames_sent = 0\<rparr>"

definition demo_sender_info :: "(ssrc list, nat) VideoSenderInfo" where
  "demo_sender_info = \<lparr>si_common = demo_common_info, si_local_stats = [], si_rid = None,
     si_payload_bytes_sent = 0, si_header_and_padding_bytes_sent = 0, si_packets_sent = 0,
     si_total_packet_send_delay_ms = 0, si_send_frame_width = 0, si_send_frame_height = 0,
     si_key_frames_encoded = 0, si_framerate_sent = Fin 0, si_frames_encoded = 0, si_frames_sent = 0,
     si_retransmitted_bytes_sent = 0, si_retransmitted_packets_sent = 0, si_firs_rcvd = 0, si_nacks_rcvd = 0,
     si_plis_rcvd = 0, si_packets_lost = 0, si_fraction_lost = 0, si_report_block_datas = [], si_qp_sum = None,
     si_total_encode_time_ms = 0, si_total_encoded_bytes_target = 0, si_huge_frames_sent = 0\<rparr>"

definition demo_stats_lib :: "((ssrc, (int, nat) StreamStats) smap) \<Rightarrow> (int, nat, ssrc list) stats_lib" where
  "demo_stats_lib subs = \<lparr>AddCounters = (+), transmitted_payload_bytes = (\<lambda>n. n),
     transmitted_header_bytes = (\<lambda>_. 0), transmitted_padding_bytes = (\<lambda>_. 0), transmitted_packets = (\<lambda>n. n),
     retransmitted_payload_bytes = (\<lambda>_. 0), retransmitted_packets = (\<lambda>_. 0), report_packets_lost = int,
     report_fraction_lost = int, add_ssrc = (\<lambda>x l. l @ [x]), cleared_local_stats = [],
     default_stream_stats = demo_stream_stats StreamMedia None 0, default_common_info = demo_common_info,
     default_sender_info = demo_sender_info,
     GetStats = (\<lambda>_. \<lparr>encoder_implementation_name = '''', input_frame_rate = 0, encode_frame_rate = 30,
       avg_encode_time_ms = 0, encode_usage_percent = 0, frames_encoded = 0, total_encode_time_ms = 0,
       total_encoded_bytes_target = 0, frames = 0, target_media_bitrate_bps = 0, media_bitrate_bps = 0,
       bw_limited_resolution = False, cpu_limited_resolution = False, quality_limitation_reason = 0,
       quality_limitation_durations_ms = [], quality_limitation_resolution_changes = 0,
       number_of_cpu_adapt_changes = 0, has_entered_low_resolution = False, substreams = subs,
       content_type = 0, huge_frames_sent = 0\<rparr>)\<rparr>"

definition demo_substreams :: "(ssrc, (int, nat) StreamStats) smap" where
  "demo_substreams = [(10, demo_stream_stats StreamMedia None 100), (11, demo_stream_stats StreamRtx (Some 10) 5),
     (12, demo_stream_stats StreamFlexfec (Some 99) 7)]"

theorem merged_stats_witness:
  "\<exists>r. MergeInfoAboutOutboundRtpSubstreams (demo_stats_lib []) demo_substreams = Some r
     \<and> map_of r 10 = Some (demo_stream_stats StreamMedia None 105) \<and> map_of r 11 = None"
proof -
  have "references_ok demo_substreams"
    by (simp add: references_ok_def demo_substreams_def demo_stream_stats_def smap_ok_def)
  from merged_stats [OF this, of "demo_stats_lib []"]
  obtain r where r: "MergeInfoAboutOutboundRtpSubstreams (demo_stats_lib []) demo_substreams = Some r"
    "\<forall>x. map_of r x = (case map_of demo_substreams x of
         Some t \<Rightarrow> if st_type t = StreamMedia
           then Some (t\<lparr>st_rtp_stats := foldl (AddCounters (demo_stats_lib [])) (st_rtp_stats t)
             (associated_stats demo_substreams x)\<rparr>) else None
       | None \<Rightarrow> None)"
    by blast
  have "map_of demo_substreams 10 = Some (demo_stream_stats StreamMedia None 100)"
    "map_of demo_substreams 11 = Some (demo_stream_stats StreamRtx (Some 10) 5)"
    "associated_stats demo_substreams 10 = [5]"
    by (simp_all add: demo_substreams_def associated_stats_def demo_stream_stats_def)
  then have "map_of r 10 = Some (demo_stream_stats StreamMedia None 105)" "map_of r 11 = None"
    using r(2) by (simp_all add: demo_stream_stats_def demo_stats_lib_def)
  then show ?thesis using r(1) by blast
qed


end
