(* ===== verification/PeerConfig.thy ===== *)
theory PeerConfig
  imports Prelude
begin

text \<open>
  The configuration of a peer connection (peer_connection_interface.h,
  peer_connection_interface.cpp) and the state of a resource (resource.cpp): what is left of the
  public interface, whose methods are abstract and mostly commented out.

  The records of libmedia_transfer_protocol have the fields the accessors read; certificates,
  crypto options, adapter types, VPN preferences and the TURN customizer are references to objects
  of the libraries, and the defaults the libraries give are arguments.
\<close>

section \<open>Enumerations\<close>

datatype SdpSemantics = kPlanB | kUnifiedPlan

datatype SignalingState = kStable | kHaveLocalOffer | kHaveLocalPrAnswer | kHaveRemoteOffer
  | kHaveRemotePrAnswer | SignalingClosed

datatype IceGatheringState = kIceGatheringNew | kIceGatheringGathering | kIceGatheringComplete

datatype PeerConnectionState = PcNew | PcConnecting | PcConnected | PcDisconnected | PcFailed | PcClosed

datatype IceConnectionState = kIceConnectionNew | kIceConnectionChecking | kIceConnectionConnected
  | kIceConnectionCompleted | kIceConnectionFailed | kIceConnectionDisconnected
  | kIceConnectionClosed | kIceConnectionMax

datatype TlsCertPolicy = kTlsCertPolicySecure | kTlsCertPolicyInsecureNoCheck

datatype IceTransportsType = kNone | kRelay | kNoHost | kAll

datatype BundlePolicy = kBundlePolicyBalanced | kBundlePolicyMaxBundle | kBundlePolicyMaxCompat

datatype RtcpMuxPolicy = kRtcpMuxPolicyNegotiate | kRtcpMuxPolicyRequire

datatype TcpCandidatePolicy = kTcpCandidatePolicyEnabled | kTcpCandidatePolicyDisabled

datatype CandidateNetworkPolicy = kCandidateNetworkPolicyAll | kCandidateNetworkPolicyLowCost

datatype ContinualGatheringPolicy = GATHER_ONCE | GATHER_CONTINUALLY

datatype RTCConfigurationType = kSafe | kAggressive

datatype StatsOutputLevel = kStatsOutputLevelStandard | kStatsOutputLevelDebug

datatype ResourceUsageState = kOveruse | kUnderuse

fun ResourceUsageStateToString :: "ResourceUsageState \<Rightarrow> string" where
  "ResourceUsageStateToString kOveruse = ''kOveruse''"
| "ResourceUsageStateToString kUnderuse = ''kUnderuse''"

lemma ResourceUsageStateToString_eq [simp]:
  "ResourceUsageStateToString a = ResourceUsageStateToString b \<longleftrightarrow> a = b"
  by (cases a; cases b) simp_all

section \<open>ICE servers\<close>

record IceServer =
  is_uri :: string
  is_urls :: "string list"
  is_username :: string
  is_password :: string
  is_tls_cert_policy :: TlsCertPolicy
  is_hostname :: string
  is_tls_alpn_protocols :: "string list"
  is_tls_elliptic_curves :: "string list"

definition default_IceServer :: IceServer where
  "default_IceServer = \<lparr>is_uri = [], is_urls = [], is_username = [], is_password = [],
     is_tls_cert_policy = kTlsCertPolicySecure, is_hostname = [], is_tls_alpn_protocols = [],
     is_tls_elliptic_curves = []\<rparr>"

definition IceServer_eq :: "IceServer \<Rightarrow> IceServer \<Rightarrow> bool" where
  "IceServer_eq s o1 \<longleftrightarrow> is_uri s = is_uri o1 \<and> is_urls s = is_urls o1 \<and> is_username s = is_username o1
     \<and> is_password s = is_password o1 \<and> is_tls_cert_policy s = is_tls_cert_policy o1
     \<and> is_hostname s = is_hostname o1 \<and> is_tls_alpn_protocols s = is_tls_alpn_protocols o1
     \<and> is_tls_elliptic_curves s = is_tls_elliptic_curves o1"

definition IceServer_ne :: "IceServer \<Rightarrow> IceServer \<Rightarrow> bool" where
  "IceServer_ne s o1 \<longleftrightarrow> \<not> IceServer_eq s o1"

text \<open>The comparison leaves no field out.\<close>

lemma IceServer_eq_iff: "IceServer_eq s o1 \<longleftrightarrow> s = o1"
  unfolding IceServer_eq_def by auto

lemma IceServer_ne_iff: "IceServer_ne s o1 \<longleftrightarrow> s \<noteq> o1"
  by (simp add: IceServer_ne_def IceServer_eq_iff)

section \<open>The configuration\<close>

record VideoMediaConfig =
  vm_enable_cpu_adaptation :: bool
  vm_suspend_below_min_bitrate :: bool
  vm_enable_prerenderer_smoothing :: bool
  vm_experiment_cpu_load_estimator :: bool
  vm_rtcp_report_interval_ms :: int

record MediaConfig =
  mc_enable_dscp :: bool
  mc_video :: VideoMediaConfig
  mc_audio_rtcp_report_interval_ms :: int

record RTCConfiguration =
  conf_servers :: "IceServer list"
  conf_type :: IceTransportsType
  conf_bundle_policy :: BundlePolicy
  conf_rtcp_mux_policy :: RtcpMuxPolicy
  conf_certificates :: "nat list"
  conf_ice_candidate_pool_size :: int
  conf_disable_ipv6 :: bool
  conf_disable_ipv6_on_wifi :: bool
  conf_max_ipv6_networks :: int
  conf_disable_link_local_networks :: bool
  conf_screencast_min_bitrate :: "int option"
  conf_combined_audio_video_bwe :: "bool option"
  conf_enable_dtls_srtp :: "bool option"
  conf_tcp_candidate_policy :: TcpCandidatePolicy
  conf_candidate_network_policy :: CandidateNetworkPolicy
  conf_audio_jitter_buffer_max_packets :: int
  conf_audio_jitter_buffer_fast_accelerate :: bool
  conf_audio_jitter_buffer_min_delay_ms :: int
  conf_audio_jitter_buffer_enable_rtx_handling :: bool
  conf_ice_connection_receiving_timeout :: int
  conf_ice_backup_candidate_pair_ping_interval :: int
  conf_continual_gathering_policy :: ContinualGatheringPolicy
  conf_prioritize_most_likely_ice_candidate_pairs :: bool
  conf_media_config :: MediaConfig
  conf_prune_turn_ports :: bool
  conf_presume_writable_when_fully_relayed :: bool
  conf_enable_ice_renomination :: bool
  conf_redetermine_role_on_ice_restart :: bool
  conf_surface_ice_candidates :: bool
  conf_ice_check_interval_strong_connectivity :: "int option"
  conf_ice_check_interval_weak_connectivity :: "int option"
  conf_ice_check_min_interval :: "int option"
  conf_ice_unwritable_timeout :: "int option"
  conf_ice_unwritable_min_checks :: "int option"
  conf_ice_inactive_timeout :: "int option"
  conf_stun_candidate_keepalive_interval :: "int option"
  conf_turn_customizer :: "nat option"
  conf_network_preference :: "nat option"
  conf_sdp_semantics :: SdpSemantics
  conf_active_reset_srtp_params :: bool
  conf_crypto_options :: "nat option"
  conf_offer_extmap_allow_mixed :: bool
  conf_turn_logging_id :: string
  conf_enable_implicit_rollback :: bool
  conf_allow_codec_switching :: "bool option"
  conf_report_usage_pattern_delay_ms :: "int option"
  conf_stable_writable_ping_interval_ms :: "int option"
  conf_vpn_preference :: nat
  conf_vpn_list :: "nat list"

definition kUndefined :: int where
  "kUndefined = -1"

definition kAudioJitterBufferMaxPackets :: int where
  "kAudioJitterBufferMaxPackets = 200"

definition kAggressiveIceConnectionReceivingTimeout :: int where
  "kAggressiveIceConnectionReceivingTimeout = 1000"

definition default_RTCConfiguration :: "MediaConfig \<Rightarrow> int \<Rightarrow> nat \<Rightarrow> RTCConfiguration" where
  "default_RTCConfiguration media max_ipv6 vpn =
     \<lparr>conf_servers = [], conf_type = kAll, conf_bundle_policy = kBundlePolicyBalanced,
      conf_rtcp_mux_policy = kRtcpMuxPolicyRequire, conf_certificates = [],
      conf_ice_candidate_pool_size = 0, conf_disable_ipv6 = False, conf_disable_ipv6_on_wifi = False,
      conf_max_ipv6_networks = max_ipv6, conf_disable_link_local_networks = False,
      conf_screencast_min_bitrate = None, conf_combined_audio_video_bwe = None,
      conf_enable_dtls_srtp = None, conf_tcp_candidate_policy = kTcpCandidatePolicyEnabled,
      conf_candidate_network_policy = kCandidateNetworkPolicyAll,
      conf_audio_jitter_buffer_max_packets = kAudioJitterBufferMaxPackets,
      conf_audio_jitter_buffer_fast_accelerate = False, conf_audio_jitter_buffer_min_delay_ms = 0,
      conf_audio_jitter_buffer_enable_rtx_handling = False,
      conf_ice_connection_receiving_timeout = kUndefined,
      conf_ice_backup_candidate_pair_ping_interval = kUndefined,
      conf_continual_gathering_policy = GATHER_ONCE,
      conf_prioritize_most_likely_ice_candidate_pairs = False, conf_media_config = media,
      conf_prune_turn_ports = False, conf_presume_writable_when_fully_relayed = False,
      conf_enable_ice_renomination = False, conf_redetermine_role_on_ice_restart = True,
      conf_surface_ice_candidates = False, conf_ice_check_interval_strong_connectivity = None,
      conf_ice_check_interval_weak_connectivity = None, conf_ice_check_min_interval = None,
      conf_ice_unwritable_timeout = None, conf_ice_unwritable_min_checks = None,
      conf_ice_inactive_timeout = None, conf_stun_candidate_keepalive_interval = None,
      conf_turn_customizer = None, conf_network_preference = None, conf_sdp_semantics = kPlanB,
      conf_active_reset_srtp_params = False, conf_crypto_options = None,
      conf_offer_extmap_allow_mixed = True, conf_turn_logging_id = [],
      conf_enable_implicit_rollback = False, conf_allow_codec_switching = None,
      conf_report_usage_pattern_delay_ms = None, conf_stable_writable_ping_interval_ms = None,
      conf_vpn_preference = vpn, conf_vpn_list = []\<rparr>"

definition RTCConfiguration_of_type ::
    "MediaConfig \<Rightarrow> int \<Rightarrow> nat \<Rightarrow> RTCConfigurationType \<Rightarrow> RTCConfiguration" where
  "RTCConfiguration_of_type media max_ipv6 vpn ty =
     (let c = default_RTCConfiguration media max_ipv6 vpn
      in if ty = kAggressive
         then c\<lparr>conf_bundle_policy := kBundlePolicyMaxBundle,
                conf_rtcp_mux_policy := kRtcpMuxPolicyRequire,
                conf_ice_connection_receiving_timeout := kAggressiveIceConnectionReceivingTimeout,
                conf_enable_ice_renomination := True,
                conf_redetermine_role_on_ice_restart := False\<rparr>
         else c)"

section \<open>Its accessors\<close>

text \<open>The settings that applications reach through methods are parts of the media configuration.\<close>

definition set_media :: "(MediaConfig \<Rightarrow> MediaConfig) \<Rightarrow> RTCConfiguration \<Rightarrow> RTCConfiguration" where
  "set_media f c = c\<lparr>conf_media_config := f (conf_media_config c)\<rparr>"

definition set_video :: "(VideoMediaConfig \<Rightarrow> VideoMediaConfig) \<Rightarrow> RTCConfiguration \<Rightarrow> RTCConfiguration" where
  "set_video f = set_media (\<lambda>m. m\<lparr>mc_video := f (mc_video m)\<rparr>)"

definition conf_dscp :: "RTCConfiguration \<Rightarrow> bool" where
  "conf_dscp c = mc_enable_dscp (conf_media_config c)"

definition conf_set_dscp :: "bool \<Rightarrow> RTCConfiguration \<Rightarrow> RTCConfiguration" where
  "conf_set_dscp enable = set_media (\<lambda>m. m\<lparr>mc_enable_dscp := enable\<rparr>)"

definition conf_cpu_adaptation :: "RTCConfiguration \<Rightarrow> bool" where
  "conf_cpu_adaptation c = vm_enable_cpu_adaptation (mc_video (conf_media_config c))"

definition conf_set_cpu_adaptation :: "bool \<Rightarrow> RTCConfiguration \<Rightarrow> RTCConfiguration" where
  "conf_set_cpu_adaptation enable = set_video (\<lambda>v. v\<lparr>vm_enable_cpu_adaptation := enable\<rparr>)"

definition conf_suspend_below_min_bitrate :: "RTCConfiguration \<Rightarrow> bool" where
  "conf_suspend_below_min_bitrate c = vm_suspend_below_min_bitrate (mc_video (conf_media_config c))"

definition conf_set_suspend_below_min_bitrate :: "bool \<Rightarrow> RTCConfiguration \<Rightarrow> RTCConfiguration" where
  "conf_set_suspend_below_min_bitrate enable = set_video (\<lambda>v. v\<lparr>vm_suspend_below_min_bitrate := enable\<rparr>)"

definition conf_prerenderer_smoothing :: "RTCConfiguration \<Rightarrow> bool" where
  "conf_prerenderer_smoothing c = vm_enable_prerenderer_smoothing (mc_video (conf_media_config c))"

definition conf_set_prerenderer_smoothing :: "bool \<Rightarrow> RTCConfiguration \<Rightarrow> RTCConfiguration" where
  "conf_set_prerenderer_smoothing enable = set_video (\<lambda>v. v\<lparr>vm_enable_prerenderer_smoothing := enable\<rparr>)"

definition conf_experiment_cpu_load_estimator :: "RTCConfiguration \<Rightarrow> bool" where
  "conf_experiment_cpu_load_estimator c = vm_experiment_cpu_load_estimator (mc_video (conf_media_config c))"

definition conf_set_experiment_cpu_load_estimator :: "bool \<Rightarrow> RTCConfiguration \<Rightarrow> RTCConfiguration" where
  "conf_set_experiment_cpu_load_estimator enable = set_video (\<lambda>v. v\<lparr>vm_experiment_cpu_load_estimator := enable\<rparr>)"

definition conf_audio_rtcp_report_interval_ms :: "RTCConfiguration \<Rightarrow> int" where
  "conf_audio_rtcp_report_interval_ms c = mc_audio_rtcp_report_interval_ms (conf_media_config c)"

definition conf_set_audio_rtcp_report_interval_ms :: "int \<Rightarrow> RTCConfiguration \<Rightarrow> RTCConfiguration" where
  "conf_set_audio_rtcp_report_interval_ms ms = set_media (\<lambda>m. m\<lparr>mc_audio_rtcp_report_interval_ms := ms\<rparr>)"

definition conf_video_rtcp_report_interval_ms :: "RTCConfiguration \<Rightarrow> int" where
  "conf_video_rtcp_report_interval_ms c = vm_rtcp_report_interval_ms (mc_video (conf_media_config c))"

definition conf_set_video_rtcp_report_interval_ms :: "int \<Rightarrow> RTCConfiguration \<Rightarrow> RTCConfiguration" where
  "conf_set_video_rtcp_report_interval_ms ms = set_video (\<lambda>v. v\<lparr>vm_rtcp_report_interval_ms := ms\<rparr>)"

lemmas accessor_defs = set_media_def set_video_def
  conf_dscp_def conf_set_dscp_def conf_cpu_adaptation_def conf_set_cpu_adaptation_def
  conf_suspend_below_min_bitrate_def conf_set_suspend_below_min_bitrate_def
  conf_prerenderer_smoothing_def conf_set_prerenderer_smoothing_def
  conf_experiment_cpu_load_estimator_def conf_set_experiment_cpu_load_estimator_def
  conf_audio_rtcp_report_interval_ms_def conf_set_audio_rtcp_report_interval_ms_def
  conf_video_rtcp_report_interval_ms_def conf_set_video_rtcp_report_interval_ms_def

text \<open>
  The contract of an accessor pair: what is set is read back, setting what is there changes nothing,
  and of several settings the last one counts.
\<close>

locale accessor =
  fixes get :: "'s \<Rightarrow> 'v"
    and put :: "'v \<Rightarrow> 's \<Rightarrow> 's"
  assumes get_put: "get (put v s) = v"
    and put_get: "put (get s) s = s"
    and put_put: "put w (put v s) = put w s"
begin

lemma put_id_iff: "put v s = s \<longleftrightarrow> get s = v"
  by (metis get_put put_get)

lemma get_puts: "get (fold put vs s) = last (get s # vs)"
  by (induction vs arbitrary: s) (simp_all add: get_put)

lemma puts_last: "vs \<noteq> [] \<Longrightarrow> fold put vs s = put (last vs) s"
  by (induction vs arbitrary: s) (auto simp: put_put)

text \<open>Two configurations that differ at most in this setting are equal once it is set.\<close>

lemma put_determines: "s' = put v s \<Longrightarrow> put w s' = put w s"
  by (simp add: put_put)

end

interpretation dscp_setting: accessor conf_dscp conf_set_dscp
  by unfold_locales (simp_all add: accessor_defs)

interpretation cpu_adaptation_setting: accessor conf_cpu_adaptation conf_set_cpu_adaptation
  by unfold_locales (simp_all add: accessor_defs)

interpretation suspend_below_min_bitrate_setting: accessor conf_suspend_below_min_bitrate conf_set_suspend_below_min_bitrate
  by unfold_locales (simp_all add: accessor_defs)

interpretation prerenderer_smoothing_setting: accessor conf_prerenderer_smoothing conf_set_prerenderer_smoothing
  by unfold_locales (simp_all add: accessor_defs)

interpretation experiment_cpu_load_estimator_setting: accessor conf_experiment_cpu_load_estimator conf_set_experiment_cpu_load_estimator
  by unfold_locales (simp_all add: accessor_defs)

interpretation audio_rtcp_report_interval_ms_setting: accessor conf_audio_rtcp_report_interval_ms conf_set_audio_rtcp_report_interval_ms
  by unfold_locales (simp_all add: accessor_defs)

interpretation video_rtcp_report_interval_ms_setting: accessor conf_video_rtcp_report_interval_ms conf_set_video_rtcp_report_interval_ms
  by unfold_locales (simp_all add: accessor_defs)

text \<open>The settings are independent: each setter leaves what the other six getters read.\<close>

definition all_settings :: "RTCConfiguration \<Rightarrow> bool list \<times> int list" where
  "all_settings c = ([conf_dscp c, conf_cpu_adaptation c, conf_suspend_below_min_bitrate c,
     conf_prerenderer_smoothing c, conf_experiment_cpu_load_estimator c],
     [conf_audio_rtcp_report_interval_ms c, conf_video_rtcp_report_interval_ms c])"

lemma settings_independent:
  assumes "all_settings c = ([d, a, s, p, e], [i, j])"
  shows "all_settings (conf_set_dscp b c) = ([b, a, s, p, e], [i, j])"
    and "all_settings (conf_set_cpu_adaptation b c) = ([d, b, s, p, e], [i, j])"
    and "all_settings (conf_set_suspend_below_min_bitrate b c) = ([d, a, b, p, e], [i, j])"
    and "all_settings (conf_set_prerenderer_smoothing b c) = ([d, a, s, b, e], [i, j])"
    and "all_settings (conf_set_experiment_cpu_load_estimator b c) = ([d, a, s, p, b], [i, j])"
    and "all_settings (conf_set_audio_rtcp_report_interval_ms k c) = ([d, a, s, p, e], [k, j])"
    and "all_settings (conf_set_video_rtcp_report_interval_ms k c) = ([d, a, s, p, e], [i, k])"
  using assms by (simp_all add: all_settings_def accessor_defs)

text \<open>The two kinds of configuration agree in everything an application reaches through methods.\<close>

lemma type_keeps_settings:
  "all_settings (RTCConfiguration_of_type m n v ty) = all_settings (default_RTCConfiguration m n v)"
  by (simp add: RTCConfiguration_of_type_def default_RTCConfiguration_def all_settings_def accessor_defs Let_def)

lemma safe_is_default: "RTCConfiguration_of_type m n v kSafe = default_RTCConfiguration m n v"
  by (simp add: RTCConfiguration_of_type_def)

section \<open>Options of offers and answers\<close>

record OfferAnswerOptions =
  oa_offer_to_receive_video :: int
  oa_offer_to_receive_audio :: int
  oa_voice_activity_detection :: bool
  oa_ice_restart :: bool
  oa_use_rtp_mux :: bool
  oa_raw_packetization_for_video :: bool
  oa_num_simulcast_layers :: int
  oa_use_obsolete_sctp_sdp :: bool

definition default_OfferAnswerOptions :: OfferAnswerOptions where
  "default_OfferAnswerOptions = \<lparr>oa_offer_to_receive_video = kUndefined,
     oa_offer_to_receive_audio = kUndefined, oa_voice_activity_detection = True, oa_ice_restart = False,
     oa_use_rtp_mux = True, oa_raw_packetization_for_video = False, oa_num_simulcast_layers = 1,
     oa_use_obsolete_sctp_sdp = False\<rparr>"

definition OfferAnswerOptions_of :: "int \<Rightarrow> int \<Rightarrow> bool \<Rightarrow> bool \<Rightarrow> bool \<Rightarrow> OfferAnswerOptions" where
  "OfferAnswerOptions_of video audio detection restart mux =
     default_OfferAnswerOptions\<lparr>oa_offer_to_receive_video := video, oa_offer_to_receive_audio := audio,
       oa_voice_activity_detection := detection, oa_ice_restart := restart, oa_use_rtp_mux := mux\<rparr>"

lemma default_options_of: "OfferAnswerOptions_of kUndefined kUndefined True False True = default_OfferAnswerOptions"
  by (simp add: OfferAnswerOptions_of_def default_OfferAnswerOptions_def)

end
