(* ===== verification/Spec2Isabelle.thy ===== *)
theory Spec2Isabelle
  imports RtcpMuxFilter SrtpSession RtpTransport SrtpTransport DtlsSrtpTransport DtlsTransport
    SctpTransport SessionDescription SdpParser BundleManager TransportCollection JsepTransport
    OfferRoundTrip UnhandledPackets RtpConfig MediaEngine Simulcast VideoCodecs
    EncoderStreams VideoSendStream VideoReceiveStream VideoChannel ChannelSenders ChannelNegotiation SendStats
    PeerConfig
begin

text \<open>
  A model of libp2p_peerconnection, a C++ library that connects a media sender to a peer: it writes
  and reads session descriptions, sets up ICE, DTLS and SRTP transports for them, negotiates codecs
  and parameters of video senders, and numbers and sends RTP packets. It is a reduced form of the
  peer connection of WebRTC; the libraries below it (libice, libsrtp, libmedia_codec,
  libmedia_transfer_protocol, rtc_base) are not part of the repository. File names are relative to
  src/.

  \<^bold>\<open>The parts and how they call each other.\<close>

  The peer connection (\<open>cp2p_peerconnection.cpp\<close>) makes an offer, reads the answer and hands both to
  the transport controller (\<open>ctransport_controller.cpp\<close>). The controller makes one JSEP transport
  per media section (\<open>jsep_transport.cpp\<close>), which owns an RTP transport and its DTLS transports, and
  registers it in the collection of JSEP transports (\<open>jsep_transport_collection.cc\<close>). An RTP
  transport is plain (\<open>rtp_transport.cc\<close>), SRTP (\<open>srtp_transport.cpp\<close>, over up to four sessions of
  \<open>srtp_session.cpp\<close>) or DTLS-SRTP (\<open>dtls_srtp_transport.cpp\<close>, keyed by the handshake); the three are
  a chain of classes and a chain of extended records. The video engine
  (\<open>engine/webrtc_video_engine.cpp\<close>) has channels, a channel has senders and receivers, a sender has
  a configuration from which the layers of its encoder follow.

  \<^bold>\<open>Theories and sources, in the order of the imports.\<close>

  \<^item> \<open>Prelude\<close>: machine types, shared enumerations, ordered maps, and the interfaces below.
  \<^item> \<open>RtcpMuxFilter\<close>: \<open>rtcp_mux_filter.cpp\<close>. The state of the negotiation is \<open>MuxState\<close>; one
    definition per method; the reachable states are an inductive predicate.
  \<^item> \<open>SrtpSession\<close>: \<open>srtp_session.cpp\<close>. A session, the process-wide count of users of libsrtp
    (\<open>srtp_global\<close>), keying, protection.
  \<^item> \<open>RtpTransport\<close>, \<open>SrtpTransport\<close>, \<open>DtlsSrtpTransport\<close>: the transport classes named above. The
    packet transports below are numbers; what they answer is an argument of each call, so that a
    run quantifies over every behaviour of the network.
  \<^item> \<open>DtlsTransport\<close>: \<open>dtls_transport.cpp\<close> with \<open>ice_transport.cc\<close>; \<open>SctpTransport\<close>: \<open>sctp_transport.cc\<close>.
    Wrappers with one observer, whose log is part of the state.
  \<^item> \<open>SessionDescription\<close>: \<open>csession_description.cpp\<close>, with the text of a description; \<open>SdpParser\<close>: the
    reading of one in \<open>cp2p_peerconnection.cpp\<close>.
  \<^item> \<open>BundleManager\<close> and \<open>TransportCollection\<close>: the two classes of \<open>jsep_transport_collection.cc\<close>. Groups
    and transports are objects with an identity, so that sharing and destruction can be stated.
  \<^item> \<open>JsepTransport\<close>: \<open>jsep_transport.cpp\<close>; \<open>TransportController\<close>: \<open>ctransport_controller.cpp\<close>, with the
    tasks it posts to the network thread in a queue and its raw pointers as numbers that may dangle.
  \<^item> \<open>PeerConnection\<close>: \<open>cp2p_peerconnection.cpp\<close>; \<open>OfferRoundTrip\<close>: an offer of the one is read by the
    parser of the other.
  \<^item> \<open>PeerConfig\<close>: \<open>peer_connection_interface.h\<close>, \<open>peer_connection_interface.cpp\<close>, \<open>resource.cpp\<close>.
  \<^item> \<open>UnhandledPackets\<close>: \<open>engine/unhandled_packets_buffer.cpp\<close>; \<open>RtpConfig\<close>: \<open>rtp_config.cc\<close> and
    \<open>simulcast_description.cc\<close>; \<open>MediaEngine\<close>: \<open>engine/media_engine.cpp\<close> and
    \<open>engine/webrtc_media_engine.cpp\<close>; \<open>Simulcast\<close>: \<open>engine/simulcast.cpp\<close>.
  \<^item> \<open>VideoCodecs\<close>, \<open>EncoderStreams\<close>, \<open>VideoSendStream\<close>, \<open>VideoReceiveStream\<close>, \<open>VideoChannel\<close>,
    \<open>SendStats\<close>: \<open>engine/webrtc_video_engine.cpp\<close> by class, \<open>StatsRecords\<close> for the records of
    \<open>video_send_stream.h\<close>. \<open>ChannelSenders\<close> and \<open>ChannelNegotiation\<close> hold the invariant of a channel
    and what its calls achieve.

  \<^bold>\<open>Conventions.\<close>

  A class is a record, an enumeration a datatype, a method a function from the object to the object
  and its result. An SSRC is a word of 32 bits and a sequence number one of 16, where it wraps around;
  an \<open>int\<close> whose overflow the code can reach is checked, and the call is then \<open>None\<close>. \<open>None\<close> as the
  result of a method means that the program ends or that C++ leaves the behaviour undefined: a failed
  \<open>RTC_CHECK\<close>, a null or dangling pointer, an index out of range, an exception nobody catches. A
  refusal that the code reports is an ordinary value, \<open>False\<close> or an \<open>RTCError\<close>. \<open>RTC_DCHECK\<close> does
  nothing, as in a release build. A \<open>double\<close> is a \<open>dbl\<close>, a rational or one of the special values; products and
  quotients are rounded to 24 bits (\<open>f32\<close>) or 53 bits (\<open>f64\<close>) where the code computes with them. Each component has a datatype
  of its calls and a function that runs a list of them; a property about "any sequence of calls" is
  about these runs.

  \<^bold>\<open>Interfaces.\<close>

  \<^item> \<open>ordered_map\<close> (\<open>std::map\<close>): interpreted by the sorted association list \<open>smap\<close>; what many
    insertions and removals leave is proved once.
  \<^item> \<open>change_signal\<close>: a value whose changes are announced; interpreted by the readiness of the RTP
    transport and the state of the SCTP transport.
  \<^item> \<open>counted_resource\<close>: users of a shared library are counted; interpreted by SRTP sessions.
  \<^item> \<open>call_run\<close> and \<open>guarded_run\<close>: what every call keeps a run keeps, and a run of allowed calls
    returns when each of them does; interpreted by the runs of the RTP, SRTP, DTLS-SRTP, DTLS and SCTP
    transports and of the senders, and by those of the bundle manager and the controller.
  \<^item> \<open>accessor\<close>: a getter and a setter; interpreted by the seven settings of the configuration.

  \<^bold>\<open>What is shown.\<close>

  \<^item> Secrecy of the media: an SRTP transport hands only the output of a successful protection to the
    network, becomes active only after the handshake, takes matching keys at both ends, and
    never writes beyond the capacity of a packet; sessions and users of libsrtp are counted exactly.
  \<^item> Negotiation: two endpoints agree on RTCP multiplexing and take opposite DTLS roles; a
    description is applied as a whole or refused; an offer is read back as it was written; the
    outcome of a first remote description is worked out on every branch.
  \<^item> Lifetime: no mid refers to a destroyed transport, the pointers of the controller are live when
    descriptions come in order, and rollbacks restore what was committed. The lemmas on a second description and
    on the destruction of all transports show where the pointers dangle.
  \<^item> Media: packets of frames and padding are numbered without gaps and each is reported; the buffer
    of unknown packets is a queue of the last 50.
  \<^item> Video engine: payload types and codec lists are read back and have a reference meaning; layers
    have usable sizes and bitrates in order; header extensions are filtered independently of the order
    they come in; every sender of a channel is in tune with it whatever calls came; parameters are
    settled as a whole; the fallback of the encoder ends; statistics are merged and added up.

  \<^bold>\<open>Termination and bounds.\<close>

  Every loop of the modelled code runs over a list or a number that decreases, so all definitions are
  total by structural recursion or by the library's folds. Only the search for the exponent of a
  float counts down a number of shifts: 149 and 104 for a \<open>float\<close>, 1074 and 971 for a \<open>double\<close>,
  which are the distances from the 24 or 53 bits of a mantissa to the smallest and the largest
  exponent of the format, so that no representable number needs more (lemmas \<open>f32_up_enough\<close> and
  \<open>f32_down_enough\<close>, and the same for \<open>f64\<close>). Posted tasks and
  fallbacks are steps of a run rather than loops; that the fallbacks end is a property of its own.
  The bounds of the code (50 stashed packets, send buffers of 2048 bytes, payload types from 35 to 63
  and from 96 to 126, the limits of the simulcast table) appear as they are written there; the range of
  extension numbers is a parameter, with 1 to 14 in the instances.

  \<^bold>\<open>Parameters.\<close>

  A record of functions stands for what a component takes from a library: \<open>srtp_lib\<close> (libsrtp, the
  external HMAC module), \<open>packet_net\<close>, \<open>dtls_net\<close>, \<open>dtls_internals\<close> and \<open>jsep_env\<close> (libice),
  \<open>sdp_lib\<close>, \<open>sdp_text\<close> and \<open>offer_env\<close> (texts, random strings, certificates), \<open>rtp_lib\<close>,
  \<open>codec_lib\<close>, \<open>sender_lib\<close>, \<open>channel_lib\<close> and \<open>stats_lib\<close> (libmedia_codec,
  libmedia_transfer_protocol), \<open>simulcast_env\<close> and \<open>encoder_env\<close> (field trials, experiments and
  constants of the codecs). Sorting
  by \<open>std::sort\<close> is a function of which a property assumes only what the standard promises. Where a
  property needs documented behaviour of a library, it is a hypothesis, and the witness after the
  property gives an instance that has it.

  \<^bold>\<open>Not modelled.\<close>

  \<open>channel.cpp\<close>, \<open>channel_manager.cpp\<close> and \<open>engine/webrtc_voice_engine.cpp\<close> with their headers are
  commented out from the first line to the last. Of \<open>peer_connection_interface.h\<close> the abstract methods have no code,
  and most are commented out, as are the text forms in \<open>video_send_stream.cpp\<close>.
  \<open>connection_context.cc\<close> only starts and stops threads of rtc_base; \<open>transport_stats.cpp\<close> has
  defaulted members. In \<open>engine/webrtc_video_engine.cpp\<close> the bodies that are commented out (creating
  streams, \<open>AddRecvStream\<close>, \<open>ConfigureReceiverRtp\<close>, the delivery of packets) are absent from the
  model as they are from the program: the stream behind a sender is a null pointer, and the lemmas
  show what follows. Methods that only write log lines or only forward to a base class of a library
  are left out, and threads are modelled only where tasks are posted from one to another.
\<close>

end
